(* ===== verification/Prelude.thy ===== *)
theory Prelude
  imports Main "HOL-Library.Word"
begin

unbundle bit_operations_syntax

text \<open>
  Shared ground of the development: the machine types, the failures a run of the C program
  can end in, byte streams with the C library's \<open>fread\<close> and \<open>fwrite\<close>, and straight-line C
  code as a list of statements over a node and a stream.
  The target is the one the migration sample is built for (LP64, little endian): \<open>int\<close> has
  32 bits, pointers and \<open>unsigned long\<close> have 64, and the low byte comes first in memory.
\<close>

section \<open>Collections\<close>

text \<open>\<open>codec\<close> collects the laws that a read undoes a write; \<open>shrinks\<close> the facts that a
  statement never lengthens the stream it reads from.\<close>

named_theorems codec \<open>reading back what was written\<close>
named_theorems shrinks \<open>a statement never lengthens its stream\<close>

section \<open>Machine types\<close>

type_synonym byte = "8 word"
type_synonym u8 = "8 word"
type_synonym u16 = "16 word"
type_synonym u32 = "32 word"
type_synonym u64 = "64 word"
type_synonym addr = "64 word"

section \<open>Failures\<close>

text \<open>
  \<open>Exit\<close> is a call of \<open>exit(1)\<close> with the message printed before it; \<open>UB\<close> is a step the C
  standard leaves undefined (a NULL or dangling dereference, the use of an indeterminate
  value, a call through a NULL function pointer); \<open>Diverge\<close> is a loop that never ends.
\<close>

datatype failure = Exit string | UB string | Diverge

type_synonym 'a res = "failure + 'a"

definition bind_res :: "'a res \<Rightarrow> ('a \<Rightarrow> 'b res) \<Rightarrow> 'b res" where
  "bind_res r f = (case r of Inl e \<Rightarrow> Inl e | Inr x \<Rightarrow> f x)"

lemma bind_res_simps [simp]:
  "bind_res (Inl e) f = Inl e"
  "bind_res (Inr x) f = f x"
  by (simp_all add: bind_res_def)

lemma bind_res_eq_Inr: "bind_res r f = Inr y \<longleftrightarrow> (\<exists>x. r = Inr x \<and> f x = Inr y)"
  by (cases r) auto

lemma bind_res_eq_InrE:
  assumes "bind_res r f = Inr y"
  obtains x where "r = Inr x" and "f x = Inr y"
  using assms by (auto simp: bind_res_eq_Inr)

lemma bind_res_assoc: "bind_res (bind_res r f) g = bind_res r (\<lambda>x. bind_res (f x) g)"
  by (cases r) auto

section \<open>Little-endian bytes\<close>

fun le_bytes :: "nat \<Rightarrow> 'a::len word \<Rightarrow> byte list" where
  "le_bytes 0 w = []"
| "le_bytes (Suc n) w = ucast w # le_bytes n (drop_bit 8 w)"

fun le_word :: "byte list \<Rightarrow> 'a::len word" where
  "le_word [] = 0"
| "le_word (b # bs) = ucast b OR push_bit 8 (le_word bs)"

lemma length_le_bytes [simp]: "length (le_bytes n w) = n"
  by (induction n arbitrary: w) simp_all

lemma le_word_le_bytes: "le_word (le_bytes n w) = (take_bit (8 * n) w :: 'a::len word)"
proof (induction n arbitrary: w)
  case 0
  then show ?case by simp
next
  case (Suc n)
  show ?case
    by (rule bit_word_eqI)
      (auto simp: Suc bit_or_iff bit_push_bit_iff bit_take_bit_iff bit_drop_bit_eq bit_ucast_iff
        dest: bit_imp_le_length)
qed

lemma le_roundtrip: "LENGTH('a) \<le> 8 * n \<Longrightarrow> le_word (le_bytes n w) = (w :: 'a::len word)"
  by (simp add: le_word_le_bytes take_bit_word_eq_self)

section \<open>Streams\<close>

text \<open>
  A stream open for writing is the list of bytes written so far, one open for reading the list
  of bytes not yet read. A short read leaves its destination indeterminate (the objects a
  restore fills are fresh from the allocator), so it is a \<open>UB\<close> failure.
\<close>

type_synonym stream = "byte list"

definition fread_raw :: "nat \<Rightarrow> stream \<Rightarrow> (byte list \<times> stream) res" where
  "fread_raw n fp = (if length fp < n then Inl (UB ''short read'') else Inr (take n fp, drop n fp))"

lemma fread_raw_append [simp]: "length xs = n \<Longrightarrow> fread_raw n (xs @ fp) = Inr (xs, fp)"
  by (simp add: fread_raw_def)

lemma fread_raw_shrinks: "fread_raw n fp = Inr (bs, fp') \<Longrightarrow> length fp' = length fp - n"
  by (auto simp: fread_raw_def split: if_splits)

lemma fread_raw_length: "fread_raw n fp = Inr (bs, fp') \<Longrightarrow> length fp = n + length fp' \<and> length bs = n"
  by (auto simp: fread_raw_def split: if_splits)

section \<open>Straight-line code over a node and a stream\<close>

text \<open>
  The restore handlers are sequences of C statements, each of which reads from the stream and
  writes one field of \<open>*node\<close>. Such a statement is a function on the pair of the node and
  the rest of the stream; a block is a list of them, run in order.
\<close>

type_synonym 'n stmt = "'n \<times> stream \<Rightarrow> ('n \<times> stream) res"

fun exec_stmts :: "'n stmt list \<Rightarrow> 'n stmt" where
  "exec_stmts [] s = Inr s"
| "exec_stmts (c # cs) s = bind_res (c s) (exec_stmts cs)"

definition fread_as :: "nat \<Rightarrow> (byte list \<Rightarrow> 'a) \<Rightarrow> (('a \<Rightarrow> 'a) \<Rightarrow> 'n \<Rightarrow> 'n) \<Rightarrow> 'n stmt" where
  "fread_as k dec upd = (\<lambda>(n, fp). bind_res (fread_raw k fp)
     (\<lambda>(bs, fp'). Inr (upd (\<lambda>_. dec bs) n, fp')))"

definition fread_into :: "nat \<Rightarrow> ((byte list \<Rightarrow> byte list) \<Rightarrow> 'n \<Rightarrow> 'n) \<Rightarrow> 'n stmt" where
  "fread_into k upd = (\<lambda>(n, fp). bind_res (fread_raw k fp)
     (\<lambda>(bs, fp'). Inr (upd (\<lambda>old. bs @ drop k old) n, fp')))"

definition assign :: "('n \<Rightarrow> 'n) \<Rightarrow> 'n stmt" where
  "assign f = (\<lambda>(n, fp). Inr (f n, fp))"

definition if_stmt :: "('n \<Rightarrow> bool) \<Rightarrow> 'n stmt \<Rightarrow> 'n stmt \<Rightarrow> 'n stmt" where
  "if_stmt P A B = (\<lambda>s. if P (fst s) then A s else B s)"

definition skip :: "'n stmt" where
  "skip s = Inr s"

text \<open>A statement on a member that is itself a struct.\<close>

definition on_member :: "('n \<Rightarrow> 'm) \<Rightarrow> (('m \<Rightarrow> 'm) \<Rightarrow> 'n \<Rightarrow> 'n) \<Rightarrow> 'm stmt \<Rightarrow> 'n stmt" where
  "on_member sel upd c = (\<lambda>(n, fp). bind_res (c (sel n, fp)) (\<lambda>(m, fp'). Inr (upd (\<lambda>_. m) n, fp')))"

lemma assign_app [codec, simp]: "assign f (n, fp) = Inr (f n, fp)"
  by (simp add: assign_def)

lemma if_stmt_app [codec, simp]: "if_stmt P A B (n, fp) = (if P n then A (n, fp) else B (n, fp))"
  by (simp add: if_stmt_def)

lemma skip_app [codec, simp]: "skip (n, fp) = Inr (n, fp)"
  by (simp add: skip_def)

lemma on_member_app [codec]:
  "c (sel n, fp) = Inr (m, fp') \<Longrightarrow> on_member sel upd c (n, fp) = Inr (upd (\<lambda>_. m) n, fp')"
  by (simp add: on_member_def)

lemma exec_stmts_append: "exec_stmts (cs @ ds) s = bind_res (exec_stmts cs s) (exec_stmts ds)"
  by (induction cs arbitrary: s) (simp_all add: bind_res_def split: sum.split)

lemma fread_into_back [codec]:
  "length bs = k \<Longrightarrow> fread_into k upd (n, bs @ fp) = Inr (upd (\<lambda>old. bs @ drop k old) n, fp)"
  by (simp add: fread_into_def)

section \<open>Field codecs\<close>

text \<open>
  What every \<open>fwrite(&x, k, 1, fp)\<close> and the \<open>fread(&x, k, 1, fp)\<close> at the other end promise
  each other: a fixed width and a decoder that undoes the encoder. The laws of reading a field
  back, and of reading an array of fields back, are proved once here and instantiated for each
  C type below.
\<close>

fun decode_array :: "nat \<Rightarrow> (byte list \<Rightarrow> 'a) \<Rightarrow> nat \<Rightarrow> byte list \<Rightarrow> 'a list" where
  "decode_array k dec 0 bs = []"
| "decode_array k dec (Suc n) bs = dec (take k bs) # decode_array k dec n (drop k bs)"

locale field_codec =
  fixes k :: nat and enc :: "'a \<Rightarrow> byte list" and dec :: "byte list \<Rightarrow> 'a"
  assumes enc_length: "length (enc x) = k"
    and dec_enc: "dec (enc x) = x"
begin

lemma read_back: "fread_as k dec upd (n, enc x @ fp) = Inr (upd (\<lambda>_. x) n, fp)"
  by (simp add: fread_as_def enc_length dec_enc)

lemma enc_inj: "enc x = enc y \<longleftrightarrow> x = y"
  by (metis dec_enc)

lemma array_length: "length (concat (map enc xs)) = k * length xs"
  by (induction xs) (simp_all add: enc_length)

lemma array_back: "decode_array k dec (length xs) (concat (map enc xs) @ fp) = xs"
  by (induction xs) (simp_all add: enc_length dec_enc)

end

definition fwrite_u8 :: "u8 \<Rightarrow> stream" where "fwrite_u8 = le_bytes 1"
definition fwrite_u16 :: "u16 \<Rightarrow> stream" where "fwrite_u16 = le_bytes 2"
definition fwrite_u32 :: "u32 \<Rightarrow> stream" where "fwrite_u32 = le_bytes 4"
definition fwrite_u64 :: "u64 \<Rightarrow> stream" where "fwrite_u64 = le_bytes 8"
definition fwrite_bool :: "bool \<Rightarrow> stream" where "fwrite_bool b = [of_bool b]"

definition fread_u8 :: "((u8 \<Rightarrow> u8) \<Rightarrow> 'n \<Rightarrow> 'n) \<Rightarrow> 'n stmt" where "fread_u8 = fread_as 1 le_word"
definition fread_u16 :: "((u16 \<Rightarrow> u16) \<Rightarrow> 'n \<Rightarrow> 'n) \<Rightarrow> 'n stmt" where "fread_u16 = fread_as 2 le_word"
definition fread_u32 :: "((u32 \<Rightarrow> u32) \<Rightarrow> 'n \<Rightarrow> 'n) \<Rightarrow> 'n stmt" where "fread_u32 = fread_as 4 le_word"
definition fread_u64 :: "((u64 \<Rightarrow> u64) \<Rightarrow> 'n \<Rightarrow> 'n) \<Rightarrow> 'n stmt" where "fread_u64 = fread_as 8 le_word"

definition bool_of_byte :: "byte list \<Rightarrow> bool" where
  "bool_of_byte bs = (bs \<noteq> [0])"

definition fread_bool :: "((bool \<Rightarrow> bool) \<Rightarrow> 'n \<Rightarrow> 'n) \<Rightarrow> 'n stmt" where
  "fread_bool = fread_as 1 bool_of_byte"

interpretation u8_codec: field_codec 1 fwrite_u8 "le_word :: byte list \<Rightarrow> u8"
  by unfold_locales (simp_all add: fwrite_u8_def le_roundtrip)

interpretation u16_codec: field_codec 2 fwrite_u16 "le_word :: byte list \<Rightarrow> u16"
  by unfold_locales (simp_all add: fwrite_u16_def le_roundtrip)

interpretation u32_codec: field_codec 4 fwrite_u32 "le_word :: byte list \<Rightarrow> u32"
  by unfold_locales (simp_all add: fwrite_u32_def le_roundtrip)

interpretation u64_codec: field_codec 8 fwrite_u64 "le_word :: byte list \<Rightarrow> u64"
  by unfold_locales (simp_all add: fwrite_u64_def le_roundtrip)

interpretation bool_codec: field_codec 1 fwrite_bool bool_of_byte
  by unfold_locales (simp_all add: fwrite_bool_def bool_of_byte_def)

lemma fread_back [codec, simp]:
  "fread_u8 upd8 (n, fwrite_u8 a @ fp) = Inr (upd8 (\<lambda>_. a) n, fp)"
  "fread_u16 upd16 (n, fwrite_u16 b @ fp) = Inr (upd16 (\<lambda>_. b) n, fp)"
  "fread_u32 upd32 (n, fwrite_u32 c @ fp) = Inr (upd32 (\<lambda>_. c) n, fp)"
  "fread_u64 upd64 (n, fwrite_u64 d @ fp) = Inr (upd64 (\<lambda>_. d) n, fp)"
  "fread_bool updb (n, fwrite_bool e @ fp) = Inr (updb (\<lambda>_. e) n, fp)"
  by (simp_all del: One_nat_def add: fread_u8_def fread_u16_def fread_u32_def fread_u64_def
      fread_bool_def u8_codec.read_back u16_codec.read_back u32_codec.read_back u64_codec.read_back
      bool_codec.read_back)

lemmas fwrite_length [simp] = u8_codec.enc_length u16_codec.enc_length u32_codec.enc_length
  u64_codec.enc_length bool_codec.enc_length

section \<open>Statements never lengthen the stream\<close>

definition shrinking :: "'n stmt \<Rightarrow> bool" where
  "shrinking c \<longleftrightarrow> (\<forall>n fp n' fp'. c (n, fp) = Inr (n', fp') \<longrightarrow> length fp' \<le> length fp)"

lemma shrinkingI [intro?]:
  "(\<And>n fp n' fp'. c (n, fp) = Inr (n', fp') \<Longrightarrow> length fp' \<le> length fp) \<Longrightarrow> shrinking c"
  by (auto simp: shrinking_def)

lemma shrinkingD: "shrinking c \<Longrightarrow> c (n, fp) = Inr (n', fp') \<Longrightarrow> length fp' \<le> length fp"
  by (auto simp: shrinking_def)

lemma shrinking_fread_as [shrinks]: "shrinking (fread_as k dec upd)"
  by (rule shrinkingI) (auto simp: fread_as_def bind_res_eq_Inr fread_raw_def split: if_splits)

lemma shrinking_fread_into [shrinks]: "shrinking (fread_into k upd)"
  by (rule shrinkingI) (auto simp: fread_into_def bind_res_eq_Inr fread_raw_def split: if_splits)

lemma shrinking_fread [shrinks]:
  "shrinking (fread_u8 upd8)" "shrinking (fread_u16 upd16)" "shrinking (fread_u32 upd32)"
  "shrinking (fread_u64 upd64)" "shrinking (fread_bool updb)"
  by (simp_all add: fread_u8_def fread_u16_def fread_u32_def fread_u64_def fread_bool_def
      shrinking_fread_as)

lemma shrinking_assign [shrinks]: "shrinking (assign f)"
  by (rule shrinkingI) simp

lemma shrinking_skip [shrinks]: "shrinking skip"
  by (rule shrinkingI) simp

lemma shrinking_if_stmt [shrinks]: "shrinking A \<Longrightarrow> shrinking B \<Longrightarrow> shrinking (if_stmt P A B)"
  by (rule shrinkingI) (auto dest: shrinkingD split: if_splits)

lemma shrinking_on_member [shrinks]: "shrinking c \<Longrightarrow> shrinking (on_member sel upd c)"
  by (rule shrinkingI) (auto simp: on_member_def bind_res_eq_Inr dest: shrinkingD)

lemma shrinking_exec_stmts [shrinks]: "\<forall>c \<in> set cs. shrinking c \<Longrightarrow> shrinking (exec_stmts cs)"
proof (induction cs)
  case Nil
  then show ?case by (auto simp: shrinking_def)
next
  case (Cons c cs)
  show ?case
  proof (rule shrinkingI)
    fix n fp n' fp'
    assume "exec_stmts (c # cs) (n, fp) = Inr (n', fp')"
    then obtain m fq where "c (n, fp) = Inr (m, fq)" and "exec_stmts cs (m, fq) = Inr (n', fp')"
      by (auto simp: bind_res_eq_Inr)
    with Cons show "length fp' \<le> length fp"
      by (meson list.set_intros le_trans shrinkingD)
  qed
qed

end
