(* ===== verification/Wasm_Types.thy ===== *)
theory Wasm_Types
  imports Prelude
begin

text \<open>
  The data the migration images hold. The enumerators of \<open>Data_Type\<close> (wasm_memory.h) are the
  C ints they are, since both images store them as ints and a reader of a damaged image can meet
  any value. Each C struct that has a dump handler is a record with the members in the order of
  the struct, each under a prefix that names the struct. The members compiled out in the
  migration build (no AOT, no multi-module, no bulk memory, no shared memory, no fast
  interpreter) are left out. A pointer is its 64-bit address, NULL is 0. A union is its bytes,
  or, in \<open>WASMImport\<close>, its alternatives side by side with the common initial members shared:
  the code only touches the alternative that \<open>kind\<close> selects.
\<close>

section \<open>C data layout on LP64\<close>

datatype ctype = CInt nat | CPtr | CArr ctype nat | CStruct "ctype list" | CUnion "ctype list"

definition align_up :: "nat \<Rightarrow> nat \<Rightarrow> nat" where
  "align_up n b = (n + b - 1) div b * b"

fun c_align :: "ctype \<Rightarrow> nat" where
  "c_align (CInt n) = n"
| "c_align CPtr = 8"
| "c_align (CArr t n) = c_align t"
| "c_align (CStruct ts) = fold max (map c_align ts) 1"
| "c_align (CUnion ts) = fold max (map c_align ts) 1"

fun c_size :: "ctype \<Rightarrow> nat" where
  "c_size (CInt n) = n"
| "c_size CPtr = 8"
| "c_size (CArr t n) = n * c_size t"
| "c_size (CStruct ts) = align_up (fold (\<lambda>(a, s) off. align_up off a + s)
     (map (\<lambda>t. (c_align t, c_size t)) ts) 0) (fold max (map c_align ts) 1)"
| "c_size (CUnion ts) = align_up (fold max (map c_size ts) 0) (fold max (map c_align ts) 1)"

text \<open>\<open>offsetof\<close> of the member that follows the members \<open>ts\<close> and has type \<open>t\<close>.\<close>

definition c_offset :: "ctype list \<Rightarrow> ctype \<Rightarrow> nat" where
  "c_offset ts t = align_up (fold (\<lambda>(a, s) off. align_up off a + s)
     (map (\<lambda>t. (c_align t, c_size t)) ts) 0) (c_align t)"

abbreviation "C_u8 \<equiv> CInt 1"
abbreviation "C_u16 \<equiv> CInt 2"
abbreviation "C_u32 \<equiv> CInt 4"
abbreviation "C_u64 \<equiv> CInt 8"
abbreviation "C_bool \<equiv> CInt 1"

section \<open>The type tags of the images (wasm_memory.h, enum Data\_Type)\<close>

type_synonym Data_Type = u32

abbreviation charT :: Data_Type where "charT \<equiv> 0"
abbreviation charTT :: Data_Type where "charTT \<equiv> 1"
abbreviation uint8T :: Data_Type where "uint8T \<equiv> 2"
abbreviation uint16T :: Data_Type where "uint16T \<equiv> 3"
abbreviation uint32T :: Data_Type where "uint32T \<equiv> 4"
abbreviation uint64T :: Data_Type where "uint64T \<equiv> 5"
abbreviation gc_heap_tT :: Data_Type where "gc_heap_tT \<equiv> 6"
abbreviation base_addrT :: Data_Type where "base_addrT \<equiv> 7"
abbreviation WASIContextT :: Data_Type where "WASIContextT \<equiv> 8"
abbreviation WASMThreadArgT :: Data_Type where "WASMThreadArgT \<equiv> 9"
abbreviation ExternRefMapNodeT :: Data_Type where "ExternRefMapNodeT \<equiv> 10"
abbreviation fd_tableT :: Data_Type where "fd_tableT \<equiv> 11"
abbreviation fd_prestatsT :: Data_Type where "fd_prestatsT \<equiv> 12"
abbreviation argv_environ_valuesT :: Data_Type where "argv_environ_valuesT \<equiv> 13"
abbreviation uvwasi_tT :: Data_Type where "uvwasi_tT \<equiv> 14"
abbreviation uvwasi_preopen_tT :: Data_Type where "uvwasi_preopen_tT \<equiv> 15"
abbreviation wasm_val_tT :: Data_Type where "wasm_val_tT \<equiv> 16"
abbreviation wasm_instance_tT :: Data_Type where "wasm_instance_tT \<equiv> 17"
abbreviation wasm_engine_tT :: Data_Type where "wasm_engine_tT \<equiv> 18"
abbreviation wasm_store_tT :: Data_Type where "wasm_store_tT \<equiv> 19"
abbreviation VectorT :: Data_Type where "VectorT \<equiv> 20"
abbreviation wasm_valtype_tT :: Data_Type where "wasm_valtype_tT \<equiv> 21"
abbreviation wasm_functype_tT :: Data_Type where "wasm_functype_tT \<equiv> 22"
abbreviation wasm_valtype_vec_tT :: Data_Type where "wasm_valtype_vec_tT \<equiv> 23"
abbreviation wasm_globaltype_tT :: Data_Type where "wasm_globaltype_tT \<equiv> 24"
abbreviation wasm_tabletype_tT :: Data_Type where "wasm_tabletype_tT \<equiv> 25"
abbreviation wasm_memorytype_tT :: Data_Type where "wasm_memorytype_tT \<equiv> 26"
abbreviation wasm_importtype_tT :: Data_Type where "wasm_importtype_tT \<equiv> 27"
abbreviation wasm_byte_vec_tT :: Data_Type where "wasm_byte_vec_tT \<equiv> 28"
abbreviation wasm_exporttype_tT :: Data_Type where "wasm_exporttype_tT \<equiv> 29"
abbreviation wasm_ref_tT :: Data_Type where "wasm_ref_tT \<equiv> 30"
abbreviation wasm_frame_tT :: Data_Type where "wasm_frame_tT \<equiv> 31"
abbreviation wasm_trap_tT :: Data_Type where "wasm_trap_tT \<equiv> 32"
abbreviation wasm_foreign_tT :: Data_Type where "wasm_foreign_tT \<equiv> 33"
abbreviation wasm_module_ex_tT :: Data_Type where "wasm_module_ex_tT \<equiv> 34"
abbreviation wasm_func_tT :: Data_Type where "wasm_func_tT \<equiv> 35"
abbreviation wasm_global_tT :: Data_Type where "wasm_global_tT \<equiv> 36"
abbreviation wasm_table_tT :: Data_Type where "wasm_table_tT \<equiv> 37"
abbreviation wasm_memory_tT :: Data_Type where "wasm_memory_tT \<equiv> 38"
abbreviation wasm_store_vec_tT :: Data_Type where "wasm_store_vec_tT \<equiv> 39"
abbreviation wasm_module_vec_tT :: Data_Type where "wasm_module_vec_tT \<equiv> 40"
abbreviation wasm_instance_vec_tT :: Data_Type where "wasm_instance_vec_tT \<equiv> 41"
abbreviation wasm_extern_vec_tT :: Data_Type where "wasm_extern_vec_tT \<equiv> 42"
abbreviation WASMExecEnvT :: Data_Type where "WASMExecEnvT \<equiv> 43"
abbreviation NativeSymbolsNodeT :: Data_Type where "NativeSymbolsNodeT \<equiv> 44"
abbreviation WASMModuleCommonT :: Data_Type where "WASMModuleCommonT \<equiv> 45"
abbreviation WASMModuleInstanceCommonT :: Data_Type where "WASMModuleInstanceCommonT \<equiv> 46"
abbreviation WASMModuleMemConsumptionT :: Data_Type where "WASMModuleMemConsumptionT \<equiv> 47"
abbreviation WASMModuleInstMemConsumptionT :: Data_Type where "WASMModuleInstMemConsumptionT \<equiv> 48"
abbreviation WASMMemoryInstanceCommonT :: Data_Type where "WASMMemoryInstanceCommonT \<equiv> 49"
abbreviation WASMSectionT :: Data_Type where "WASMSectionT \<equiv> 50"
abbreviation WASMCApiFrameT :: Data_Type where "WASMCApiFrameT \<equiv> 51"
abbreviation WASMRegisteredModuleT :: Data_Type where "WASMRegisteredModuleT \<equiv> 52"
abbreviation LoadingModuleT :: Data_Type where "LoadingModuleT \<equiv> 53"
abbreviation WASMSharedMemNodeT :: Data_Type where "WASMSharedMemNodeT \<equiv> 54"
abbreviation WASMModuleT :: Data_Type where "WASMModuleT \<equiv> 55"
abbreviation WASMFunctionT :: Data_Type where "WASMFunctionT \<equiv> 56"
abbreviation WASMFunctionTT :: Data_Type where "WASMFunctionTT \<equiv> 57"
abbreviation WASMGlobalT :: Data_Type where "WASMGlobalT \<equiv> 58"
abbreviation WASMExportT :: Data_Type where "WASMExportT \<equiv> 59"
abbreviation V128T :: Data_Type where "V128T \<equiv> 60"
abbreviation WASMValueT :: Data_Type where "WASMValueT \<equiv> 61"
abbreviation InitializerExpressionT :: Data_Type where "InitializerExpressionT \<equiv> 62"
abbreviation WASMTypeT :: Data_Type where "WASMTypeT \<equiv> 63"
abbreviation WASMTypeTT :: Data_Type where "WASMTypeTT \<equiv> 64"
abbreviation WASMTableT :: Data_Type where "WASMTableT \<equiv> 65"
abbreviation WASMMemoryT :: Data_Type where "WASMMemoryT \<equiv> 66"
abbreviation WASMTableImportT :: Data_Type where "WASMTableImportT \<equiv> 67"
abbreviation WASMMemoryImportT :: Data_Type where "WASMMemoryImportT \<equiv> 68"
abbreviation WASMFunctionImportT :: Data_Type where "WASMFunctionImportT \<equiv> 69"
abbreviation WASMGlobalImportT :: Data_Type where "WASMGlobalImportT \<equiv> 70"
abbreviation WASMImportT :: Data_Type where "WASMImportT \<equiv> 71"
abbreviation WASMTableSegT :: Data_Type where "WASMTableSegT \<equiv> 72"
abbreviation WASMDataSegT :: Data_Type where "WASMDataSegT \<equiv> 73"
abbreviation WASMDataSegTT :: Data_Type where "WASMDataSegTT \<equiv> 74"
abbreviation BlockAddrT :: Data_Type where "BlockAddrT \<equiv> 75"
abbreviation WASIArgumentsT :: Data_Type where "WASIArgumentsT \<equiv> 76"
abbreviation StringNodeT :: Data_Type where "StringNodeT \<equiv> 77"
abbreviation BlockTypeT :: Data_Type where "BlockTypeT \<equiv> 78"
abbreviation WASMBranchBlockT :: Data_Type where "WASMBranchBlockT \<equiv> 79"
abbreviation WASMInterpFrameT :: Data_Type where "WASMInterpFrameT \<equiv> 80"
abbreviation BranchBlockT :: Data_Type where "BranchBlockT \<equiv> 81"
abbreviation BranchBlockPatchT :: Data_Type where "BranchBlockPatchT \<equiv> 82"
abbreviation WASMLoaderContextT :: Data_Type where "WASMLoaderContextT \<equiv> 83"
abbreviation ConstT :: Data_Type where "ConstT \<equiv> 84"
abbreviation WASMModuleInstanceT :: Data_Type where "WASMModuleInstanceT \<equiv> 85"
abbreviation WASMFunctionInstanceT :: Data_Type where "WASMFunctionInstanceT \<equiv> 86"
abbreviation WASMMemoryInstanceT :: Data_Type where "WASMMemoryInstanceT \<equiv> 87"
abbreviation WASMMemoryInstanceTT :: Data_Type where "WASMMemoryInstanceTT \<equiv> 88"
abbreviation WASMTableInstanceT :: Data_Type where "WASMTableInstanceT \<equiv> 89"
abbreviation WASMTableInstanceTT :: Data_Type where "WASMTableInstanceTT \<equiv> 90"
abbreviation WASMGlobalInstanceT :: Data_Type where "WASMGlobalInstanceT \<equiv> 91"
abbreviation WASMExportFuncInstanceT :: Data_Type where "WASMExportFuncInstanceT \<equiv> 92"
abbreviation WASMExportGlobInstanceT :: Data_Type where "WASMExportGlobInstanceT \<equiv> 93"
abbreviation WASMSubModInstNodeT :: Data_Type where "WASMSubModInstNodeT \<equiv> 94"
abbreviation WASMRuntimeFrameT :: Data_Type where "WASMRuntimeFrameT \<equiv> 95"
abbreviation WASMOpcodeT :: Data_Type where "WASMOpcodeT \<equiv> 96"
abbreviation WASMMiscEXTOpcodeT :: Data_Type where "WASMMiscEXTOpcodeT \<equiv> 97"
abbreviation WASMSimdEXTOpcodeT :: Data_Type where "WASMSimdEXTOpcodeT \<equiv> 98"
abbreviation WASMAtomicEXTOpcodeT :: Data_Type where "WASMAtomicEXTOpcodeT \<equiv> 99"
abbreviation HashMapElemT :: Data_Type where "HashMapElemT \<equiv> 100"
abbreviation HashMapT :: Data_Type where "HashMapT \<equiv> 101"
abbreviation timer_ctx_tT :: Data_Type where "timer_ctx_tT \<equiv> 102"
abbreviation app_timer_tT :: Data_Type where "app_timer_tT \<equiv> 103"
abbreviation bh_queueT :: Data_Type where "bh_queueT \<equiv> 104"
abbreviation bh_queue_nodeT :: Data_Type where "bh_queue_nodeT \<equiv> 105"
abbreviation AtomicWaitInfoT :: Data_Type where "AtomicWaitInfoT \<equiv> 106"
abbreviation AtomicWaitNodeT :: Data_Type where "AtomicWaitNodeT \<equiv> 107"
abbreviation wasi_iovec_tT :: Data_Type where "wasi_iovec_tT \<equiv> 108"
abbreviation wasi_ciovec_tT :: Data_Type where "wasi_ciovec_tT \<equiv> 109"
abbreviation WASI_FILE_T :: Data_Type where "WASI_FILE_T \<equiv> 110"
abbreviation ERRORT :: Data_Type where "ERRORT \<equiv> 111"

section \<open>Structs of wasm.h\<close>

text \<open>\<open>union WASMValue\<close> is 16 bytes, the size of its \<open>v128\<close> member.\<close>

type_synonym WASMValue = "byte list"

record InitializerExpression =
  ie_init_expr_type :: u8
  ie_u :: WASMValue

record WASMType =
  ty_param_count :: u16
  ty_result_count :: u16
  ty_param_cell_num :: u16
  ty_ret_cell_num :: u16
  ty_types :: "byte list"

record WASMTable =
  tb_elem_type :: u8
  tb_flags :: u32
  tb_init_size :: u32
  tb_max_size :: u32
  tb_possible_grow :: bool

record WASMMemory =
  me_flags :: u32
  me_num_bytes_per_page :: u32
  me_init_page_count :: u32
  me_max_page_count :: u32

record WASMImport =
  im_kind :: u8
  im_module_name :: addr
  im_field_name :: addr
  imf_func_type :: addr
  imf_func_ptr_linked :: addr
  imf_signature :: addr
  imf_attachment :: addr
  imf_call_conv_raw :: bool
  imf_call_conv_wasm_c_api :: bool
  imf_wasm_c_api_with_env :: bool
  imt_elem_type :: u8
  imt_flags :: u32
  imt_init_size :: u32
  imt_max_size :: u32
  imt_possible_grow :: bool
  imm_flags :: u32
  imm_num_bytes_per_page :: u32
  imm_init_page_count :: u32
  imm_max_page_count :: u32
  img_type :: u8
  img_is_mutable :: bool
  img_global_data_linked :: WASMValue
  img_is_linked :: bool

text \<open>\<open>fn_tail\<close> are the bytes that follow the struct in its allocation; \<open>local_types\<close> points
  at them.\<close>

record WASMFunction =
  fn_func_type :: addr
  fn_local_count :: u32
  fn_local_types :: addr
  fn_param_cell_num :: u16
  fn_ret_cell_num :: u16
  fn_local_cell_num :: u16
  fn_local_offsets :: addr
  fn_max_stack_cell_num :: u32
  fn_max_block_num :: u32
  fn_has_op_memory_grow :: bool
  fn_has_op_func_call :: bool
  fn_code_size :: u32
  fn_code :: addr
  fn_tail :: "byte list"

record WASMGlobal =
  gl_type :: u8
  gl_is_mutable :: bool
  gl_init_expr :: InitializerExpression

record WASMExport =
  ex_name :: addr
  ex_kind :: u8
  ex_index :: u32

record WASMTableSeg =
  ts_mode :: u32
  ts_elem_type :: u32
  ts_is_dropped :: bool
  ts_table_index :: u32
  ts_base_offset :: InitializerExpression
  ts_function_count :: u32
  ts_func_indexes :: addr

record WASMDataSeg =
  ds_memory_index :: u32
  ds_base_offset :: InitializerExpression
  ds_data_length :: u32
  ds_data :: addr

record BlockAddr =
  ba_start_addr :: addr
  ba_else_addr :: addr
  ba_end_addr :: addr

record WASIArguments =
  wa_dir_list :: addr
  wa_dir_count :: u32
  wa_map_dir_list :: addr
  wa_map_dir_count :: u32
  wa_env :: addr
  wa_env_count :: u32
  wa_argv :: addr
  wa_argc :: u32
  wa_stdio :: "u32 list"

text \<open>\<open>sn_chars\<close> are the bytes that follow the struct in its allocation; \<open>str\<close> points at
  them.\<close>

record StringNode =
  sn_next :: addr
  sn_str :: addr
  sn_chars :: "byte list"

record WASMModule =
  md_module_type :: u32
  md_type_count :: u32
  md_import_count :: u32
  md_function_count :: u32
  md_table_count :: u32
  md_memory_count :: u32
  md_global_count :: u32
  md_export_count :: u32
  md_table_seg_count :: u32
  md_data_seg_count :: u32
  md_import_function_count :: u32
  md_import_table_count :: u32
  md_import_memory_count :: u32
  md_import_global_count :: u32
  md_import_functions :: addr
  md_import_tables :: addr
  md_import_memories :: addr
  md_import_globals :: addr
  md_types :: addr
  md_imports :: addr
  md_functions :: addr
  md_tables :: addr
  md_memories :: addr
  md_globals :: addr
  md_exports :: addr
  md_table_segments :: addr
  md_data_segments :: addr
  md_start_function :: u32
  md_aux_data_end_global_index :: u32
  md_aux_data_end :: u32
  md_aux_heap_base_global_index :: u32
  md_aux_heap_base :: u32
  md_aux_stack_top_global_index :: u32
  md_aux_stack_bottom :: u32
  md_aux_stack_size :: u32
  md_malloc_function :: u32
  md_free_function :: u32
  md_retain_function :: u32
  md_possible_memory_grow :: bool
  md_const_str_list :: addr
  md_wasi_args :: WASIArguments
  md_is_wasi_module :: bool

record WASMBranchBlock =
  bb_begin_addr :: addr
  bb_target_addr :: addr
  bb_frame_sp :: addr
  bb_cell_num :: u32

section \<open>Structs of wasm\_runtime.h, wasm\_exec\_env.h, wasm\_interp.h and others\<close>

record WASMMemoryInstance =
  mm_module_type :: u32
  mm_is_shared :: bool
  mm_num_bytes_per_page :: u32
  mm_cur_page_count :: u32
  mm_max_page_count :: u32
  mm_heap_data :: addr
  mm_heap_data_end :: addr
  mm_heap_handle :: addr
  mm_memory_data_end :: addr
  mm_memory_data :: addr

record WASMTableInstance =
  ti_elem_type :: u8
  ti_cur_size :: u32
  ti_max_size :: u32
  ti_base_addr :: "byte list"

record WASMGlobalInstance =
  gi_type :: u8
  gi_is_mutable :: bool
  gi_data_offset :: u32
  gi_initial_value :: WASMValue

text \<open>\<open>fi_u\<close> is the union of \<open>func_import\<close> and \<open>func\<close>, both pointers.\<close>

record WASMFunctionInstance =
  fi_is_import_func :: bool
  fi_param_count :: u16
  fi_local_count :: u16
  fi_param_cell_num :: u16
  fi_ret_cell_num :: u16
  fi_local_cell_num :: u16
  fi_local_offsets :: addr
  fi_param_types :: addr
  fi_local_types :: addr
  fi_u :: addr

record WASMExportFuncInstance =
  ef_name :: addr
  ef_function :: addr

record WASMModuleInstance =
  mi_module_type :: u32
  mi_memory_count :: u32
  mi_table_count :: u32
  mi_global_count :: u32
  mi_function_count :: u32
  mi_export_func_count :: u32
  mi_memories :: addr
  mi_tables :: addr
  mi_globals :: addr
  mi_functions :: addr
  mi_export_functions :: addr
  mi_default_memory :: addr
  mi_default_table :: addr
  mi_global_data :: addr
  mi_start_function :: addr
  mi_malloc_function :: addr
  mi_free_function :: addr
  mi_retain_function :: addr
  mi_module :: addr
  mi_wasi_ctx :: addr
  mi_exec_env_singleton :: addr
  mi_temp_ret :: u32
  mi_llvm_stack :: u32
  mi_default_wasm_stack_size :: u32
  mi_cur_exception :: "byte list"
  mi_custom_data :: addr

text \<open>\<open>block_addr_cache\<close> is the two-dimensional array in row order.\<close>

record WASMExecEnv =
  ee_next :: addr
  ee_prev :: addr
  ee_module_inst :: addr
  ee_native_stack_boundary :: addr
  ee_suspend_flags :: u64
  ee_aux_stack_boundary :: u64
  ee_aux_stack_bottom :: u64
  ee_attachment :: addr
  ee_user_data :: addr
  ee_cur_frame :: addr
  ee_handle :: u64
  ee_block_addr_cache :: "BlockAddr list"
  ee_jmpbuf_stack_top :: addr
  ee_wasm_stack_size :: u32
  ee_top_boundary :: addr
  ee_top :: addr

text \<open>\<open>fr_cells\<close> are the 32-bit cells from \<open>lp\<close> to \<open>sp_boundary\<close> (parameters, locals,
  operand stack), \<open>fr_blocks\<close> the branch blocks from \<open>csp_bottom\<close> on.\<close>

record WASMInterpFrame =
  fr_prev_frame :: addr
  fr_function :: addr
  fr_ip :: addr
  fr_sp_bottom :: addr
  fr_sp_boundary :: addr
  fr_sp :: addr
  fr_csp_bottom :: addr
  fr_csp_boundary :: addr
  fr_csp :: addr
  fr_cells :: "u32 list"
  fr_blocks :: "WASMBranchBlock list"

record WASMSection =
  se_next :: addr
  se_section_type :: u32
  se_section_body :: addr
  se_section_body_size :: u32

record WASMModuleMemConsumption =
  mc_total_size :: u32
  mc_module_struct_size :: u32
  mc_types_size :: u32
  mc_imports_size :: u32
  mc_functions_size :: u32
  mc_tables_size :: u32
  mc_memories_size :: u32
  mc_globals_size :: u32
  mc_exports_size :: u32
  mc_table_segs_size :: u32
  mc_data_segs_size :: u32
  mc_const_strs_size :: u32

record WASMModuleInstMemConsumption =
  ic_total_size :: u32
  ic_module_inst_struct_size :: u32
  ic_memories_size :: u32
  ic_app_heap_size :: u32
  ic_tables_size :: u32
  ic_globals_size :: u32
  ic_functions_size :: u32
  ic_exports_size :: u32

text \<open>The \<open>Common\<close> structs: a type word and one byte of data.\<close>

record WASMCommon =
  cm_module_type :: u32
  cm_data :: u8

record Const =
  co_value :: WASMValue
  co_slot_index :: u16
  co_value_type :: u8

text \<open>\<open>of\<close> is a union of 8 bytes.\<close>

record wasm_val_t =
  va_kind :: u8
  va_of :: u64

section \<open>Memory objects\<close>

text \<open>
  The memory of a process holds typed objects at the addresses where they were allocated, as the
  registry of wasm_memory.c records them: byte buffers (\<open>char\<close>, \<open>uint8\<close>, \<open>uint16\<close>,
  \<open>uint32\<close> and \<open>uint64\<close> arrays), arrays of pointers, and structs.
\<close>

datatype obj =
    O_Bytes "byte list"
  | O_Ptrs "addr list"
  | O_InitializerExpression InitializerExpression
  | O_WASMValue WASMValue
  | O_WASMType WASMType
  | O_WASMTable WASMTable
  | O_WASMMemory WASMMemory
  | O_WASMImport WASMImport
  | O_WASMFunction WASMFunction
  | O_WASMGlobal WASMGlobal
  | O_WASMExport WASMExport
  | O_WASMTableSeg WASMTableSeg
  | O_WASMDataSeg WASMDataSeg
  | O_StringNode StringNode
  | O_WASMModule WASMModule
  | O_WASMMemoryInstance WASMMemoryInstance
  | O_WASMTableInstance WASMTableInstance
  | O_WASMGlobalInstance WASMGlobalInstance
  | O_WASMFunctionInstance WASMFunctionInstance
  | O_WASMExportFuncInstance WASMExportFuncInstance
  | O_WASMModuleInstance WASMModuleInstance
  | O_WASMExecEnv WASMExecEnv
  | O_WASMInterpFrame WASMInterpFrame
  | O_WASMSection WASMSection
  | O_WASMModuleMemConsumption WASMModuleMemConsumption
  | O_WASMModuleInstMemConsumption WASMModuleInstMemConsumption
  | O_WASMCommon WASMCommon
  | O_Const Const
  | O_wasm_val_t wasm_val_t
  | O_WASMBranchBlock WASMBranchBlock

type_synonym mem = "addr \<Rightarrow> obj option"

text \<open>The cast of an object to a struct type: the handler of a type is only defined on objects of it.\<close>

definition as_Bytes :: "obj \<Rightarrow> (byte list) option" where
  "as_Bytes ob = (case ob of O_Bytes x \<Rightarrow> Some x | _ \<Rightarrow> None)"

definition as_Ptrs :: "obj \<Rightarrow> (addr list) option" where
  "as_Ptrs ob = (case ob of O_Ptrs x \<Rightarrow> Some x | _ \<Rightarrow> None)"

definition as_InitializerExpression :: "obj \<Rightarrow> InitializerExpression option" where
  "as_InitializerExpression ob = (case ob of O_InitializerExpression x \<Rightarrow> Some x | _ \<Rightarrow> None)"

definition as_WASMValue :: "obj \<Rightarrow> WASMValue option" where
  "as_WASMValue ob = (case ob of O_WASMValue x \<Rightarrow> Some x | _ \<Rightarrow> None)"

definition as_WASMType :: "obj \<Rightarrow> WASMType option" where
  "as_WASMType ob = (case ob of O_WASMType x \<Rightarrow> Some x | _ \<Rightarrow> None)"

definition as_WASMTable :: "obj \<Rightarrow> WASMTable option" where
  "as_WASMTable ob = (case ob of O_WASMTable x \<Rightarrow> Some x | _ \<Rightarrow> None)"

definition as_WASMMemory :: "obj \<Rightarrow> WASMMemory option" where
  "as_WASMMemory ob = (case ob of O_WASMMemory x \<Rightarrow> Some x | _ \<Rightarrow> None)"

definition as_WASMImport :: "obj \<Rightarrow> WASMImport option" where
  "as_WASMImport ob = (case ob of O_WASMImport x \<Rightarrow> Some x | _ \<Rightarrow> None)"

definition as_WASMFunction :: "obj \<Rightarrow> WASMFunction option" where
  "as_WASMFunction ob = (case ob of O_WASMFunction x \<Rightarrow> Some x | _ \<Rightarrow> None)"

definition as_WASMGlobal :: "obj \<Rightarrow> WASMGlobal option" where
  "as_WASMGlobal ob = (case ob of O_WASMGlobal x \<Rightarrow> Some x | _ \<Rightarrow> None)"

definition as_WASMExport :: "obj \<Rightarrow> WASMExport option" where
  "as_WASMExport ob = (case ob of O_WASMExport x \<Rightarrow> Some x | _ \<Rightarrow> None)"

definition as_WASMTableSeg :: "obj \<Rightarrow> WASMTableSeg option" where
  "as_WASMTableSeg ob = (case ob of O_WASMTableSeg x \<Rightarrow> Some x | _ \<Rightarrow> None)"

definition as_WASMDataSeg :: "obj \<Rightarrow> WASMDataSeg option" where
  "as_WASMDataSeg ob = (case ob of O_WASMDataSeg x \<Rightarrow> Some x | _ \<Rightarrow> None)"

definition as_StringNode :: "obj \<Rightarrow> StringNode option" where
  "as_StringNode ob = (case ob of O_StringNode x \<Rightarrow> Some x | _ \<Rightarrow> None)"

definition as_WASMModule :: "obj \<Rightarrow> WASMModule option" where
  "as_WASMModule ob = (case ob of O_WASMModule x \<Rightarrow> Some x | _ \<Rightarrow> None)"

definition as_WASMMemoryInstance :: "obj \<Rightarrow> WASMMemoryInstance option" where
  "as_WASMMemoryInstance ob = (case ob of O_WASMMemoryInstance x \<Rightarrow> Some x | _ \<Rightarrow> None)"

definition as_WASMTableInstance :: "obj \<Rightarrow> WASMTableInstance option" where
  "as_WASMTableInstance ob = (case ob of O_WASMTableInstance x \<Rightarrow> Some x | _ \<Rightarrow> None)"

definition as_WASMGlobalInstance :: "obj \<Rightarrow> WASMGlobalInstance option" where
  "as_WASMGlobalInstance ob = (case ob of O_WASMGlobalInstance x \<Rightarrow> Some x | _ \<Rightarrow> None)"

definition as_WASMFunctionInstance :: "obj \<Rightarrow> WASMFunctionInstance option" where
  "as_WASMFunctionInstance ob = (case ob of O_WASMFunctionInstance x \<Rightarrow> Some x | _ \<Rightarrow> None)"

definition as_WASMExportFuncInstance :: "obj \<Rightarrow> WASMExportFuncInstance option" where
  "as_WASMExportFuncInstance ob = (case ob of O_WASMExportFuncInstance x \<Rightarrow> Some x | _ \<Rightarrow> None)"

definition as_WASMModuleInstance :: "obj \<Rightarrow> WASMModuleInstance option" where
  "as_WASMModuleInstance ob = (case ob of O_WASMModuleInstance x \<Rightarrow> Some x | _ \<Rightarrow> None)"

definition as_WASMExecEnv :: "obj \<Rightarrow> WASMExecEnv option" where
  "as_WASMExecEnv ob = (case ob of O_WASMExecEnv x \<Rightarrow> Some x | _ \<Rightarrow> None)"

definition as_WASMInterpFrame :: "obj \<Rightarrow> WASMInterpFrame option" where
  "as_WASMInterpFrame ob = (case ob of O_WASMInterpFrame x \<Rightarrow> Some x | _ \<Rightarrow> None)"

definition as_WASMSection :: "obj \<Rightarrow> WASMSection option" where
  "as_WASMSection ob = (case ob of O_WASMSection x \<Rightarrow> Some x | _ \<Rightarrow> None)"

definition as_WASMModuleMemConsumption :: "obj \<Rightarrow> WASMModuleMemConsumption option" where
  "as_WASMModuleMemConsumption ob = (case ob of O_WASMModuleMemConsumption x \<Rightarrow> Some x | _ \<Rightarrow> None)"

definition as_WASMModuleInstMemConsumption :: "obj \<Rightarrow> WASMModuleInstMemConsumption option" where
  "as_WASMModuleInstMemConsumption ob = (case ob of O_WASMModuleInstMemConsumption x \<Rightarrow> Some x | _ \<Rightarrow> None)"

definition as_WASMCommon :: "obj \<Rightarrow> WASMCommon option" where
  "as_WASMCommon ob = (case ob of O_WASMCommon x \<Rightarrow> Some x | _ \<Rightarrow> None)"

definition as_Const :: "obj \<Rightarrow> Const option" where
  "as_Const ob = (case ob of O_Const x \<Rightarrow> Some x | _ \<Rightarrow> None)"

definition as_wasm_val_t :: "obj \<Rightarrow> wasm_val_t option" where
  "as_wasm_val_t ob = (case ob of O_wasm_val_t x \<Rightarrow> Some x | _ \<Rightarrow> None)"

definition as_WASMBranchBlock :: "obj \<Rightarrow> WASMBranchBlock option" where
  "as_WASMBranchBlock ob = (case ob of O_WASMBranchBlock x \<Rightarrow> Some x | _ \<Rightarrow> None)"

lemma as_obj [simp]:
  "as_Bytes (O_Bytes x_Bytes) = Some x_Bytes"
  "as_Ptrs (O_Ptrs x_Ptrs) = Some x_Ptrs"
  "as_InitializerExpression (O_InitializerExpression x_InitializerExpression) = Some x_InitializerExpression"
  "as_WASMValue (O_WASMValue x_WASMValue) = Some x_WASMValue"
  "as_WASMType (O_WASMType x_WASMType) = Some x_WASMType"
  "as_WASMTable (O_WASMTable x_WASMTable) = Some x_WASMTable"
  "as_WASMMemory (O_WASMMemory x_WASMMemory) = Some x_WASMMemory"
  "as_WASMImport (O_WASMImport x_WASMImport) = Some x_WASMImport"
  "as_WASMFunction (O_WASMFunction x_WASMFunction) = Some x_WASMFunction"
  "as_WASMGlobal (O_WASMGlobal x_WASMGlobal) = Some x_WASMGlobal"
  "as_WASMExport (O_WASMExport x_WASMExport) = Some x_WASMExport"
  "as_WASMTableSeg (O_WASMTableSeg x_WASMTableSeg) = Some x_WASMTableSeg"
  "as_WASMDataSeg (O_WASMDataSeg x_WASMDataSeg) = Some x_WASMDataSeg"
  "as_StringNode (O_StringNode x_StringNode) = Some x_StringNode"
  "as_WASMModule (O_WASMModule x_WASMModule) = Some x_WASMModule"
  "as_WASMMemoryInstance (O_WASMMemoryInstance x_WASMMemoryInstance) = Some x_WASMMemoryInstance"
  "as_WASMTableInstance (O_WASMTableInstance x_WASMTableInstance) = Some x_WASMTableInstance"
  "as_WASMGlobalInstance (O_WASMGlobalInstance x_WASMGlobalInstance) = Some x_WASMGlobalInstance"
  "as_WASMFunctionInstance (O_WASMFunctionInstance x_WASMFunctionInstance) = Some x_WASMFunctionInstance"
  "as_WASMExportFuncInstance (O_WASMExportFuncInstance x_WASMExportFuncInstance) = Some x_WASMExportFuncInstance"
  "as_WASMModuleInstance (O_WASMModuleInstance x_WASMModuleInstance) = Some x_WASMModuleInstance"
  "as_WASMExecEnv (O_WASMExecEnv x_WASMExecEnv) = Some x_WASMExecEnv"
  "as_WASMInterpFrame (O_WASMInterpFrame x_WASMInterpFrame) = Some x_WASMInterpFrame"
  "as_WASMSection (O_WASMSection x_WASMSection) = Some x_WASMSection"
  "as_WASMModuleMemConsumption (O_WASMModuleMemConsumption x_WASMModuleMemConsumption) = Some x_WASMModuleMemConsumption"
  "as_WASMModuleInstMemConsumption (O_WASMModuleInstMemConsumption x_WASMModuleInstMemConsumption) = Some x_WASMModuleInstMemConsumption"
  "as_WASMCommon (O_WASMCommon x_WASMCommon) = Some x_WASMCommon"
  "as_Const (O_Const x_Const) = Some x_Const"
  "as_wasm_val_t (O_wasm_val_t x_wasm_val_t) = Some x_wasm_val_t"
  "as_WASMBranchBlock (O_WASMBranchBlock x_WASMBranchBlock) = Some x_WASMBranchBlock"
  by (simp_all add: as_Bytes_def as_Ptrs_def as_InitializerExpression_def as_WASMValue_def as_WASMType_def as_WASMTable_def as_WASMMemory_def as_WASMImport_def as_WASMFunction_def as_WASMGlobal_def as_WASMExport_def as_WASMTableSeg_def as_WASMDataSeg_def as_StringNode_def as_WASMModule_def as_WASMMemoryInstance_def as_WASMTableInstance_def as_WASMGlobalInstance_def as_WASMFunctionInstance_def as_WASMExportFuncInstance_def as_WASMModuleInstance_def as_WASMExecEnv_def as_WASMInterpFrame_def as_WASMSection_def as_WASMModuleMemConsumption_def as_WASMModuleInstMemConsumption_def as_WASMCommon_def as_Const_def as_wasm_val_t_def as_WASMBranchBlock_def)

end
