(* ===== verification/Layout.thy ===== *)
theory Layout
  imports Wasm_Types
begin

text \<open>
  The struct layouts the code depends on through \<open>sizeof\<close> and \<open>offsetof\<close>, computed from the
  declarations in wasm.h, wasm_runtime.h, wasm_exec_env.h, wasm_interp.h, wasm_loader.h and
  wasm_runtime_common.h for LP64, and the table \<open>data_size\<close> of wasm_util.h.
\<close>

named_theorems layout \<open>sizes and offsets as numbers\<close>

section \<open>Layouts\<close>

definition L_V128 :: ctype where
  "L_V128 = CUnion [CArr C_u8 16, CArr C_u16 8, CArr C_u32 4, CArr C_u64 2]"

definition L_WASMValue :: ctype where
  "L_WASMValue = CUnion [C_u32, C_u64, L_V128]"

definition L_InitializerExpression :: ctype where
  "L_InitializerExpression = CStruct [C_u8, L_WASMValue]"

definition L_WASMTable :: ctype where
  "L_WASMTable = CStruct [C_u8, C_u32, C_u32, C_u32, C_bool]"

definition L_WASMMemory :: ctype where
  "L_WASMMemory = CStruct [C_u32, C_u32, C_u32, C_u32]"

definition L_WASMTableImport :: ctype where
  "L_WASMTableImport = CStruct [CPtr, CPtr, C_u8, C_u32, C_u32, C_u32, C_bool]"

definition L_WASMMemoryImport :: ctype where
  "L_WASMMemoryImport = CStruct [CPtr, CPtr, C_u32, C_u32, C_u32, C_u32]"

definition L_WASMFunctionImport :: ctype where
  "L_WASMFunctionImport = CStruct [CPtr, CPtr, CPtr, CPtr, CPtr, CPtr, C_bool, C_bool, C_bool]"

definition L_WASMGlobalImport :: ctype where
  "L_WASMGlobalImport = CStruct [CPtr, CPtr, C_u8, C_bool, L_WASMValue, C_bool]"

definition L_WASMImport_u :: ctype where
  "L_WASMImport_u = CUnion [L_WASMFunctionImport, L_WASMTableImport, L_WASMMemoryImport,
     L_WASMGlobalImport, CStruct [CPtr, CPtr]]"

definition L_WASMImport :: ctype where
  "L_WASMImport = CStruct [C_u8, L_WASMImport_u]"

definition L_WASMFunction :: ctype where
  "L_WASMFunction = CStruct [CPtr, C_u32, CPtr, C_u16, C_u16, C_u16, CPtr, C_u32, C_u32, C_bool,
     C_bool, C_u32, CPtr]"

definition L_WASMGlobal :: ctype where
  "L_WASMGlobal = CStruct [C_u8, C_bool, L_InitializerExpression]"

definition L_WASMExport :: ctype where
  "L_WASMExport = CStruct [CPtr, C_u8, C_u32]"

definition L_WASMTableSeg :: ctype where
  "L_WASMTableSeg = CStruct [C_u32, C_u32, C_bool, C_u32, L_InitializerExpression, C_u32, CPtr]"

definition L_WASMDataSeg :: ctype where
  "L_WASMDataSeg = CStruct [C_u32, L_InitializerExpression, C_u32, CPtr]"

definition L_BlockAddr :: ctype where
  "L_BlockAddr = CStruct [CPtr, CPtr, CPtr]"

definition L_WASIArguments :: ctype where
  "L_WASIArguments = CStruct [CPtr, C_u32, CPtr, C_u32, CPtr, C_u32, CPtr, C_u32, CArr C_u32 3]"

definition L_StringNode :: ctype where
  "L_StringNode = CStruct [CPtr, CPtr]"

definition L_WASMModule :: ctype where
  "L_WASMModule = CStruct [
     C_u32, C_u32, C_u32, C_u32, C_u32, C_u32, C_u32, C_u32, C_u32, C_u32, C_u32, C_u32,
     C_u32, C_u32, CPtr, CPtr, CPtr, CPtr, CPtr, CPtr, CPtr, CPtr, CPtr, CPtr, CPtr, CPtr,
     CPtr, C_u32, C_u32, C_u32, C_u32, C_u32, C_u32, C_u32, C_u32, C_u32, C_u32, C_u32,
     C_bool, CPtr, L_WASIArguments, C_bool]"

definition L_BlockType :: ctype where
  "L_BlockType = CStruct [CUnion [C_u8, CPtr], C_bool]"

definition L_WASMBranchBlock :: ctype where
  "L_WASMBranchBlock = CStruct [CPtr, CPtr, CPtr, C_u32]"

definition L_BranchBlock :: ctype where
  "L_BranchBlock = CStruct [C_u8, L_BlockType, CPtr, CPtr, CPtr, C_u32, C_bool]"

definition L_WASMLoaderContext :: ctype where
  "L_WASMLoaderContext = CStruct [CPtr, CPtr, CPtr, C_u32, C_u32, C_u32,
     CPtr, CPtr, CPtr, C_u32, C_u32, C_u32]"

definition L_Const :: ctype where
  "L_Const = CStruct [L_WASMValue, C_u16, C_u8]"

definition L_WASMMemoryInstance :: ctype where
  "L_WASMMemoryInstance = CStruct [C_u32, C_bool, C_u32, C_u32, C_u32, CPtr, CPtr, CPtr, CPtr, CPtr]"

definition L_WASMGlobalInstance :: ctype where
  "L_WASMGlobalInstance = CStruct [C_u8, C_bool, C_u32, L_WASMValue]"

definition L_WASMFunctionInstance :: ctype where
  "L_WASMFunctionInstance = CStruct [C_bool, C_u16, C_u16, C_u16, C_u16, C_u16, CPtr, CPtr, CPtr, CPtr]"

definition L_WASMExportFuncInstance :: ctype where
  "L_WASMExportFuncInstance = CStruct [CPtr, CPtr]"

definition L_WASMModuleInstance :: ctype where
  "L_WASMModuleInstance = CStruct [
     C_u32, C_u32, C_u32, C_u32, C_u32, C_u32, CPtr, CPtr, CPtr, CPtr, CPtr, CPtr, CPtr,
     CPtr, CPtr, CPtr, CPtr, CPtr, CPtr, CPtr, CPtr, C_u32, C_u32, C_u32, CArr C_u8 128,
     CPtr]"

definition L_WASMSection :: ctype where
  "L_WASMSection = CStruct [CPtr, C_u32, CPtr, C_u32]"

definition L_WASMCommon :: ctype where
  "L_WASMCommon = CStruct [C_u32, CArr C_u8 1]"

definition L_WASMModuleMemConsumption :: ctype where
  "L_WASMModuleMemConsumption = CStruct [C_u32, C_u32, C_u32, C_u32, C_u32, C_u32,
     C_u32, C_u32, C_u32, C_u32, C_u32, C_u32]"

definition L_WASMModuleInstMemConsumption :: ctype where
  "L_WASMModuleInstMemConsumption = CStruct [C_u32, C_u32, C_u32, C_u32, C_u32, C_u32, C_u32, C_u32]"

definition L_WASMInterpFrame :: ctype where
  "L_WASMInterpFrame = CStruct [CPtr, CPtr, CPtr, CPtr, CPtr, CPtr, CPtr, CPtr, CPtr, CArr C_u32 1]"

definition L_wasm_val_t :: ctype where
  "L_wasm_val_t = CStruct [C_u8, CUnion [C_u32, C_u64, CPtr]]"

definition L_WASMCApiFrame :: ctype where
  "L_WASMCApiFrame = CStruct [CPtr, C_u32, C_u32, C_u32]"

text \<open>The members of \<open>WASMExecEnv\<close> before \<open>wasm_stack\<close>: \<open>BLOCK_ADDR_CACHE_SIZE\<close> is 64,
  \<open>BLOCK_ADDR_CONFLICT_SIZE\<close> is 2 and \<open>jmpbuf_stack_top\<close> is present (\<open>OS_ENABLE_HW_BOUND_CHECK\<close>).\<close>

definition BLOCK_ADDR_CACHE_SIZE :: nat where "BLOCK_ADDR_CACHE_SIZE = 64"
definition BLOCK_ADDR_CONFLICT_SIZE :: nat where "BLOCK_ADDR_CONFLICT_SIZE = 2"

definition L_WASMExecEnv_head :: "ctype list" where
  "L_WASMExecEnv_head = [CPtr, CPtr, CPtr, CPtr, CUnion [C_u32, C_u64], CUnion [C_u32, C_u64],
     CUnion [C_u32, C_u64], CPtr, CPtr, CPtr, C_u64,
     CArr L_BlockAddr (BLOCK_ADDR_CACHE_SIZE * BLOCK_ADDR_CONFLICT_SIZE), CPtr, C_u32]"

section \<open>Sizes and offsets\<close>

definition sizeof_StringNode :: nat where "sizeof_StringNode = c_size L_StringNode"
definition sizeof_WASMFunction :: nat where "sizeof_WASMFunction = c_size L_WASMFunction"
definition sizeof_WASMImport :: nat where "sizeof_WASMImport = c_size L_WASMImport"
definition sizeof_WASMBranchBlock :: nat where "sizeof_WASMBranchBlock = c_size L_WASMBranchBlock"
definition offsetof_WASMImport_u :: nat where "offsetof_WASMImport_u = c_offset [C_u8] L_WASMImport_u"
definition offsetof_WASMType_types :: nat where
  "offsetof_WASMType_types = c_offset [C_u16, C_u16, C_u16, C_u16] (CArr C_u8 1)"
definition offsetof_WASMTableInstance_base_addr :: nat where
  "offsetof_WASMTableInstance_base_addr = c_offset [C_u8, C_u32, C_u32] (CArr C_u8 1)"
definition offsetof_WASMInterpFrame_lp :: nat where
  "offsetof_WASMInterpFrame_lp = c_offset
     [CPtr, CPtr, CPtr, CPtr, CPtr, CPtr, CPtr, CPtr, CPtr] (CArr C_u32 1)"
definition offsetof_wasm_stack_bottom :: nat where
  "offsetof_wasm_stack_bottom = c_offset L_WASMExecEnv_head C_u64 + c_offset [CPtr, CPtr] (CArr C_u8 1)"

lemmas layout_defs =
  L_V128_def L_WASMValue_def L_InitializerExpression_def L_WASMTable_def L_WASMMemory_def
  L_WASMTableImport_def L_WASMMemoryImport_def L_WASMFunctionImport_def L_WASMGlobalImport_def
  L_WASMImport_u_def L_WASMImport_def L_WASMFunction_def L_WASMGlobal_def L_WASMExport_def
  L_WASMTableSeg_def L_WASMDataSeg_def L_BlockAddr_def L_WASIArguments_def L_StringNode_def
  L_WASMModule_def L_BlockType_def L_WASMBranchBlock_def L_BranchBlock_def
  L_WASMLoaderContext_def L_Const_def L_WASMMemoryInstance_def L_WASMGlobalInstance_def
  L_WASMFunctionInstance_def L_WASMExportFuncInstance_def L_WASMModuleInstance_def
  L_WASMSection_def L_WASMCommon_def L_WASMModuleMemConsumption_def
  L_WASMModuleInstMemConsumption_def L_WASMInterpFrame_def L_wasm_val_t_def
  L_WASMCApiFrame_def BLOCK_ADDR_CACHE_SIZE_def BLOCK_ADDR_CONFLICT_SIZE_def
  L_WASMExecEnv_head_def sizeof_StringNode_def sizeof_WASMFunction_def sizeof_WASMImport_def
  sizeof_WASMBranchBlock_def offsetof_WASMImport_u_def offsetof_WASMType_types_def
  offsetof_WASMTableInstance_base_addr_def offsetof_WASMInterpFrame_lp_def
  offsetof_wasm_stack_bottom_def

lemma sizes [layout]:
  "sizeof_StringNode = 16"
  "sizeof_WASMFunction = 64"
  "sizeof_WASMImport = 64"
  "sizeof_WASMBranchBlock = 32"
  "offsetof_WASMImport_u = 8"
  "offsetof_WASMType_types = 8"
  "offsetof_WASMTableInstance_base_addr = 12"
  "offsetof_WASMInterpFrame_lp = 72"
  "offsetof_wasm_stack_bottom = 3192"
  by (simp_all add: layout_defs align_up_def c_offset_def)

section \<open>The table of element sizes (wasm\_util.h, set\_data\_size)\<close>

text \<open>
  \<open>set_data_size\<close> fills the array \<open>data_size\<close>, whose other entries stay 0. The structs that no
  handler dumps (the wasm-c-api structs and those with pthread members) have no layout here: the
  size of such a type is an argument \<open>ext\<close>.
\<close>

definition set_data_size :: "(Data_Type \<times> nat) list" where
  "set_data_size =
    [(charT, c_size C_u8), (charTT, c_size CPtr), (uint8T, c_size C_u8), (uint16T, c_size C_u16),
     (uint32T, c_size C_u32), (uint64T, c_size C_u64),
     (wasm_val_tT, c_size L_wasm_val_t),
     (WASMExecEnvT, offsetof_wasm_stack_bottom),
     (WASMModuleCommonT, c_size L_WASMCommon),
     (WASMModuleInstanceCommonT, c_size L_WASMCommon),
     (WASMModuleMemConsumptionT, c_size L_WASMModuleMemConsumption),
     (WASMModuleInstMemConsumptionT, c_size L_WASMModuleInstMemConsumption),
     (WASMMemoryInstanceCommonT, c_size L_WASMCommon),
     (WASMSectionT, c_size L_WASMSection),
     (WASMCApiFrameT, c_size L_WASMCApiFrame),
     (WASMModuleT, c_size L_WASMModule),
     (WASMFunctionT, sizeof_WASMFunction), (WASMFunctionTT, c_size CPtr),
     (WASMGlobalT, c_size L_WASMGlobal), (WASMExportT, c_size L_WASMExport),
     (V128T, c_size L_V128), (WASMValueT, c_size L_WASMValue),
     (InitializerExpressionT, c_size L_InitializerExpression),
     (WASMTypeT, offsetof_WASMType_types), (WASMTypeTT, c_size CPtr),
     (WASMTableT, c_size L_WASMTable), (WASMMemoryT, c_size L_WASMMemory),
     (WASMTableImportT, c_size L_WASMTableImport), (WASMMemoryImportT, c_size L_WASMMemoryImport),
     (WASMFunctionImportT, c_size L_WASMFunctionImport),
     (WASMGlobalImportT, c_size L_WASMGlobalImport), (WASMImportT, sizeof_WASMImport),
     (WASMTableSegT, c_size L_WASMTableSeg), (WASMDataSegT, c_size L_WASMDataSeg),
     (WASMDataSegTT, c_size CPtr), (BlockAddrT, c_size L_BlockAddr),
     (WASIArgumentsT, c_size L_WASIArguments), (StringNodeT, sizeof_StringNode),
     (BlockTypeT, c_size L_BlockType), (WASMBranchBlockT, sizeof_WASMBranchBlock),
     (WASMInterpFrameT, offsetof_WASMInterpFrame_lp), (BranchBlockT, c_size L_BranchBlock),
     (WASMLoaderContextT, c_size L_WASMLoaderContext), (ConstT, c_size L_Const),
     (WASMModuleInstanceT, c_size L_WASMModuleInstance),
     (WASMFunctionInstanceT, c_size L_WASMFunctionInstance),
     (WASMMemoryInstanceT, c_size L_WASMMemoryInstance), (WASMMemoryInstanceTT, c_size CPtr),
     (WASMTableInstanceT, offsetof_WASMTableInstance_base_addr),
     (WASMTableInstanceTT, c_size CPtr), (WASMGlobalInstanceT, c_size L_WASMGlobalInstance),
     (WASMExportFuncInstanceT, c_size L_WASMExportFuncInstance),
     (WASMRuntimeFrameT, c_size L_WASMInterpFrame),
     (WASMOpcodeT, c_size C_u32), (WASMMiscEXTOpcodeT, c_size C_u32),
     (WASMSimdEXTOpcodeT, c_size C_u32), (WASMAtomicEXTOpcodeT, c_size C_u32),
     (wasi_iovec_tT, c_size (CStruct [CPtr, C_u64])), (wasi_ciovec_tT, c_size (CStruct [CPtr, C_u64]))]"

text \<open>The types \<open>set_data_size\<close> also fills, with structs that have no layout here.\<close>

definition ext_types :: "Data_Type list" where
  "ext_types = [gc_heap_tT, WASIContextT, wasm_instance_tT, wasm_engine_tT, wasm_store_tT, VectorT,
     wasm_valtype_tT, wasm_functype_tT, wasm_valtype_vec_tT, wasm_globaltype_tT, wasm_tabletype_tT,
     wasm_memorytype_tT, wasm_importtype_tT, wasm_byte_vec_tT, wasm_exporttype_tT, wasm_ref_tT,
     wasm_frame_tT, wasm_trap_tT, wasm_foreign_tT, wasm_module_ex_tT, wasm_func_tT, wasm_global_tT,
     wasm_table_tT, wasm_memory_tT, wasm_store_vec_tT, wasm_module_vec_tT, wasm_instance_vec_tT,
     wasm_extern_vec_tT, NativeSymbolsNodeT, WASMSharedMemNodeT, HashMapElemT, HashMapT,
     timer_ctx_tT, app_timer_tT, bh_queueT, bh_queue_nodeT, AtomicWaitInfoT, AtomicWaitNodeT]"

definition data_size :: "(Data_Type \<Rightarrow> nat) \<Rightarrow> Data_Type \<Rightarrow> nat" where
  "data_size ext t = (case map_of set_data_size t of Some n \<Rightarrow> n
     | None \<Rightarrow> if t \<in> set ext_types then ext t else 0)"

lemma set_data_size_values [layout]:
  "set_data_size =
    [(charT, 1), (charTT, 8), (uint8T, 1), (uint16T, 2), (uint32T, 4), (uint64T, 8),
     (wasm_val_tT, 16), (WASMExecEnvT, 3192), (WASMModuleCommonT, 8),
     (WASMModuleInstanceCommonT, 8), (WASMModuleMemConsumptionT, 48),
     (WASMModuleInstMemConsumptionT, 32), (WASMMemoryInstanceCommonT, 8), (WASMSectionT, 32),
     (WASMCApiFrameT, 24), (WASMModuleT, 296), (WASMFunctionT, 64), (WASMFunctionTT, 8),
     (WASMGlobalT, 32), (WASMExportT, 16), (V128T, 16), (WASMValueT, 16),
     (InitializerExpressionT, 24), (WASMTypeT, 8), (WASMTypeTT, 8), (WASMTableT, 20),
     (WASMMemoryT, 16), (WASMTableImportT, 40), (WASMMemoryImportT, 32),
     (WASMFunctionImportT, 56), (WASMGlobalImportT, 48), (WASMImportT, 64), (WASMTableSegT, 56),
     (WASMDataSegT, 48), (WASMDataSegTT, 8), (BlockAddrT, 24), (WASIArgumentsT, 72),
     (StringNodeT, 16), (BlockTypeT, 16), (WASMBranchBlockT, 32), (WASMInterpFrameT, 72),
     (BranchBlockT, 56), (WASMLoaderContextT, 80), (ConstT, 24), (WASMModuleInstanceT, 296),
     (WASMFunctionInstanceT, 48), (WASMMemoryInstanceT, 64), (WASMMemoryInstanceTT, 8),
     (WASMTableInstanceT, 12), (WASMTableInstanceTT, 8), (WASMGlobalInstanceT, 24),
     (WASMExportFuncInstanceT, 16), (WASMRuntimeFrameT, 80), (WASMOpcodeT, 4),
     (WASMMiscEXTOpcodeT, 4), (WASMSimdEXTOpcodeT, 4), (WASMAtomicEXTOpcodeT, 4),
     (wasi_iovec_tT, 16), (wasi_ciovec_tT, 16)]"
  by (simp add: set_data_size_def sizes) (simp add: layout_defs align_up_def)

end
