(* ===== verification/Pool_Registry.thy ===== *)
theory Pool_Registry
  imports Layout
begin

text \<open>
  The registry of live allocations kept by src/core/iwasm/common/wasm_memory.c: every block the
  runtime allocates is recorded in a \<open>Pool_Info\<close> with its type tag, its size and its offset from
  the pool, so that a checkpoint can walk all of them.

  A \<open>Pool_Info *\<close> is the chain of nodes reached from it through \<open>list\<close> (NULL is the empty
  chain); \<open>root_info\<close> and \<open>root_frame\<close> are the lists of chains reached through \<open>next\<close>. The nodes
  after the first of a chain are the elements of an array of structs; nothing follows their
  \<open>next\<close>.
\<close>

section \<open>State\<close>

record pool_node =
  p_abs :: u32
  p_raw :: addr
  p_size :: u32
  p_type :: Data_Type

type_synonym pool_chain = "pool_node list"

text \<open>\<open>rg_module\<close> and \<open>rg_exec_env\<close> are the statics \<open>wasm_module\<close> and \<open>_exec_env\<close> of wasm_dump.c
  that \<open>set_WASMModule\<close> and \<open>set_WASMExecEnv\<close> set.\<close>

record registry =
  root_info :: "pool_chain list"
  root_frame :: "pool_chain list"
  pool_allocator :: addr
  rg_module :: addr
  rg_exec_env :: addr

definition set_WASMModule :: "addr \<Rightarrow> registry \<Rightarrow> registry" where
  "set_WASMModule m rg = rg\<lparr>rg_module := m\<rparr>"

definition set_WASMExecEnv :: "addr \<Rightarrow> registry \<Rightarrow> registry" where
  "set_WASMExecEnv e rg = rg\<lparr>rg_exec_env := e\<rparr>"

section \<open>Registration\<close>

text \<open>The offset of an address from the pool, cut to the \<open>int\<close> that \<open>p_abs\<close> is.\<close>

definition abs_of :: "addr \<Rightarrow> addr \<Rightarrow> u32" where
  "abs_of pool a = ucast (a - pool)"

definition mk_node :: "addr \<Rightarrow> addr \<Rightarrow> Data_Type \<Rightarrow> u64 \<Rightarrow> pool_node" where
  "mk_node pool a t sz = \<lparr>p_abs = abs_of pool a, p_raw = a, p_size = ucast sz, p_type = t\<rparr>"

definition alloc_info_buf :: "registry \<Rightarrow> addr \<Rightarrow> Data_Type \<Rightarrow> u64 \<Rightarrow> registry res" where
  "alloc_info_buf rg a t sz =
     (if a = 0 then Inl (Exit ''error'')
      else Inr (rg\<lparr>root_info := [mk_node (pool_allocator rg) a t sz] # root_info rg\<rparr>))"

definition alloc_info :: "registry \<Rightarrow> addr \<Rightarrow> Data_Type \<Rightarrow> registry res" where
  "alloc_info rg a t =
     (let rg' = (if t = WASMModuleT then set_WASMModule a rg else rg)
      in alloc_info_buf rg' a t 1)"

definition alloc_info_ex :: "registry \<Rightarrow> addr \<Rightarrow> Data_Type \<Rightarrow> u64 \<Rightarrow> registry res" where
  "alloc_info_ex rg a t sz =
     (if a = 0 then Inl (Exit ''error'')
      else let rg' = (if t = WASMExecEnvT then set_WASMExecEnv a rg else rg)
           in Inr (rg'\<lparr>root_info := [mk_node (pool_allocator rg') a t sz] # root_info rg'\<rparr>))"

text \<open>
  \<open>CASE_INFOS\<close>: the types for which \<open>alloc_infos\<close> adds one node per further array element, and
  the \<open>sizeof\<close> that spaces them (for the four structs with an inline tail it is not the entry of
  \<open>data_size\<close>, which is an \<open>offsetof\<close>).
\<close>

definition case_infos :: "Data_Type list" where
  "case_infos =
    [charT, uint8T, uint16T, uint32T, uint64T, gc_heap_tT, WASIContextT, WASIArgumentsT,
     wasi_iovec_tT, wasi_ciovec_tT, wasm_val_tT, WASMExecEnvT, NativeSymbolsNodeT,
     WASMModuleCommonT, WASMModuleInstanceCommonT, WASMModuleMemConsumptionT,
     WASMModuleInstMemConsumptionT, WASMMemoryInstanceCommonT, WASMSectionT, WASMCApiFrameT,
     wasm_instance_tT, wasm_engine_tT, wasm_store_tT, VectorT, wasm_valtype_tT, wasm_functype_tT,
     wasm_valtype_vec_tT, wasm_globaltype_tT, wasm_tabletype_tT, wasm_memorytype_tT,
     wasm_importtype_tT, wasm_byte_vec_tT, wasm_exporttype_tT, wasm_ref_tT, wasm_frame_tT,
     wasm_trap_tT, wasm_foreign_tT, wasm_module_ex_tT, wasm_func_tT, wasm_global_tT, wasm_table_tT,
     wasm_memory_tT, wasm_store_vec_tT, wasm_module_vec_tT, wasm_instance_vec_tT,
     wasm_extern_vec_tT, WASMSharedMemNodeT, WASMModuleT, WASMFunctionT, WASMGlobalT, WASMExportT,
     V128T, WASMValueT, InitializerExpressionT, WASMTypeT, WASMTableT, WASMMemoryT,
     WASMTableImportT, WASMMemoryImportT, WASMFunctionImportT, WASMGlobalImportT, WASMImportT,
     WASMTableSegT, WASMDataSegT, BlockAddrT, StringNodeT, BlockTypeT, WASMBranchBlockT,
     WASMInterpFrameT, BranchBlockT, WASMLoaderContextT, ConstT, WASMModuleInstanceT,
     WASMFunctionInstanceT, WASMMemoryInstanceT, WASMTableInstanceT, WASMGlobalInstanceT,
     WASMExportFuncInstanceT, WASMRuntimeFrameT, WASMOpcodeT, WASMMiscEXTOpcodeT,
     WASMSimdEXTOpcodeT, WASMAtomicEXTOpcodeT, HashMapElemT, HashMapT, timer_ctx_tT, app_timer_tT,
     bh_queueT, bh_queue_nodeT, AtomicWaitInfoT, AtomicWaitNodeT]"

definition case_sizeof :: "(Data_Type \<Rightarrow> nat) \<Rightarrow> Data_Type \<Rightarrow> nat" where
  "case_sizeof ext t =
     (if t = WASMExecEnvT then align_up (offsetof_wasm_stack_bottom + 1) 8
      else if t = WASMTypeT then 10
      else if t = WASMTableInstanceT then 16
      else if t = WASMInterpFrameT then c_size L_WASMInterpFrame
      else data_size ext t)"

definition elem_node :: "addr \<Rightarrow> addr \<Rightarrow> Data_Type \<Rightarrow> nat \<Rightarrow> nat \<Rightarrow> pool_node" where
  "elem_node pool a t sz i =
     \<lparr>p_abs = abs_of pool (a + of_nat (i * sz)), p_raw = a + of_nat (i * sz), p_size = - 1, p_type = t\<rparr>"

definition alloc_infos :: "(Data_Type \<Rightarrow> nat) \<Rightarrow> registry \<Rightarrow> addr \<Rightarrow> Data_Type \<Rightarrow> u64 \<Rightarrow> registry res" where
  "alloc_infos ext rg a t sz =
     (if a = 0 then Inl (Exit ''error'')
      else let pool = pool_allocator rg;
               elems = (if t \<in> set case_infos
                        then map (elem_node pool a t (case_sizeof ext t)) [1..<unat sz] else [])
           in Inr (rg\<lparr>root_info := (mk_node pool a t sz # elems) # root_info rg\<rparr>))"

section \<open>Removal\<close>

fun remove_raw :: "addr \<Rightarrow> pool_chain list \<Rightarrow> pool_chain list option" where
  "remove_raw a [] = None"
| "remove_raw a (c # cs) =
     (if c \<noteq> [] \<and> p_raw (hd c) = a then Some cs else map_option ((#) c) (remove_raw a cs))"

text \<open>
  The last loop of \<open>free_info\<close> compares the address with the \<open>Pool_Info\<close> nodes themselves, which
  live outside the pool, so it never finds one and the call ends in \<open>exit(1)\<close>.
\<close>

definition free_info :: "registry \<Rightarrow> addr \<Rightarrow> registry res" where
  "free_info rg a =
     (case remove_raw a (root_info rg) of
        Some l \<Rightarrow> Inr (rg\<lparr>root_info := l\<rparr>)
      | None \<Rightarrow>
          (case remove_raw a (root_frame rg) of
             Some l \<Rightarrow> Inr (rg\<lparr>root_frame := l\<rparr>)
           | None \<Rightarrow> Inl (Exit ''free error'')))"

section \<open>Lookup\<close>

fun chain_find :: "(pool_node \<Rightarrow> bool) \<Rightarrow> pool_chain list \<Rightarrow> pool_chain option" where
  "chain_find P [] = None"
| "chain_find P (c # cs) =
     (case dropWhile (\<lambda>p. \<not> P p) c of [] \<Rightarrow> chain_find P cs | s \<Rightarrow> Some s)"

definition get_raw :: "registry \<Rightarrow> addr \<Rightarrow> pool_chain res" where
  "get_raw rg a =
     (if a = 0 then Inr []
      else case chain_find (\<lambda>p. p_raw p = a) (root_info rg) of
             Some s \<Rightarrow> Inr s | None \<Rightarrow> Inl (Exit ''error p_abs''))"

definition get_info :: "registry \<Rightarrow> u32 \<Rightarrow> pool_chain res" where
  "get_info rg pa =
     (if pa = - 1 then Inr []
      else case chain_find (\<lambda>p. p_abs p = pa) (root_info rg) of
             Some s \<Rightarrow> Inr s | None \<Rightarrow> Inl (Exit ''error p_abs''))"

fun find_head :: "u32 \<Rightarrow> pool_chain list \<Rightarrow> pool_chain option" where
  "find_head pa [] = None"
| "find_head pa (c # cs) = (if c \<noteq> [] \<and> p_abs (hd c) = pa then Some c else find_head pa cs)"

definition get_frame_info :: "registry \<Rightarrow> u32 \<Rightarrow> pool_chain res" where
  "get_frame_info rg pa =
     (if pa = - 1 then Inr []
      else case find_head pa (root_frame rg) of
             Some s \<Rightarrow> Inr s | None \<Rightarrow> Inl (Exit ''error frame p_abs''))"

section \<open>Rebasing after a restore\<close>

definition abs_node :: "addr \<Rightarrow> pool_node \<Rightarrow> pool_node" where
  "abs_node pool p = p\<lparr>p_abs := abs_of pool (p_raw p)\<rparr>"

definition abs_translation :: "registry \<Rightarrow> registry" where
  "abs_translation rg = rg\<lparr>root_info := map (map (abs_node (pool_allocator rg))) (root_info rg)\<rparr>"

section \<open>Invariant and abstract view\<close>

text \<open>
  The abstract content of the registry: which addresses are live, with their tag and size. Only
  the first node of a chain is an allocation; \<open>free_info\<close> finds nothing else.
\<close>

definition chain_live :: "addr \<Rightarrow> pool_chain \<Rightarrow> bool" where
  "chain_live a c \<longleftrightarrow> c \<noteq> [] \<and> p_raw (hd c) = a"

definition live_in :: "pool_chain list \<Rightarrow> addr \<Rightarrow> (Data_Type \<times> u32) option" where
  "live_in cs a = map_option (\<lambda>c. (p_type (hd c), p_size (hd c))) (find (chain_live a) cs)"

definition reg_view :: "registry \<Rightarrow> addr \<Rightarrow> (Data_Type \<times> u32) option" where
  "reg_view rg a = live_in (root_info rg) a"

text \<open>
  The invariant of a process that has not been restored: no frame list, each allocation once, none
  of them NULL, and every node with its offset from the pool.
\<close>

definition abs_ok :: "registry \<Rightarrow> bool" where
  "abs_ok rg \<longleftrightarrow> (\<forall>p \<in> set (concat (root_info rg)). p_abs p = abs_of (pool_allocator rg) (p_raw p))"

definition reg_ok :: "registry \<Rightarrow> bool" where
  "reg_ok rg \<longleftrightarrow> root_frame rg = [] \<and> [] \<notin> set (root_info rg)
     \<and> distinct (map (\<lambda>c. p_raw (hd c)) (root_info rg))
     \<and> 0 \<notin> set (map (\<lambda>c. p_raw (hd c)) (root_info rg)) \<and> abs_ok rg"

section \<open>The interface of the registry\<close>

text \<open>
  What the allocation sites of the runtime rely on: registering a fresh block makes exactly it
  live, freeing a live block makes exactly it dead, and freeing anything else stops the process.
  A script of such operations behaves as the finite map it updates.
\<close>

datatype reg_op = Register addr Data_Type u64 | Release addr

fun spec_op :: "reg_op \<Rightarrow> (addr \<Rightarrow> (Data_Type \<times> u32) option) \<Rightarrow> (addr \<Rightarrow> (Data_Type \<times> u32) option) option" where
  "spec_op (Register a t sz) v = (if a = 0 \<or> v a \<noteq> None then None else Some (v(a := Some (t, ucast sz))))"
| "spec_op (Release a) v = (if v a = None then None else Some (v(a := None)))"

fun spec_ops :: "reg_op list \<Rightarrow> (addr \<Rightarrow> (Data_Type \<times> u32) option) \<Rightarrow> (addr \<Rightarrow> (Data_Type \<times> u32) option) option" where
  "spec_ops [] v = Some v"
| "spec_ops (x # xs) v = (case spec_op x v of None \<Rightarrow> None | Some v' \<Rightarrow> spec_ops xs v')"

fun run_ops :: "('r \<Rightarrow> addr \<Rightarrow> Data_Type \<Rightarrow> u64 \<Rightarrow> 'r res) \<Rightarrow> ('r \<Rightarrow> addr \<Rightarrow> 'r res) \<Rightarrow> reg_op list \<Rightarrow> 'r \<Rightarrow> 'r res" where
  "run_ops add del [] r = Inr r"
| "run_ops add del (Register a t sz # xs) r = bind_res (add r a t sz) (run_ops add del xs)"
| "run_ops add del (Release a # xs) r = bind_res (del r a) (run_ops add del xs)"

locale alloc_registry =
  fixes view :: "'r \<Rightarrow> addr \<Rightarrow> (Data_Type \<times> u32) option"
    and add :: "'r \<Rightarrow> addr \<Rightarrow> Data_Type \<Rightarrow> u64 \<Rightarrow> 'r res"
    and del :: "'r \<Rightarrow> addr \<Rightarrow> 'r res"
    and ok :: "'r \<Rightarrow> bool"
  assumes add_null: "add r 0 t sz = Inl (Exit ''error'')"
    and add_fresh: "ok r \<Longrightarrow> a \<noteq> 0 \<Longrightarrow> view r a = None \<Longrightarrow>
          \<exists>r'. add r a t sz = Inr r' \<and> ok r' \<and> view r' = (view r)(a := Some (t, ucast sz))"
    and del_live: "ok r \<Longrightarrow> view r a \<noteq> None \<Longrightarrow>
          \<exists>r'. del r a = Inr r' \<and> ok r' \<and> view r' = (view r)(a := None)"
    and del_dead: "ok r \<Longrightarrow> view r a = None \<Longrightarrow> del r a = Inl (Exit ''free error'')"
begin

lemma release_registered:
  assumes "ok r" "a \<noteq> 0" "view r a = None"
  shows "\<exists>r'. bind_res (add r a t sz) (\<lambda>r. del r a) = Inr r' \<and> ok r' \<and> view r' = view r"
proof -
  obtain r1 where r1: "add r a t sz = Inr r1" "ok r1" "view r1 = (view r)(a := Some (t, ucast sz))"
    using add_fresh [OF assms] by blast
  then obtain r2 where "del r1 a = Inr r2" "ok r2" "view r2 = (view r1)(a := None)"
    using del_live [of r1 a] by auto
  then show ?thesis using r1 assms(3) by (auto simp: fun_upd_idem)
qed

lemma double_release:
  assumes "ok r" "view r a \<noteq> None"
  shows "bind_res (del r a) (\<lambda>r. del r a) = Inl (Exit ''free error'')"
  using del_live [OF assms] del_dead by fastforce

lemma run_refines:
  "ok r \<Longrightarrow> spec_ops xs (view r) = Some v \<Longrightarrow>
     \<exists>r'. run_ops add del xs r = Inr r' \<and> ok r' \<and> view r' = v"
proof (induction xs arbitrary: r)
  case Nil
  then show ?case by simp
next
  case (Cons x xs)
  show ?case
  proof (cases x)
    case (Register a t sz)
    with Cons.prems have "a \<noteq> 0" "view r a = None"
      by (cases "view r a"; simp split: if_splits)+
    then obtain r1 where r1: "add r a t sz = Inr r1" "ok r1" "(view r)(a := Some (t, ucast sz)) = view r1"
      using add_fresh [OF Cons.prems(1)] by metis
    then have "spec_ops xs (view r1) = Some v"
      using Cons.prems(2) Register \<open>a \<noteq> 0\<close> \<open>view r a = None\<close> by simp
    with Cons.IH r1 Register show ?thesis by simp
  next
    case (Release a)
    with Cons.prems have "view r a \<noteq> None" by (simp split: if_splits)
    then obtain r1 where r1: "del r a = Inr r1" "ok r1" "(view r)(a := None) = view r1"
      using del_live [OF Cons.prems(1)] by metis
    then have "spec_ops xs (view r1) = Some v"
      using Cons.prems(2) Release \<open>view r a \<noteq> None\<close> by simp
    with Cons.IH r1 Release show ?thesis by simp
  qed
qed

end

section \<open>The registry implements its interface\<close>

lemma remove_raw_None: "remove_raw a cs = None \<longleftrightarrow> live_in cs a = None"
  by (induction cs) (auto simp: live_in_def chain_live_def)

lemma remove_raw_set: "remove_raw a cs = Some ds \<Longrightarrow> set ds \<subseteq> set cs"
  by (induction cs arbitrary: ds) (auto split: if_splits)

lemma live_in_None: "live_in cs a = None \<longleftrightarrow> (\<forall>c \<in> set cs. \<not> chain_live a c)"
  by (auto simp: live_in_def find_None_iff)

lemma live_in_Cons:
  "live_in (c # cs) a = (if chain_live a c then Some (p_type (hd c), p_size (hd c)) else live_in cs a)"
  by (simp add: live_in_def)

lemma remove_raw_distinct:
  assumes "remove_raw a cs = Some ds" "[] \<notin> set cs" "distinct (map (\<lambda>c. p_raw (hd c)) cs)"
  shows "distinct (map (\<lambda>c. p_raw (hd c)) ds) \<and> live_in ds = (live_in cs)(a := None)"
  using assms
proof (induction cs arbitrary: ds)
  case Nil
  then show ?case by simp
next
  case (Cons c cs)
  show ?case
  proof (cases "p_raw (hd c) = a")
    case True
    with Cons.prems have ds: "ds = cs" by auto
    have "live_in cs a = None"
      unfolding live_in_None chain_live_def using Cons.prems(3) True by (simp add: image_iff) metis
    with ds True Cons.prems show ?thesis by (auto simp: live_in_Cons chain_live_def)
  next
    case False
    with Cons.prems obtain es where es: "remove_raw a cs = Some es" "ds = c # es" by auto
    with Cons have "distinct (map (\<lambda>c. p_raw (hd c)) es) \<and> live_in es = (live_in cs)(a := None)"
      by auto
    moreover have "set es \<subseteq> set cs" using es(1) by (rule remove_raw_set)
    ultimately show ?thesis using es False Cons.prems
      by (auto simp: live_in_Cons chain_live_def)
  qed
qed

text \<open>Adding one chain whose nodes carry their offsets.\<close>

lemma reg_ok_add:
  assumes "reg_ok rg" "a \<noteq> 0" "reg_view rg a = None" "c \<noteq> []" "p_raw (hd c) = a"
    and "\<forall>p \<in> set c. p_abs p = abs_of (pool_allocator rg) (p_raw p)"
    and "root_info rg' = c # root_info rg" "root_frame rg' = root_frame rg"
    and "pool_allocator rg' = pool_allocator rg"
  shows "reg_ok rg' \<and> reg_view rg' = (reg_view rg)(a := Some (p_type (hd c), p_size (hd c)))"
  using assms by (auto simp: reg_ok_def abs_ok_def reg_view_def live_in_Cons live_in_None chain_live_def)

lemma free_info_live:
  assumes "reg_ok rg" "reg_view rg a \<noteq> None"
  shows "\<exists>rg'. free_info rg a = Inr rg' \<and> reg_ok rg' \<and> reg_view rg' = (reg_view rg)(a := None)"
proof -
  obtain ds where ds: "remove_raw a (root_info rg) = Some ds"
    using assms(2) remove_raw_None by (fastforce simp: reg_view_def)
  have "set ds \<subseteq> set (root_info rg)" using ds by (rule remove_raw_set)
  then have "reg_ok (rg\<lparr>root_info := ds\<rparr>)"
    using assms(1) remove_raw_distinct [OF ds] by (auto simp: reg_ok_def abs_ok_def)
  moreover have "live_in ds = (live_in (root_info rg))(a := None)"
    using assms(1) remove_raw_distinct [OF ds] by (simp add: reg_ok_def)
  ultimately show ?thesis using ds by (auto simp: free_info_def reg_view_def fun_eq_iff)
qed

lemma free_info_dead:
  assumes "reg_ok rg" "reg_view rg a = None"
  shows "free_info rg a = Inl (Exit ''free error'')"
  using assms remove_raw_None [of a "root_info rg"] by (simp add: free_info_def reg_view_def reg_ok_def)

interpretation buf_registry: alloc_registry reg_view alloc_info_buf free_info reg_ok
proof unfold_locales
  fix r :: registry and a :: addr and t sz
  assume "reg_ok r" "a \<noteq> 0" "reg_view r a = None"
  then show "\<exists>r'. alloc_info_buf r a t sz = Inr r' \<and> reg_ok r' \<and> reg_view r' = (reg_view r)(a := Some (t, ucast sz))"
    using reg_ok_add [of r a "[mk_node (pool_allocator r) a t sz]"]
    by (simp add: alloc_info_buf_def mk_node_def)
qed (simp_all add: alloc_info_buf_def free_info_live free_info_dead)

interpretation ex_registry: alloc_registry reg_view alloc_info_ex free_info reg_ok
proof unfold_locales
  fix r :: registry and a :: addr and t sz
  assume "reg_ok r" "a \<noteq> 0" "reg_view r a = None"
  then show "\<exists>r'. alloc_info_ex r a t sz = Inr r' \<and> reg_ok r' \<and> reg_view r' = (reg_view r)(a := Some (t, ucast sz))"
    using reg_ok_add [of r a "[mk_node (pool_allocator r) a t sz]"]
    by (simp add: alloc_info_ex_def mk_node_def set_WASMExecEnv_def)
qed (simp_all add: alloc_info_ex_def free_info_live free_info_dead)

text \<open>The chain \<open>alloc_infos\<close> adds.\<close>

definition infos_chain :: "(Data_Type \<Rightarrow> nat) \<Rightarrow> addr \<Rightarrow> addr \<Rightarrow> Data_Type \<Rightarrow> u64 \<Rightarrow> pool_chain" where
  "infos_chain ext pool a t sz = mk_node pool a t sz #
     (if t \<in> set case_infos then map (elem_node pool a t (case_sizeof ext t)) [1..<unat sz] else [])"

lemma alloc_infos_chain:
  "a \<noteq> 0 \<Longrightarrow> alloc_infos ext rg a t sz =
     Inr (rg\<lparr>root_info := infos_chain ext (pool_allocator rg) a t sz # root_info rg\<rparr>)"
  by (simp only: alloc_infos_def infos_chain_def Let_def if_False)

lemma infos_chain_abs: "p \<in> set (infos_chain ext pool a t sz) \<Longrightarrow> p_abs p = abs_of pool (p_raw p)"
  unfolding infos_chain_def mk_node_def elem_node_def by (cases "t \<in> set case_infos") auto

lemma infos_chain_head:
  "infos_chain ext pool a t sz \<noteq> []" "hd (infos_chain ext pool a t sz) = mk_node pool a t sz"
  by (simp_all add: infos_chain_def)

interpretation array_registry: alloc_registry reg_view "alloc_infos ext" free_info reg_ok for ext
proof unfold_locales
  fix r :: registry and a :: addr and t sz
  assume "reg_ok r" "a \<noteq> 0" "reg_view r a = None"
  then show "\<exists>r'. alloc_infos ext r a t sz = Inr r' \<and> reg_ok r' \<and> reg_view r' = (reg_view r)(a := Some (t, ucast sz))"
    using reg_ok_add [of r a "infos_chain ext (pool_allocator r) a t sz"]
    by (simp add: alloc_infos_chain infos_chain_abs infos_chain_head mk_node_def)
qed (simp_all add: alloc_infos_def free_info_live free_info_dead)

section \<open>Lookup laws\<close>

text \<open>A node whose key no other node has is found, with the rest of its chain behind it.\<close>

lemma dropWhile_key:
  "distinct (map key (pre @ p # post)) \<Longrightarrow> dropWhile (\<lambda>q. key q \<noteq> key p) (pre @ p # post) = p # post"
  by (induction pre) auto

lemma dropWhile_key_other: "key p \<notin> key ` set c \<Longrightarrow> dropWhile (\<lambda>q. key q \<noteq> key p) c = []"
  by (auto simp: image_iff)

lemma chain_find_unique:
  assumes "distinct (map key (concat cs))" "pre @ p # post \<in> set cs"
  shows "chain_find (\<lambda>q. key q = key p) cs = Some (p # post)"
  using assms
proof (induction cs)
  case Nil
  then show ?case by simp
next
  case (Cons c cs)
  show ?case
  proof (cases "c = pre @ p # post")
    case True
    with Cons.prems have "distinct (map key (pre @ p # post))" by auto
    from dropWhile_key [OF this] True show ?thesis by simp
  next
    case False
    with Cons.prems have m: "pre @ p # post \<in> set cs" by simp
    then have "key p \<in> key ` set (concat cs)" by force
    with Cons.prems have "key p \<notin> key ` set c" by auto
    note other = dropWhile_key_other [OF this]
    have "chain_find (\<lambda>q. key q = key p) cs = Some (p # post)" using Cons m by simp
    then show ?thesis unfolding chain_find.simps other by simp
  qed
qed

lemma chain_find_cong:
  "(\<And>p. p \<in> set (concat cs) \<Longrightarrow> P p \<longleftrightarrow> Q p) \<Longrightarrow> chain_find P cs = chain_find Q cs"
proof (induction cs)
  case (Cons c cs)
  have "dropWhile (\<lambda>p. \<not> P p) c = dropWhile (\<lambda>p. \<not> Q p) c"
    using Cons.prems by (intro dropWhile_cong) auto
  moreover have "chain_find P cs = chain_find Q cs" using Cons by simp
  ultimately show ?case by (simp only: chain_find.simps)
qed simp

lemma chain_find_sound:
  "chain_find P cs = Some s \<Longrightarrow> s \<noteq> [] \<and> P (hd s) \<and> (\<exists>pre. pre @ s \<in> set cs)"
proof (induction cs)
  case (Cons c cs)
  show ?case
  proof (cases "dropWhile (\<lambda>p. \<not> P p) c")
    case Nil
    with Cons show ?thesis by auto
  next
    case (Cons q qs)
    with Cons.prems have s: "s = q # qs" by simp
    have "c = takeWhile (\<lambda>p. \<not> P p) c @ s" using Cons s by (metis takeWhile_dropWhile_id)
    moreover have "P q" using Cons by (metis dropWhile_eq_Cons_conv)
    ultimately show ?thesis using s by (metis list.sel(1) list.set_intros(1) list.distinct(1))
  qed
qed simp

text \<open>
  Offsets identify addresses as long as the blocks lie in the 4 GiB after the pool (less the
  offset that is the code of NULL).
\<close>

definition in_pool :: "addr \<Rightarrow> addr \<Rightarrow> bool" where
  "in_pool pool a \<longleftrightarrow> unat (a - pool) < 2 ^ 32 - 1"

lemma unat_abs_of: "in_pool pool a \<Longrightarrow> unat (abs_of pool a) = unat (a - pool)"
  by (simp add: abs_of_def in_pool_def unsigned_ucast_eq take_bit_nat_eq_self)

lemma abs_of_inj: "in_pool pool a \<Longrightarrow> in_pool pool b \<Longrightarrow> abs_of pool a = abs_of pool b \<longleftrightarrow> a = b"
  by (metis unat_abs_of word_unat_eq_iff add_diff_cancel diff_add_cancel)

lemma abs_of_not_null: "in_pool pool a \<Longrightarrow> abs_of pool a \<noteq> - 1"
  using unat_abs_of [of pool a] by (auto simp: in_pool_def unsigned_minus_1_eq_mask mask_eq_exp_minus_1)

definition nodes_in_pool :: "registry \<Rightarrow> bool" where
  "nodes_in_pool rg \<longleftrightarrow> (\<forall>p \<in> set (concat (root_info rg)). in_pool (pool_allocator rg) (p_raw p))"

lemma get_info_of_abs:
  assumes "abs_ok rg" "nodes_in_pool rg" "in_pool (pool_allocator rg) a" "a \<noteq> 0"
  shows "get_info rg (abs_of (pool_allocator rg) a) = get_raw rg a"
proof -
  have "chain_find (\<lambda>p. p_abs p = abs_of (pool_allocator rg) a) (root_info rg)
      = chain_find (\<lambda>p. p_raw p = a) (root_info rg)"
    by (rule chain_find_cong)
      (use assms in \<open>auto simp: abs_ok_def nodes_in_pool_def abs_of_inj\<close>)
  then show ?thesis using assms by (simp add: get_info_def get_raw_def abs_of_not_null)
qed

section \<open>Laws of the rebasing\<close>

lemma abs_ok_abs_translation: "abs_ok (abs_translation rg)"
  by (auto simp: abs_ok_def abs_translation_def abs_node_def)

lemma abs_translation_id: "abs_ok rg \<Longrightarrow> abs_translation rg = rg"
  by (auto simp: abs_ok_def abs_translation_def abs_node_def intro!: registry.equality map_idI)

lemma chain_live_abs: "chain_live a (map (abs_node pool) c) = chain_live a c"
  by (cases c) (auto simp: chain_live_def abs_node_def)

lemma live_in_abs: "live_in (map (map (abs_node pool)) cs) a = live_in cs a"
proof (induction cs)
  case (Cons c cs)
  then show ?case by (cases c) (auto simp: live_in_Cons chain_live_abs abs_node_def chain_live_def)
qed (simp add: live_in_def)

lemma reg_view_abs_translation: "reg_view (abs_translation rg) = reg_view rg"
  by (rule ext) (simp add: reg_view_def abs_translation_def live_in_abs)

section \<open>Properties\<close>

definition empty_registry :: "addr \<Rightarrow> registry" where
  "empty_registry pool = \<lparr>root_info = [], root_frame = [], pool_allocator = pool, rg_module = 0, rg_exec_env = 0\<rparr>"

lemma reg_ok_empty: "reg_ok (empty_registry pool)" "reg_view (empty_registry pool) = (\<lambda>_. None)"
  by (simp_all add: reg_ok_def abs_ok_def empty_registry_def reg_view_def live_in_def fun_eq_iff)

text \<open>C11: a sequence of registrations of fresh non-NULL blocks and of releases of live ones, run on
  the linked lists of wasm_memory.c, never stops the process, keeps the registry's invariant and
  ends with exactly the live blocks, tags and sizes that the same sequence gives on a finite map.\<close>

theorem registry_refines_map:
  assumes "reg_ok rg" "spec_ops xs (reg_view rg) = Some v"
  shows "\<exists>rg'. run_ops alloc_info_buf free_info xs rg = Inr rg' \<and> reg_ok rg' \<and> reg_view rg' = v"
  using assms by (rule buf_registry.run_refines)

theorem registry_refines_map_witness:
  "\<exists>rg'. run_ops alloc_info_buf free_info
     [Register 0x2000 WASMModuleT 1, Register 0x3000 uint8T 16, Release 0x2000] (empty_registry 0x1000) = Inr rg'
     \<and> reg_ok rg' \<and> reg_view rg' = (\<lambda>_. None)(0x3000 := Some (uint8T, 16))"
  by (rule registry_refines_map) (simp_all add: reg_ok_empty fun_eq_iff)

text \<open>C27: releasing a block twice stops the process with the message of \<open>free_info\<close>, whatever else is
  registered.\<close>

theorem free_info_twice:
  assumes "reg_ok rg" "reg_view rg a \<noteq> None"
  shows "bind_res (free_info rg a) (\<lambda>rg'. free_info rg' a) = Inl (Exit ''free error'')"
  using assms by (rule buf_registry.double_release)

theorem free_info_twice_witness:
  "bind_res (alloc_info_buf (empty_registry 0x1000) 0x2000 uint8T 16)
     (\<lambda>rg. bind_res (free_info rg 0x2000) (\<lambda>rg'. free_info rg' 0x2000)) = Inl (Exit ''free error'')"
proof -
  obtain rg where "alloc_info_buf (empty_registry 0x1000) 0x2000 uint8T 16 = Inr rg" "reg_ok rg"
    "reg_view rg = (reg_view (empty_registry 0x1000))(0x2000 := Some (uint8T, 16))"
    using buf_registry.add_fresh [of "empty_registry 0x1000" "0x2000" uint8T 16] by (auto simp: reg_ok_empty)
  then show ?thesis using free_info_twice [of rg "0x2000"] by simp
qed

text \<open>C14: an offset written into an image leads back to the same node: for every address in the
  4 GiB after the pool, \<open>get_info\<close> at its offset gives what \<open>get_raw\<close> gives at the address itself,
  the failure for unregistered addresses included.\<close>

theorem get_info_agrees_with_get_raw:
  assumes "abs_ok rg" "nodes_in_pool rg" "in_pool (pool_allocator rg) a" "a \<noteq> 0"
  shows "get_info rg (abs_of (pool_allocator rg) a) = get_raw rg a"
  using assms by (rule get_info_of_abs)

theorem get_info_agrees_with_get_raw_witness:
  "get_info (empty_registry 0x1000 \<lparr>root_info := [[mk_node 0x1000 0x2000 uint8T 2], [mk_node 0x1000 0x3000 uint8T 1]]\<rparr>)
     (abs_of 0x1000 0x2000) = Inr [mk_node 0x1000 0x2000 uint8T 2]"
  using get_info_agrees_with_get_raw
    [of "empty_registry 0x1000 \<lparr>root_info := [[mk_node 0x1000 0x2000 uint8T 2], [mk_node 0x1000 0x3000 uint8T 1]]\<rparr>" "0x2000"]
  by (simp add: abs_ok_def nodes_in_pool_def in_pool_def empty_registry_def mk_node_def get_raw_def)

text \<open>C15: when no two registered nodes have the same offset, \<open>get_info\<close> returns, for every node of
  every chain, that very node followed by the rest of its array.\<close>

theorem get_info_finds_node:
  assumes "distinct (map p_abs (concat (root_info rg)))" "pre @ p # post \<in> set (root_info rg)"
    and "p_abs p \<noteq> - 1"
  shows "get_info rg (p_abs p) = Inr (p # post)"
  using assms chain_find_unique [of p_abs "root_info rg" pre p post] by (simp add: get_info_def)

theorem get_info_finds_node_witness:
  "get_info (empty_registry 0x1000 \<lparr>root_info := [[mk_node 0x1000 0x2000 uint8T 2, mk_node 0x1000 0x2001 uint8T 2]]\<rparr>)
     0x1001 = Inr [mk_node 0x1000 0x2001 uint8T 2]"
  using get_info_finds_node
    [of "empty_registry 0x1000 \<lparr>root_info := [[mk_node 0x1000 0x2000 uint8T 2, mk_node 0x1000 0x2001 uint8T 2]]\<rparr>"
        "[mk_node 0x1000 0x2000 uint8T 2]" "mk_node 0x1000 0x2001 uint8T 2" "[]"]
  by (simp add: empty_registry_def mk_node_def abs_of_def)


end
