(* ===== verification/Image_IO.thy ===== *)
theory Image_IO
  imports Pool_Registry
begin

text \<open>
  The macros shared by the handlers of wasm_dump.c and wasm_restore.c: the record headers, the
  loops over the chain of an array, and the coding of pointers as offsets from the pool. The
  locales at the end state what a dump handler and the restore handler of the same type owe each
  other, for one node and for a whole chain; the chain law is proved once from the node law.
\<close>

section \<open>Reading objects\<close>

definition load :: "(obj \<Rightarrow> 'n option) \<Rightarrow> mem \<Rightarrow> addr \<Rightarrow> 'n res" where
  "load get m a =
     (case m a of None \<Rightarrow> Inl (UB ''invalid access'')
      | Some ob \<Rightarrow> (case get ob of None \<Rightarrow> Inl (UB ''invalid access'') | Some n \<Rightarrow> Inr n))"

lemma load_Some [simp]: "m a = Some ob \<Longrightarrow> get ob = Some n \<Longrightarrow> load get m a = Inr n"
  by (simp add: load_def)

section \<open>Dumping\<close>

text \<open>The statics of wasm_dump.c a handler reads (\<open>base\<close>, \<open>wasm_module\<close>) and the memory.\<close>

record dump_ctx =
  dc_base :: addr
  dc_mem :: mem
  dc_module :: addr

type_synonym dump_handler = "dump_ctx \<Rightarrow> pool_chain \<Rightarrow> stream res"
type_synonym 'n dump_body = "dump_ctx \<Rightarrow> pool_node \<Rightarrow> 'n \<Rightarrow> stream res"

text \<open>\<open>fwrite(&_p, sizeof(int), 1, fp)\<close> of an \<open>unsigned long\<close> writes its low four bytes.\<close>

definition DUMP_PTR :: "addr \<Rightarrow> addr \<Rightarrow> stream" where
  "DUMP_PTR base p = (if p = 0 then fwrite_u32 (- 1) else fwrite_u32 (ucast (p - base)))"

definition dump_header :: "Data_Type \<Rightarrow> pool_node \<Rightarrow> stream" where
  "dump_header t p = fwrite_u32 t @ fwrite_u32 (p_size p) @ fwrite_u32 (p_abs p)"

definition HEADER_DUMP_BUF ::
  "Data_Type \<Rightarrow> (obj \<Rightarrow> 'n option) \<Rightarrow> 'n dump_body \<Rightarrow> dump_handler" where
  "HEADER_DUMP_BUF t get body c ps =
     (case ps of [] \<Rightarrow> Inl (UB ''NULL Pool_Info'')
      | p # _ \<Rightarrow> bind_res (load get (dc_mem c) (p_raw p))
          (\<lambda>n. bind_res (body c p n) (\<lambda>bs. Inr (dump_header t p @ bs))))"

text \<open>The body of every \<open>HEADER_DUMP\<close> loop first writes the \<open>p_abs\<close> of its node.\<close>

fun dump_nodes ::
  "(obj \<Rightarrow> 'n option) \<Rightarrow> 'n dump_body \<Rightarrow> dump_handler" where
  "dump_nodes get body c [] = Inr []"
| "dump_nodes get body c (p # ps) =
     bind_res (load get (dc_mem c) (p_raw p))
       (\<lambda>n. bind_res (body c p n)
         (\<lambda>bs. bind_res (dump_nodes get body c ps)
           (\<lambda>rest. Inr (fwrite_u32 (p_abs p) @ bs @ rest))))"

definition HEADER_DUMP ::
  "Data_Type \<Rightarrow> (obj \<Rightarrow> 'n option) \<Rightarrow> 'n dump_body \<Rightarrow> dump_handler" where
  "HEADER_DUMP t get body c ps =
     (case ps of [] \<Rightarrow> Inl (UB ''NULL Pool_Info'')
      | p # _ \<Rightarrow> bind_res (dump_nodes get body c ps) (\<lambda>bs. Inr (dump_header t p @ bs)))"

text \<open>\<open>fwrite(p, k, n, fp)\<close> of \<open>n\<close> elements of \<open>k\<close> bytes, where \<open>n\<close> is an \<open>int\<close> turned into a
  \<open>size_t\<close>; reading past the end of the object is undefined.\<close>

definition fwrite_buf :: "nat \<Rightarrow> nat \<Rightarrow> byte list \<Rightarrow> stream res" where
  "fwrite_buf k n bs = (if length bs < k * n then Inl (UB ''read past the object'') else Inr (take (k * n) bs))"

definition int_count :: "u32 \<Rightarrow> nat" where
  "int_count sz = unat (scast sz :: u64)"

section \<open>Restoring\<close>

text \<open>The registry, the memory being filled, the statics \<open>_module\<close>, \<open>_module_inst_static\<close>
  and \<open>_exec_env_static\<close> of wasm_restore.c, and what is left of the stream \<open>gp\<close>. The stream
  \<open>fp\<close> is the one a handler's statements read from.\<close>

record restore_st =
  rs_rg :: registry
  rs_mem :: mem
  rs_module :: addr
  rs_module_inst :: addr
  rs_exec_env :: addr
  rs_gp :: stream

type_synonym restore_handler = "pool_chain \<Rightarrow> restore_st stmt"
type_synonym 'n restore_body = "registry \<Rightarrow> pool_node \<Rightarrow> 'n stmt"

text \<open>Reading a coded pointer: \<open>null\<close> is what follows for the code of NULL, \<open>found\<close> what
  follows for the address of the node with that offset.\<close>

definition read_info :: "registry \<Rightarrow> 'n stmt \<Rightarrow> (addr \<Rightarrow> 'n stmt) \<Rightarrow> 'n stmt" where
  "read_info rg null found = (\<lambda>(n, fp). bind_res (fread_raw 4 fp) (\<lambda>(bs, fp').
     let pa = (le_word bs :: u32) in
     if pa = - 1 then null (n, fp')
     else bind_res (get_info rg pa)
       (\<lambda>s. case s of [] \<Rightarrow> Inl (UB ''NULL Pool_Info'') | p # _ \<Rightarrow> found (p_raw p) (n, fp'))))"

definition restore_ptr :: "registry \<Rightarrow> (addr \<Rightarrow> 'n \<Rightarrow> 'n) \<Rightarrow> 'n stmt" where
  "restore_ptr rg put = read_info rg (assign (put 0)) (\<lambda>a. assign (put a))"

definition RESTORE_PTR :: "registry \<Rightarrow> ((addr \<Rightarrow> addr) \<Rightarrow> 'n \<Rightarrow> 'n) \<Rightarrow> 'n stmt" where
  "RESTORE_PTR rg upd = restore_ptr rg (\<lambda>p. upd (\<lambda>_. p))"

definition restore_node ::
  "(obj \<Rightarrow> 'n option) \<Rightarrow> ('n \<Rightarrow> obj) \<Rightarrow> 'n restore_body \<Rightarrow> pool_node \<Rightarrow> restore_st stmt" where
  "restore_node get put body p = (\<lambda>(st, fp).
     bind_res (load get (rs_mem st) (p_raw p)) (\<lambda>n.
     bind_res (body (rs_rg st) p (n, fp)) (\<lambda>(n', fp').
     Inr (st\<lparr>rs_mem := (rs_mem st)(p_raw p := Some (put n'))\<rparr>, fp'))))"

definition HEADER_RESTORE_BUF ::
  "(obj \<Rightarrow> 'n option) \<Rightarrow> ('n \<Rightarrow> obj) \<Rightarrow> 'n restore_body \<Rightarrow> restore_handler" where
  "HEADER_RESTORE_BUF get put body ps =
     (case ps of [] \<Rightarrow> (\<lambda>_. Inl (UB ''NULL Pool_Info'')) | p # _ \<Rightarrow> restore_node get put body p)"

text \<open>The body of every \<open>HEADER_RESTORE\<close> loop first reads a \<open>p_abs\<close> and compares it.\<close>

definition match_p_abs :: "pool_node \<Rightarrow> 'n stmt" where
  "match_p_abs p = (\<lambda>(st, fp). bind_res (fread_raw 4 fp) (\<lambda>(bs, fp').
     if p_abs p \<noteq> le_word bs then Inl (Exit ''no match p_abs'') else Inr (st, fp')))"

fun restore_nodes ::
  "(obj \<Rightarrow> 'n option) \<Rightarrow> ('n \<Rightarrow> obj) \<Rightarrow> 'n restore_body \<Rightarrow> restore_handler" where
  "restore_nodes get put body [] = skip"
| "restore_nodes get put body (p # ps) =
     exec_stmts [match_p_abs p, restore_node get put body p, restore_nodes get put body ps]"

definition HEADER_RESTORE ::
  "(obj \<Rightarrow> 'n option) \<Rightarrow> ('n \<Rightarrow> obj) \<Rightarrow> 'n restore_body \<Rightarrow> restore_handler" where
  "HEADER_RESTORE get put body ps =
     (if ps = [] then (\<lambda>_. Inl (UB ''NULL Pool_Info'')) else restore_nodes get put body ps)"

text \<open>\<open>fread(p, k, n, fp)\<close> into a buffer; a buffer too small for it is overrun.\<close>

definition fread_buf :: "nat \<Rightarrow> nat \<Rightarrow> (byte list) stmt" where
  "fread_buf k n = (\<lambda>(old, fp). if length old < k * n then Inl (UB ''write past the object'')
     else bind_res (fread_raw (k * n) fp) (\<lambda>(bs, fp'). Inr (bs @ drop (k * n) old, fp')))"

text \<open>A statement that depends on fields read before it.\<close>

definition on_node :: "('n \<Rightarrow> 'n stmt) \<Rightarrow> 'n stmt" where
  "on_node f = (\<lambda>(n, fp). f n (n, fp))"

lemma on_node_app [codec, simp]: "on_node f (n, fp) = f n (n, fp)"
  by (simp add: on_node_def)

lemma shrinking_on_node [shrinks]: "(\<And>n. shrinking (f n)) \<Longrightarrow> shrinking (on_node f)"
  by (rule shrinkingI) (auto dest: shrinkingD)

section \<open>Pointers across the image\<close>

text \<open>
  The address a dumped pointer is restored to: NULL stays NULL, anything else is looked up by its
  offset among the nodes of the restoring process.
\<close>

definition ptr_ok :: "registry \<Rightarrow> addr \<Rightarrow> addr \<Rightarrow> bool" where
  "ptr_ok rg base p \<longleftrightarrow> p = 0 \<or> (abs_of base p \<noteq> - 1 \<and> chain_find (\<lambda>q. p_abs q = abs_of base p) (root_info rg) \<noteq> None)"

definition reloc :: "registry \<Rightarrow> addr \<Rightarrow> addr \<Rightarrow> addr" where
  "reloc rg base p =
     (if p = 0 then 0
      else case chain_find (\<lambda>q. p_abs q = abs_of base p) (root_info rg) of
             Some (q # _) \<Rightarrow> p_raw q | _ \<Rightarrow> 0)"

lemma reloc_0 [simp]: "reloc rg base 0 = 0"
  by (simp add: reloc_def)

lemma read_info_back [codec]:
  assumes "ptr_ok rg base p"
  shows "read_info rg null found (n, DUMP_PTR base p @ fp)
    = (if p = 0 then null (n, fp) else found (reloc rg base p) (n, fp))"
proof (cases "p = 0")
  case True
  then show ?thesis by (simp add: read_info_def DUMP_PTR_def u32_codec.dec_enc Let_def)
next
  case False
  with assms obtain s where s: "chain_find (\<lambda>q. p_abs q = abs_of base p) (root_info rg) = Some s"
    and n: "abs_of base p \<noteq> - 1" by (auto simp: ptr_ok_def)
  obtain q qs where "s = q # qs" using chain_find_sound [OF s] by (cases s) auto
  with s n False show ?thesis
    by (simp add: read_info_def DUMP_PTR_def u32_codec.dec_enc get_info_def reloc_def abs_of_def Let_def)
qed

lemma restore_ptr_back [codec]:
  "ptr_ok rg base p \<Longrightarrow> restore_ptr rg put (n, DUMP_PTR base p @ fp) = Inr (put (reloc rg base p) n, fp)"
  by (simp add: restore_ptr_def read_info_back)

lemma RESTORE_PTR_back [codec]:
  "ptr_ok rg base p \<Longrightarrow>
     RESTORE_PTR rg upd (n, DUMP_PTR base p @ fp) = Inr (upd (\<lambda>_. reloc rg base p) n, fp)"
  by (simp add: RESTORE_PTR_def restore_ptr_back)

lemma length_DUMP_PTR [simp]: "length (DUMP_PTR base p) = 4"
  by (simp add: DUMP_PTR_def)

lemma match_p_abs_back [codec]: "match_p_abs p (n, fwrite_u32 (p_abs p) @ fp) = Inr (n, fp)"
  by (simp add: match_p_abs_def u32_codec.dec_enc)

lemma fread_buf_back [codec]:
  "length bs = k * n \<Longrightarrow> k * n \<le> length old \<Longrightarrow> fread_buf k n (old, bs @ fp) = Inr (bs @ drop (k * n) old, fp)"
  by (simp add: fread_buf_def)

lemma shrinking_read_info [shrinks]:
  assumes "shrinking null" "\<And>a. shrinking (found a)"
  shows "shrinking (read_info rg null found)"
proof (rule shrinkingI)
  fix n fp n' fp'
  assume *: "read_info rg null found (n, fp) = Inr (n', fp')"
  then obtain bs fp1 where r: "fread_raw 4 fp = Inr (bs, fp1)"
    by (cases "fread_raw 4 fp") (auto simp: read_info_def)
  have "length fp' \<le> length fp1"
  proof (cases "(le_word bs :: u32) = - 1")
    case True
    with * r have "null (n, fp1) = Inr (n', fp')" by (simp add: read_info_def)
    with assms(1) show ?thesis by (rule shrinkingD)
  next
    case False
    with * r obtain s where s: "get_info rg (le_word bs) = Inr s"
      by (cases "get_info rg (le_word bs)") (auto simp: read_info_def)
    with * r False show ?thesis
      by (cases s) (auto simp: read_info_def intro: shrinkingD [OF assms(2)])
  qed
  then show "length fp' \<le> length fp" using fread_raw_shrinks [OF r] by simp
qed

lemma shrinking_restore_ptr [shrinks]: "shrinking (restore_ptr rg put)"
  by (simp add: restore_ptr_def shrinking_read_info shrinking_assign)

lemma shrinking_RESTORE_PTR [shrinks]: "shrinking (RESTORE_PTR rg upd)"
  by (simp add: RESTORE_PTR_def shrinking_restore_ptr)

lemma shrinking_match_p_abs [shrinks]: "shrinking (match_p_abs p)"
  by (rule shrinkingI) (auto simp: match_p_abs_def bind_res_eq_Inr fread_raw_def split: if_splits)

lemma shrinking_fread_buf [shrinks]: "shrinking (fread_buf k n)"
  by (rule shrinkingI) (auto simp: fread_buf_def bind_res_eq_Inr fread_raw_def split: if_splits)

lemma shrinking_restore_node [shrinks]:
  "(\<And>rg p. shrinking (body rg p)) \<Longrightarrow> shrinking (restore_node get put body p)"
  by (rule shrinkingI) (fastforce simp: restore_node_def bind_res_eq_Inr dest: shrinkingD)

lemma shrinking_UB [shrinks]: "shrinking (\<lambda>_. Inl e)"
  by (rule shrinkingI) simp

lemma shrinking_restore_nodes:
  assumes "\<And>rg p. shrinking (body rg p)"
  shows "shrinking (restore_nodes get put body ps)"
proof (induction ps)
  case Nil
  then show ?case by (simp add: shrinks)
next
  case (Cons p ps)
  have "shrinking (restore_node get put body p)" using assms by (rule shrinking_restore_node)
  with Cons show ?case unfolding restore_nodes.simps
    by (intro shrinking_exec_stmts) (auto intro: shrinking_match_p_abs)
qed

lemma shrinking_HEADER_RESTORE [shrinks]:
  "(\<And>rg p. shrinking (body rg p)) \<Longrightarrow> shrinking (HEADER_RESTORE get put body ps)"
  by (simp add: HEADER_RESTORE_def shrinking_restore_nodes shrinking_UB)

lemma shrinking_HEADER_RESTORE_BUF [shrinks]:
  "(\<And>rg p. shrinking (body rg p)) \<Longrightarrow> shrinking (HEADER_RESTORE_BUF get put body ps)"
  by (cases ps) (simp_all add: HEADER_RESTORE_BUF_def shrinking_restore_node shrinking_UB)

section \<open>What the two sides of a type owe each other\<close>

text \<open>
  \<open>chain_ok\<close> relates the chain \<open>ps\<close> of the dumped process to the chain \<open>qs\<close> the restoring
  process has allocated for it: the same offsets node by node, and a pair of objects that satisfies
  the condition of the type. \<open>chain_restored\<close> is what a restore leaves behind: at every node of
  \<open>qs\<close> the relocated image of the dumped object, and nothing changed elsewhere.
\<close>

type_synonym 'n node_cond = "dump_ctx \<Rightarrow> registry \<Rightarrow> pool_node \<Rightarrow> pool_node \<Rightarrow> 'n \<Rightarrow> 'n \<Rightarrow> bool"
type_synonym 'n node_image = "dump_ctx \<Rightarrow> registry \<Rightarrow> pool_node \<Rightarrow> pool_node \<Rightarrow> 'n \<Rightarrow> 'n \<Rightarrow> 'n"
type_synonym obj_cond = "obj node_cond"
type_synonym obj_image = "obj node_image"

definition node_ok :: "obj_cond \<Rightarrow> dump_ctx \<Rightarrow> registry \<Rightarrow> mem \<Rightarrow> pool_node \<Rightarrow> pool_node \<Rightarrow> bool" where
  "node_ok cond c rg m p q \<longleftrightarrow> p_abs q = p_abs p \<and>
     (case (dc_mem c (p_raw p), m (p_raw q)) of
        (Some ob, Some ob0) \<Rightarrow> cond c rg p q ob ob0 | _ \<Rightarrow> False)"

definition node_restored :: "obj_image \<Rightarrow> dump_ctx \<Rightarrow> registry \<Rightarrow> mem \<Rightarrow> mem \<Rightarrow> pool_node \<Rightarrow> pool_node \<Rightarrow> bool" where
  "node_restored img c rg m m' p q \<longleftrightarrow>
     m' (p_raw q) = Some (img c rg p q (the (dc_mem c (p_raw p))) (the (m (p_raw q))))"

definition chain_ok :: "obj_cond \<Rightarrow> dump_ctx \<Rightarrow> registry \<Rightarrow> mem \<Rightarrow> pool_chain \<Rightarrow> pool_chain \<Rightarrow> bool" where
  "chain_ok cond c rg m ps qs \<longleftrightarrow> list_all2 (node_ok cond c rg m) ps qs"

definition chain_restored :: "obj_image \<Rightarrow> dump_ctx \<Rightarrow> registry \<Rightarrow> mem \<Rightarrow> mem \<Rightarrow> pool_chain \<Rightarrow> pool_chain \<Rightarrow> bool" where
  "chain_restored img c rg m m' ps qs \<longleftrightarrow> list_all2 (node_restored img c rg m m') ps qs \<and>
     (\<forall>a. a \<notin> p_raw ` set qs \<longrightarrow> m' a = m a)"

definition lift_cond :: "(obj \<Rightarrow> 'n option) \<Rightarrow> 'n node_cond \<Rightarrow> obj_cond" where
  "lift_cond get ok c rg p q ob ob0 \<longleftrightarrow>
     (case (get ob, get ob0) of (Some n, Some n0) \<Rightarrow> ok c rg p q n n0 | _ \<Rightarrow> False)"

definition lift_image :: "(obj \<Rightarrow> 'n option) \<Rightarrow> ('n \<Rightarrow> obj) \<Rightarrow> 'n node_image \<Rightarrow> obj_image" where
  "lift_image get put img c rg p q ob ob0 = put (img c rg p q (the (get ob)) (the (get ob0)))"

lemma chain_ok_cong:
  assumes "\<And>q. q \<in> set qs \<Longrightarrow> m (p_raw q) = m1 (p_raw q)"
  shows "chain_ok cond c rg m ps qs = chain_ok cond c rg m1 ps qs"
  unfolding chain_ok_def by (rule list.rel_cong) (simp_all add: node_ok_def assms)

lemma nodes_restored_cong:
  assumes "\<And>q. q \<in> set qs \<Longrightarrow> m (p_raw q) = m1 (p_raw q)"
  shows "list_all2 (node_restored img c rg m m') ps qs = list_all2 (node_restored img c rg m1 m') ps qs"
  by (rule list.rel_cong) (simp_all add: node_restored_def assms)

lemma chain_restored_step:
  assumes m1: "m1 = m(p_raw q := Some (img c rg p q (the (dc_mem c (p_raw p))) (the (m (p_raw q)))))"
    and r: "chain_restored img c rg m1 m' ps qs" and q: "p_raw q \<notin> p_raw ` set qs"
  shows "chain_restored img c rg m m' (p # ps) (q # qs)"
proof -
  have "m x = m1 x" if "x \<in> p_raw ` set qs" for x using q that m1 by (metis fun_upd_other)
  then have "list_all2 (node_restored img c rg m m') ps qs"
    using r nodes_restored_cong [of qs m m1] by (simp add: chain_restored_def)
  with r q m1 show ?thesis by (auto simp: chain_restored_def node_restored_def)
qed

text \<open>
  The contract of a handler pair for type \<open>t\<close>: whatever follows in the image, restoring the bytes
  that were dumped for a chain leaves the stream right after them and the chain restored, the
  registry untouched. \<open>arr\<close> tells whether the handlers walk the whole chain or only its head.
\<close>

locale image_handler =
  fixes t :: Data_Type and arr :: bool and D :: dump_handler and R :: restore_handler
    and cond :: obj_cond and img :: obj_image
  assumes handler_roundtrip:
    "ps \<noteq> [] \<Longrightarrow> arr \<or> length ps = 1 \<Longrightarrow> distinct (map p_raw qs) \<Longrightarrow>
     chain_ok cond c (rs_rg st) (rs_mem st) ps qs \<Longrightarrow>
     \<exists>bs. D c ps = Inr (dump_header t (hd ps) @ bs) \<and>
       (\<exists>st'. (\<forall>fp. R qs (st, bs @ fp) = Inr (st', fp)) \<and> rs_rg st' = rs_rg st \<and>
         chain_restored img c (rs_rg st) (rs_mem st) (rs_mem st') ps qs)"

locale node_codec =
  fixes get :: "obj \<Rightarrow> 'n option" and put :: "'n \<Rightarrow> obj"
    and dbody :: "'n dump_body" and rbody :: "'n restore_body"
    and ok :: "'n node_cond" and img :: "'n node_image"
  assumes body_roundtrip: "ok c rg p q n n0 \<Longrightarrow>
     \<exists>bs. dbody c p n = Inr bs \<and> (\<forall>fp. rbody rg q (n0, bs @ fp) = Inr (img c rg p q n n0, fp))"
begin

lemma node_roundtrip:
  assumes "node_ok (lift_cond get ok) c (rs_rg st) (rs_mem st) p q"
  shows "\<exists>n bs st'. load get (dc_mem c) (p_raw p) = Inr n \<and> dbody c p n = Inr bs \<and>
     (\<forall>fp. restore_node get put rbody q (st, bs @ fp) = Inr (st', fp)) \<and> rs_rg st' = rs_rg st \<and>
     rs_mem st' = (rs_mem st)(p_raw q := Some (lift_image get put img c (rs_rg st) p q
       (the (dc_mem c (p_raw p))) (the (rs_mem st (p_raw q)))))"
proof -
  obtain ob ob0 n n0 where *: "dc_mem c (p_raw p) = Some ob" "rs_mem st (p_raw q) = Some ob0"
    "get ob = Some n" "get ob0 = Some n0" "ok c (rs_rg st) p q n n0"
    using assms by (auto simp: node_ok_def lift_cond_def split: option.splits)
  then obtain bs where bs: "dbody c p n = Inr bs"
    "\<And>fp. rbody (rs_rg st) q (n0, bs @ fp) = Inr (img c (rs_rg st) p q n n0, fp)"
    using body_roundtrip by blast
  define st' where "st' = st\<lparr>rs_mem := (rs_mem st)(p_raw q := Some (put (img c (rs_rg st) p q n n0)))\<rparr>"
  have "restore_node get put rbody q (st, bs @ fp) = Inr (st', fp)" for fp
    using * bs by (simp add: restore_node_def st'_def)
  with * bs show ?thesis
    by (intro exI [of _ n] exI [of _ bs] exI [of _ st']) (simp add: st'_def lift_image_def)
qed

lemma nodes_roundtrip:
  "distinct (map p_raw qs) \<Longrightarrow> chain_ok (lift_cond get ok) c (rs_rg st) (rs_mem st) ps qs \<Longrightarrow>
     \<exists>bs. dump_nodes get dbody c ps = Inr bs \<and>
       (\<exists>st'. (\<forall>fp. restore_nodes get put rbody qs (st, bs @ fp) = Inr (st', fp)) \<and> rs_rg st' = rs_rg st \<and>
         chain_restored (lift_image get put img) c (rs_rg st) (rs_mem st) (rs_mem st') ps qs)"
proof (induction ps arbitrary: qs st)
  case Nil
  then show ?case by (auto simp: chain_ok_def chain_restored_def)
next
  case (Cons p ps)
  then obtain q qs' where qs: "qs = q # qs'" and ok1: "node_ok (lift_cond get ok) c (rs_rg st) (rs_mem st) p q"
    and ok2: "chain_ok (lift_cond get ok) c (rs_rg st) (rs_mem st) ps qs'"
    by (auto simp: chain_ok_def list_all2_Cons1)
  obtain n bs1 st1 where n: "load get (dc_mem c) (p_raw p) = Inr n" "dbody c p n = Inr bs1"
    "\<And>fp. restore_node get put rbody q (st, bs1 @ fp) = Inr (st1, fp)" "rs_rg st1 = rs_rg st"
    and m1: "rs_mem st1 = (rs_mem st)(p_raw q := Some (lift_image get put img c (rs_rg st) p q
       (the (dc_mem c (p_raw p))) (the (rs_mem st (p_raw q)))))"
    using node_roundtrip [OF ok1] by blast
  have d: "distinct (map p_raw qs')" "p_raw q \<notin> p_raw ` set qs'" using Cons.prems(1) qs by auto
  have "rs_mem st x = rs_mem st1 x" if "x \<in> p_raw ` set qs'" for x
    using d(2) that m1 by (metis fun_upd_other)
  then have "chain_ok (lift_cond get ok) c (rs_rg st1) (rs_mem st1) ps qs'"
    using ok2 chain_ok_cong [of qs' "rs_mem st" "rs_mem st1"] n(4) by simp
  then obtain bs2 st2 where s2: "dump_nodes get dbody c ps = Inr bs2"
    "\<And>fp. restore_nodes get put rbody qs' (st1, bs2 @ fp) = Inr (st2, fp)" "rs_rg st2 = rs_rg st1"
    "chain_restored (lift_image get put img) c (rs_rg st1) (rs_mem st1) (rs_mem st2) ps qs'"
    using Cons.IH [OF d(1), of st1] by blast
  have "chain_restored (lift_image get put img) c (rs_rg st) (rs_mem st) (rs_mem st2) (p # ps) qs"
    unfolding qs using m1 s2(4) d(2) unfolding n(4) by (rule chain_restored_step)
  moreover have "p_abs q = p_abs p" using ok1 by (simp add: node_ok_def)
  then have "restore_nodes get put rbody qs (st, (fwrite_u32 (p_abs p) @ bs1 @ bs2) @ fp) = Inr (st2, fp)" for fp
    using match_p_abs_back [of q st "bs1 @ bs2 @ fp"] n(3) s2(2) by (simp add: qs)
  ultimately show ?case using n(1,2,4) s2(1,3) by auto
qed

end

text \<open>Handlers over the whole chain, and over its head only.\<close>

sublocale node_codec \<subseteq> array: image_handler t True "HEADER_DUMP t get dbody"
  "HEADER_RESTORE get put rbody" "lift_cond get ok" "lift_image get put img" for t
proof
  fix ps qs c and st :: restore_st
  assume *: "ps \<noteq> []" "distinct (map p_raw qs)" "chain_ok (lift_cond get ok) c (rs_rg st) (rs_mem st) ps qs"
  then have "qs \<noteq> []" by (auto simp: chain_ok_def)
  with nodes_roundtrip [OF *(2,3)] *(1) show "\<exists>bs. HEADER_DUMP t get dbody c ps = Inr (dump_header t (hd ps) @ bs) \<and>
     (\<exists>st'. (\<forall>fp. HEADER_RESTORE get put rbody qs (st, bs @ fp) = Inr (st', fp)) \<and> rs_rg st' = rs_rg st \<and>
       chain_restored (lift_image get put img) c (rs_rg st) (rs_mem st) (rs_mem st') ps qs)"
    by (cases ps) (auto simp: HEADER_DUMP_def HEADER_RESTORE_def simp del: dump_nodes.simps)
qed

sublocale node_codec \<subseteq> head: image_handler t False "HEADER_DUMP_BUF t get dbody"
  "HEADER_RESTORE_BUF get put rbody" "lift_cond get ok" "lift_image get put img" for t
proof
  fix ps qs c and st :: restore_st
  assume *: "ps \<noteq> []" "False \<or> length ps = 1" "chain_ok (lift_cond get ok) c (rs_rg st) (rs_mem st) ps qs"
  then obtain p where ps: "ps = [p]" by (cases ps) auto
  with *(3) obtain q where qs: "qs = [q]" and ok1: "node_ok (lift_cond get ok) c (rs_rg st) (rs_mem st) p q"
    by (auto simp: chain_ok_def list_all2_Cons1)
  show "\<exists>bs. HEADER_DUMP_BUF t get dbody c ps = Inr (dump_header t (hd ps) @ bs) \<and>
     (\<exists>st'. (\<forall>fp. HEADER_RESTORE_BUF get put rbody qs (st, bs @ fp) = Inr (st', fp)) \<and> rs_rg st' = rs_rg st \<and>
       chain_restored (lift_image get put img) c (rs_rg st) (rs_mem st) (rs_mem st') ps qs)"
    using node_roundtrip [OF ok1] unfolding ps qs
    by (auto simp: HEADER_DUMP_BUF_def HEADER_RESTORE_BUF_def chain_restored_def node_restored_def)
qed

text \<open>A restore handler that first records the address of its node in a static.\<close>

definition with_static :: "(addr \<Rightarrow> restore_st \<Rightarrow> restore_st) \<Rightarrow> restore_handler \<Rightarrow> restore_handler" where
  "with_static f R qs = (\<lambda>(st, fp). case qs of [] \<Rightarrow> Inl (UB ''NULL Pool_Info'')
     | q # _ \<Rightarrow> R qs (f (p_raw q) st, fp))"

lemma image_handler_with_static:
  assumes "image_handler t arr D R cond img"
    and "\<And>a st. rs_rg (f a st) = rs_rg st" "\<And>a st. rs_mem (f a st) = rs_mem st"
  shows "image_handler t arr D (with_static f R) cond img"
proof
  fix ps qs c and st :: restore_st
  assume *: "ps \<noteq> []" "arr \<or> length ps = 1" "distinct (map p_raw qs)" "chain_ok cond c (rs_rg st) (rs_mem st) ps qs"
  then obtain q qs' where qs: "qs = q # qs'" by (cases qs) (auto simp: chain_ok_def)
  from * have "chain_ok cond c (rs_rg (f (p_raw q) st)) (rs_mem (f (p_raw q) st)) ps qs" by (simp add: assms)
  from image_handler.handler_roundtrip [OF assms(1) *(1-3) this]
  show "\<exists>bs. D c ps = Inr (dump_header t (hd ps) @ bs) \<and>
     (\<exists>st'. (\<forall>fp. with_static f R qs (st, bs @ fp) = Inr (st', fp)) \<and> rs_rg st' = rs_rg st \<and>
       chain_restored img c (rs_rg st) (rs_mem st) (rs_mem st') ps qs)"
    by (simp add: with_static_def qs assms)
qed

lemma shrinking_with_static [shrinks]: "(\<And>qs. shrinking (R qs)) \<Longrightarrow> shrinking (with_static f R qs)"
  by (rule shrinkingI) (auto simp: with_static_def dest: shrinkingD split: list.split_asm)

end
