(* ===== verification/Dump.thy ===== *)
theory Dump
  imports Image_IO
begin

text \<open>
  The dump handlers of src/core/iwasm/common/wasm_dump.c, in the order of the file. Each maps the
  chain of a registered array to the bytes it appends to dump.img (frame.img for
  \<open>dump_WASMInterpFrame\<close>), or to the way the process ends. For a handler \<open>dump_X\<close>, \<open>X_bytes\<close>
  is the body of its loop after the \<open>p_abs\<close> of the node. Handlers that only print write nothing.
\<close>

section \<open>Buffers and arrays of pointers\<close>

definition buf_bytes :: "nat \<Rightarrow> (byte list) dump_body" where
  "buf_bytes k c p bs = fwrite_buf k (int_count (p_size p)) bs"

definition dump_char :: dump_handler where
  "dump_char = HEADER_DUMP_BUF charT as_Bytes (buf_bytes 1)"

definition dump_uint8 :: dump_handler where
  "dump_uint8 = HEADER_DUMP_BUF uint8T as_Bytes (buf_bytes 1)"

definition dump_uint16 :: dump_handler where
  "dump_uint16 = HEADER_DUMP_BUF uint16T as_Bytes (buf_bytes 2)"

definition dump_uint32 :: dump_handler where
  "dump_uint32 = HEADER_DUMP_BUF uint32T as_Bytes (buf_bytes 4)"

definition dump_uint64 :: dump_handler where
  "dump_uint64 = HEADER_DUMP_BUF uint64T as_Bytes (buf_bytes 8)"

text \<open>\<open>for (i = 0; i < addr->size; i++)\<close> compares two ints.\<close>

definition loop_count :: "u32 \<Rightarrow> nat" where
  "loop_count sz = nat (sint sz)"

definition ptrs_bytes :: "(addr list) dump_body" where
  "ptrs_bytes c p xs =
     (if length xs < loop_count (p_size p) then Inl (UB ''read past the object'')
      else Inr (concat (map (DUMP_PTR (dc_base c)) (take (loop_count (p_size p)) xs))))"

definition dump_charT :: dump_handler where
  "dump_charT = HEADER_DUMP_BUF charTT as_Ptrs ptrs_bytes"

definition dump_WASMFunctionT :: dump_handler where
  "dump_WASMFunctionT = HEADER_DUMP_BUF WASMFunctionTT as_Ptrs ptrs_bytes"

definition dump_WASMTypeT :: dump_handler where
  "dump_WASMTypeT = HEADER_DUMP_BUF WASMTypeTT as_Ptrs ptrs_bytes"

definition dump_WASMDataSegT :: dump_handler where
  "dump_WASMDataSegT = HEADER_DUMP_BUF WASMDataSegTT as_Ptrs ptrs_bytes"

definition dump_WASMMemoryInstanceT :: dump_handler where
  "dump_WASMMemoryInstanceT = HEADER_DUMP_BUF WASMMemoryInstanceTT as_Ptrs ptrs_bytes"

definition dump_WASMTableInstanceT :: dump_handler where
  "dump_WASMTableInstanceT = HEADER_DUMP_BUF WASMTableInstanceTT as_Ptrs ptrs_bytes"

section \<open>Handlers that write nothing\<close>

text \<open>The bodies of these functions are a \<open>printf\<close>, a \<open>return\<close> before the code, or empty.\<close>

definition dump_gc_heap_t :: dump_handler where "dump_gc_heap_t c ps = Inr []"
definition dump_WASIContext :: dump_handler where "dump_WASIContext c ps = Inr []"
definition dump_NativeSymbolsNode :: dump_handler where "dump_NativeSymbolsNode c ps = Inr []"
definition dump_WASIArguments :: dump_handler where "dump_WASIArguments c ps = Inr []"

text \<open>From \<open>dump_WASMThreadArg\<close> to \<open>dump_uvwasi_preopen_t\<close>; the wasm-c-api group from
  \<open>dump_wasm_instance_t\<close> to \<open>dump_LoadingModule\<close>; the four imports, \<open>dump_BlockAddr\<close> and
  \<open>dump_BlockType\<close>; from \<open>dump_WASMExportGlobInstance\<close> to the end of the file.\<close>

definition dump_wasi_stub :: dump_handler where "dump_wasi_stub c ps = Inr []"
definition dump_c_api_stub :: dump_handler where "dump_c_api_stub c ps = Inr []"
definition dump_import_stub :: dump_handler where "dump_import_stub c ps = Inr []"
definition dump_util_stub :: dump_handler where "dump_util_stub c ps = Inr []"
definition dump_WASMSharedMemNode :: dump_handler where "dump_WASMSharedMemNode c ps = Inr []"
definition dump_BlockAddr :: dump_handler where "dump_BlockAddr c ps = Inr []"
definition dump_BlockType :: dump_handler where "dump_BlockType c ps = Inr []"
definition dump_BranchBlockPatch :: dump_handler where "dump_BranchBlockPatch c ps = Inr []"

text \<open>These end in \<open>exit(1)\<close> after printing.\<close>

definition dump_WASMModuleInstanceCommon :: dump_handler where
  "dump_WASMModuleInstanceCommon c ps = Inl (Exit ''unsupported'')"
definition dump_WASMCApiFrame :: dump_handler where
  "dump_WASMCApiFrame c ps = Inl (Exit ''unsupported type'')"
definition dump_WASMBranchBlock :: dump_handler where
  "dump_WASMBranchBlock c ps = Inl (Exit ''WASMBranchBlock'')"
definition dump_BranchBlock :: dump_handler where
  "dump_BranchBlock c ps = Inl (Exit ''BranchBlock'')"
definition dump_WASMLoaderContext :: dump_handler where
  "dump_WASMLoaderContext c ps = Inl (Exit ''WASMLoaderContext'')"

section \<open>Values and common structs\<close>

text \<open>\<open>WASM_I32\<close> to \<open>WASM_F64\<close> are 0 to 3, \<open>WASM_ANYREF\<close> is 128 and \<open>WASM_FUNCREF\<close> 129.\<close>

definition wasm_val_t_bytes :: "wasm_val_t dump_body" where
  "wasm_val_t_bytes c p n = Inr (fwrite_u8 (va_kind n) @
     (if va_kind n \<in> {0, 1, 2, 3} then fwrite_u64 (va_of n)
      else if va_kind n \<in> {128, 129} then DUMP_PTR (dc_base c) (va_of n) else []))"

definition dump_wasm_val_t :: dump_handler where
  "dump_wasm_val_t = HEADER_DUMP wasm_val_tT as_wasm_val_t wasm_val_t_bytes"

definition WASMCommon_bytes :: "WASMCommon dump_body" where
  "WASMCommon_bytes c p n = Inr (fwrite_u32 (cm_module_type n) @ fwrite_u8 (cm_data n))"

definition dump_WASMModuleCommon :: dump_handler where
  "dump_WASMModuleCommon = HEADER_DUMP_BUF WASMModuleCommonT as_WASMCommon WASMCommon_bytes"

definition dump_WASMMemoryInstanceCommon :: dump_handler where
  "dump_WASMMemoryInstanceCommon =
     HEADER_DUMP_BUF WASMMemoryInstanceCommonT as_WASMCommon WASMCommon_bytes"

section \<open>The execution environment\<close>

text \<open>
  \<open>CHECK_IP\<close> is a conditional expression without parentheses around it, so in
  \<open>CHECK_IP(start_addr) && CHECK_IP(else_addr) && CHECK_IP(end_addr)\<close> the second and third
  conjuncts belong to the else branch of the first, where they follow \<open>0 &&\<close>: the condition is
  that of \<open>start_addr\<close> alone.
\<close>

definition CHECK_IP :: "WASMFunction \<Rightarrow> addr \<Rightarrow> bool" where
  "CHECK_IP f a \<longleftrightarrow> fn_code f \<le> a \<and> a \<le> fn_code f + ucast (fn_code_size f)"

definition null_block :: "BlockAddr \<Rightarrow> bool" where
  "null_block ba \<longleftrightarrow> ba_start_addr ba = 0 \<and> ba_else_addr ba = 0 \<and> ba_end_addr ba = 0"

definition code_offset :: "WASMFunction \<Rightarrow> addr \<Rightarrow> u32" where
  "code_offset f a = ucast (a - fn_code f)"

text \<open>The loop over \<open>module_inst->module->functions\<close> for one entry of the block cache; \<open>stuck\<close>
  is what happens when no function is left.\<close>

fun dump_block :: "dump_ctx \<Rightarrow> failure \<Rightarrow> BlockAddr \<Rightarrow> addr list \<Rightarrow> stream res" where
  "dump_block c stuck ba [] = Inl stuck"
| "dump_block c stuck ba (f # fs) =
     (if null_block ba then Inr (DUMP_PTR (dc_base c) 0)
      else bind_res (load as_WASMFunction (dc_mem c) f) (\<lambda>fn.
        if CHECK_IP fn (ba_start_addr ba)
        then Inr (DUMP_PTR (dc_base c) (fn_code fn) @ fwrite_u32 (code_offset fn (ba_start_addr ba)) @
          fwrite_u32 (code_offset fn (ba_else_addr ba)) @ fwrite_u32 (code_offset fn (ba_end_addr ba)))
        else dump_block c stuck ba fs))"

fun dump_blocks :: "dump_ctx \<Rightarrow> failure \<Rightarrow> addr list \<Rightarrow> BlockAddr list \<Rightarrow> stream res" where
  "dump_blocks c stuck fs [] = Inr []"
| "dump_blocks c stuck fs (ba # bas) =
     bind_res (dump_block c stuck ba fs) (\<lambda>bs. bind_res (dump_blocks c stuck fs bas) (\<lambda>rest. Inr (bs @ rest)))"

text \<open>The functions the loop can reach: \<open>function_count\<close> entries of the array.\<close>

definition module_functions :: "dump_ctx \<Rightarrow> addr \<Rightarrow> (failure \<times> addr list) res" where
  "module_functions c inst =
     bind_res (load as_WASMModuleInstance (dc_mem c) inst) (\<lambda>mi.
     bind_res (load as_WASMModule (dc_mem c) (mi_module mi)) (\<lambda>md.
     let k = unat (md_function_count md) in
     if k = 0 then Inr (Exit ''BlockAddr error'', [])
     else bind_res (load as_Ptrs (dc_mem c) (md_functions md)) (\<lambda>fs.
       Inr (if length fs < k then UB ''read past the object'' else Exit ''BlockAddr error'', take k fs))))"

definition WASMExecEnv_bytes :: "WASMExecEnv dump_body" where
  "WASMExecEnv_bytes c p n =
     bind_res (module_functions c (ee_module_inst n)) (\<lambda>(stuck, fs).
     bind_res (dump_blocks c stuck fs (ee_block_addr_cache n)) (\<lambda>cache.
     Inr (DUMP_PTR (dc_base c) (ee_next n) @ DUMP_PTR (dc_base c) (ee_prev n) @
       DUMP_PTR (dc_base c) (ee_module_inst n) @ DUMP_PTR (dc_base c) (ee_attachment n) @
       cache @ fwrite_u32 (ee_wasm_stack_size n))))"

definition dump_WASMExecEnv :: dump_handler where
  "dump_WASMExecEnv = HEADER_DUMP_BUF WASMExecEnvT as_WASMExecEnv WASMExecEnv_bytes"

section \<open>Memory consumption records and sections\<close>

definition WASMModuleMemConsumption_bytes :: "WASMModuleMemConsumption dump_body" where
  "WASMModuleMemConsumption_bytes c p n = Inr (
     fwrite_u32 (mc_total_size n) @ fwrite_u32 (mc_module_struct_size n) @
     fwrite_u32 (mc_types_size n) @ fwrite_u32 (mc_imports_size n) @
     fwrite_u32 (mc_functions_size n) @ fwrite_u32 (mc_tables_size n) @
     fwrite_u32 (mc_memories_size n) @ fwrite_u32 (mc_globals_size n) @
     fwrite_u32 (mc_exports_size n) @ fwrite_u32 (mc_table_segs_size n) @
     fwrite_u32 (mc_data_segs_size n) @ fwrite_u32 (mc_const_strs_size n))"

definition dump_WASMModuleMemConsumption :: dump_handler where
  "dump_WASMModuleMemConsumption = HEADER_DUMP WASMModuleMemConsumptionT as_WASMModuleMemConsumption WASMModuleMemConsumption_bytes"

definition WASMModuleInstMemConsumption_bytes :: "WASMModuleInstMemConsumption dump_body" where
  "WASMModuleInstMemConsumption_bytes c p n = Inr (
     fwrite_u32 (ic_total_size n) @ fwrite_u32 (ic_module_inst_struct_size n) @
     fwrite_u32 (ic_memories_size n) @ fwrite_u32 (ic_app_heap_size n) @
     fwrite_u32 (ic_tables_size n) @ fwrite_u32 (ic_globals_size n) @
     fwrite_u32 (ic_functions_size n) @ fwrite_u32 (ic_exports_size n))"

definition dump_WASMModuleInstMemConsumption :: dump_handler where
  "dump_WASMModuleInstMemConsumption = HEADER_DUMP WASMModuleInstMemConsumptionT as_WASMModuleInstMemConsumption WASMModuleInstMemConsumption_bytes"

definition WASMSection_bytes :: "WASMSection dump_body" where
  "WASMSection_bytes c p n = Inr (
     DUMP_PTR (dc_base c) (se_next n) @ fwrite_u32 (se_section_type n) @
     DUMP_PTR (dc_base c) (se_section_body n) @ fwrite_u32 (se_section_body_size n))"

definition dump_WASMSection :: dump_handler where
  "dump_WASMSection = HEADER_DUMP WASMSectionT as_WASMSection WASMSection_bytes"

section \<open>The module\<close>

definition WASMModule_bytes :: "WASMModule dump_body" where
  "WASMModule_bytes c p n = Inr (
     fwrite_u32 (md_module_type n) @ fwrite_u32 (md_type_count n) @
     fwrite_u32 (md_import_count n) @ fwrite_u32 (md_function_count n) @
     fwrite_u32 (md_table_count n) @ fwrite_u32 (md_memory_count n) @
     fwrite_u32 (md_global_count n) @ fwrite_u32 (md_export_count n) @
     fwrite_u32 (md_table_seg_count n) @ fwrite_u32 (md_data_seg_count n) @
     fwrite_u32 (md_import_function_count n) @ fwrite_u32 (md_import_table_count n) @
     fwrite_u32 (md_import_memory_count n) @ fwrite_u32 (md_import_global_count n) @
     DUMP_PTR (dc_base c) (md_import_functions n) @ DUMP_PTR (dc_base c) (md_import_tables n) @
     DUMP_PTR (dc_base c) (md_import_memories n) @ DUMP_PTR (dc_base c) (md_import_globals n) @
     DUMP_PTR (dc_base c) (md_types n) @ DUMP_PTR (dc_base c) (md_imports n) @
     DUMP_PTR (dc_base c) (md_functions n) @ DUMP_PTR (dc_base c) (md_tables n) @
     DUMP_PTR (dc_base c) (md_memories n) @ DUMP_PTR (dc_base c) (md_globals n) @
     DUMP_PTR (dc_base c) (md_exports n) @ DUMP_PTR (dc_base c) (md_table_segments n) @
     DUMP_PTR (dc_base c) (md_data_segments n) @ fwrite_u32 (md_start_function n) @
     fwrite_u32 (md_aux_data_end_global_index n) @ fwrite_u32 (md_aux_data_end n) @
     fwrite_u32 (md_aux_heap_base_global_index n) @ fwrite_u32 (md_aux_heap_base n) @
     fwrite_u32 (md_aux_stack_top_global_index n) @ fwrite_u32 (md_aux_stack_bottom n) @
     fwrite_u32 (md_aux_stack_size n) @ fwrite_u32 (md_malloc_function n) @
     fwrite_u32 (md_free_function n) @ fwrite_u32 (md_retain_function n) @
     fwrite_bool (md_possible_memory_grow n) @ DUMP_PTR (dc_base c) (md_const_str_list n) @
     fwrite_bool (md_is_wasi_module n))"

definition dump_WASMModule :: dump_handler where
  "dump_WASMModule = HEADER_DUMP WASMModuleT as_WASMModule WASMModule_bytes"

text \<open>\<open>local_types\<close> points right behind the struct, where the loader puts the types of the locals.\<close>

definition WASMFunction_bytes :: "WASMFunction dump_body" where
  "WASMFunction_bytes c p n =
     bind_res (if fn_local_types n = p_raw p + of_nat sizeof_WASMFunction
               then fwrite_buf 1 (unat (fn_local_count n)) (fn_tail n) else Inl (UB ''invalid access'')) (\<lambda>locals.
     Inr (DUMP_PTR (dc_base c) (fn_func_type n) @ fwrite_u32 (fn_local_count n) @
       fwrite_u16 (fn_param_cell_num n) @ fwrite_u16 (fn_ret_cell_num n) @ fwrite_u16 (fn_local_cell_num n) @
       DUMP_PTR (dc_base c) (fn_local_offsets n) @ fwrite_u32 (fn_max_stack_cell_num n) @
       fwrite_u32 (fn_max_block_num n) @ fwrite_bool (fn_has_op_memory_grow n) @
       fwrite_bool (fn_has_op_func_call n) @ fwrite_u32 (fn_code_size n) @
       DUMP_PTR (dc_base c) (fn_code n) @ locals))"

definition dump_WASMFunction :: dump_handler where
  "dump_WASMFunction = HEADER_DUMP_BUF WASMFunctionT as_WASMFunction WASMFunction_bytes"

text \<open>
  The switch over \<open>INIT_EXPR_TYPE_I32_CONST\<close> (0x41), \<open>I64\<close> (0x42), \<open>F32\<close> (0x43), \<open>F64\<close>
  (0x44), \<open>V128\<close> (0xFD), \<open>FUNCREF\<close> (0xD2), \<open>REFNULL\<close> (0xD0) and \<open>GET_GLOBAL\<close> (0x23): how many
  bytes of the union are written.
\<close>

definition init_expr_width :: "u8 \<Rightarrow> nat" where
  "init_expr_width t =
     (if t \<in> {0x41, 0x42, 0x43, 0x44} then 8
      else if t = 0xFD then 16
      else if t \<in> {0xD2, 0xD0} then 4
      else if t = 0x23 then 4
      else 8)"

definition dump_init_expr :: "InitializerExpression \<Rightarrow> stream" where
  "dump_init_expr n = fwrite_u8 (ie_init_expr_type n) @ take (init_expr_width (ie_init_expr_type n)) (ie_u n)"

definition WASMGlobal_bytes :: "WASMGlobal dump_body" where
  "WASMGlobal_bytes c p n = Inr (fwrite_u8 (gl_type n) @ fwrite_bool (gl_is_mutable n) @
     dump_init_expr (gl_init_expr n))"

definition dump_WASMGlobal :: dump_handler where
  "dump_WASMGlobal = HEADER_DUMP WASMGlobalT as_WASMGlobal WASMGlobal_bytes"

text \<open>
  The search of \<open>const_str_list\<close> for the node whose characters a name points at. The list may be
  cyclic in memory, so the loop may not end; it ends in the address of the node, or 0.
\<close>

partial_function (option) find_str_node :: "mem \<Rightarrow> addr \<Rightarrow> addr \<Rightarrow> addr res option" where
  "find_str_node m name a =
     (if a = 0 then Some (Inr 0)
      else case load as_StringNode m a of
             Inl e \<Rightarrow> Some (Inl e)
           | Inr sn \<Rightarrow> if sn_str sn = name then Some (Inr a) else find_str_node m name (sn_next sn))"

definition loop_res :: "'a res option \<Rightarrow> 'a res" where
  "loop_res r = (case r of None \<Rightarrow> Inl Diverge | Some x \<Rightarrow> x)"

definition const_str_list :: "dump_ctx \<Rightarrow> addr res" where
  "const_str_list c = bind_res (load as_WASMModule (dc_mem c) (dc_module c)) (\<lambda>md. Inr (md_const_str_list md))"

definition name_node :: "dump_ctx \<Rightarrow> addr \<Rightarrow> addr res" where
  "name_node c name = bind_res (const_str_list c) (\<lambda>a. loop_res (find_str_node (dc_mem c) name a))"

text \<open>Nothing is written when the name is not found.\<close>

definition dump_name :: "dump_ctx \<Rightarrow> addr \<Rightarrow> stream res" where
  "dump_name c name =
     bind_res (name_node c name) (\<lambda>s. Inr (if s = 0 then [] else DUMP_PTR (dc_base c) s))"

definition WASMExport_bytes :: "WASMExport dump_body" where
  "WASMExport_bytes c p n =
     bind_res (dump_name c (ex_name n)) (\<lambda>nm. Inr (nm @ fwrite_u8 (ex_kind n) @ fwrite_u32 (ex_index n)))"

definition dump_WASMExport :: dump_handler where
  "dump_WASMExport = HEADER_DUMP WASMExportT as_WASMExport WASMExport_bytes"

definition V128_bytes :: "WASMValue dump_body" where
  "V128_bytes c p n = Inr (take 16 n)"

definition dump_V128 :: dump_handler where
  "dump_V128 = HEADER_DUMP V128T as_WASMValue V128_bytes"

definition dump_WASMValue :: dump_handler where
  "dump_WASMValue = HEADER_DUMP WASMValueT as_WASMValue V128_bytes"

definition InitializerExpression_bytes :: "InitializerExpression dump_body" where
  "InitializerExpression_bytes c p n = Inr (dump_init_expr n)"

definition dump_InitializerExpression :: dump_handler where
  "dump_InitializerExpression =
     HEADER_DUMP InitializerExpressionT as_InitializerExpression InitializerExpression_bytes"

definition WASMType_bytes :: "WASMType dump_body" where
  "WASMType_bytes c p n =
     bind_res (fwrite_buf 1 (unat (ty_param_count n) + unat (ty_result_count n)) (ty_types n)) (\<lambda>types.
     Inr (fwrite_u16 (ty_param_count n) @ fwrite_u16 (ty_result_count n) @
       fwrite_u16 (ty_param_cell_num n) @ fwrite_u16 (ty_ret_cell_num n) @ types))"

definition dump_WASMType :: dump_handler where
  "dump_WASMType = HEADER_DUMP_BUF WASMTypeT as_WASMType WASMType_bytes"

definition WASMTable_bytes :: "WASMTable dump_body" where
  "WASMTable_bytes c p n = Inr (
     fwrite_u8 (tb_elem_type n) @ fwrite_u32 (tb_flags n) @ fwrite_u32 (tb_init_size n) @
     fwrite_u32 (tb_max_size n) @ fwrite_bool (tb_possible_grow n))"

definition dump_WASMTable :: dump_handler where
  "dump_WASMTable = HEADER_DUMP WASMTableT as_WASMTable WASMTable_bytes"

definition WASMMemory_bytes :: "WASMMemory dump_body" where
  "WASMMemory_bytes c p n = Inr (
     fwrite_u32 (me_flags n) @ fwrite_u32 (me_num_bytes_per_page n) @
     fwrite_u32 (me_init_page_count n) @ fwrite_u32 (me_max_page_count n))"

definition dump_WASMMemory :: dump_handler where
  "dump_WASMMemory = HEADER_DUMP WASMMemoryT as_WASMMemory WASMMemory_bytes"

text \<open>\<open>IMPORT_KIND_FUNC\<close>, \<open>TABLE\<close>, \<open>MEMORY\<close> and \<open>GLOBAL\<close> are 0 to 3.\<close>

definition dump_import_desc :: "dump_ctx \<Rightarrow> WASMImport \<Rightarrow> stream" where
  "dump_import_desc c n =
     (if im_kind n = 0 then
        DUMP_PTR (dc_base c) (imf_func_type n) @ fwrite_bool (imf_call_conv_raw n) @
        fwrite_bool (imf_call_conv_wasm_c_api n) @ fwrite_bool (imf_wasm_c_api_with_env n)
      else if im_kind n = 1 then
        fwrite_u8 (imt_elem_type n) @ fwrite_u32 (imt_flags n) @ fwrite_u32 (imt_init_size n) @
        fwrite_u32 (imt_max_size n) @ fwrite_bool (imt_possible_grow n)
      else if im_kind n = 2 then
        fwrite_u32 (imm_flags n) @ fwrite_u32 (imm_num_bytes_per_page n) @
        fwrite_u32 (imm_init_page_count n) @ fwrite_u32 (imm_max_page_count n)
      else if im_kind n = 3 then
        fwrite_u8 (img_type n) @ fwrite_bool (img_is_mutable n) @ take 16 (img_global_data_linked n) @
        fwrite_bool (img_is_linked n)
      else [])"

definition WASMImport_bytes :: "WASMImport dump_body" where
  "WASMImport_bytes c p n =
     bind_res (dump_name c (im_module_name n)) (\<lambda>mn.
     bind_res (dump_name c (im_field_name n)) (\<lambda>fnm.
     Inr (fwrite_u8 (im_kind n) @ mn @ fnm @ dump_import_desc c n)))"

definition dump_WASMImport :: dump_handler where
  "dump_WASMImport = HEADER_DUMP WASMImportT as_WASMImport WASMImport_bytes"

definition WASMTableSeg_bytes :: "WASMTableSeg dump_body" where
  "WASMTableSeg_bytes c p n = Inr (
     fwrite_u32 (ts_mode n) @ fwrite_u32 (ts_elem_type n) @ fwrite_bool (ts_is_dropped n) @
     fwrite_u32 (ts_table_index n) @ dump_init_expr (ts_base_offset n) @
     fwrite_u32 (ts_function_count n) @ DUMP_PTR (dc_base c) (ts_func_indexes n))"

definition dump_WASMTableSeg :: dump_handler where
  "dump_WASMTableSeg = HEADER_DUMP WASMTableSegT as_WASMTableSeg WASMTableSeg_bytes"

definition WASMDataSeg_bytes :: "WASMDataSeg dump_body" where
  "WASMDataSeg_bytes c p n = Inr (
     fwrite_u32 (ds_memory_index n) @ dump_init_expr (ds_base_offset n) @
     fwrite_u32 (ds_data_length n) @ DUMP_PTR (dc_base c) (ds_data n))"

definition dump_WASMDataSeg :: dump_handler where
  "dump_WASMDataSeg = HEADER_DUMP WASMDataSegT as_WASMDataSeg WASMDataSeg_bytes"

text \<open>\<open>str\<close> points right behind the struct, where the loader copies the characters.\<close>

definition StringNode_bytes :: "StringNode dump_body" where
  "StringNode_bytes c p n =
     bind_res (if sn_str n = p_raw p + of_nat sizeof_StringNode
               then fwrite_buf 1 (int_count (p_size p)) (sn_chars n) else Inl (UB ''invalid access'')) (\<lambda>chars.
     Inr (fwrite_u32 (p_size p) @ DUMP_PTR (dc_base c) (sn_next n) @ chars))"

definition dump_StringNode :: dump_handler where
  "dump_StringNode = HEADER_DUMP_BUF StringNodeT as_StringNode StringNode_bytes"

section \<open>Frames\<close>

definition wasm_get_func_code :: "mem \<Rightarrow> WASMFunctionInstance \<Rightarrow> addr res" where
  "wasm_get_func_code m fi =
     (if fi_is_import_func fi then Inr 0
      else bind_res (load as_WASMFunction m (fi_u fi)) (\<lambda>fn. Inr (fn_code fn)))"

text \<open>The difference of two pointers to objects of \<open>k\<close> bytes.\<close>

definition ptr_diff :: "nat \<Rightarrow> addr \<Rightarrow> addr \<Rightarrow> u64" where
  "ptr_diff k a b = word_of_int (sint (a - b) div int k)"

definition dump_ip :: "addr \<Rightarrow> addr \<Rightarrow> stream" where
  "dump_ip code a = (if a = 0 then fwrite_u64 (- 1) else fwrite_u64 (a - code))"

definition dump_branch_block :: "addr \<Rightarrow> addr \<Rightarrow> WASMBranchBlock \<Rightarrow> stream" where
  "dump_branch_block code sp_bottom bb =
     dump_ip code (bb_begin_addr bb) @ dump_ip code (bb_target_addr bb) @
     (if bb_frame_sp bb = 0 then fwrite_u64 (- 1) else fwrite_u64 (ptr_diff 4 (bb_frame_sp bb) sp_bottom)) @
     fwrite_u32 (bb_cell_num bb)"

text \<open>\<open>count\<close> cells from the address \<open>a\<close>, in the cells that start at \<open>lp\<close>.\<close>

definition fwrite_cells :: "addr \<Rightarrow> u32 list \<Rightarrow> addr \<Rightarrow> nat \<Rightarrow> stream res" where
  "fwrite_cells lp cells a count =
     (let i = unat (a - lp) div 4 in
      if unat (a - lp) mod 4 \<noteq> 0 \<or> length cells < i + count then Inl (UB ''read past the object'')
      else Inr (concat (map fwrite_u32 (take count (drop i cells)))))"

definition frame_lp :: "addr \<Rightarrow> addr" where
  "frame_lp self = self + of_nat offsetof_WASMInterpFrame_lp"

definition WASMInterpFrame_bytes :: "WASMInterpFrame dump_body" where
  "WASMInterpFrame_bytes c p n =
     (if fr_function n = 0 then Inr (DUMP_PTR (dc_base c) 0)
      else
        bind_res (load as_WASMFunctionInstance (dc_mem c) (fr_function n)) (\<lambda>fi.
        bind_res (wasm_get_func_code (dc_mem c) fi) (\<lambda>code.
        let lp = frame_lp (p_raw p);
            bb_num = unat (ucast (ptr_diff sizeof_WASMBranchBlock (fr_csp n) (fr_csp_bottom n)) :: u32) in
        if length (fr_blocks n) < bb_num then Inl (UB ''read past the object'')
        else
        bind_res (fwrite_cells lp (fr_cells n) lp (unat (fi_param_cell_num fi))) (\<lambda>params.
        bind_res (fwrite_cells lp (fr_cells n) (lp + 4 * ucast (fi_param_cell_num fi)) (unat (fi_local_cell_num fi))) (\<lambda>locals.
        bind_res (load as_WASMFunction (dc_mem c) (fi_u fi)) (\<lambda>fn.
        bind_res (fwrite_cells lp (fr_cells n) (fr_sp_bottom n) (unat (fn_max_stack_cell_num fn))) (\<lambda>stack.
        Inr (DUMP_PTR (dc_base c) (fr_function n) @ fwrite_u64 (fr_ip n - code) @
          fwrite_u64 (ptr_diff 4 (fr_sp n) (fr_sp_bottom n)) @ fwrite_u32 (of_nat bb_num) @
          concat (map (dump_branch_block code (fr_sp_bottom n)) (take bb_num (fr_blocks n))) @
          params @ locals @ stack))))))))"

definition dump_WASMInterpFrame :: dump_handler where
  "dump_WASMInterpFrame = HEADER_DUMP_BUF WASMInterpFrameT as_WASMInterpFrame WASMInterpFrame_bytes"

definition Const_bytes :: "Const dump_body" where
  "Const_bytes c p n = Inr (take 16 (co_value n) @ fwrite_u16 (co_slot_index n) @ fwrite_u8 (co_value_type n))"

definition dump_Const :: dump_handler where
  "dump_Const = HEADER_DUMP ConstT as_Const Const_bytes"

section \<open>The module instance\<close>

definition WASMModuleInstance_bytes :: "WASMModuleInstance dump_body" where
  "WASMModuleInstance_bytes c p n = Inr (
     fwrite_u32 (mi_module_type n) @ fwrite_u32 (mi_memory_count n) @
     fwrite_u32 (mi_table_count n) @ fwrite_u32 (mi_global_count n) @
     fwrite_u32 (mi_function_count n) @ fwrite_u32 (mi_export_func_count n) @
     DUMP_PTR (dc_base c) (mi_memories n) @ DUMP_PTR (dc_base c) (mi_tables n) @
     DUMP_PTR (dc_base c) (mi_globals n) @ DUMP_PTR (dc_base c) (mi_functions n) @
     DUMP_PTR (dc_base c) (mi_export_functions n) @ DUMP_PTR (dc_base c) (mi_default_memory n) @
     DUMP_PTR (dc_base c) (mi_default_table n) @ DUMP_PTR (dc_base c) (mi_global_data n) @
     DUMP_PTR (dc_base c) (mi_start_function n) @ DUMP_PTR (dc_base c) (mi_malloc_function n) @
     DUMP_PTR (dc_base c) (mi_free_function n) @ DUMP_PTR (dc_base c) (mi_retain_function n) @
     DUMP_PTR (dc_base c) (mi_module n) @ DUMP_PTR (dc_base c) (mi_exec_env_singleton n) @
     fwrite_u32 (mi_temp_ret n) @ fwrite_u32 (mi_llvm_stack n) @
     fwrite_u32 (mi_default_wasm_stack_size n) @ take 128 (mi_cur_exception n) @
     DUMP_PTR (dc_base c) (mi_custom_data n))"

definition dump_WASMModuleInstance :: dump_handler where
  "dump_WASMModuleInstance = HEADER_DUMP WASMModuleInstanceT as_WASMModuleInstance WASMModuleInstance_bytes"

text \<open>
  The search for the import whose \<open>u.function\<close> a function instance points at: it only steps
  an address by \<open>sizeof(WASMImport)\<close> and stops at the match, or when the address has wrapped
  round to NULL; with an address that is never either it does not end.
\<close>

partial_function (option) find_import :: "addr \<Rightarrow> addr \<Rightarrow> addr option" where
  "find_import target a =
     (if a = 0 then Some 0
      else if a + of_nat offsetof_WASMImport_u = target then Some a
      else find_import target (a + of_nat sizeof_WASMImport))"

definition dump_import_ref :: "dump_ctx \<Rightarrow> addr \<Rightarrow> stream res" where
  "dump_import_ref c target =
     bind_res (load as_WASMModule (dc_mem c) (dc_module c)) (\<lambda>md.
     bind_res (loop_res (map_option Inr (find_import target (md_import_functions md)))) (\<lambda>i.
     Inr (if i = 0 then [] else DUMP_PTR (dc_base c) i)))"

definition WASMFunctionInstance_bytes :: "WASMFunctionInstance dump_body" where
  "WASMFunctionInstance_bytes c p n =
     bind_res
       (if fi_is_import_func n then
          bind_res (dump_import_ref c (fi_u n)) (\<lambda>imp.
          bind_res (load as_WASMImport (dc_mem c) (fi_u n - of_nat offsetof_WASMImport_u)) (\<lambda>im.
          Inr (imp @ DUMP_PTR (dc_base c) (imf_func_type im))))
        else
          bind_res (load as_WASMFunction (dc_mem c) (fi_u n)) (\<lambda>fn.
          Inr (DUMP_PTR (dc_base c) (fi_u n) @ DUMP_PTR (dc_base c) (fi_local_offsets n) @
            DUMP_PTR (dc_base c) (fn_func_type fn)))) (\<lambda>refs.
     Inr (fwrite_bool (fi_is_import_func n) @ fwrite_u16 (fi_param_count n) @ fwrite_u16 (fi_local_count n) @
       fwrite_u16 (fi_param_cell_num n) @ fwrite_u16 (fi_ret_cell_num n) @ fwrite_u16 (fi_local_cell_num n) @ refs))"

definition dump_WASMFunctionInstance :: dump_handler where
  "dump_WASMFunctionInstance =
     HEADER_DUMP WASMFunctionInstanceT as_WASMFunctionInstance WASMFunctionInstance_bytes"

definition WASMMemoryInstance_bytes :: "WASMMemoryInstance dump_body" where
  "WASMMemoryInstance_bytes c p n = Inr (
     fwrite_u32 (mm_module_type n) @ fwrite_bool (mm_is_shared n) @ fwrite_u32 (mm_num_bytes_per_page n) @
     fwrite_u32 (mm_cur_page_count n) @ fwrite_u32 (mm_max_page_count n) @
     DUMP_PTR (dc_base c) (mm_memory_data n))"

definition dump_WASMMemoryInstance :: dump_handler where
  "dump_WASMMemoryInstance = HEADER_DUMP WASMMemoryInstanceT as_WASMMemoryInstance WASMMemoryInstance_bytes"

definition WASMTableInstance_bytes :: "WASMTableInstance dump_body" where
  "WASMTableInstance_bytes c p n =
     bind_res (fwrite_buf 4 (int_count (p_size p) div 4) (ti_base_addr n)) (\<lambda>elems.
     Inr (fwrite_u8 (ti_elem_type n) @ fwrite_u32 (ti_cur_size n) @ fwrite_u32 (ti_max_size n) @ elems))"

definition dump_WASMTableInstance :: dump_handler where
  "dump_WASMTableInstance = HEADER_DUMP_BUF WASMTableInstanceT as_WASMTableInstance WASMTableInstance_bytes"

text \<open>The switch is over \<open>type\<close>, a value type, with the codes of initializer expressions.\<close>

definition WASMGlobalInstance_bytes :: "WASMGlobalInstance dump_body" where
  "WASMGlobalInstance_bytes c p n = Inr (
     fwrite_u8 (gi_type n) @ fwrite_bool (gi_is_mutable n) @ fwrite_u32 (gi_data_offset n) @
     take (init_expr_width (gi_type n)) (gi_initial_value n))"

definition dump_WASMGlobalInstance :: dump_handler where
  "dump_WASMGlobalInstance = HEADER_DUMP WASMGlobalInstanceT as_WASMGlobalInstance WASMGlobalInstance_bytes"

text \<open>Here the search has no \<open>break\<close>: it writes every match and goes to the end of the list.\<close>

partial_function (option) dump_str_nodes :: "dump_ctx \<Rightarrow> addr \<Rightarrow> addr \<Rightarrow> stream \<Rightarrow> stream res option" where
  "dump_str_nodes c name a out =
     (if a = 0 then Some (Inr out)
      else case load as_StringNode (dc_mem c) a of
             Inl e \<Rightarrow> Some (Inl e)
           | Inr sn \<Rightarrow> dump_str_nodes c name (sn_next sn)
               (if sn_str sn = name then out @ DUMP_PTR (dc_base c) a else out))"

definition WASMExportFuncInstance_bytes :: "WASMExportFuncInstance dump_body" where
  "WASMExportFuncInstance_bytes c p n =
     bind_res (const_str_list c) (\<lambda>a.
     bind_res (loop_res (dump_str_nodes c (ef_name n) a [])) (\<lambda>nm.
     Inr (nm @ DUMP_PTR (dc_base c) (ef_function n))))"

definition dump_WASMExportFuncInstance :: dump_handler where
  "dump_WASMExportFuncInstance =
     HEADER_DUMP WASMExportFuncInstanceT as_WASMExportFuncInstance WASMExportFuncInstance_bytes"

section \<open>The dispatch table (wasm\_memory.c, init\_dump\_func)\<close>

text \<open>Which of the two images a handler writes to, and the handler. The tags \<open>base_addrT\<close> and
  \<open>WASI_FILE_T\<close> have no entry: the pointer in the static array is NULL.\<close>

datatype image_file = Dump_Img | Frame_Img

definition init_dump_func :: "(Data_Type \<times> image_file \<times> dump_handler) list" where
  "init_dump_func = [
     (charT, Dump_Img, dump_char), (charTT, Dump_Img, dump_charT), (uint8T, Dump_Img, dump_uint8),
     (uint16T, Dump_Img, dump_uint16), (uint32T, Dump_Img, dump_uint32),
     (uint64T, Dump_Img, dump_uint64), (gc_heap_tT, Dump_Img, dump_gc_heap_t),
     (WASIContextT, Dump_Img, dump_WASIContext), (WASMThreadArgT, Dump_Img, dump_wasi_stub),
     (ExternRefMapNodeT, Dump_Img, dump_wasi_stub), (fd_tableT, Dump_Img, dump_wasi_stub),
     (fd_prestatsT, Dump_Img, dump_wasi_stub), (argv_environ_valuesT, Dump_Img, dump_wasi_stub),
     (uvwasi_tT, Dump_Img, dump_wasi_stub), (uvwasi_preopen_tT, Dump_Img, dump_wasi_stub),
     (wasi_iovec_tT, Dump_Img, dump_util_stub), (wasi_ciovec_tT, Dump_Img, dump_util_stub),
     (wasm_val_tT, Dump_Img, dump_wasm_val_t), (wasm_instance_tT, Dump_Img, dump_c_api_stub),
     (wasm_engine_tT, Dump_Img, dump_c_api_stub), (wasm_store_tT, Dump_Img, dump_c_api_stub),
     (VectorT, Dump_Img, dump_c_api_stub), (wasm_valtype_tT, Dump_Img, dump_c_api_stub),
     (wasm_functype_tT, Dump_Img, dump_c_api_stub),
     (wasm_valtype_vec_tT, Dump_Img, dump_c_api_stub),
     (wasm_globaltype_tT, Dump_Img, dump_c_api_stub),
     (wasm_tabletype_tT, Dump_Img, dump_c_api_stub),
     (wasm_memorytype_tT, Dump_Img, dump_c_api_stub),
     (wasm_importtype_tT, Dump_Img, dump_c_api_stub),
     (wasm_byte_vec_tT, Dump_Img, dump_c_api_stub),
     (wasm_exporttype_tT, Dump_Img, dump_c_api_stub), (wasm_ref_tT, Dump_Img, dump_c_api_stub),
     (wasm_frame_tT, Dump_Img, dump_c_api_stub), (wasm_trap_tT, Dump_Img, dump_c_api_stub),
     (wasm_foreign_tT, Dump_Img, dump_c_api_stub), (wasm_module_ex_tT, Dump_Img, dump_c_api_stub),
     (wasm_func_tT, Dump_Img, dump_c_api_stub), (wasm_global_tT, Dump_Img, dump_c_api_stub),
     (wasm_table_tT, Dump_Img, dump_c_api_stub), (wasm_memory_tT, Dump_Img, dump_c_api_stub),
     (wasm_store_vec_tT, Dump_Img, dump_c_api_stub),
     (wasm_module_vec_tT, Dump_Img, dump_c_api_stub),
     (wasm_instance_vec_tT, Dump_Img, dump_c_api_stub),
     (wasm_extern_vec_tT, Dump_Img, dump_c_api_stub),
     (WASMRegisteredModuleT, Dump_Img, dump_c_api_stub),
     (LoadingModuleT, Dump_Img, dump_c_api_stub), (WASMExecEnvT, Dump_Img, dump_WASMExecEnv),
     (NativeSymbolsNodeT, Dump_Img, dump_NativeSymbolsNode),
     (WASMModuleCommonT, Dump_Img, dump_WASMModuleCommon),
     (WASMModuleInstanceCommonT, Dump_Img, dump_WASMModuleInstanceCommon),
     (WASMModuleMemConsumptionT, Dump_Img, dump_WASMModuleMemConsumption),
     (WASMModuleInstMemConsumptionT, Dump_Img, dump_WASMModuleInstMemConsumption),
     (WASMMemoryInstanceCommonT, Dump_Img, dump_WASMMemoryInstanceCommon),
     (WASMSectionT, Dump_Img, dump_WASMSection), (WASMCApiFrameT, Dump_Img, dump_WASMCApiFrame),
     (WASMSharedMemNodeT, Dump_Img, dump_WASMSharedMemNode),
     (WASMModuleT, Dump_Img, dump_WASMModule), (WASMFunctionT, Dump_Img, dump_WASMFunction),
     (WASMFunctionTT, Dump_Img, dump_WASMFunctionT), (WASMGlobalT, Dump_Img, dump_WASMGlobal),
     (WASMExportT, Dump_Img, dump_WASMExport), (V128T, Dump_Img, dump_V128),
     (WASMValueT, Dump_Img, dump_WASMValue),
     (InitializerExpressionT, Dump_Img, dump_InitializerExpression),
     (WASMTypeT, Dump_Img, dump_WASMType), (WASMTypeTT, Dump_Img, dump_WASMTypeT),
     (WASMTableT, Dump_Img, dump_WASMTable), (WASMMemoryT, Dump_Img, dump_WASMMemory),
     (WASMTableImportT, Dump_Img, dump_import_stub),
     (WASMMemoryImportT, Dump_Img, dump_import_stub),
     (WASMFunctionImportT, Dump_Img, dump_import_stub),
     (WASMGlobalImportT, Dump_Img, dump_import_stub), (WASMImportT, Dump_Img, dump_WASMImport),
     (WASMTableSegT, Dump_Img, dump_WASMTableSeg), (WASMDataSegT, Dump_Img, dump_WASMDataSeg),
     (WASMDataSegTT, Dump_Img, dump_WASMDataSegT), (BlockAddrT, Dump_Img, dump_BlockAddr),
     (WASIArgumentsT, Dump_Img, dump_WASIArguments), (StringNodeT, Dump_Img, dump_StringNode),
     (BlockTypeT, Dump_Img, dump_BlockType), (WASMBranchBlockT, Dump_Img, dump_WASMBranchBlock),
     (WASMInterpFrameT, Frame_Img, dump_WASMInterpFrame),
     (BranchBlockT, Dump_Img, dump_BranchBlock),
     (BranchBlockPatchT, Dump_Img, dump_BranchBlockPatch),
     (WASMLoaderContextT, Dump_Img, dump_WASMLoaderContext), (ConstT, Dump_Img, dump_Const),
     (WASMModuleInstanceT, Dump_Img, dump_WASMModuleInstance),
     (WASMFunctionInstanceT, Dump_Img, dump_WASMFunctionInstance),
     (WASMMemoryInstanceT, Dump_Img, dump_WASMMemoryInstance),
     (WASMMemoryInstanceTT, Dump_Img, dump_WASMMemoryInstanceT),
     (WASMTableInstanceT, Dump_Img, dump_WASMTableInstance),
     (WASMTableInstanceTT, Dump_Img, dump_WASMTableInstanceT),
     (WASMGlobalInstanceT, Dump_Img, dump_WASMGlobalInstance),
     (WASMExportFuncInstanceT, Dump_Img, dump_WASMExportFuncInstance),
     (WASMExportGlobInstanceT, Dump_Img, dump_util_stub),
     (WASMSubModInstNodeT, Dump_Img, dump_util_stub),
     (WASMRuntimeFrameT, Dump_Img, dump_util_stub), (WASMOpcodeT, Dump_Img, dump_util_stub),
     (WASMMiscEXTOpcodeT, Dump_Img, dump_util_stub),
     (WASMSimdEXTOpcodeT, Dump_Img, dump_util_stub),
     (WASMAtomicEXTOpcodeT, Dump_Img, dump_util_stub), (HashMapElemT, Dump_Img, dump_util_stub),
     (HashMapT, Dump_Img, dump_util_stub), (timer_ctx_tT, Dump_Img, dump_util_stub),
     (app_timer_tT, Dump_Img, dump_util_stub), (bh_queueT, Dump_Img, dump_util_stub),
     (bh_queue_nodeT, Dump_Img, dump_util_stub), (AtomicWaitInfoT, Dump_Img, dump_util_stub),
     (AtomicWaitNodeT, Dump_Img, dump_util_stub)]"

end
