(* ===== verification/Restore.thy ===== *)
theory Restore
  imports Dump
begin

text \<open>
  The restore handlers of src/core/iwasm/common/wasm_restore.c, in the order of the file. Each
  reads the bytes of one record from the image and fills the objects of the chain it is given.
  For a handler \<open>restore_X\<close>, \<open>X_fields\<close> is the body of its loop after the comparison of \<open>p_abs\<close>.
  A call of \<open>fwrite\<close> on these streams, which are open for reading, transfers nothing.
\<close>

section \<open>Buffers and arrays of pointers\<close>

definition buf_fields :: "nat \<Rightarrow> (byte list) restore_body" where
  "buf_fields k rg p = fread_buf k (int_count (p_size p))"

definition restore_char :: restore_handler where
  "restore_char = HEADER_RESTORE_BUF as_Bytes O_Bytes (buf_fields 1)"

definition restore_uint8 :: restore_handler where
  "restore_uint8 = HEADER_RESTORE_BUF as_Bytes O_Bytes (buf_fields 1)"

definition restore_uint16 :: restore_handler where
  "restore_uint16 = HEADER_RESTORE_BUF as_Bytes O_Bytes (buf_fields 2)"

definition restore_uint32 :: restore_handler where
  "restore_uint32 = HEADER_RESTORE_BUF as_Bytes O_Bytes (buf_fields 4)"

definition restore_uint64 :: restore_handler where
  "restore_uint64 = HEADER_RESTORE_BUF as_Bytes O_Bytes (buf_fields 8)"

fun restore_ptrs :: "registry \<Rightarrow> nat \<Rightarrow> nat \<Rightarrow> (addr list) stmt" where
  "restore_ptrs rg i 0 = skip"
| "restore_ptrs rg i (Suc k) =
     exec_stmts [
       on_node (\<lambda>xs. if length xs \<le> i then (\<lambda>_. Inl (UB ''write past the object''))
                     else restore_ptr rg (\<lambda>a xs. xs[i := a])),
       restore_ptrs rg (Suc i) k]"

definition ptrs_fields :: "(addr list) restore_body" where
  "ptrs_fields rg p = restore_ptrs rg 0 (loop_count (p_size p))"

definition restore_charT :: restore_handler where
  "restore_charT = HEADER_RESTORE_BUF as_Ptrs O_Ptrs ptrs_fields"

definition restore_WASMFunctionT :: restore_handler where
  "restore_WASMFunctionT = HEADER_RESTORE_BUF as_Ptrs O_Ptrs ptrs_fields"

definition restore_WASMTypeT :: restore_handler where
  "restore_WASMTypeT = HEADER_RESTORE_BUF as_Ptrs O_Ptrs ptrs_fields"

definition restore_WASMDataSegT :: restore_handler where
  "restore_WASMDataSegT = HEADER_RESTORE_BUF as_Ptrs O_Ptrs ptrs_fields"

definition restore_WASMMemoryInstanceT :: restore_handler where
  "restore_WASMMemoryInstanceT = HEADER_RESTORE_BUF as_Ptrs O_Ptrs ptrs_fields"

definition restore_WASMTableInstanceT :: restore_handler where
  "restore_WASMTableInstanceT = HEADER_RESTORE_BUF as_Ptrs O_Ptrs ptrs_fields"

section \<open>Handlers that read nothing\<close>

definition restore_gc_heap_t :: restore_handler where "restore_gc_heap_t ps = skip"
definition restore_WASIContext :: restore_handler where "restore_WASIContext ps = skip"
definition restore_NativeSymbolsNode :: restore_handler where "restore_NativeSymbolsNode ps = skip"
definition restore_WASMModuleCommon :: restore_handler where "restore_WASMModuleCommon ps = skip"
definition restore_WASMModuleInstanceCommon :: restore_handler where
  "restore_WASMModuleInstanceCommon ps = skip"
definition restore_WASMMemoryInstanceCommon :: restore_handler where
  "restore_WASMMemoryInstanceCommon ps = skip"
definition restore_wasi_stub :: restore_handler where "restore_wasi_stub ps = skip"
definition restore_c_api_stub :: restore_handler where "restore_c_api_stub ps = skip"
definition restore_import_stub :: restore_handler where "restore_import_stub ps = skip"
definition restore_util_stub :: restore_handler where "restore_util_stub ps = skip"
definition restore_WASMSharedMemNode :: restore_handler where "restore_WASMSharedMemNode ps = skip"
definition restore_BlockType :: restore_handler where "restore_BlockType ps = skip"
definition restore_BranchBlockPatch :: restore_handler where "restore_BranchBlockPatch ps = skip"

text \<open>These end in \<open>exit(1)\<close> after printing.\<close>

definition restore_WASMCApiFrame :: restore_handler where
  "restore_WASMCApiFrame ps = (\<lambda>_. Inl (Exit ''unsupported''))"
definition restore_BlockAddr :: restore_handler where
  "restore_BlockAddr ps = (\<lambda>_. Inl (Exit ''unsupported''))"
definition restore_WASIArguments :: restore_handler where
  "restore_WASIArguments ps = (\<lambda>_. Inl (Exit ''unsupported''))"
definition restore_BranchBlock :: restore_handler where
  "restore_BranchBlock ps = (\<lambda>_. Inl (Exit ''BranchBlock''))"
definition restore_WASMLoaderContext :: restore_handler where
  "restore_WASMLoaderContext ps = (\<lambda>_. Inl (Exit ''WASMLoaderContext''))"

section \<open>Values and branch blocks\<close>

text \<open>The loops of these two handlers have an \<open>fwrite\<close> where the others read and compare the
  \<open>p_abs\<close> of the node.\<close>

fun restore_nodes_unchecked ::
  "(obj \<Rightarrow> 'n option) \<Rightarrow> ('n \<Rightarrow> obj) \<Rightarrow> 'n restore_body \<Rightarrow> restore_handler" where
  "restore_nodes_unchecked get put body [] = skip"
| "restore_nodes_unchecked get put body (p # ps) =
     exec_stmts [restore_node get put body p, restore_nodes_unchecked get put body ps]"

definition wasm_val_t_fields :: "wasm_val_t restore_body" where
  "wasm_val_t_fields rg p = if_stmt (\<lambda>n. va_kind n \<in> {128, 129}) (RESTORE_PTR rg va_of_update) skip"

definition restore_wasm_val_t :: restore_handler where
  "restore_wasm_val_t ps = (if ps = [] then (\<lambda>_. Inl (UB ''NULL Pool_Info''))
     else restore_nodes_unchecked as_wasm_val_t O_wasm_val_t wasm_val_t_fields ps)"

definition WASMBranchBlock_fields :: "WASMBranchBlock restore_body" where
  "WASMBranchBlock_fields rg p = exec_stmts [
     RESTORE_PTR rg bb_begin_addr_update, RESTORE_PTR rg bb_target_addr_update,
     RESTORE_PTR rg bb_frame_sp_update]"

definition restore_WASMBranchBlock :: restore_handler where
  "restore_WASMBranchBlock ps = (if ps = [] then (\<lambda>_. Inl (UB ''NULL Pool_Info''))
     else restore_nodes_unchecked as_WASMBranchBlock O_WASMBranchBlock WASMBranchBlock_fields ps)"

section \<open>The execution environment\<close>

definition restore_code_ptr :: "addr \<Rightarrow> ((addr \<Rightarrow> addr) \<Rightarrow> BlockAddr \<Rightarrow> BlockAddr) \<Rightarrow> BlockAddr stmt" where
  "restore_code_ptr code = fread_as 4 (\<lambda>bs. ucast (le_word bs :: u32) + code)"

definition restore_block :: "registry \<Rightarrow> BlockAddr stmt" where
  "restore_block rg = read_info rg
     (assign (\<lambda>ba. ba\<lparr>ba_start_addr := 0, ba_else_addr := 0, ba_end_addr := 0\<rparr>))
     (\<lambda>code. exec_stmts [restore_code_ptr code ba_start_addr_update,
       restore_code_ptr code ba_else_addr_update, restore_code_ptr code ba_end_addr_update])"

fun restore_blocks_from :: "registry \<Rightarrow> BlockAddr list \<Rightarrow> stream \<Rightarrow> (BlockAddr list \<times> stream) res" where
  "restore_blocks_from rg [] fp = Inr ([], fp)"
| "restore_blocks_from rg (ba # bas) fp =
     bind_res (restore_block rg (ba, fp)) (\<lambda>(ba', fp').
     bind_res (restore_blocks_from rg bas fp') (\<lambda>(bas', fp''). Inr (ba' # bas', fp'')))"

definition restore_blocks :: "registry \<Rightarrow> (BlockAddr list) stmt" where
  "restore_blocks rg = (\<lambda>(bas, fp). restore_blocks_from rg bas fp)"

definition WASMExecEnv_fields :: "WASMExecEnv restore_body" where
  "WASMExecEnv_fields rg p = exec_stmts [
     RESTORE_PTR rg ee_next_update, RESTORE_PTR rg ee_prev_update,
     RESTORE_PTR rg ee_module_inst_update, RESTORE_PTR rg ee_attachment_update,
     on_member ee_block_addr_cache ee_block_addr_cache_update (restore_blocks rg),
     fread_u32 ee_wasm_stack_size_update,
     assign (\<lambda>n. n\<lparr>ee_top := p_raw p + of_nat offsetof_wasm_stack_bottom\<rparr>),
     assign (\<lambda>n. n\<lparr>ee_top_boundary := p_raw p + of_nat offsetof_wasm_stack_bottom
       + ucast (ee_wasm_stack_size n)\<rparr>)]"

definition restore_WASMExecEnv :: restore_handler where
  "restore_WASMExecEnv = with_static (\<lambda>a st. st\<lparr>rs_exec_env := a\<rparr>)
     (HEADER_RESTORE_BUF as_WASMExecEnv O_WASMExecEnv WASMExecEnv_fields)"

section \<open>Memory consumption records and sections\<close>

definition WASMModuleMemConsumption_fields :: "WASMModuleMemConsumption restore_body" where
  "WASMModuleMemConsumption_fields rg p = exec_stmts [
     fread_u32 mc_total_size_update, fread_u32 mc_module_struct_size_update,
     fread_u32 mc_types_size_update, fread_u32 mc_imports_size_update,
     fread_u32 mc_functions_size_update, fread_u32 mc_tables_size_update,
     fread_u32 mc_memories_size_update, fread_u32 mc_globals_size_update,
     fread_u32 mc_exports_size_update, fread_u32 mc_table_segs_size_update,
     fread_u32 mc_data_segs_size_update, fread_u32 mc_const_strs_size_update]"

definition restore_WASMModuleMemConsumption :: restore_handler where
  "restore_WASMModuleMemConsumption = HEADER_RESTORE as_WASMModuleMemConsumption O_WASMModuleMemConsumption WASMModuleMemConsumption_fields"

definition WASMModuleInstMemConsumption_fields :: "WASMModuleInstMemConsumption restore_body" where
  "WASMModuleInstMemConsumption_fields rg p = exec_stmts [
     fread_u32 ic_total_size_update, fread_u32 ic_module_inst_struct_size_update,
     fread_u32 ic_memories_size_update, fread_u32 ic_app_heap_size_update,
     fread_u32 ic_tables_size_update, fread_u32 ic_globals_size_update,
     fread_u32 ic_functions_size_update, fread_u32 ic_exports_size_update]"

definition restore_WASMModuleInstMemConsumption :: restore_handler where
  "restore_WASMModuleInstMemConsumption = HEADER_RESTORE as_WASMModuleInstMemConsumption O_WASMModuleInstMemConsumption WASMModuleInstMemConsumption_fields"

definition WASMSection_fields :: "WASMSection restore_body" where
  "WASMSection_fields rg p = exec_stmts [
     RESTORE_PTR rg se_next_update, fread_u32 se_section_type_update,
     RESTORE_PTR rg se_section_body_update, fread_u32 se_section_body_size_update]"

definition restore_WASMSection :: restore_handler where
  "restore_WASMSection = HEADER_RESTORE as_WASMSection O_WASMSection WASMSection_fields"

section \<open>The module\<close>

definition WASMModule_fields :: "WASMModule restore_body" where
  "WASMModule_fields rg p = exec_stmts [
     fread_u32 md_module_type_update, fread_u32 md_type_count_update,
     fread_u32 md_import_count_update, fread_u32 md_function_count_update,
     fread_u32 md_table_count_update, fread_u32 md_memory_count_update,
     fread_u32 md_global_count_update, fread_u32 md_export_count_update,
     fread_u32 md_table_seg_count_update, fread_u32 md_data_seg_count_update,
     fread_u32 md_import_function_count_update, fread_u32 md_import_table_count_update,
     fread_u32 md_import_memory_count_update, fread_u32 md_import_global_count_update,
     RESTORE_PTR rg md_import_functions_update, RESTORE_PTR rg md_import_tables_update,
     RESTORE_PTR rg md_import_memories_update, RESTORE_PTR rg md_import_globals_update,
     RESTORE_PTR rg md_types_update, RESTORE_PTR rg md_imports_update,
     RESTORE_PTR rg md_functions_update, RESTORE_PTR rg md_tables_update,
     RESTORE_PTR rg md_memories_update, RESTORE_PTR rg md_globals_update,
     RESTORE_PTR rg md_exports_update, RESTORE_PTR rg md_table_segments_update,
     RESTORE_PTR rg md_data_segments_update, fread_u32 md_start_function_update,
     fread_u32 md_aux_data_end_global_index_update, fread_u32 md_aux_data_end_update,
     fread_u32 md_aux_heap_base_global_index_update, fread_u32 md_aux_heap_base_update,
     fread_u32 md_aux_stack_top_global_index_update, fread_u32 md_aux_stack_bottom_update,
     fread_u32 md_aux_stack_size_update, fread_u32 md_malloc_function_update,
     fread_u32 md_free_function_update, fread_u32 md_retain_function_update,
     fread_bool md_possible_memory_grow_update, RESTORE_PTR rg md_const_str_list_update,
     fread_bool md_is_wasi_module_update]"

definition restore_WASMModule :: restore_handler where
  "restore_WASMModule = with_static (\<lambda>a st. st\<lparr>rs_module := a\<rparr>)
     (HEADER_RESTORE as_WASMModule O_WASMModule WASMModule_fields)"

definition WASMFunction_fields :: "WASMFunction restore_body" where
  "WASMFunction_fields rg p = exec_stmts [
     RESTORE_PTR rg fn_func_type_update, fread_u32 fn_local_count_update,
     assign (\<lambda>n. n\<lparr>fn_local_types := p_raw p + of_nat sizeof_WASMFunction\<rparr>),
     fread_u16 fn_param_cell_num_update, fread_u16 fn_ret_cell_num_update,
     fread_u16 fn_local_cell_num_update, RESTORE_PTR rg fn_local_offsets_update,
     fread_u32 fn_max_stack_cell_num_update, fread_u32 fn_max_block_num_update,
     fread_bool fn_has_op_memory_grow_update, fread_bool fn_has_op_func_call_update,
     fread_u32 fn_code_size_update, RESTORE_PTR rg fn_code_update,
     on_node (\<lambda>n. on_member fn_tail fn_tail_update (fread_buf 1 (unat (fn_local_count n))))]"

definition restore_WASMFunction :: restore_handler where
  "restore_WASMFunction = HEADER_RESTORE_BUF as_WASMFunction O_WASMFunction WASMFunction_fields"

definition restore_init_expr :: "InitializerExpression stmt" where
  "restore_init_expr = exec_stmts [fread_u8 ie_init_expr_type_update,
     on_node (\<lambda>n. fread_into (init_expr_width (ie_init_expr_type n)) ie_u_update)]"

definition WASMGlobal_fields :: "WASMGlobal restore_body" where
  "WASMGlobal_fields rg p = exec_stmts [fread_u8 gl_type_update, fread_bool gl_is_mutable_update,
     on_member gl_init_expr gl_init_expr_update restore_init_expr]"

definition restore_WASMGlobal :: restore_handler where
  "restore_WASMGlobal = HEADER_RESTORE as_WASMGlobal O_WASMGlobal WASMGlobal_fields"

text \<open>A name is restored as the characters behind the string node read from the image.\<close>

definition restore_name :: "registry \<Rightarrow> ((addr \<Rightarrow> addr) \<Rightarrow> 'n \<Rightarrow> 'n) \<Rightarrow> 'n stmt" where
  "restore_name rg upd = restore_ptr rg (\<lambda>a. upd (\<lambda>_. a + of_nat sizeof_StringNode))"

definition WASMExport_fields :: "WASMExport restore_body" where
  "WASMExport_fields rg p = exec_stmts [restore_name rg ex_name_update,
     fread_u8 ex_kind_update, fread_u32 ex_index_update]"

definition restore_WASMExport :: restore_handler where
  "restore_WASMExport = HEADER_RESTORE as_WASMExport O_WASMExport WASMExport_fields"

definition V128_fields :: "WASMValue restore_body" where
  "V128_fields rg p = fread_into 16 (\<lambda>f. f)"

definition restore_V128 :: restore_handler where
  "restore_V128 = HEADER_RESTORE as_WASMValue O_WASMValue V128_fields"

definition restore_WASMValue :: restore_handler where
  "restore_WASMValue = HEADER_RESTORE as_WASMValue O_WASMValue V128_fields"

definition InitializerExpression_fields :: "InitializerExpression restore_body" where
  "InitializerExpression_fields rg p = restore_init_expr"

definition restore_InitializerExpression :: restore_handler where
  "restore_InitializerExpression =
     HEADER_RESTORE as_InitializerExpression O_InitializerExpression InitializerExpression_fields"

definition WASMType_fields :: "WASMType restore_body" where
  "WASMType_fields rg p = exec_stmts [
     fread_u16 ty_param_count_update, fread_u16 ty_result_count_update,
     fread_u16 ty_param_cell_num_update, fread_u16 ty_ret_cell_num_update,
     on_node (\<lambda>n. on_member ty_types ty_types_update
       (fread_buf 1 (unat (ty_param_count n) + unat (ty_result_count n))))]"

definition restore_WASMType :: restore_handler where
  "restore_WASMType = HEADER_RESTORE_BUF as_WASMType O_WASMType WASMType_fields"

definition WASMTable_fields :: "WASMTable restore_body" where
  "WASMTable_fields rg p = exec_stmts [
     fread_u8 tb_elem_type_update, fread_u32 tb_flags_update, fread_u32 tb_init_size_update,
     fread_u32 tb_max_size_update, fread_bool tb_possible_grow_update]"

definition restore_WASMTable :: restore_handler where
  "restore_WASMTable = HEADER_RESTORE as_WASMTable O_WASMTable WASMTable_fields"

definition WASMMemory_fields :: "WASMMemory restore_body" where
  "WASMMemory_fields rg p = exec_stmts [
     fread_u32 me_flags_update, fread_u32 me_num_bytes_per_page_update,
     fread_u32 me_init_page_count_update, fread_u32 me_max_page_count_update]"

definition restore_WASMMemory :: restore_handler where
  "restore_WASMMemory = HEADER_RESTORE as_WASMMemory O_WASMMemory WASMMemory_fields"

definition restore_import_desc :: "registry \<Rightarrow> WASMImport stmt" where
  "restore_import_desc rg =
     if_stmt (\<lambda>n. im_kind n = 0) (exec_stmts [
        RESTORE_PTR rg imf_func_type_update, fread_bool imf_call_conv_raw_update,
        fread_bool imf_call_conv_wasm_c_api_update, fread_bool imf_wasm_c_api_with_env_update])
     (if_stmt (\<lambda>n. im_kind n = 1) (exec_stmts [
        fread_u8 imt_elem_type_update, fread_u32 imt_flags_update, fread_u32 imt_init_size_update,
        fread_u32 imt_max_size_update, fread_bool imt_possible_grow_update])
     (if_stmt (\<lambda>n. im_kind n = 2) (exec_stmts [
        fread_u32 imm_flags_update, fread_u32 imm_num_bytes_per_page_update,
        fread_u32 imm_init_page_count_update, fread_u32 imm_max_page_count_update])
     (if_stmt (\<lambda>n. im_kind n = 3) (exec_stmts [
        fread_u8 img_type_update, fread_bool img_is_mutable_update,
        fread_into 16 img_global_data_linked_update, fread_bool img_is_linked_update])
     skip)))"

definition WASMImport_fields :: "WASMImport restore_body" where
  "WASMImport_fields rg p = exec_stmts [fread_u8 im_kind_update, restore_name rg im_module_name_update,
     restore_name rg im_field_name_update, restore_import_desc rg]"

definition restore_WASMImport :: restore_handler where
  "restore_WASMImport = HEADER_RESTORE as_WASMImport O_WASMImport WASMImport_fields"

definition WASMTableSeg_fields :: "WASMTableSeg restore_body" where
  "WASMTableSeg_fields rg p = exec_stmts [
     fread_u32 ts_mode_update, fread_u32 ts_elem_type_update, fread_bool ts_is_dropped_update,
     fread_u32 ts_table_index_update, on_member ts_base_offset ts_base_offset_update restore_init_expr,
     fread_u32 ts_function_count_update, RESTORE_PTR rg ts_func_indexes_update]"

definition restore_WASMTableSeg :: restore_handler where
  "restore_WASMTableSeg = HEADER_RESTORE as_WASMTableSeg O_WASMTableSeg WASMTableSeg_fields"

definition WASMDataSeg_fields :: "WASMDataSeg restore_body" where
  "WASMDataSeg_fields rg p = exec_stmts [
     fread_u32 ds_memory_index_update, on_member ds_base_offset ds_base_offset_update restore_init_expr,
     fread_u32 ds_data_length_update, RESTORE_PTR rg ds_data_update]"

definition restore_WASMDataSeg :: restore_handler where
  "restore_WASMDataSeg = HEADER_RESTORE as_WASMDataSeg O_WASMDataSeg WASMDataSeg_fields"

definition match_size :: "pool_node \<Rightarrow> 'n stmt" where
  "match_size p = (\<lambda>(n, fp). bind_res (fread_raw 4 fp) (\<lambda>(bs, fp').
     if p_size p \<noteq> le_word bs then Inl (Exit ''StringNode size error'') else Inr (n, fp')))"

definition StringNode_fields :: "StringNode restore_body" where
  "StringNode_fields rg p = exec_stmts [match_size p, RESTORE_PTR rg sn_next_update,
     assign (\<lambda>n. n\<lparr>sn_str := p_raw p + of_nat sizeof_StringNode\<rparr>),
     on_member sn_chars sn_chars_update (fread_buf 1 (int_count (p_size p)))]"

definition restore_StringNode :: restore_handler where
  "restore_StringNode = HEADER_RESTORE_BUF as_StringNode O_StringNode StringNode_fields"

section \<open>Frames\<close>

definition restore_ip :: "addr \<Rightarrow> ((addr \<Rightarrow> addr) \<Rightarrow> WASMBranchBlock \<Rightarrow> WASMBranchBlock) \<Rightarrow> WASMBranchBlock stmt" where
  "restore_ip code = fread_as 8 (\<lambda>bs. if (le_word bs :: u64) = - 1 then 0 else le_word bs + code)"

definition restore_branch_block :: "addr \<Rightarrow> addr \<Rightarrow> WASMBranchBlock stmt" where
  "restore_branch_block code sp_bottom = exec_stmts [
     restore_ip code bb_begin_addr_update, restore_ip code bb_target_addr_update,
     fread_as 8 (\<lambda>bs. if (le_word bs :: u64) = - 1 then 0 else 4 * le_word bs + sp_bottom) bb_frame_sp_update,
     fread_u32 bb_cell_num_update]"

text \<open>The loop over the branch blocks writes \<open>*node->csp\<close> and steps it, \<open>k\<close> times from
  the \<open>i\<close>-th block on.\<close>

fun restore_branch_blocks :: "addr \<Rightarrow> nat \<Rightarrow> nat \<Rightarrow> WASMInterpFrame stmt" where
  "restore_branch_blocks code i 0 = skip"
| "restore_branch_blocks code i (Suc k) =
     exec_stmts [
       on_node (\<lambda>n. if length (fr_blocks n) \<le> i then (\<lambda>_. Inl (UB ''write past the object''))
         else on_member (\<lambda>n. fr_blocks n ! i) (\<lambda>f. fr_blocks_update (\<lambda>bs. bs[i := f (bs ! i)]))
           (restore_branch_block code (fr_sp_bottom n))),
       assign (fr_csp_update (\<lambda>a. a + of_nat sizeof_WASMBranchBlock)),
       restore_branch_blocks code (Suc i) k]"

definition restore_block_stack :: "addr \<Rightarrow> WASMInterpFrame stmt" where
  "restore_block_stack code = (\<lambda>(n, gp). bind_res (fread_raw 4 gp) (\<lambda>(bs, gp').
     restore_branch_blocks code 0 (unat (le_word bs :: u32)) (n, gp')))"

definition fread_cells :: "addr \<Rightarrow> addr \<Rightarrow> nat \<Rightarrow> WASMInterpFrame stmt" where
  "fread_cells lp a count = (\<lambda>(n, gp).
     let i = unat (a - lp) div 4; cells = fr_cells n in
     if unat (a - lp) mod 4 \<noteq> 0 \<or> length cells < i + count then Inl (UB ''write past the object'')
     else bind_res (fread_raw (4 * count) gp) (\<lambda>(bs, gp').
       Inr (n\<lparr>fr_cells := take i cells @ decode_array 4 le_word count bs @ drop (i + count) cells\<rparr>, gp')))"

definition WASMInterpFrame_body :: "addr \<Rightarrow> addr \<Rightarrow> WASMFunctionInstance \<Rightarrow> WASMFunction \<Rightarrow> WASMInterpFrame stmt" where
  "WASMInterpFrame_body lp code fi fn = exec_stmts [
     fread_as 8 (\<lambda>bs. le_word bs + code) fr_ip_update,
     assign (\<lambda>n. n\<lparr>fr_sp_bottom := lp + 4 * ucast (fi_param_cell_num fi) + 4 * ucast (fi_local_cell_num fi)\<rparr>),
     assign (\<lambda>n. n\<lparr>fr_sp_boundary := fr_sp_bottom n + 4 * ucast (fn_max_stack_cell_num fn)\<rparr>),
     on_node (\<lambda>n. fread_as 8 (\<lambda>bs. fr_sp_bottom n + 4 * le_word bs) fr_sp_update),
     assign (\<lambda>n. n\<lparr>fr_csp := fr_sp_boundary n, fr_csp_bottom := fr_sp_boundary n\<rparr>),
     assign (\<lambda>n. n\<lparr>fr_csp_boundary := fr_csp_bottom n + of_nat sizeof_WASMBranchBlock * ucast (fn_max_block_num fn)\<rparr>),
     restore_block_stack code,
     fread_cells lp lp (unat (fi_param_cell_num fi)),
     fread_cells lp (lp + 4 * ucast (fi_param_cell_num fi)) (unat (fi_local_cell_num fi)),
     on_node (\<lambda>n. fread_cells lp (fr_sp_bottom n) (unat (fn_max_stack_cell_num fn)))]"

definition WASMInterpFrame_fields :: "mem \<Rightarrow> WASMInterpFrame restore_body" where
  "WASMInterpFrame_fields m rg p = exec_stmts [RESTORE_PTR rg fr_function_update,
     on_node (\<lambda>n. if fr_function n = 0 then skip
       else (\<lambda>s. bind_res (load as_WASMFunctionInstance m (fr_function n)) (\<lambda>fi.
         bind_res (wasm_get_func_code m fi) (\<lambda>code.
         bind_res (load as_WASMFunction m (fi_u fi)) (\<lambda>fn.
         WASMInterpFrame_body (frame_lp (p_raw p)) code fi fn s)))))]"

text \<open>The frame handler reads from \<open>gp\<close>; the stream of its statement is that one.\<close>

definition restore_WASMInterpFrame :: restore_handler where
  "restore_WASMInterpFrame ps = (\<lambda>(st, gp).
     HEADER_RESTORE_BUF as_WASMInterpFrame O_WASMInterpFrame (WASMInterpFrame_fields (rs_mem st)) ps (st, gp))"

definition on_gp :: "restore_handler \<Rightarrow> restore_handler" where
  "on_gp R ps = (\<lambda>(st, fp). bind_res (R ps (st, rs_gp st)) (\<lambda>(st', gp'). Inr (st'\<lparr>rs_gp := gp'\<rparr>, fp)))"

definition Const_fields :: "Const restore_body" where
  "Const_fields rg p = exec_stmts [fread_into 16 co_value_update, fread_u16 co_slot_index_update,
     fread_u8 co_value_type_update]"

definition restore_Const :: restore_handler where
  "restore_Const = HEADER_RESTORE as_Const O_Const Const_fields"

section \<open>The module instance\<close>

definition WASMModuleInstance_fields :: "WASMModuleInstance restore_body" where
  "WASMModuleInstance_fields rg p = exec_stmts [
     fread_u32 mi_module_type_update, fread_u32 mi_memory_count_update,
     fread_u32 mi_table_count_update, fread_u32 mi_global_count_update,
     fread_u32 mi_function_count_update, fread_u32 mi_export_func_count_update,
     RESTORE_PTR rg mi_memories_update, RESTORE_PTR rg mi_tables_update,
     RESTORE_PTR rg mi_globals_update, RESTORE_PTR rg mi_functions_update,
     RESTORE_PTR rg mi_export_functions_update, RESTORE_PTR rg mi_default_memory_update,
     RESTORE_PTR rg mi_default_table_update, RESTORE_PTR rg mi_global_data_update,
     RESTORE_PTR rg mi_start_function_update, RESTORE_PTR rg mi_malloc_function_update,
     RESTORE_PTR rg mi_free_function_update, RESTORE_PTR rg mi_retain_function_update,
     RESTORE_PTR rg mi_module_update, RESTORE_PTR rg mi_exec_env_singleton_update,
     fread_u32 mi_temp_ret_update, fread_u32 mi_llvm_stack_update,
     fread_u32 mi_default_wasm_stack_size_update, fread_into 128 mi_cur_exception_update,
     RESTORE_PTR rg mi_custom_data_update]"

definition restore_WASMModuleInstance :: restore_handler where
  "restore_WASMModuleInstance = with_static (\<lambda>a st. st\<lparr>rs_module_inst := a\<rparr>)
     (HEADER_RESTORE as_WASMModuleInstance O_WASMModuleInstance WASMModuleInstance_fields)"

text \<open>\<open>type->types\<close> is the address of the array behind the four counts.\<close>

definition WASMFunctionInstance_fields :: "WASMFunctionInstance restore_body" where
  "WASMFunctionInstance_fields rg p = exec_stmts [
     fread_bool fi_is_import_func_update, fread_u16 fi_param_count_update, fread_u16 fi_local_count_update,
     fread_u16 fi_param_cell_num_update, fread_u16 fi_ret_cell_num_update, fread_u16 fi_local_cell_num_update,
     if_stmt fi_is_import_func
       (exec_stmts [
          restore_ptr rg (\<lambda>a n. n\<lparr>fi_u := a + of_nat offsetof_WASMImport_u\<rparr>),
          restore_ptr rg (\<lambda>a n. n\<lparr>fi_param_types := a + of_nat offsetof_WASMType_types\<rparr>)])
       (exec_stmts [
          RESTORE_PTR rg fi_u_update, RESTORE_PTR rg fi_local_offsets_update,
          restore_ptr rg (\<lambda>a n. n\<lparr>fi_param_types := a + of_nat offsetof_WASMType_types\<rparr>),
          assign (\<lambda>n. n\<lparr>fi_local_types := fi_u n + of_nat sizeof_WASMFunction\<rparr>)])]"

definition restore_WASMFunctionInstance :: restore_handler where
  "restore_WASMFunctionInstance =
     HEADER_RESTORE as_WASMFunctionInstance O_WASMFunctionInstance WASMFunctionInstance_fields"

definition WASMMemoryInstance_fields :: "WASMMemoryInstance restore_body" where
  "WASMMemoryInstance_fields rg p = exec_stmts [
     fread_u32 mm_module_type_update, fread_bool mm_is_shared_update,
     fread_u32 mm_num_bytes_per_page_update, fread_u32 mm_cur_page_count_update,
     fread_u32 mm_max_page_count_update, RESTORE_PTR rg mm_memory_data_update,
     assign (\<lambda>n. n\<lparr>mm_memory_data_end := mm_memory_data n
       + ucast (mm_num_bytes_per_page n) * ucast (mm_cur_page_count n)\<rparr>)]"

definition restore_WASMMemoryInstance :: restore_handler where
  "restore_WASMMemoryInstance =
     HEADER_RESTORE as_WASMMemoryInstance O_WASMMemoryInstance WASMMemoryInstance_fields"

definition WASMTableInstance_fields :: "WASMTableInstance restore_body" where
  "WASMTableInstance_fields rg p = exec_stmts [
     fread_u8 ti_elem_type_update, fread_u32 ti_cur_size_update, fread_u32 ti_max_size_update,
     on_member ti_base_addr ti_base_addr_update (fread_buf 4 (int_count (p_size p) div 4))]"

definition restore_WASMTableInstance :: restore_handler where
  "restore_WASMTableInstance =
     HEADER_RESTORE_BUF as_WASMTableInstance O_WASMTableInstance WASMTableInstance_fields"

text \<open>The case of the two reference codes calls \<open>fwrite\<close>.\<close>

definition WASMGlobalInstance_fields :: "WASMGlobalInstance restore_body" where
  "WASMGlobalInstance_fields rg p = exec_stmts [
     fread_u8 gi_type_update, fread_bool gi_is_mutable_update, fread_u32 gi_data_offset_update,
     on_node (\<lambda>n. if gi_type n \<in> {0xD2, 0xD0} then skip
       else fread_into (init_expr_width (gi_type n)) gi_initial_value_update)]"

definition restore_WASMGlobalInstance :: restore_handler where
  "restore_WASMGlobalInstance =
     HEADER_RESTORE as_WASMGlobalInstance O_WASMGlobalInstance WASMGlobalInstance_fields"

definition WASMExportFuncInstance_fields :: "WASMExportFuncInstance restore_body" where
  "WASMExportFuncInstance_fields rg p = exec_stmts [restore_name rg ef_name_update,
     RESTORE_PTR rg ef_function_update]"

definition restore_WASMExportFuncInstance :: restore_handler where
  "restore_WASMExportFuncInstance =
     HEADER_RESTORE as_WASMExportFuncInstance O_WASMExportFuncInstance WASMExportFuncInstance_fields"

section \<open>The dispatch table (init\_restore)\<close>

definition restore_data :: "(Data_Type \<times> restore_handler) list" where
  "restore_data = [
     (charT, restore_char), (charTT, restore_charT), (uint8T, restore_uint8),
     (uint16T, restore_uint16), (uint32T, restore_uint32), (uint64T, restore_uint64),
     (gc_heap_tT, restore_gc_heap_t), (WASIContextT, restore_WASIContext),
     (WASMThreadArgT, restore_wasi_stub), (ExternRefMapNodeT, restore_wasi_stub),
     (fd_tableT, restore_wasi_stub), (fd_prestatsT, restore_wasi_stub),
     (argv_environ_valuesT, restore_wasi_stub), (uvwasi_tT, restore_wasi_stub),
     (uvwasi_preopen_tT, restore_wasi_stub), (wasi_iovec_tT, restore_util_stub),
     (wasi_ciovec_tT, restore_util_stub), (wasm_val_tT, restore_wasm_val_t),
     (wasm_instance_tT, restore_c_api_stub), (wasm_engine_tT, restore_c_api_stub),
     (wasm_store_tT, restore_c_api_stub), (VectorT, restore_c_api_stub),
     (wasm_valtype_tT, restore_c_api_stub), (wasm_functype_tT, restore_c_api_stub),
     (wasm_valtype_vec_tT, restore_c_api_stub), (wasm_globaltype_tT, restore_c_api_stub),
     (wasm_tabletype_tT, restore_c_api_stub), (wasm_memorytype_tT, restore_c_api_stub),
     (wasm_importtype_tT, restore_c_api_stub), (wasm_byte_vec_tT, restore_c_api_stub),
     (wasm_exporttype_tT, restore_c_api_stub), (wasm_ref_tT, restore_c_api_stub),
     (wasm_frame_tT, restore_c_api_stub), (wasm_trap_tT, restore_c_api_stub),
     (wasm_foreign_tT, restore_c_api_stub), (wasm_module_ex_tT, restore_c_api_stub),
     (wasm_func_tT, restore_c_api_stub), (wasm_global_tT, restore_c_api_stub),
     (wasm_table_tT, restore_c_api_stub), (wasm_memory_tT, restore_c_api_stub),
     (wasm_store_vec_tT, restore_c_api_stub), (wasm_module_vec_tT, restore_c_api_stub),
     (wasm_instance_vec_tT, restore_c_api_stub), (wasm_extern_vec_tT, restore_c_api_stub),
     (WASMRegisteredModuleT, restore_c_api_stub), (LoadingModuleT, restore_c_api_stub),
     (WASMExecEnvT, restore_WASMExecEnv), (NativeSymbolsNodeT, restore_NativeSymbolsNode),
     (WASMModuleCommonT, restore_WASMModuleCommon),
     (WASMModuleInstanceCommonT, restore_WASMModuleInstanceCommon),
     (WASMModuleMemConsumptionT, restore_WASMModuleMemConsumption),
     (WASMModuleInstMemConsumptionT, restore_WASMModuleInstMemConsumption),
     (WASMMemoryInstanceCommonT, restore_WASMMemoryInstanceCommon),
     (WASMSectionT, restore_WASMSection), (WASMCApiFrameT, restore_WASMCApiFrame),
     (WASMSharedMemNodeT, restore_WASMSharedMemNode), (WASMModuleT, restore_WASMModule),
     (WASMFunctionT, restore_WASMFunction), (WASMFunctionTT, restore_WASMFunctionT),
     (WASMGlobalT, restore_WASMGlobal), (WASMExportT, restore_WASMExport), (V128T, restore_V128),
     (WASMValueT, restore_WASMValue), (InitializerExpressionT, restore_InitializerExpression),
     (WASMTypeT, restore_WASMType), (WASMTypeTT, restore_WASMTypeT),
     (WASMTableT, restore_WASMTable), (WASMMemoryT, restore_WASMMemory),
     (WASMTableImportT, restore_import_stub), (WASMMemoryImportT, restore_import_stub),
     (WASMFunctionImportT, restore_import_stub), (WASMGlobalImportT, restore_import_stub),
     (WASMImportT, restore_WASMImport), (WASMTableSegT, restore_WASMTableSeg),
     (WASMDataSegT, restore_WASMDataSeg), (WASMDataSegTT, restore_WASMDataSegT),
     (BlockAddrT, restore_BlockAddr), (WASIArgumentsT, restore_WASIArguments),
     (StringNodeT, restore_StringNode), (BlockTypeT, restore_BlockType),
     (WASMBranchBlockT, restore_WASMBranchBlock),
     (WASMInterpFrameT, on_gp restore_WASMInterpFrame), (BranchBlockT, restore_BranchBlock),
     (BranchBlockPatchT, restore_BranchBlockPatch),
     (WASMLoaderContextT, restore_WASMLoaderContext), (ConstT, restore_Const),
     (WASMModuleInstanceT, restore_WASMModuleInstance),
     (WASMFunctionInstanceT, restore_WASMFunctionInstance),
     (WASMMemoryInstanceT, restore_WASMMemoryInstance),
     (WASMMemoryInstanceTT, restore_WASMMemoryInstanceT),
     (WASMTableInstanceT, restore_WASMTableInstance),
     (WASMTableInstanceTT, restore_WASMTableInstanceT),
     (WASMGlobalInstanceT, restore_WASMGlobalInstance),
     (WASMExportFuncInstanceT, restore_WASMExportFuncInstance),
     (WASMExportGlobInstanceT, restore_util_stub), (WASMSubModInstNodeT, restore_util_stub),
     (WASMRuntimeFrameT, restore_util_stub), (WASMOpcodeT, restore_util_stub),
     (WASMMiscEXTOpcodeT, restore_util_stub), (WASMSimdEXTOpcodeT, restore_util_stub),
     (WASMAtomicEXTOpcodeT, restore_util_stub), (HashMapElemT, restore_util_stub),
     (HashMapT, restore_util_stub), (timer_ctx_tT, restore_util_stub),
     (app_timer_tT, restore_util_stub), (bh_queueT, restore_util_stub),
     (bh_queue_nodeT, restore_util_stub), (AtomicWaitInfoT, restore_util_stub),
     (AtomicWaitNodeT, restore_util_stub)]"

section \<open>No handler lengthens the stream\<close>

lemma shrinking_restore_ptrs [shrinks]: "shrinking (restore_ptrs rg i k)"
proof (induction k arbitrary: i)
  case (Suc k)
  have "shrinking (on_node (\<lambda>xs. if length xs \<le> i then (\<lambda>_. Inl (UB ''write past the object''))
      else restore_ptr rg (\<lambda>a xs. xs[i := a])))"
    by (rule shrinking_on_node) (simp add: shrinks)
  with Suc show ?case unfolding restore_ptrs.simps by (intro shrinking_exec_stmts) auto
qed (simp add: shrinks)

lemma shrinking_restore_nodes_unchecked:
  assumes "\<And>rg p. shrinking (body rg p)"
  shows "shrinking (restore_nodes_unchecked get put body ps)"
proof (induction ps)
  case (Cons p ps)
  have "shrinking (restore_node get put body p)" using assms by (rule shrinking_restore_node)
  with Cons show ?case unfolding restore_nodes_unchecked.simps by (intro shrinking_exec_stmts) auto
qed (simp add: shrinks)

lemma shrinking_restore_block [shrinks]: "shrinking (restore_block rg)"
  unfolding restore_block_def restore_code_ptr_def by (intro shrinks) (auto intro: shrinks)

lemma shrinking_restore_blocks [shrinks]: "shrinking (restore_blocks rg)"
proof -
  have "restore_blocks_from rg bas fp = Inr (bas', fp') \<Longrightarrow> length fp' \<le> length fp" for bas bas' fp fp'
  proof (induction bas arbitrary: bas' fp fp')
    case (Cons ba bas)
    then obtain ba1 fp1 bas1 where "restore_block rg (ba, fp) = Inr (ba1, fp1)"
      "restore_blocks_from rg bas fp1 = Inr (bas1, fp')" by (auto simp: bind_res_eq_Inr)
    with Cons.IH show ?case using shrinkingD [OF shrinking_restore_block] le_trans by blast
  qed simp
  then show ?thesis by (auto simp: shrinking_def restore_blocks_def)
qed

lemma shrinking_match_size [shrinks]: "shrinking (match_size p)"
  by (rule shrinkingI) (auto simp: match_size_def bind_res_eq_Inr fread_raw_def split: if_splits)

lemma shrinking_restore_name [shrinks]: "shrinking (restore_name rg upd)"
  by (simp add: restore_name_def shrinks)

lemma shrinking_on_gp [shrinks]: "shrinking (on_gp R ps)"
  by (rule shrinkingI) (auto simp: on_gp_def bind_res_eq_Inr)

lemma shrinking_restore_init_expr [shrinks]: "shrinking restore_init_expr"
  unfolding restore_init_expr_def by (intro shrinks ballI) (auto intro: shrinks)

text \<open>A body is a list of statements, each of which shrinks its stream.\<close>

lemma shrinking_fields:
  "shrinking (buf_fields k rg p)" "shrinking (ptrs_fields rg p)" "shrinking (wasm_val_t_fields rg p)"
  "shrinking (WASMBranchBlock_fields rg p)" "shrinking (WASMExecEnv_fields rg p)"
  "shrinking (WASMModuleMemConsumption_fields rg p)" "shrinking (WASMModuleInstMemConsumption_fields rg p)"
  "shrinking (WASMSection_fields rg p)" "shrinking (WASMModule_fields rg p)"
  unfolding buf_fields_def ptrs_fields_def wasm_val_t_fields_def WASMBranchBlock_fields_def
    WASMExecEnv_fields_def WASMModuleMemConsumption_fields_def WASMModuleInstMemConsumption_fields_def
    WASMSection_fields_def WASMModule_fields_def
  by (intro shrinks; auto intro: shrinks)+

lemma shrinking_fields_module:
  "shrinking (WASMFunction_fields rg p)" "shrinking (WASMGlobal_fields rg p)"
  "shrinking (WASMExport_fields rg p)" "shrinking (V128_fields rg p)"
  "shrinking (InitializerExpression_fields rg p)" "shrinking (WASMType_fields rg p)"
  "shrinking (WASMTable_fields rg p)" "shrinking (WASMMemory_fields rg p)"
  "shrinking (WASMTableSeg_fields rg p)" "shrinking (WASMDataSeg_fields rg p)"
  "shrinking (StringNode_fields rg p)" "shrinking (Const_fields rg p)"
  unfolding WASMFunction_fields_def WASMGlobal_fields_def WASMExport_fields_def V128_fields_def
    InitializerExpression_fields_def WASMType_fields_def WASMTable_fields_def WASMMemory_fields_def
    WASMTableSeg_fields_def WASMDataSeg_fields_def StringNode_fields_def Const_fields_def
  by (intro shrinks; auto intro: shrinks)+

lemma shrinking_restore_import_desc [shrinks]: "shrinking (restore_import_desc rg)"
  unfolding restore_import_desc_def by (intro shrinks; auto intro: shrinks)

lemma shrinking_fields_inst:
  "shrinking (WASMImport_fields rg p)" "shrinking (WASMModuleInstance_fields rg p)"
  "shrinking (WASMFunctionInstance_fields rg p)" "shrinking (WASMMemoryInstance_fields rg p)"
  "shrinking (WASMTableInstance_fields rg p)" "shrinking (WASMGlobalInstance_fields rg p)"
  "shrinking (WASMExportFuncInstance_fields rg p)"
  unfolding WASMImport_fields_def WASMModuleInstance_fields_def WASMFunctionInstance_fields_def
    WASMMemoryInstance_fields_def WASMTableInstance_fields_def WASMGlobalInstance_fields_def
    WASMExportFuncInstance_fields_def
  by (intro shrinks; auto intro: shrinks)+

lemmas handler_shrinks = shrinking_fields shrinking_fields_module shrinking_fields_inst
  shrinking_HEADER_RESTORE shrinking_HEADER_RESTORE_BUF shrinking_with_static
  shrinking_restore_nodes_unchecked shrinking_UB shrinking_skip shrinking_on_gp

lemmas handler_defs =
  restore_BlockAddr_def restore_BlockType_def restore_BranchBlock_def
  restore_BranchBlockPatch_def restore_Const_def restore_InitializerExpression_def
  restore_NativeSymbolsNode_def restore_StringNode_def restore_V128_def
  restore_WASIArguments_def restore_WASIContext_def restore_WASMBranchBlock_def
  restore_WASMCApiFrame_def restore_WASMDataSeg_def restore_WASMDataSegT_def
  restore_WASMExecEnv_def restore_WASMExport_def restore_WASMExportFuncInstance_def
  restore_WASMFunction_def restore_WASMFunctionInstance_def restore_WASMFunctionT_def
  restore_WASMGlobal_def restore_WASMGlobalInstance_def restore_WASMImport_def
  restore_WASMLoaderContext_def restore_WASMMemory_def restore_WASMMemoryInstance_def
  restore_WASMMemoryInstanceCommon_def restore_WASMMemoryInstanceT_def restore_WASMModule_def
  restore_WASMModuleCommon_def restore_WASMModuleInstMemConsumption_def
  restore_WASMModuleInstance_def restore_WASMModuleInstanceCommon_def
  restore_WASMModuleMemConsumption_def restore_WASMSection_def restore_WASMSharedMemNode_def
  restore_WASMTable_def restore_WASMTableInstance_def restore_WASMTableInstanceT_def
  restore_WASMTableSeg_def restore_WASMType_def restore_WASMTypeT_def restore_WASMValue_def
  restore_c_api_stub_def restore_char_def restore_charT_def restore_gc_heap_t_def
  restore_import_stub_def restore_uint16_def restore_uint32_def restore_uint64_def
  restore_uint8_def restore_util_stub_def restore_wasi_stub_def restore_wasm_val_t_def

lemma shrinking_restore_data:
  "\<forall>(t, R) \<in> set restore_data. \<forall>ps. shrinking (R ps)"
  unfolding restore_data_def list.set ball_simps prod.case
  by (intro conjI allI) (simp_all add: handler_defs handler_shrinks)

end
