(* ===== verification/Node_Roundtrip.thy ===== *)
theory Node_Roundtrip
  imports Restore
begin

text \<open>
  For every struct type with a working handler pair: the condition under which a node survives the
  image (\<open>X_ok\<close>: its pointers are NULL or lead to registered nodes, its buffers have their size)
  and what it is restored to (\<open>X_image\<close>: the dumped struct with its pointers relocated; members the
  image does not hold keep what the fresh memory had). Each pair is an instance of \<open>node_codec\<close>,
  which gives the round trip of whole chains.
\<close>

section \<open>Specifications\<close>

definition any_ok :: "'n node_cond" where "any_ok c rg p q n n0 \<longleftrightarrow> True"
definition same_image :: "'n node_image" where "same_image c rg p q n n0 = n"

text \<open>The first \<open>k\<close> elements of one buffer over those of another.\<close>

definition overlay :: "nat \<Rightarrow> 'a list \<Rightarrow> 'a list \<Rightarrow> 'a list" where
  "overlay k xs old = take k xs @ drop k old"

definition buf_ok :: "nat \<Rightarrow> (byte list) node_cond" where
  "buf_ok k c rg p q bs bs0 \<longleftrightarrow> p_size q = p_size p \<and>
     k * int_count (p_size p) \<le> length bs \<and> k * int_count (p_size p) \<le> length bs0"

definition buf_image :: "nat \<Rightarrow> (byte list) node_image" where
  "buf_image k c rg p q bs bs0 = overlay (k * int_count (p_size p)) bs bs0"

definition ptrs_ok :: "(addr list) node_cond" where
  "ptrs_ok c rg p q xs xs0 \<longleftrightarrow> p_size q = p_size p \<and> loop_count (p_size p) \<le> length xs \<and>
     loop_count (p_size p) \<le> length xs0 \<and>
     (\<forall>a \<in> set (take (loop_count (p_size p)) xs). ptr_ok rg (dc_base c) a)"

definition ptrs_image :: "(addr list) node_image" where
  "ptrs_image c rg p q xs xs0 = overlay (loop_count (p_size p)) (map (reloc rg (dc_base c)) xs) xs0"

definition WASMSection_ok :: "WASMSection node_cond" where
  "WASMSection_ok c rg p q n n0 \<longleftrightarrow>
     ptr_ok rg (dc_base c) (se_next n) \<and> ptr_ok rg (dc_base c) (se_section_body n)"

definition WASMSection_image :: "WASMSection node_image" where
  "WASMSection_image c rg p q n n0 = n\<lparr>
     se_next := reloc rg (dc_base c) (se_next n),
     se_section_body := reloc rg (dc_base c) (se_section_body n)\<rparr>"

definition WASMModule_ok :: "WASMModule node_cond" where
  "WASMModule_ok c rg p q n n0 \<longleftrightarrow>
     ptr_ok rg (dc_base c) (md_import_functions n) \<and>
     ptr_ok rg (dc_base c) (md_import_tables n) \<and>
     ptr_ok rg (dc_base c) (md_import_memories n) \<and>
     ptr_ok rg (dc_base c) (md_import_globals n) \<and> ptr_ok rg (dc_base c) (md_types n) \<and>
     ptr_ok rg (dc_base c) (md_imports n) \<and> ptr_ok rg (dc_base c) (md_functions n) \<and>
     ptr_ok rg (dc_base c) (md_tables n) \<and> ptr_ok rg (dc_base c) (md_memories n) \<and>
     ptr_ok rg (dc_base c) (md_globals n) \<and> ptr_ok rg (dc_base c) (md_exports n) \<and>
     ptr_ok rg (dc_base c) (md_table_segments n) \<and>
     ptr_ok rg (dc_base c) (md_data_segments n) \<and> ptr_ok rg (dc_base c) (md_const_str_list n)"

definition WASMModule_image :: "WASMModule node_image" where
  "WASMModule_image c rg p q n n0 = n\<lparr>
     md_import_functions := reloc rg (dc_base c) (md_import_functions n),
     md_import_tables := reloc rg (dc_base c) (md_import_tables n),
     md_import_memories := reloc rg (dc_base c) (md_import_memories n),
     md_import_globals := reloc rg (dc_base c) (md_import_globals n),
     md_types := reloc rg (dc_base c) (md_types n),
     md_imports := reloc rg (dc_base c) (md_imports n),
     md_functions := reloc rg (dc_base c) (md_functions n),
     md_tables := reloc rg (dc_base c) (md_tables n),
     md_memories := reloc rg (dc_base c) (md_memories n),
     md_globals := reloc rg (dc_base c) (md_globals n),
     md_exports := reloc rg (dc_base c) (md_exports n),
     md_table_segments := reloc rg (dc_base c) (md_table_segments n),
     md_data_segments := reloc rg (dc_base c) (md_data_segments n),
     md_const_str_list := reloc rg (dc_base c) (md_const_str_list n),
     md_wasi_args := md_wasi_args n0\<rparr>"

definition WASMModuleInstance_ok :: "WASMModuleInstance node_cond" where
  "WASMModuleInstance_ok c rg p q n n0 \<longleftrightarrow>
     ptr_ok rg (dc_base c) (mi_memories n) \<and> ptr_ok rg (dc_base c) (mi_tables n) \<and>
     ptr_ok rg (dc_base c) (mi_globals n) \<and> ptr_ok rg (dc_base c) (mi_functions n) \<and>
     ptr_ok rg (dc_base c) (mi_export_functions n) \<and>
     ptr_ok rg (dc_base c) (mi_default_memory n) \<and>
     ptr_ok rg (dc_base c) (mi_default_table n) \<and>
     ptr_ok rg (dc_base c) (mi_global_data n) \<and>
     ptr_ok rg (dc_base c) (mi_start_function n) \<and>
     ptr_ok rg (dc_base c) (mi_malloc_function n) \<and>
     ptr_ok rg (dc_base c) (mi_free_function n) \<and>
     ptr_ok rg (dc_base c) (mi_retain_function n) \<and>
     ptr_ok rg (dc_base c) (mi_module n) \<and>
     ptr_ok rg (dc_base c) (mi_exec_env_singleton n) \<and>
     ptr_ok rg (dc_base c) (mi_custom_data n) \<and> length (mi_cur_exception n) = 128 \<and>
     length (mi_cur_exception n0) = 128"

definition WASMModuleInstance_image :: "WASMModuleInstance node_image" where
  "WASMModuleInstance_image c rg p q n n0 = n\<lparr>
     mi_memories := reloc rg (dc_base c) (mi_memories n),
     mi_tables := reloc rg (dc_base c) (mi_tables n),
     mi_globals := reloc rg (dc_base c) (mi_globals n),
     mi_functions := reloc rg (dc_base c) (mi_functions n),
     mi_export_functions := reloc rg (dc_base c) (mi_export_functions n),
     mi_default_memory := reloc rg (dc_base c) (mi_default_memory n),
     mi_default_table := reloc rg (dc_base c) (mi_default_table n),
     mi_global_data := reloc rg (dc_base c) (mi_global_data n),
     mi_start_function := reloc rg (dc_base c) (mi_start_function n),
     mi_malloc_function := reloc rg (dc_base c) (mi_malloc_function n),
     mi_free_function := reloc rg (dc_base c) (mi_free_function n),
     mi_retain_function := reloc rg (dc_base c) (mi_retain_function n),
     mi_module := reloc rg (dc_base c) (mi_module n),
     mi_exec_env_singleton := reloc rg (dc_base c) (mi_exec_env_singleton n),
     mi_custom_data := reloc rg (dc_base c) (mi_custom_data n), mi_wasi_ctx := mi_wasi_ctx n0\<rparr>"

definition WASMFunction_ok :: "WASMFunction node_cond" where
  "WASMFunction_ok c rg p q n n0 \<longleftrightarrow>
     ptr_ok rg (dc_base c) (fn_func_type n) \<and> ptr_ok rg (dc_base c) (fn_local_offsets n) \<and>
     ptr_ok rg (dc_base c) (fn_code n) \<and> fn_local_types n = p_raw p + of_nat sizeof_WASMFunction \<and>
     unat (fn_local_count n) \<le> length (fn_tail n) \<and> unat (fn_local_count n) \<le> length (fn_tail n0)"

definition WASMFunction_image :: "WASMFunction node_image" where
  "WASMFunction_image c rg p q n n0 = n\<lparr>
     fn_func_type := reloc rg (dc_base c) (fn_func_type n),
     fn_local_types := p_raw q + of_nat sizeof_WASMFunction,
     fn_local_offsets := reloc rg (dc_base c) (fn_local_offsets n),
     fn_code := reloc rg (dc_base c) (fn_code n),
     fn_tail := overlay (unat (fn_local_count n)) (fn_tail n) (fn_tail n0)\<rparr>"

definition init_expr_ok :: "InitializerExpression \<Rightarrow> bool" where
  "init_expr_ok n \<longleftrightarrow> length (ie_u n) = 16"

definition init_expr_image :: "InitializerExpression \<Rightarrow> InitializerExpression \<Rightarrow> InitializerExpression" where
  "init_expr_image n n0 = n\<lparr>ie_u := overlay (init_expr_width (ie_init_expr_type n)) (ie_u n) (ie_u n0)\<rparr>"

definition InitializerExpression_ok :: "InitializerExpression node_cond" where
  "InitializerExpression_ok c rg p q n n0 \<longleftrightarrow> init_expr_ok n"

definition InitializerExpression_image :: "InitializerExpression node_image" where
  "InitializerExpression_image c rg p q n n0 = init_expr_image n n0"

definition WASMGlobal_ok :: "WASMGlobal node_cond" where
  "WASMGlobal_ok c rg p q n n0 \<longleftrightarrow> init_expr_ok (gl_init_expr n)"

definition WASMGlobal_image :: "WASMGlobal node_image" where
  "WASMGlobal_image c rg p q n n0 = n\<lparr>gl_init_expr := init_expr_image (gl_init_expr n) (gl_init_expr n0)\<rparr>"

text \<open>
  The list of string nodes of a module, as the addresses from the head to the NULL at its end,
  each with its characters right behind it. A name is good when it points behind a node of it.
\<close>

fun str_path :: "mem \<Rightarrow> addr \<Rightarrow> addr list \<Rightarrow> bool" where
  "str_path m a [] \<longleftrightarrow> a = 0"
| "str_path m a (x # xs) \<longleftrightarrow> a = x \<and> x \<noteq> 0 \<and>
     (case m x of Some (O_StringNode sn) \<Rightarrow>
        sn_str sn = x + of_nat sizeof_StringNode \<and> str_path m (sn_next sn) xs | _ \<Rightarrow> False)"

definition str_list :: "dump_ctx \<Rightarrow> addr list \<Rightarrow> bool" where
  "str_list c xs \<longleftrightarrow> distinct xs \<and>
     (case dc_mem c (dc_module c) of Some (O_WASMModule md) \<Rightarrow> str_path (dc_mem c) (md_const_str_list md) xs
      | _ \<Rightarrow> False)"

definition name_known :: "dump_ctx \<Rightarrow> addr \<Rightarrow> bool" where
  "name_known c name \<longleftrightarrow> (\<exists>xs. str_list c xs \<and> name - of_nat sizeof_StringNode \<in> set xs)"

definition name_ok :: "dump_ctx \<Rightarrow> registry \<Rightarrow> addr \<Rightarrow> bool" where
  "name_ok c rg name \<longleftrightarrow> name_known c name \<and> ptr_ok rg (dc_base c) (name - of_nat sizeof_StringNode)"

definition name_image :: "dump_ctx \<Rightarrow> registry \<Rightarrow> addr \<Rightarrow> addr" where
  "name_image c rg name = reloc rg (dc_base c) (name - of_nat sizeof_StringNode) + of_nat sizeof_StringNode"

definition WASMExport_ok :: "WASMExport node_cond" where
  "WASMExport_ok c rg p q n n0 \<longleftrightarrow> name_ok c rg (ex_name n)"

definition WASMExport_image :: "WASMExport node_image" where
  "WASMExport_image c rg p q n n0 = n\<lparr>ex_name := name_image c rg (ex_name n)\<rparr>"

definition V128_ok :: "WASMValue node_cond" where
  "V128_ok c rg p q n n0 \<longleftrightarrow> length n = 16 \<and> length n0 = 16"

definition Const_ok :: "Const node_cond" where
  "Const_ok c rg p q n n0 \<longleftrightarrow> length (co_value n) = 16 \<and> length (co_value n0) = 16"

definition type_len :: "WASMType \<Rightarrow> nat" where
  "type_len n = unat (ty_param_count n) + unat (ty_result_count n)"

definition WASMType_ok :: "WASMType node_cond" where
  "WASMType_ok c rg p q n n0 \<longleftrightarrow> type_len n \<le> length (ty_types n) \<and> type_len n \<le> length (ty_types n0)"

definition WASMType_image :: "WASMType node_image" where
  "WASMType_image c rg p q n n0 = n\<lparr>ty_types := overlay (type_len n) (ty_types n) (ty_types n0)\<rparr>"

definition WASMImport_ok :: "WASMImport node_cond" where
  "WASMImport_ok c rg p q n n0 \<longleftrightarrow> name_ok c rg (im_module_name n) \<and> name_ok c rg (im_field_name n) \<and>
     (im_kind n = 0 \<longrightarrow> ptr_ok rg (dc_base c) (imf_func_type n)) \<and>
     (im_kind n = 3 \<longrightarrow> length (img_global_data_linked n) = 16 \<and> length (img_global_data_linked n0) = 16)"

text \<open>What is restored of an import: the two names and the alternative its kind selects, except the
  link to the native function, which \<open>restore_frame_internal\<close> sets again.\<close>

definition import_desc_image :: "dump_ctx \<Rightarrow> registry \<Rightarrow> WASMImport \<Rightarrow> WASMImport \<Rightarrow> WASMImport" where
  "import_desc_image c rg n m =
     (if im_kind n = 0 then
        m\<lparr>imf_func_type := reloc rg (dc_base c) (imf_func_type n), imf_call_conv_raw := imf_call_conv_raw n,
          imf_call_conv_wasm_c_api := imf_call_conv_wasm_c_api n,
          imf_wasm_c_api_with_env := imf_wasm_c_api_with_env n\<rparr>
      else if im_kind n = 1 then
        m\<lparr>imt_elem_type := imt_elem_type n, imt_flags := imt_flags n, imt_init_size := imt_init_size n,
          imt_max_size := imt_max_size n, imt_possible_grow := imt_possible_grow n\<rparr>
      else if im_kind n = 2 then
        m\<lparr>imm_flags := imm_flags n, imm_num_bytes_per_page := imm_num_bytes_per_page n,
          imm_init_page_count := imm_init_page_count n, imm_max_page_count := imm_max_page_count n\<rparr>
      else if im_kind n = 3 then
        m\<lparr>img_type := img_type n, img_is_mutable := img_is_mutable n,
          img_global_data_linked := img_global_data_linked n, img_is_linked := img_is_linked n\<rparr>
      else m)"

definition WASMImport_image :: "WASMImport node_image" where
  "WASMImport_image c rg p q n n0 = import_desc_image c rg n
     (n0\<lparr>im_kind := im_kind n, im_module_name := name_image c rg (im_module_name n),
         im_field_name := name_image c rg (im_field_name n)\<rparr>)"

definition WASMTableSeg_ok :: "WASMTableSeg node_cond" where
  "WASMTableSeg_ok c rg p q n n0 \<longleftrightarrow> init_expr_ok (ts_base_offset n) \<and> ptr_ok rg (dc_base c) (ts_func_indexes n)"

definition WASMTableSeg_image :: "WASMTableSeg node_image" where
  "WASMTableSeg_image c rg p q n n0 = n\<lparr>
     ts_base_offset := init_expr_image (ts_base_offset n) (ts_base_offset n0),
     ts_func_indexes := reloc rg (dc_base c) (ts_func_indexes n)\<rparr>"

definition WASMDataSeg_ok :: "WASMDataSeg node_cond" where
  "WASMDataSeg_ok c rg p q n n0 \<longleftrightarrow> init_expr_ok (ds_base_offset n) \<and> ptr_ok rg (dc_base c) (ds_data n)"

definition WASMDataSeg_image :: "WASMDataSeg node_image" where
  "WASMDataSeg_image c rg p q n n0 = n\<lparr>
     ds_base_offset := init_expr_image (ds_base_offset n) (ds_base_offset n0),
     ds_data := reloc rg (dc_base c) (ds_data n)\<rparr>"

definition StringNode_ok :: "StringNode node_cond" where
  "StringNode_ok c rg p q n n0 \<longleftrightarrow> p_size q = p_size p \<and> sn_str n = p_raw p + of_nat sizeof_StringNode \<and>
     ptr_ok rg (dc_base c) (sn_next n) \<and>
     int_count (p_size p) \<le> length (sn_chars n) \<and> int_count (p_size p) \<le> length (sn_chars n0)"

definition StringNode_image :: "StringNode node_image" where
  "StringNode_image c rg p q n n0 = n\<lparr>sn_next := reloc rg (dc_base c) (sn_next n),
     sn_str := p_raw q + of_nat sizeof_StringNode,
     sn_chars := overlay (int_count (p_size p)) (sn_chars n) (sn_chars n0)\<rparr>"

text \<open>
  A function instance is good when its parameter types are those of its function type and, for an
  import, when its import lies in the module's array of imported functions.
\<close>

definition import_at :: "dump_ctx \<Rightarrow> addr \<Rightarrow> bool" where
  "import_at c target \<longleftrightarrow>
     (case dc_mem c (dc_module c) of
        Some (O_WASMModule md) \<Rightarrow>
          (\<exists>k. target = md_import_functions md + of_nat (sizeof_WASMImport * k) + of_nat offsetof_WASMImport_u \<and>
             (\<forall>j \<le> k. md_import_functions md + of_nat (sizeof_WASMImport * j) \<noteq> 0))
      | _ \<Rightarrow> False)"

definition WASMFunctionInstance_ok :: "WASMFunctionInstance node_cond" where
  "WASMFunctionInstance_ok c rg p q n n0 \<longleftrightarrow>
     ptr_ok rg (dc_base c) (fi_param_types n - of_nat offsetof_WASMType_types) \<and>
     (if fi_is_import_func n then
        import_at c (fi_u n) \<and> ptr_ok rg (dc_base c) (fi_u n - of_nat offsetof_WASMImport_u) \<and>
        (case dc_mem c (fi_u n - of_nat offsetof_WASMImport_u) of
           Some (O_WASMImport im) \<Rightarrow> imf_func_type im = fi_param_types n - of_nat offsetof_WASMType_types
         | _ \<Rightarrow> False)
      else
        ptr_ok rg (dc_base c) (fi_u n) \<and> ptr_ok rg (dc_base c) (fi_local_offsets n) \<and>
        (case dc_mem c (fi_u n) of
           Some (O_WASMFunction fn) \<Rightarrow> fn_func_type fn = fi_param_types n - of_nat offsetof_WASMType_types
         | _ \<Rightarrow> False))"

definition WASMFunctionInstance_image :: "WASMFunctionInstance node_image" where
  "WASMFunctionInstance_image c rg p q n n0 =
     (let m = n\<lparr>fi_param_types := reloc rg (dc_base c) (fi_param_types n - of_nat offsetof_WASMType_types)
                  + of_nat offsetof_WASMType_types\<rparr> in
      if fi_is_import_func n then
        m\<lparr>fi_u := reloc rg (dc_base c) (fi_u n - of_nat offsetof_WASMImport_u) + of_nat offsetof_WASMImport_u,
          fi_local_offsets := fi_local_offsets n0, fi_local_types := fi_local_types n0\<rparr>
      else
        m\<lparr>fi_u := reloc rg (dc_base c) (fi_u n), fi_local_offsets := reloc rg (dc_base c) (fi_local_offsets n),
          fi_local_types := reloc rg (dc_base c) (fi_u n) + of_nat sizeof_WASMFunction\<rparr>)"

definition WASMMemoryInstance_ok :: "WASMMemoryInstance node_cond" where
  "WASMMemoryInstance_ok c rg p q n n0 \<longleftrightarrow> ptr_ok rg (dc_base c) (mm_memory_data n)"

definition WASMMemoryInstance_image :: "WASMMemoryInstance node_image" where
  "WASMMemoryInstance_image c rg p q n n0 = n\<lparr>
     mm_memory_data := reloc rg (dc_base c) (mm_memory_data n),
     mm_memory_data_end := reloc rg (dc_base c) (mm_memory_data n)
       + ucast (mm_num_bytes_per_page n) * ucast (mm_cur_page_count n),
     mm_heap_data := mm_heap_data n0, mm_heap_data_end := mm_heap_data_end n0,
     mm_heap_handle := mm_heap_handle n0\<rparr>"

definition WASMTableInstance_ok :: "WASMTableInstance node_cond" where
  "WASMTableInstance_ok c rg p q n n0 \<longleftrightarrow> p_size q = p_size p \<and>
     4 * (int_count (p_size p) div 4) \<le> length (ti_base_addr n) \<and>
     4 * (int_count (p_size p) div 4) \<le> length (ti_base_addr n0)"

definition WASMTableInstance_image :: "WASMTableInstance node_image" where
  "WASMTableInstance_image c rg p q n n0 =
     n\<lparr>ti_base_addr := overlay (4 * (int_count (p_size p) div 4)) (ti_base_addr n) (ti_base_addr n0)\<rparr>"

definition WASMGlobalInstance_ok :: "WASMGlobalInstance node_cond" where
  "WASMGlobalInstance_ok c rg p q n n0 \<longleftrightarrow> gi_type n \<notin> {0xD2, 0xD0} \<and> length (gi_initial_value n) = 16"

definition WASMGlobalInstance_image :: "WASMGlobalInstance node_image" where
  "WASMGlobalInstance_image c rg p q n n0 =
     n\<lparr>gi_initial_value := overlay (init_expr_width (gi_type n)) (gi_initial_value n) (gi_initial_value n0)\<rparr>"

definition WASMExportFuncInstance_ok :: "WASMExportFuncInstance node_cond" where
  "WASMExportFuncInstance_ok c rg p q n n0 \<longleftrightarrow> name_ok c rg (ef_name n) \<and> ptr_ok rg (dc_base c) (ef_function n)"

definition WASMExportFuncInstance_image :: "WASMExportFuncInstance node_image" where
  "WASMExportFuncInstance_image c rg p q n n0 =
     n\<lparr>ef_name := name_image c rg (ef_name n), ef_function := reloc rg (dc_base c) (ef_function n)\<rparr>"

text \<open>
  A block of the cache is good when it is empty or its start lies in the code of one of the module's
  functions; its addresses are restored at their 32-bit offsets from the relocated code of the first
  such function.
\<close>

fun block_code :: "mem \<Rightarrow> BlockAddr \<Rightarrow> addr list \<Rightarrow> addr option" where
  "block_code m ba [] = None"
| "block_code m ba (f # fs) =
     (case m f of Some (O_WASMFunction fn) \<Rightarrow>
        if CHECK_IP fn (ba_start_addr ba) then Some (fn_code fn) else block_code m ba fs
      | _ \<Rightarrow> None)"

definition block_ok :: "dump_ctx \<Rightarrow> registry \<Rightarrow> addr list \<Rightarrow> BlockAddr \<Rightarrow> bool" where
  "block_ok c rg fs ba \<longleftrightarrow>
     (if null_block ba then fs \<noteq> []
      else case block_code (dc_mem c) ba fs of
             Some code \<Rightarrow> code \<noteq> 0 \<and> ptr_ok rg (dc_base c) code | None \<Rightarrow> False)"

definition shift :: "addr \<Rightarrow> addr \<Rightarrow> addr \<Rightarrow> addr" where
  "shift code code' a = ucast (ucast (a - code) :: u32) + code'"

definition block_image :: "dump_ctx \<Rightarrow> registry \<Rightarrow> addr list \<Rightarrow> BlockAddr \<Rightarrow> BlockAddr" where
  "block_image c rg fs ba =
     (if null_block ba then ba
      else case block_code (dc_mem c) ba fs of
             None \<Rightarrow> ba
           | Some code \<Rightarrow> let sh = shift code (reloc rg (dc_base c) code) in
               \<lparr>ba_start_addr = sh (ba_start_addr ba), ba_else_addr = sh (ba_else_addr ba),
                ba_end_addr = sh (ba_end_addr ba)\<rparr>)"

definition WASMExecEnv_ok :: "WASMExecEnv node_cond" where
  "WASMExecEnv_ok c rg p q n n0 \<longleftrightarrow>
     ptr_ok rg (dc_base c) (ee_next n) \<and> ptr_ok rg (dc_base c) (ee_prev n) \<and>
     ptr_ok rg (dc_base c) (ee_module_inst n) \<and> ptr_ok rg (dc_base c) (ee_attachment n) \<and>
     length (ee_block_addr_cache n0) = length (ee_block_addr_cache n) \<and>
     (case module_functions c (ee_module_inst n) of
        Inr (stuck, fs) \<Rightarrow> \<forall>ba \<in> set (ee_block_addr_cache n). block_ok c rg fs ba | Inl _ \<Rightarrow> False)"

definition WASMExecEnv_image :: "WASMExecEnv node_image" where
  "WASMExecEnv_image c rg p q n n0 = n0\<lparr>
     ee_next := reloc rg (dc_base c) (ee_next n), ee_prev := reloc rg (dc_base c) (ee_prev n),
     ee_module_inst := reloc rg (dc_base c) (ee_module_inst n),
     ee_attachment := reloc rg (dc_base c) (ee_attachment n),
     ee_block_addr_cache :=
       (case module_functions c (ee_module_inst n) of
          Inr (stuck, fs) \<Rightarrow> map (block_image c rg fs) (ee_block_addr_cache n) | Inl _ \<Rightarrow> []),
     ee_wasm_stack_size := ee_wasm_stack_size n,
     ee_top := p_raw q + of_nat offsetof_wasm_stack_bottom,
     ee_top_boundary := p_raw q + of_nat offsetof_wasm_stack_bottom + ucast (ee_wasm_stack_size n)\<rparr>"

section \<open>The pairs\<close>

lemma fwrite_buf_ok: "k * n \<le> length bs \<Longrightarrow> fwrite_buf k n bs = Inr (take (k * n) bs)"
  by (simp add: fwrite_buf_def)

interpretation buf: node_codec as_Bytes O_Bytes "buf_bytes k" "buf_fields k" "buf_ok k" "buf_image k" for k
  by unfold_locales
    (auto simp: buf_ok_def buf_bytes_def buf_fields_def buf_image_def overlay_def fwrite_buf_ok fread_buf_back)

lemma restore_ptrs_back:
  "length xs = k \<Longrightarrow> i + k \<le> length xs0 \<Longrightarrow> \<forall>a \<in> set xs. ptr_ok rg base a \<Longrightarrow>
     restore_ptrs rg i k (xs0, concat (map (DUMP_PTR base) xs) @ fp)
       = Inr (take i xs0 @ map (reloc rg base) xs @ drop (i + k) xs0, fp)"
proof (induction k arbitrary: i xs xs0)
  case (Suc k)
  then obtain a ys where xs: "xs = a # ys" by (cases xs) auto
  with Suc.prems have "restore_ptrs rg (Suc i) k (xs0[i := reloc rg base a], concat (map (DUMP_PTR base) ys) @ fp)
      = Inr (take (Suc i) (xs0[i := reloc rg base a]) @ map (reloc rg base) ys @ drop (Suc i + k) xs0, fp)"
    using Suc.IH [of ys "Suc i" "xs0[i := reloc rg base a]"] by simp
  with Suc.prems show ?case by (simp add: xs restore_ptr_back take_Suc_conv_app_nth)
qed simp

interpretation ptrs: node_codec as_Ptrs O_Ptrs ptrs_bytes ptrs_fields ptrs_ok ptrs_image
proof
  fix c rg p q xs xs0
  assume ok: "ptrs_ok c rg p q xs xs0"
  define k where "k = loop_count (p_size p)"
  from ok have "ptrs_fields rg q (xs0, concat (map (DUMP_PTR (dc_base c)) (take k xs)) @ fp)
      = Inr (ptrs_image c rg p q xs xs0, fp)" for fp
    using restore_ptrs_back [of "take k xs" k 0 xs0 rg "dc_base c" fp]
    by (simp add: ptrs_ok_def ptrs_fields_def ptrs_image_def overlay_def k_def take_map)
  with ok show "\<exists>bs. ptrs_bytes c p xs = Inr bs \<and>
      (\<forall>fp. ptrs_fields rg q (xs0, bs @ fp) = Inr (ptrs_image c rg p q xs xs0, fp))"
    by (auto simp: ptrs_ok_def ptrs_bytes_def k_def)
qed

interpretation rt_WASMModuleMemConsumption: node_codec as_WASMModuleMemConsumption O_WASMModuleMemConsumption WASMModuleMemConsumption_bytes WASMModuleMemConsumption_fields any_ok same_image
  by unfold_locales (simp add: WASMModuleMemConsumption_bytes_def WASMModuleMemConsumption_fields_def any_ok_def same_image_def codec )

interpretation rt_WASMModuleInstMemConsumption: node_codec as_WASMModuleInstMemConsumption O_WASMModuleInstMemConsumption WASMModuleInstMemConsumption_bytes WASMModuleInstMemConsumption_fields any_ok same_image
  by unfold_locales (simp add: WASMModuleInstMemConsumption_bytes_def WASMModuleInstMemConsumption_fields_def any_ok_def same_image_def codec )

interpretation rt_WASMTable: node_codec as_WASMTable O_WASMTable WASMTable_bytes WASMTable_fields any_ok same_image
  by unfold_locales (simp add: WASMTable_bytes_def WASMTable_fields_def any_ok_def same_image_def codec )

interpretation rt_WASMMemory: node_codec as_WASMMemory O_WASMMemory WASMMemory_bytes WASMMemory_fields any_ok same_image
  by unfold_locales (simp add: WASMMemory_bytes_def WASMMemory_fields_def any_ok_def same_image_def codec )

interpretation rt_WASMSection: node_codec as_WASMSection O_WASMSection WASMSection_bytes WASMSection_fields WASMSection_ok WASMSection_image
  by unfold_locales (simp add: WASMSection_bytes_def WASMSection_fields_def WASMSection_ok_def WASMSection_image_def codec )

interpretation rt_WASMModule: node_codec as_WASMModule O_WASMModule WASMModule_bytes WASMModule_fields WASMModule_ok WASMModule_image
  by unfold_locales (simp add: WASMModule_bytes_def WASMModule_fields_def WASMModule_ok_def WASMModule_image_def codec )

interpretation rt_WASMModuleInstance: node_codec as_WASMModuleInstance O_WASMModuleInstance WASMModuleInstance_bytes WASMModuleInstance_fields WASMModuleInstance_ok WASMModuleInstance_image
  by unfold_locales (simp add: WASMModuleInstance_bytes_def WASMModuleInstance_fields_def WASMModuleInstance_ok_def WASMModuleInstance_image_def codec )

text \<open>Members that are buffers or nested structs.\<close>

lemma on_member_buf_back [codec]:
  "length bs = k * m \<Longrightarrow> k * m \<le> length (sel n) \<Longrightarrow>
     on_member sel upd (fread_buf k m) (n, bs @ fp) = Inr (upd (\<lambda>_. bs @ drop (k * m) (sel n)) n, fp)"
  by (rule on_member_app) (simp add: fread_buf_back)

lemma init_expr_width_le: "init_expr_width t \<le> 16"
  by (simp add: init_expr_width_def)

lemma restore_init_expr_back:
  "init_expr_ok n \<Longrightarrow> restore_init_expr (n0, dump_init_expr n @ fp) = Inr (init_expr_image n n0, fp)"
  using init_expr_width_le [of "ie_init_expr_type n"]
  by (simp add: init_expr_ok_def restore_init_expr_def dump_init_expr_def init_expr_image_def overlay_def
      fread_into_back)

lemma on_member_init_expr_back [codec]:
  "init_expr_ok e \<Longrightarrow> on_member sel upd restore_init_expr (n, dump_init_expr e @ fp)
     = Inr (upd (\<lambda>_. init_expr_image e (sel n)) n, fp)"
  by (rule on_member_app) (rule restore_init_expr_back)

interpretation rt_WASMFunction: node_codec as_WASMFunction O_WASMFunction WASMFunction_bytes
  WASMFunction_fields WASMFunction_ok WASMFunction_image
  by unfold_locales (auto simp: WASMFunction_bytes_def WASMFunction_fields_def WASMFunction_ok_def
    WASMFunction_image_def overlay_def fwrite_buf_ok codec)

interpretation rt_InitializerExpression: node_codec as_InitializerExpression O_InitializerExpression
  InitializerExpression_bytes InitializerExpression_fields InitializerExpression_ok InitializerExpression_image
  by unfold_locales (simp add: InitializerExpression_bytes_def InitializerExpression_fields_def
    InitializerExpression_ok_def InitializerExpression_image_def restore_init_expr_back)

interpretation rt_WASMGlobal: node_codec as_WASMGlobal O_WASMGlobal WASMGlobal_bytes WASMGlobal_fields
  WASMGlobal_ok WASMGlobal_image
  by unfold_locales (simp add: WASMGlobal_bytes_def WASMGlobal_fields_def WASMGlobal_ok_def
    WASMGlobal_image_def codec)

interpretation rt_V128: node_codec as_WASMValue O_WASMValue V128_bytes V128_fields V128_ok same_image
  by unfold_locales (simp add: V128_bytes_def V128_fields_def V128_ok_def same_image_def codec)

interpretation rt_Const: node_codec as_Const O_Const Const_bytes Const_fields Const_ok same_image
  by unfold_locales (simp add: Const_bytes_def Const_fields_def Const_ok_def same_image_def codec)

interpretation rt_WASMType: node_codec as_WASMType O_WASMType WASMType_bytes WASMType_fields WASMType_ok
  WASMType_image
  by unfold_locales (auto simp: WASMType_bytes_def WASMType_fields_def WASMType_ok_def WASMType_image_def
    type_len_def overlay_def fwrite_buf_ok codec)

interpretation rt_WASMTableSeg: node_codec as_WASMTableSeg O_WASMTableSeg WASMTableSeg_bytes
  WASMTableSeg_fields WASMTableSeg_ok WASMTableSeg_image
  by unfold_locales (simp add: WASMTableSeg_bytes_def WASMTableSeg_fields_def WASMTableSeg_ok_def
    WASMTableSeg_image_def codec)

interpretation rt_WASMDataSeg: node_codec as_WASMDataSeg O_WASMDataSeg WASMDataSeg_bytes
  WASMDataSeg_fields WASMDataSeg_ok WASMDataSeg_image
  by unfold_locales (simp add: WASMDataSeg_bytes_def WASMDataSeg_fields_def WASMDataSeg_ok_def
    WASMDataSeg_image_def codec)

lemma match_size_back [codec]: "p_size q = sz \<Longrightarrow> match_size q (n, fwrite_u32 sz @ fp) = Inr (n, fp)"
  by (simp add: match_size_def u32_codec.dec_enc)

interpretation rt_StringNode: node_codec as_StringNode O_StringNode StringNode_bytes StringNode_fields
  StringNode_ok StringNode_image
  by unfold_locales (auto simp: StringNode_bytes_def StringNode_fields_def StringNode_ok_def
    StringNode_image_def overlay_def fwrite_buf_ok codec)

interpretation rt_WASMMemoryInstance: node_codec as_WASMMemoryInstance O_WASMMemoryInstance
  WASMMemoryInstance_bytes WASMMemoryInstance_fields WASMMemoryInstance_ok WASMMemoryInstance_image
  by unfold_locales (simp add: WASMMemoryInstance_bytes_def WASMMemoryInstance_fields_def
    WASMMemoryInstance_ok_def WASMMemoryInstance_image_def codec)

interpretation rt_WASMTableInstance: node_codec as_WASMTableInstance O_WASMTableInstance
  WASMTableInstance_bytes WASMTableInstance_fields WASMTableInstance_ok WASMTableInstance_image
  by unfold_locales (auto simp: WASMTableInstance_bytes_def WASMTableInstance_fields_def
    WASMTableInstance_ok_def WASMTableInstance_image_def overlay_def fwrite_buf_ok codec)

interpretation rt_WASMGlobalInstance: node_codec as_WASMGlobalInstance O_WASMGlobalInstance
  WASMGlobalInstance_bytes WASMGlobalInstance_fields WASMGlobalInstance_ok WASMGlobalInstance_image
  by unfold_locales (use init_expr_width_le in \<open>simp add: WASMGlobalInstance_bytes_def
    WASMGlobalInstance_fields_def WASMGlobalInstance_ok_def WASMGlobalInstance_image_def overlay_def codec\<close>)

subsection \<open>Names\<close>

lemma find_str_node_path:
  "str_path m a xs \<Longrightarrow> name - of_nat sizeof_StringNode \<in> set xs \<Longrightarrow>
     find_str_node m name a = Some (Inr (name - of_nat sizeof_StringNode))"
proof (induction xs arbitrary: a)
  case (Cons x xs)
  then obtain sn where sn: "m x = Some (O_StringNode sn)" "a = x" "x \<noteq> 0"
    "sn_str sn = x + of_nat sizeof_StringNode" "str_path m (sn_next sn) xs"
    by (auto split: option.split_asm obj.split_asm)
  then have ld: "load as_StringNode m x = Inr sn" by simp
  show ?case
  proof (cases "x = name - of_nat sizeof_StringNode")
    case True
    then show ?thesis using sn ld by (subst find_str_node.simps) simp
  next
    case False
    with Cons.prems have "name - of_nat sizeof_StringNode \<in> set xs" by simp
    from Cons.IH [OF sn(5) this] False sn ld show ?thesis
      by (subst find_str_node.simps) (auto simp: algebra_simps)
  qed
qed simp

lemma str_path_nonzero: "str_path m a xs \<Longrightarrow> x \<in> set xs \<Longrightarrow> x \<noteq> 0"
  by (induction xs arbitrary: a) (auto split: option.split_asm obj.split_asm)

lemma str_listE:
  assumes "str_list c xs"
  obtains a where "const_str_list c = Inr a" "str_path (dc_mem c) a xs" "distinct xs"
  using assms by (auto simp: str_list_def const_str_list_def split: option.split_asm obj.split_asm)

lemma dump_name_known:
  assumes "name_known c name"
  shows "dump_name c name = Inr (DUMP_PTR (dc_base c) (name - of_nat sizeof_StringNode))"
proof -
  obtain xs a where *: "const_str_list c = Inr a" "str_path (dc_mem c) a xs" "name - of_nat sizeof_StringNode \<in> set xs"
    using assms by (auto simp: name_known_def elim: str_listE)
  then have "name - of_nat sizeof_StringNode \<noteq> 0" using str_path_nonzero by blast
  with * show ?thesis by (simp add: dump_name_def name_node_def loop_res_def find_str_node_path)
qed

lemma restore_name_back [codec]:
  "ptr_ok rg (dc_base c) (name - of_nat sizeof_StringNode) \<Longrightarrow>
     restore_name rg upd (n, DUMP_PTR (dc_base c) (name - of_nat sizeof_StringNode) @ fp)
       = Inr (upd (\<lambda>_. name_image c rg name) n, fp)"
  by (simp add: restore_name_def name_image_def restore_ptr_back)

interpretation rt_WASMExport: node_codec as_WASMExport O_WASMExport WASMExport_bytes WASMExport_fields
  WASMExport_ok WASMExport_image
  by unfold_locales (simp add: WASMExport_bytes_def WASMExport_fields_def WASMExport_ok_def
    WASMExport_image_def dump_name_known name_ok_def codec)

lemma restore_import_desc_back:
  assumes "im_kind m = im_kind n" "im_kind n = 0 \<Longrightarrow> ptr_ok rg (dc_base c) (imf_func_type n)"
    and "im_kind n = 3 \<Longrightarrow> length (img_global_data_linked n) = 16 \<and> length (img_global_data_linked m) = 16"
  shows "restore_import_desc rg (m, dump_import_desc c n @ fp) = Inr (import_desc_image c rg n m, fp)"
proof -
  consider "im_kind n = 0" | "im_kind n = 1" | "im_kind n = 2" | "im_kind n = 3" | "im_kind n \<notin> {0, 1, 2, 3}"
    by blast
  then show ?thesis using assms
    by cases (simp_all add: restore_import_desc_def dump_import_desc_def import_desc_image_def codec)
qed

interpretation rt_WASMImport: node_codec as_WASMImport O_WASMImport WASMImport_bytes WASMImport_fields
  WASMImport_ok WASMImport_image
  by unfold_locales (simp add: WASMImport_bytes_def WASMImport_fields_def WASMImport_ok_def
    WASMImport_image_def restore_import_desc_back dump_name_known name_ok_def codec)

lemma dump_str_nodes_path:
  "str_path (dc_mem c) a xs \<Longrightarrow> distinct xs \<Longrightarrow>
     dump_str_nodes c name a out = Some (Inr (out @
       (if name - of_nat sizeof_StringNode \<in> set xs then DUMP_PTR (dc_base c) (name - of_nat sizeof_StringNode) else [])))"
proof (induction xs arbitrary: a out)
  case Nil
  then show ?case by (subst dump_str_nodes.simps) simp
next
  case (Cons x xs)
  then obtain sn where sn: "dc_mem c x = Some (O_StringNode sn)" "a = x" "x \<noteq> 0"
    "sn_str sn = x + of_nat sizeof_StringNode" "str_path (dc_mem c) (sn_next sn) xs"
    by (auto split: option.split_asm obj.split_asm)
  then have ld: "load as_StringNode (dc_mem c) x = Inr sn" by simp
  show ?case using Cons.IH [OF sn(5)] Cons.prems sn ld
    by (subst dump_str_nodes.simps) (auto simp: algebra_simps)
qed

interpretation rt_WASMExportFuncInstance: node_codec as_WASMExportFuncInstance O_WASMExportFuncInstance
  WASMExportFuncInstance_bytes WASMExportFuncInstance_fields WASMExportFuncInstance_ok WASMExportFuncInstance_image
proof
  fix c rg p q n n0
  assume ok: "WASMExportFuncInstance_ok c rg p q n n0"
  then obtain xs a where "const_str_list c = Inr a" "str_path (dc_mem c) a xs" "distinct xs"
    "ef_name n - of_nat sizeof_StringNode \<in> set xs"
    by (auto simp: WASMExportFuncInstance_ok_def name_ok_def name_known_def elim: str_listE)
  with ok show "\<exists>bs. WASMExportFuncInstance_bytes c p n = Inr bs \<and>
      (\<forall>fp. WASMExportFuncInstance_fields rg q (n0, bs @ fp) = Inr (WASMExportFuncInstance_image c rg p q n n0, fp))"
    by (simp add: WASMExportFuncInstance_bytes_def WASMExportFuncInstance_fields_def loop_res_def
        WASMExportFuncInstance_ok_def WASMExportFuncInstance_image_def dump_str_nodes_path name_ok_def codec)
qed

subsection \<open>Function instances\<close>

lemma find_import_at:
  "\<forall>j \<le> k. a + of_nat (sizeof_WASMImport * j) \<noteq> 0 \<Longrightarrow>
     find_import (a + of_nat (sizeof_WASMImport * k) + of_nat offsetof_WASMImport_u) a
       = Some (a + of_nat (sizeof_WASMImport * k))"
proof (induction k arbitrary: a)
  case 0
  then show ?case by (subst find_import.simps) simp
next
  case (Suc k)
  show ?case
  proof (cases "a = a + of_nat (sizeof_WASMImport * Suc k)")
    case True
    have "a \<noteq> 0" using Suc.prems by force
    then show ?thesis by (subst find_import.simps) (use True in simp)
  next
    case False
    let ?b = "a + of_nat sizeof_WASMImport"
    have "?b + of_nat (sizeof_WASMImport * j) = a + of_nat (sizeof_WASMImport * Suc j)" for j
      by (simp add: algebra_simps)
    then have "find_import (?b + of_nat (sizeof_WASMImport * k) + of_nat offsetof_WASMImport_u) ?b
        = Some (?b + of_nat (sizeof_WASMImport * k))"
      using Suc.IH [of ?b] Suc.prems by (metis Suc_le_mono)
    moreover have "a \<noteq> 0" using Suc.prems by force
    ultimately show ?thesis using False
      by (subst find_import.simps) (simp add: algebra_simps)
  qed
qed

lemma dump_import_ref_at:
  assumes "import_at c target"
  shows "dump_import_ref c target = Inr (DUMP_PTR (dc_base c) (target - of_nat offsetof_WASMImport_u))"
proof -
  obtain md k where md: "dc_mem c (dc_module c) = Some (O_WASMModule md)"
    and t: "target = md_import_functions md + of_nat (sizeof_WASMImport * k) + of_nat offsetof_WASMImport_u"
    and nz: "\<forall>j \<le> k. md_import_functions md + of_nat (sizeof_WASMImport * j) \<noteq> 0"
    using assms by (auto simp: import_at_def split: option.split_asm obj.split_asm)
  have "md_import_functions md + of_nat (sizeof_WASMImport * k) \<noteq> 0" using nz by blast
  then show ?thesis using md find_import_at [OF nz] by (simp add: dump_import_ref_def loop_res_def t)
qed

lemma import_instance_roundtrip:
  assumes "WASMFunctionInstance_ok c rg p q n n0" "fi_is_import_func n"
  shows "\<exists>bs. WASMFunctionInstance_bytes c p n = Inr bs \<and>
      (\<forall>fp. WASMFunctionInstance_fields rg q (n0, bs @ fp) = Inr (WASMFunctionInstance_image c rg p q n n0, fp))"
proof -
  obtain im where "dc_mem c (fi_u n - of_nat offsetof_WASMImport_u) = Some (O_WASMImport im)"
    "imf_func_type im = fi_param_types n - of_nat offsetof_WASMType_types"
    using assms by (auto simp: WASMFunctionInstance_ok_def split: option.split_asm obj.split_asm)
  with assms show ?thesis
    by (simp add: WASMFunctionInstance_bytes_def WASMFunctionInstance_fields_def WASMFunctionInstance_ok_def
        WASMFunctionInstance_image_def dump_import_ref_at codec Let_def)
qed

lemma local_instance_roundtrip:
  assumes "WASMFunctionInstance_ok c rg p q n n0" "\<not> fi_is_import_func n"
  shows "\<exists>bs. WASMFunctionInstance_bytes c p n = Inr bs \<and>
      (\<forall>fp. WASMFunctionInstance_fields rg q (n0, bs @ fp) = Inr (WASMFunctionInstance_image c rg p q n n0, fp))"
proof -
  obtain fn where "dc_mem c (fi_u n) = Some (O_WASMFunction fn)"
    "fn_func_type fn = fi_param_types n - of_nat offsetof_WASMType_types"
    using assms by (auto simp: WASMFunctionInstance_ok_def split: option.split_asm obj.split_asm)
  with assms show ?thesis
    by (simp add: WASMFunctionInstance_bytes_def WASMFunctionInstance_fields_def WASMFunctionInstance_ok_def
        WASMFunctionInstance_image_def codec Let_def)
qed

interpretation rt_WASMFunctionInstance: node_codec as_WASMFunctionInstance O_WASMFunctionInstance
  WASMFunctionInstance_bytes WASMFunctionInstance_fields WASMFunctionInstance_ok WASMFunctionInstance_image
  by unfold_locales (metis import_instance_roundtrip local_instance_roundtrip)

subsection \<open>The execution environment\<close>

lemma restore_code_ptr_back:
  "restore_code_ptr code' upd (ba, fwrite_u32 (code_offset fn a) @ fp) = Inr (upd (\<lambda>_. shift (fn_code fn) code' a) ba, fp)"
  by (simp add: restore_code_ptr_def fread_as_def u32_codec.dec_enc code_offset_def shift_def)

lemma block_roundtrip:
  assumes "block_ok c rg fs ba"
  shows "\<exists>bs. dump_block c stuck ba fs = Inr bs \<and>
    (\<forall>ba0 fp. restore_block rg (ba0, bs @ fp) = Inr (block_image c rg fs ba, fp))"
proof (cases "null_block ba")
  case True
  with assms obtain f fs' where "fs = f # fs'" by (cases fs) (auto simp: block_ok_def)
  with True show ?thesis
    by (auto simp: restore_block_def read_info_back ptr_ok_def block_image_def null_block_def)
next
  case False
  with assms show ?thesis
  proof (induction fs)
    case (Cons f fs)
    then obtain fn where fn: "dc_mem c f = Some (O_WASMFunction fn)"
      by (auto simp: block_ok_def split: option.split_asm obj.split_asm)
    show ?case
    proof (cases "CHECK_IP fn (ba_start_addr ba)")
      case True
      with Cons.prems fn have "fn_code fn \<noteq> 0" "ptr_ok rg (dc_base c) (fn_code fn)"
        by (auto simp: block_ok_def)
      with True fn False show ?thesis
        by (simp add: restore_block_def read_info_back restore_code_ptr_back block_image_def Let_def)
    next
      case False
      with Cons fn \<open>\<not> null_block ba\<close> show ?thesis by (simp add: block_ok_def block_image_def)
    qed
  qed (simp add: block_ok_def)
qed

lemma blocks_roundtrip:
  "\<forall>ba \<in> set bas. block_ok c rg fs ba \<Longrightarrow> length bas0 = length bas \<Longrightarrow>
     \<exists>bs. dump_blocks c stuck fs bas = Inr bs \<and>
       (\<forall>fp. restore_blocks_from rg bas0 (bs @ fp) = Inr (map (block_image c rg fs) bas, fp))"
proof (induction bas arbitrary: bas0)
  case (Cons ba bas)
  then obtain ba0 bas1 where b0: "bas0 = ba0 # bas1" "length bas1 = length bas" by (cases bas0) auto
  obtain bs1 where "dump_block c stuck ba fs = Inr bs1"
    "\<And>ba0 fp. restore_block rg (ba0, bs1 @ fp) = Inr (block_image c rg fs ba, fp)"
    using block_roundtrip [of c rg fs ba stuck] Cons.prems by auto
  moreover obtain bs2 where "dump_blocks c stuck fs bas = Inr bs2"
    "\<And>fp. restore_blocks_from rg bas1 (bs2 @ fp) = Inr (map (block_image c rg fs) bas, fp)"
    using Cons b0 by (metis list.set_intros(2))
  ultimately show ?case by (simp add: b0)
qed simp

interpretation rt_WASMExecEnv: node_codec as_WASMExecEnv O_WASMExecEnv WASMExecEnv_bytes WASMExecEnv_fields
  WASMExecEnv_ok WASMExecEnv_image
proof
  fix c rg p q n n0
  assume ok: "WASMExecEnv_ok c rg p q n n0"
  then obtain stuck fs where fs: "module_functions c (ee_module_inst n) = Inr (stuck, fs)"
    and "\<forall>ba \<in> set (ee_block_addr_cache n). block_ok c rg fs ba"
    by (auto simp: WASMExecEnv_ok_def split: sum.split_asm)
  then obtain bs where bs: "dump_blocks c stuck fs (ee_block_addr_cache n) = Inr bs"
    "\<And>fp. restore_blocks_from rg (ee_block_addr_cache n0) (bs @ fp)
       = Inr (map (block_image c rg fs) (ee_block_addr_cache n), fp)"
    using ok blocks_roundtrip [of "ee_block_addr_cache n" c rg fs "ee_block_addr_cache n0" stuck]
    by (auto simp: WASMExecEnv_ok_def)
  have "on_member ee_block_addr_cache ee_block_addr_cache_update (restore_blocks rg) (m, bs @ fp)
      = Inr (m\<lparr>ee_block_addr_cache := map (block_image c rg fs) (ee_block_addr_cache n)\<rparr>, fp)"
    if "ee_block_addr_cache m = ee_block_addr_cache n0" for m :: WASMExecEnv and fp
    by (rule on_member_app) (simp add: restore_blocks_def that bs)
  with ok fs bs show "\<exists>bs. WASMExecEnv_bytes c p n = Inr bs \<and>
      (\<forall>fp. WASMExecEnv_fields rg q (n0, bs @ fp) = Inr (WASMExecEnv_image c rg p q n n0, fp))"
    by (simp add: WASMExecEnv_bytes_def WASMExecEnv_fields_def WASMExecEnv_ok_def WASMExecEnv_image_def codec)
qed

end
