(* ===== verification/Image.thy ===== *)
theory Image
  imports Node_Roundtrip
begin

text \<open>
  The checkpoint as a whole: \<open>dump_runtime\<close> (wasm_memory.c) walks the registry and writes the
  three images, \<open>restore_runtime\<close> rebuilds the registry from pool_info.img, and
  \<open>restore_internal\<close> (wasm_restore.c) fills the blocks from dump.img. The last part of a
  restore, the frames, is in \<open>Frames\<close>.
\<close>

section \<open>Dumping the registry\<close>

record images =
  img_pool :: stream
  img_dump :: stream
  img_frame :: stream

definition skipped_types :: "Data_Type list" where
  "skipped_types = [gc_heap_tT, WASIContextT, WASI_FILE_T, NativeSymbolsNodeT, fd_prestatsT, fd_tableT,
     argv_environ_valuesT]"

text \<open>The entry of a chain in pool_info.img; the loop over its further nodes counts to \<open>size\<close>.\<close>

definition pool_entry :: "pool_chain \<Rightarrow> stream res" where
  "pool_entry ps =
     (case ps of [] \<Rightarrow> Inl (UB ''NULL Pool_Info'')
      | p # rest \<Rightarrow>
          let hdr = fwrite_u32 (p_abs p) @ fwrite_u32 (p_type p) @ fwrite_u32 (p_size p);
              k = nat (sint (p_size p) - 1) in
          if rest = [] then Inr hdr
          else if length rest < k then Inl (UB ''NULL Pool_Info'')
          else if k < length rest then Inl (Exit ''Dump list error'')
          else Inr (hdr @ concat (map (\<lambda>q. fwrite_u32 (p_abs q)) rest)))"

fun dump_chains :: "dump_ctx \<Rightarrow> pool_chain list \<Rightarrow> images \<Rightarrow> images res" where
  "dump_chains c [] im = Inr im"
| "dump_chains c (ps # cs) im =
     (case ps of [] \<Rightarrow> Inl (UB ''NULL Pool_Info'')
      | p # _ \<Rightarrow>
          if p_type p \<in> set skipped_types then dump_chains c cs im
          else case map_of init_dump_func (p_type p) of
             None \<Rightarrow> Inl (UB ''call of a NULL handler'')
           | Some (file, D) \<Rightarrow>
               bind_res (D c ps) (\<lambda>out.
               bind_res (pool_entry ps) (\<lambda>entry.
               dump_chains c cs
                 (case file of
                    Dump_Img \<Rightarrow> im\<lparr>img_dump := img_dump im @ out, img_pool := img_pool im @ entry\<rparr>
                  | Frame_Img \<Rightarrow> im\<lparr>img_frame := img_frame im @ out, img_pool := img_pool im @ entry\<rparr>))))"

definition dump_runtime :: "registry \<Rightarrow> mem \<Rightarrow> images res" where
  "dump_runtime rg m = dump_chains \<lparr>dc_base = pool_allocator rg, dc_mem = m, dc_module = rg_module rg\<rparr>
     (root_info rg) \<lparr>img_pool = [], img_dump = [], img_frame = []\<rparr>"

section \<open>Rebuilding the registry\<close>

text \<open>
  \<open>mal\<close> is the allocator behind \<open>wasm_runtime_malloc\<close>, a function of its state and the
  size asked for; \<open>junk t sz i\<close> is the content of the \<open>i\<close>-th element of a fresh block
  allocated for type \<open>t\<close> and size \<open>sz\<close>; \<open>ext\<close> are the sizes of the foreign structs.
\<close>

record 'h load_st =
  ld_rg :: registry
  ld_mem :: mem
  ld_heap :: 'h

type_synonym 'h allocator = "'h \<Rightarrow> u32 \<Rightarrow> addr \<times> 'h"
type_synonym fresh_content = "Data_Type \<Rightarrow> u32 \<Rightarrow> nat \<Rightarrow> obj"

definition wasm_runtime_malloc :: "'h allocator \<Rightarrow> 'h \<Rightarrow> u32 \<Rightarrow> addr \<times> 'h" where
  "wasm_runtime_malloc mal h sz = mal h (if sz = 0 then 1 else sz)"

definition elem_count :: "u32 \<Rightarrow> nat" where
  "elem_count sz = nat (sint sz - 1)"

text \<open>The nodes of an array after its first, and the objects of the block.\<close>

definition elem_nodes :: "nat \<Rightarrow> Data_Type \<Rightarrow> addr \<Rightarrow> u32 list \<Rightarrow> pool_chain" where
  "elem_nodes ds t a pas =
     map (\<lambda>(i, pa). \<lparr>p_abs = pa, p_raw = a + of_nat i * of_nat ds, p_size = - 1, p_type = t\<rparr>)
       (zip [1..<Suc (length pas)] pas)"

fun put_objs :: "fresh_content \<Rightarrow> Data_Type \<Rightarrow> u32 \<Rightarrow> nat \<Rightarrow> pool_chain \<Rightarrow> mem \<Rightarrow> mem" where
  "put_objs junk t sz i [] m = m"
| "put_objs junk t sz i (p # ps) m = put_objs junk t sz (Suc i) ps (m(p_raw p := Some (junk t sz i)))"

definition add_block :: "fresh_content \<Rightarrow> Data_Type \<Rightarrow> u32 \<Rightarrow> pool_chain \<Rightarrow> 'h \<Rightarrow> 'h load_st \<Rightarrow> 'h load_st" where
  "add_block junk t sz ps h st = st\<lparr>ld_rg := (ld_rg st)\<lparr>root_info := ps # root_info (ld_rg st)\<rparr>,
     ld_mem := put_objs junk t sz 0 ps (ld_mem st), ld_heap := h\<rparr>"

definition offset_types :: "Data_Type list" where
  "offset_types = [WASMExecEnvT, WASMTypeT, WASMTableInstanceT, StringNodeT, WASMFunctionT]"

definition dropped_types :: "Data_Type list" where
  "dropped_types = [gc_heap_tT, WASIContextT, fd_tableT, fd_prestatsT, argv_environ_valuesT, WASI_FILE_T]"

definition array_types :: "Data_Type list" where
  "array_types = [charT, charTT, uint8T, uint16T, uint32T, uint64T, WASMFunctionTT, WASMTypeTT,
     WASMDataSegTT, WASMMemoryInstanceTT, WASMTableInstanceTT]"

text \<open>The frames are kept in the order of their offsets, compared as ints.\<close>

fun insert_frame :: "pool_node \<Rightarrow> pool_chain list \<Rightarrow> pool_chain list" where
  "insert_frame x [] = [[x]]"
| "insert_frame x (c # cs) =
     (if c \<noteq> [] \<and> sint (p_abs (hd c)) < sint (p_abs x) then c # insert_frame x cs else [x] # c # cs)"

definition node_of :: "u32 \<Rightarrow> Data_Type \<Rightarrow> u32 \<Rightarrow> addr \<Rightarrow> pool_node" where
  "node_of pa t sz a = \<lparr>p_abs = pa, p_raw = a, p_size = sz, p_type = t\<rparr>"

definition set_statics :: "Data_Type \<Rightarrow> addr \<Rightarrow> 'h load_st \<Rightarrow> 'h load_st" where
  "set_statics t a st =
     (if t = WASMExecEnvT then st\<lparr>ld_rg := set_WASMExecEnv a (ld_rg st)\<rparr>
      else if t = WASMModuleT then st\<lparr>ld_rg := set_WASMModule a (ld_rg st)\<rparr>
      else st)"

text \<open>The switch over the type of an entry. Sizes are computed as \<open>size_t\<close> and cut to the
  \<open>unsigned int\<close> the allocator takes.\<close>

definition restore_entry ::
  "(Data_Type \<Rightarrow> nat) \<Rightarrow> 'h allocator \<Rightarrow> fresh_content \<Rightarrow> u32 \<Rightarrow> Data_Type \<Rightarrow> u32 \<Rightarrow> 'h load_st stmt" where
  "restore_entry ext mal junk pa t sz = (\<lambda>(st, fp).
     if unat ERRORT \<le> unat t then Inl (UB ''read past data_size'')
     else let ds = data_size ext t; plus = of_nat ds + scast sz :: u64; times = of_nat ds * scast sz :: u64 in
     if t \<in> set offset_types then
       if plus = 0 then Inl (Exit ''type'')
       else (case wasm_runtime_malloc mal (ld_heap st) (ucast plus) of (a, h) \<Rightarrow>
         Inr (add_block junk t sz [node_of pa t sz a] h (set_statics t a st), fp))
     else if t = WASMInterpFrameT then
       Inr (st\<lparr>ld_rg := (ld_rg st)\<lparr>root_frame := insert_frame (node_of pa t sz 0) (root_frame (ld_rg st))\<rparr>\<rparr>, fp)
     else if t \<in> set dropped_types then Inr (st, fp)
     else if t \<in> set array_types then
       (case wasm_runtime_malloc mal (ld_heap st) (ucast times) of (a, h) \<Rightarrow>
         Inr (add_block junk t sz [node_of pa t sz a] h st, fp))
     else if times = 0 then Inl (Exit ''default type'')
     else (case wasm_runtime_malloc mal (ld_heap st) (ucast times) of (a, h) \<Rightarrow>
       bind_res (fread_raw (4 * elem_count sz) fp) (\<lambda>(bs, fp').
         Inr (add_block junk t sz
           (node_of pa t sz a # elem_nodes ds t a (decode_array 4 le_word (elem_count sz) bs)) h
           (set_statics t a st), fp'))))"

text \<open>The loop over pool_info.img stops when no further int can be read.\<close>

lemma bind_res_cong [fundef_cong]:
  "r = r' \<Longrightarrow> (\<And>x. r' = Inr x \<Longrightarrow> f x = g x) \<Longrightarrow> bind_res r f = bind_res r' g"
  by (cases r') auto

lemma restore_entry_shrinks:
  "restore_entry ext mal junk pa t sz (st, fp) = Inr (st', fp') \<Longrightarrow> length fp' \<le> length fp"
  by (auto simp: restore_entry_def Let_def bind_res_eq_Inr dest!: fread_raw_shrinks split: if_splits prod.splits)

function restore_pool ::
  "(Data_Type \<Rightarrow> nat) \<Rightarrow> 'h allocator \<Rightarrow> fresh_content \<Rightarrow> 'h load_st \<Rightarrow> stream \<Rightarrow> 'h load_st res" where
  "restore_pool ext mal junk st fp =
     (if length fp < 4 then Inr st
      else bind_res (fread_raw 4 fp) (\<lambda>(b1, fp1).
        bind_res (fread_raw 4 fp1) (\<lambda>(b2, fp2).
        bind_res (fread_raw 4 fp2) (\<lambda>(b3, fp3).
        bind_res (restore_entry ext mal junk (le_word b1) (le_word b2) (le_word b3) (st, fp3)) (\<lambda>(st', fp4).
        restore_pool ext mal junk st' fp4)))))"
  by pat_completeness auto
termination
  by (relation "measure (\<lambda>(ext, mal, junk, st, fp). length fp)")
    (auto dest!: fread_raw_shrinks restore_entry_shrinks)

section \<open>Filling the blocks\<close>

function restore_internal :: "restore_st \<Rightarrow> stream \<Rightarrow> restore_st res" where
  "restore_internal st fp =
     (if length fp < 4 then Inr st
      else bind_res (fread_raw 4 fp) (\<lambda>(b1, fp1).
        bind_res (fread_raw 4 fp1) (\<lambda>(b2, fp2).
        bind_res (fread_raw 4 fp2) (\<lambda>(b3, fp3).
        bind_res (get_info (rs_rg st) (le_word b3)) (\<lambda>info.
        bind_res
          (case map_of restore_data (le_word b1) of
             None \<Rightarrow> Inl (UB ''call of a NULL handler'') | Some R \<Rightarrow> R info (st, fp3)) (\<lambda>(st', fp4).
        restore_internal st' fp4))))))"
  by pat_completeness auto

lemma handler_shrinks_stream:
  "(case map_of restore_data t of None \<Rightarrow> Inl e | Some R \<Rightarrow> R info (st, fp)) = Inr (st', fp') \<Longrightarrow>
     length fp' \<le> length fp"
  using shrinking_restore_data by (fastforce dest: map_of_SomeD shrinkingD split: option.split_asm)

termination restore_internal
  by (relation "measure (\<lambda>(st, fp). length fp)") (auto dest!: fread_raw_shrinks handler_shrinks_stream)

declare restore_pool.simps [simp del] restore_internal.simps [simp del]

section \<open>The types that survive a checkpoint\<close>

text \<open>The handler pairs of dump.img that are inverse to each other, with the condition and the image of
  their type; the flag tells whether they walk the whole chain.\<close>

definition codec_table :: "(Data_Type \<times> bool \<times> obj_cond \<times> obj_image) list" where
  "codec_table =
    [(charT, False, lift_cond as_Bytes (buf_ok 1), lift_image as_Bytes O_Bytes (buf_image 1)),
     (charTT, False, lift_cond as_Ptrs ptrs_ok, lift_image as_Ptrs O_Ptrs ptrs_image),
     (uint8T, False, lift_cond as_Bytes (buf_ok 1), lift_image as_Bytes O_Bytes (buf_image 1)),
     (uint16T, False, lift_cond as_Bytes (buf_ok 2), lift_image as_Bytes O_Bytes (buf_image 2)),
     (uint32T, False, lift_cond as_Bytes (buf_ok 4), lift_image as_Bytes O_Bytes (buf_image 4)),
     (uint64T, False, lift_cond as_Bytes (buf_ok 8), lift_image as_Bytes O_Bytes (buf_image 8)),
     (WASMExecEnvT, False, lift_cond as_WASMExecEnv WASMExecEnv_ok,
        lift_image as_WASMExecEnv O_WASMExecEnv WASMExecEnv_image),
     (WASMModuleMemConsumptionT, True, lift_cond as_WASMModuleMemConsumption any_ok,
        lift_image as_WASMModuleMemConsumption O_WASMModuleMemConsumption same_image),
     (WASMModuleInstMemConsumptionT, True, lift_cond as_WASMModuleInstMemConsumption any_ok,
        lift_image as_WASMModuleInstMemConsumption O_WASMModuleInstMemConsumption same_image),
     (WASMSectionT, True, lift_cond as_WASMSection WASMSection_ok,
        lift_image as_WASMSection O_WASMSection WASMSection_image),
     (WASMModuleT, True, lift_cond as_WASMModule WASMModule_ok,
        lift_image as_WASMModule O_WASMModule WASMModule_image),
     (WASMFunctionT, False, lift_cond as_WASMFunction WASMFunction_ok,
        lift_image as_WASMFunction O_WASMFunction WASMFunction_image),
     (WASMFunctionTT, False, lift_cond as_Ptrs ptrs_ok, lift_image as_Ptrs O_Ptrs ptrs_image),
     (WASMGlobalT, True, lift_cond as_WASMGlobal WASMGlobal_ok,
        lift_image as_WASMGlobal O_WASMGlobal WASMGlobal_image),
     (WASMExportT, True, lift_cond as_WASMExport WASMExport_ok,
        lift_image as_WASMExport O_WASMExport WASMExport_image),
     (V128T, True, lift_cond as_WASMValue V128_ok, lift_image as_WASMValue O_WASMValue same_image),
     (WASMValueT, True, lift_cond as_WASMValue V128_ok, lift_image as_WASMValue O_WASMValue same_image),
     (InitializerExpressionT, True, lift_cond as_InitializerExpression InitializerExpression_ok,
        lift_image as_InitializerExpression O_InitializerExpression InitializerExpression_image),
     (WASMTypeT, False, lift_cond as_WASMType WASMType_ok, lift_image as_WASMType O_WASMType WASMType_image),
     (WASMTypeTT, False, lift_cond as_Ptrs ptrs_ok, lift_image as_Ptrs O_Ptrs ptrs_image),
     (WASMTableT, True, lift_cond as_WASMTable any_ok, lift_image as_WASMTable O_WASMTable same_image),
     (WASMMemoryT, True, lift_cond as_WASMMemory any_ok, lift_image as_WASMMemory O_WASMMemory same_image),
     (WASMImportT, True, lift_cond as_WASMImport WASMImport_ok,
        lift_image as_WASMImport O_WASMImport WASMImport_image),
     (WASMTableSegT, True, lift_cond as_WASMTableSeg WASMTableSeg_ok,
        lift_image as_WASMTableSeg O_WASMTableSeg WASMTableSeg_image),
     (WASMDataSegT, True, lift_cond as_WASMDataSeg WASMDataSeg_ok,
        lift_image as_WASMDataSeg O_WASMDataSeg WASMDataSeg_image),
     (WASMDataSegTT, False, lift_cond as_Ptrs ptrs_ok, lift_image as_Ptrs O_Ptrs ptrs_image),
     (StringNodeT, False, lift_cond as_StringNode StringNode_ok,
        lift_image as_StringNode O_StringNode StringNode_image),
     (ConstT, True, lift_cond as_Const Const_ok, lift_image as_Const O_Const same_image),
     (WASMModuleInstanceT, True, lift_cond as_WASMModuleInstance WASMModuleInstance_ok,
        lift_image as_WASMModuleInstance O_WASMModuleInstance WASMModuleInstance_image),
     (WASMFunctionInstanceT, True, lift_cond as_WASMFunctionInstance WASMFunctionInstance_ok,
        lift_image as_WASMFunctionInstance O_WASMFunctionInstance WASMFunctionInstance_image),
     (WASMMemoryInstanceT, True, lift_cond as_WASMMemoryInstance WASMMemoryInstance_ok,
        lift_image as_WASMMemoryInstance O_WASMMemoryInstance WASMMemoryInstance_image),
     (WASMMemoryInstanceTT, False, lift_cond as_Ptrs ptrs_ok, lift_image as_Ptrs O_Ptrs ptrs_image),
     (WASMTableInstanceT, False, lift_cond as_WASMTableInstance WASMTableInstance_ok,
        lift_image as_WASMTableInstance O_WASMTableInstance WASMTableInstance_image),
     (WASMTableInstanceTT, False, lift_cond as_Ptrs ptrs_ok, lift_image as_Ptrs O_Ptrs ptrs_image),
     (WASMGlobalInstanceT, True, lift_cond as_WASMGlobalInstance WASMGlobalInstance_ok,
        lift_image as_WASMGlobalInstance O_WASMGlobalInstance WASMGlobalInstance_image),
     (WASMExportFuncInstanceT, True, lift_cond as_WASMExportFuncInstance WASMExportFuncInstance_ok,
        lift_image as_WASMExportFuncInstance O_WASMExportFuncInstance WASMExportFuncInstance_image)]"

text \<open>Each entry is the contract of the handlers the two dispatch tables have for its type.\<close>

definition entry_sound :: "Data_Type \<times> bool \<times> obj_cond \<times> obj_image \<Rightarrow> bool" where
  "entry_sound e = (case e of (t, arr, cond, img) \<Rightarrow>
     \<exists>D R. map_of init_dump_func t = Some (Dump_Img, D) \<and> map_of restore_data t = Some R \<and>
       image_handler t arr D R cond img)"

lemmas dump_defs =
  dump_char_def dump_charT_def dump_uint8_def dump_uint16_def dump_uint32_def dump_uint64_def
  dump_WASMExecEnv_def dump_WASMModuleMemConsumption_def dump_WASMModuleInstMemConsumption_def
  dump_WASMSection_def dump_WASMModule_def dump_WASMFunction_def dump_WASMFunctionT_def
  dump_WASMGlobal_def dump_WASMExport_def dump_V128_def dump_WASMValue_def
  dump_InitializerExpression_def dump_WASMType_def dump_WASMTypeT_def dump_WASMTable_def
  dump_WASMMemory_def dump_WASMImport_def dump_WASMTableSeg_def dump_WASMDataSeg_def
  dump_WASMDataSegT_def dump_StringNode_def dump_Const_def dump_WASMModuleInstance_def
  dump_WASMFunctionInstance_def dump_WASMMemoryInstance_def dump_WASMMemoryInstanceT_def
  dump_WASMTableInstance_def dump_WASMTableInstanceT_def dump_WASMGlobalInstance_def
  dump_WASMExportFuncInstance_def

lemmas pair_handlers =
  buf.head.image_handler_axioms ptrs.head.image_handler_axioms
  rt_WASMModuleMemConsumption.array.image_handler_axioms
  rt_WASMModuleInstMemConsumption.array.image_handler_axioms
  rt_WASMSection.array.image_handler_axioms rt_WASMFunction.head.image_handler_axioms
  rt_WASMGlobal.array.image_handler_axioms rt_WASMExport.array.image_handler_axioms
  rt_V128.array.image_handler_axioms rt_InitializerExpression.array.image_handler_axioms
  rt_WASMType.head.image_handler_axioms rt_WASMTable.array.image_handler_axioms
  rt_WASMMemory.array.image_handler_axioms rt_WASMImport.array.image_handler_axioms
  rt_WASMTableSeg.array.image_handler_axioms rt_WASMDataSeg.array.image_handler_axioms
  rt_StringNode.head.image_handler_axioms rt_Const.array.image_handler_axioms
  rt_WASMFunctionInstance.array.image_handler_axioms rt_WASMMemoryInstance.array.image_handler_axioms
  rt_WASMTableInstance.head.image_handler_axioms rt_WASMGlobalInstance.array.image_handler_axioms
  rt_WASMExportFuncInstance.array.image_handler_axioms
  image_handler_with_static [OF rt_WASMExecEnv.head.image_handler_axioms]
  image_handler_with_static [OF rt_WASMModule.array.image_handler_axioms]
  image_handler_with_static [OF rt_WASMModuleInstance.array.image_handler_axioms]

lemma codec_table_sound: "\<forall>e \<in> set codec_table. entry_sound e"
  unfolding codec_table_def list.set ball_simps entry_sound_def prod.case
  by (intro conjI; simp add: init_dump_func_def restore_data_def; simp add: dump_defs handler_defs pair_handlers)

end
