(* ===== verification/Image_Roundtrip.thy ===== *)
theory Image_Roundtrip
  imports Image
begin

text \<open>
  The two images read back: pool_info.img gives a registry with the same chains (offsets, types and
  sizes), and dump.img, read into the blocks of that registry, gives every object back with its
  pointers relocated.
\<close>

section \<open>dump.img\<close>

text \<open>What \<open>dump_runtime\<close> appends to dump.img for a list of chains.\<close>

fun dump_list :: "dump_ctx \<Rightarrow> pool_chain list \<Rightarrow> stream res" where
  "dump_list c [] = Inr []"
| "dump_list c (ps # cs) =
     (case map_of init_dump_func (p_type (hd ps)) of
        Some (Dump_Img, D) \<Rightarrow> bind_res (D c ps) (\<lambda>out. bind_res (dump_list c cs) (\<lambda>rest. Inr (out @ rest)))
      | _ \<Rightarrow> Inl (UB ''call of a NULL handler''))"

text \<open>A chain and the chain allocated for it, ready for the round trip: the type has a pair of inverse
  handlers whose condition holds, and the offset of the head leads to the new chain.\<close>

definition pair_ok :: "dump_ctx \<Rightarrow> registry \<Rightarrow> mem \<Rightarrow> pool_chain \<times> pool_chain \<Rightarrow> bool" where
  "pair_ok c rg m = (\<lambda>(ps, qs). ps \<noteq> [] \<and> get_info rg (p_abs (hd ps)) = Inr qs \<and>
     (case map_of codec_table (p_type (hd ps)) of None \<Rightarrow> False
      | Some (arr, cond, img) \<Rightarrow> (arr \<or> length ps = 1) \<and> chain_ok cond c rg m ps qs))"

definition pair_restored :: "dump_ctx \<Rightarrow> registry \<Rightarrow> mem \<Rightarrow> mem \<Rightarrow> pool_chain \<times> pool_chain \<Rightarrow> bool" where
  "pair_restored c rg m m' = (\<lambda>(ps, qs).
     case map_of codec_table (p_type (hd ps)) of None \<Rightarrow> False
     | Some (arr, cond, img) \<Rightarrow> list_all2 (node_restored img c rg m m') ps qs)"

lemma restore_internal_record:
  assumes "map_of restore_data t = Some R" "get_info (rs_rg st) (p_abs p) = Inr qs" "R qs (st, fp) = Inr (st', fp')"
  shows "restore_internal st (dump_header t p @ fp) = restore_internal st' fp'"
  by (subst restore_internal.simps) (simp add: dump_header_def u32_codec.dec_enc assms)

lemma pair_ok_cong:
  "(\<And>q. q \<in> set qs \<Longrightarrow> m (p_raw q) = m1 (p_raw q)) \<Longrightarrow> pair_ok c rg m (ps, qs) = pair_ok c rg m1 (ps, qs)"
  by (simp add: pair_ok_def chain_ok_cong [of qs m m1] split: option.split)

lemma pair_restored_cong:
  "(\<And>q. q \<in> set qs \<Longrightarrow> m (p_raw q) = m1 (p_raw q)) \<Longrightarrow>
     pair_restored c rg m m' (ps, qs) = pair_restored c rg m1 m' (ps, qs)"
  by (simp add: pair_restored_def nodes_restored_cong [of qs m m1] split: option.split)

lemma nodes_restored_target:
  assumes "\<And>q. q \<in> set qs \<Longrightarrow> m' (p_raw q) = m1 (p_raw q)"
  shows "list_all2 (node_restored img c rg m m') ps qs = list_all2 (node_restored img c rg m m1) ps qs"
  by (rule list.rel_cong) (simp_all add: node_restored_def assms)

lemma pair_restored_target:
  "(\<And>q. q \<in> set qs \<Longrightarrow> m' (p_raw q) = m1 (p_raw q)) \<Longrightarrow>
     pair_restored c rg m m' (ps, qs) = pair_restored c rg m m1 (ps, qs)"
  by (simp add: pair_restored_def nodes_restored_target [of qs m' m1] split: option.split)

text \<open>One record.\<close>

lemma record_roundtrip:
  assumes "pair_ok c (rs_rg st) (rs_mem st) (ps, qs)" "distinct (map p_raw qs)"
  shows "\<exists>D bs st'. map_of init_dump_func (p_type (hd ps)) = Some (Dump_Img, D) \<and> D c ps = Inr bs \<and>
     (\<forall>fp. restore_internal st (bs @ fp) = restore_internal st' fp) \<and> rs_rg st' = rs_rg st \<and>
     pair_restored c (rs_rg st) (rs_mem st) (rs_mem st') (ps, qs) \<and>
     (\<forall>a. a \<notin> p_raw ` set qs \<longrightarrow> rs_mem st' a = rs_mem st a)"
proof -
  obtain arr cond img where e: "map_of codec_table (p_type (hd ps)) = Some (arr, cond, img)"
    and *: "ps \<noteq> []" "get_info (rs_rg st) (p_abs (hd ps)) = Inr qs" "arr \<or> length ps = 1"
      "chain_ok cond c (rs_rg st) (rs_mem st) ps qs"
    using assms(1) by (auto simp: pair_ok_def split: option.split_asm)
  have "entry_sound (p_type (hd ps), arr, cond, img)"
    using codec_table_sound map_of_SomeD [OF e] by blast
  then obtain D R where D: "map_of init_dump_func (p_type (hd ps)) = Some (Dump_Img, D)"
    and R: "map_of restore_data (p_type (hd ps)) = Some R"
    and h: "image_handler (p_type (hd ps)) arr D R cond img"
    by (auto simp: entry_sound_def)
  obtain bs st' where bs: "D c ps = Inr (dump_header (p_type (hd ps)) (hd ps) @ bs)"
    "\<And>fp. R qs (st, bs @ fp) = Inr (st', fp)" "rs_rg st' = rs_rg st"
    "chain_restored img c (rs_rg st) (rs_mem st) (rs_mem st') ps qs"
    using image_handler.handler_roundtrip [OF h *(1,3) assms(2) *(4)] by blast
  have "restore_internal st ((dump_header (p_type (hd ps)) (hd ps) @ bs) @ fp) = restore_internal st' fp" for fp
    using restore_internal_record [OF R *(2) bs(2)] by simp
  with D bs e show ?thesis by (auto simp: pair_restored_def chain_restored_def)
qed

text \<open>The whole image.\<close>

lemma dump_img_roundtrip:
  "\<forall>x \<in> set prs. pair_ok c (rs_rg st) (rs_mem st) x \<Longrightarrow>
   distinct (map p_raw (concat (map snd prs))) \<Longrightarrow>
   \<exists>out st'. dump_list c (map fst prs) = Inr out \<and> restore_internal st out = Inr st' \<and> rs_rg st' = rs_rg st \<and>
     (\<forall>x \<in> set prs. pair_restored c (rs_rg st) (rs_mem st) (rs_mem st') x) \<and>
     (\<forall>a. a \<notin> p_raw ` set (concat (map snd prs)) \<longrightarrow> rs_mem st' a = rs_mem st a)"
proof (induction prs arbitrary: st)
  case Nil
  then show ?case by (simp add: restore_internal.simps)
next
  case (Cons x prs)
  obtain ps qs where x: "x = (ps, qs)" by (cases x)
  have d: "distinct (map p_raw qs)" "p_raw ` set qs \<inter> p_raw ` set (concat (map snd prs)) = {}"
    using Cons.prems(2) by (auto simp: x)
  have ok1: "pair_ok c (rs_rg st) (rs_mem st) (ps, qs)" using Cons.prems(1) x by simp
  obtain D bs st1 where r: "map_of init_dump_func (p_type (hd ps)) = Some (Dump_Img, D)" "D c ps = Inr bs"
    "\<And>fp. restore_internal st (bs @ fp) = restore_internal st1 fp" "rs_rg st1 = rs_rg st"
    and pr: "pair_restored c (rs_rg st) (rs_mem st) (rs_mem st1) (ps, qs)"
    and fr: "\<And>a. a \<notin> p_raw ` set qs \<Longrightarrow> rs_mem st1 a = rs_mem st a"
    using record_roundtrip [OF ok1 d(1)] by blast
  have same: "rs_mem st (p_raw q) = rs_mem st1 (p_raw q)" if "y \<in> set prs" "q \<in> set (snd y)" for y q
  proof -
    have "p_raw q \<in> p_raw ` set (concat (map snd prs))" using that by (simp, blast)
    with d(2) fr show ?thesis by (metis disjoint_iff)
  qed
  have "pair_ok c (rs_rg st1) (rs_mem st1) y" if "y \<in> set prs" for y
  proof -
    have "pair_ok c (rs_rg st) (rs_mem st) (fst y, snd y)" using Cons.prems(1) that by simp
    then show ?thesis
      using pair_ok_cong [of "snd y" "rs_mem st" "rs_mem st1" c "rs_rg st" "fst y"] same that r(4) by simp
  qed
  moreover have "distinct (map p_raw (concat (map snd prs)))" using Cons.prems(2) by (simp add: x)
  ultimately obtain out st2 where o: "dump_list c (map fst prs) = Inr out" "restore_internal st1 out = Inr st2"
    "rs_rg st2 = rs_rg st1" "\<forall>y \<in> set prs. pair_restored c (rs_rg st1) (rs_mem st1) (rs_mem st2) y"
    "\<And>a. a \<notin> p_raw ` set (concat (map snd prs)) \<Longrightarrow> rs_mem st2 a = rs_mem st1 a"
    using Cons.IH [of st1] by blast
  have "rs_mem st1 (p_raw q) = rs_mem st2 (p_raw q)" if "q \<in> set qs" for q
    using o(5) d(2) that by (metis disjoint_iff image_eqI)
  then have "pair_restored c (rs_rg st) (rs_mem st) (rs_mem st2) x"
    using pr pair_restored_target [of qs "rs_mem st1" "rs_mem st2"] by (simp add: x)
  moreover have "pair_restored c (rs_rg st) (rs_mem st) (rs_mem st2) y" if "y \<in> set prs" for y
  proof -
    have "pair_restored c (rs_rg st1) (rs_mem st1) (rs_mem st2) (fst y, snd y)" using o(4) that by simp
    then show ?thesis
      using pair_restored_cong [of "snd y" "rs_mem st" "rs_mem st1" c "rs_rg st" "rs_mem st2" "fst y"]
        same that r(4) by simp
  qed
  ultimately have all: "\<forall>y \<in> set (x # prs). pair_restored c (rs_rg st) (rs_mem st) (rs_mem st2) y"
    by (metis set_ConsD)
  have frame: "\<forall>a. a \<notin> p_raw ` set (concat (map snd (x # prs))) \<longrightarrow> rs_mem st2 a = rs_mem st a"
    using o(5) fr by (simp add: x image_Un)
  have "dump_list c (map fst (x # prs)) = Inr (bs @ out)" using r(1,2) o(1) by (simp add: x)
  moreover have "restore_internal st (bs @ out) = Inr st2" using r(3) o(2) by simp
  moreover have "rs_rg st2 = rs_rg st" using r(4) o(3) by simp
  ultimately show ?case using all frame by (intro exI [of _ "bs @ out"] exI [of _ st2] conjI)
qed

section \<open>pool\_info.img\<close>

text \<open>What a node is in the image.\<close>

definition skel :: "pool_node \<Rightarrow> u32 \<times> Data_Type \<times> u32" where
  "skel p = (p_abs p, p_type p, p_size p)"

definition frame_chain :: "pool_chain \<Rightarrow> bool" where
  "frame_chain ps \<longleftrightarrow> p_type (hd ps) = WASMInterpFrameT"

definition bytes_plus :: "(Data_Type \<Rightarrow> nat) \<Rightarrow> pool_node \<Rightarrow> u64" where
  "bytes_plus ext p = of_nat (data_size ext (p_type p)) + scast (p_size p)"

definition bytes_times :: "(Data_Type \<Rightarrow> nat) \<Rightarrow> pool_node \<Rightarrow> u64" where
  "bytes_times ext p = of_nat (data_size ext (p_type p)) * scast (p_size p)"

text \<open>
  The chains whose entry is read back as it was written: structs with a tail, buffers and frames have
  one node; the other types have as many nodes as their size says, and a size that is not 0.
\<close>

definition entry_ok :: "(Data_Type \<Rightarrow> nat) \<Rightarrow> pool_chain \<Rightarrow> bool" where
  "entry_ok ext ps \<longleftrightarrow>
     (case ps of [] \<Rightarrow> False
      | p # rest \<Rightarrow> unat (p_type p) < unat ERRORT \<and> p_type p \<notin> set dropped_types \<and>
          (if p_type p \<in> set offset_types then rest = [] \<and> bytes_plus ext p \<noteq> 0
           else if p_type p = WASMInterpFrameT \<or> p_type p \<in> set array_types then rest = []
           else bytes_times ext p \<noteq> 0 \<and> length rest = elem_count (p_size p) \<and>
             list_all (\<lambda>q. p_size q = - 1 \<and> p_type q = p_type p) rest))"

text \<open>
  What one entry adds to the registry: a chain with the same nodes, spaced by the element size and
  filled with fresh objects, or a frame without an address.
\<close>

definition entry_added :: "(Data_Type \<Rightarrow> nat) \<Rightarrow> fresh_content \<Rightarrow> pool_chain \<Rightarrow> 'h load_st \<Rightarrow> 'h load_st \<Rightarrow> bool" where
  "entry_added ext junk ps st st' \<longleftrightarrow>
     pool_allocator (ld_rg st') = pool_allocator (ld_rg st) \<and>
     (if frame_chain ps then
        root_info (ld_rg st') = root_info (ld_rg st) \<and> ld_mem st' = ld_mem st \<and>
        root_frame (ld_rg st') = insert_frame ((hd ps)\<lparr>p_raw := 0\<rparr>) (root_frame (ld_rg st))
      else
        root_frame (ld_rg st') = root_frame (ld_rg st) \<and>
        (\<exists>qs. root_info (ld_rg st') = qs # root_info (ld_rg st) \<and> map skel qs = map skel ps \<and>
           (\<forall>i < length qs. p_raw (qs ! i) = p_raw (hd qs) + of_nat i * of_nat (data_size ext (p_type (hd ps)))) \<and>
           ld_mem st' = put_objs junk (p_type (hd ps)) (p_size (hd ps)) 0 qs (ld_mem st)))"

lemma elem_nodes_length [simp]: "length (elem_nodes ds t a pas) = length pas"
  by (simp add: elem_nodes_def del: upt_Suc)

lemma elem_nodes_nth:
  "i < length pas \<Longrightarrow> elem_nodes ds t a pas ! i
     = \<lparr>p_abs = pas ! i, p_raw = a + of_nat (Suc i) * of_nat ds, p_size = - 1, p_type = t\<rparr>"
  by (simp add: elem_nodes_def del: upt_Suc)

lemma elem_nodes_skel:
  assumes "list_all (\<lambda>q. p_size q = - 1 \<and> p_type q = t) rest"
  shows "map skel (elem_nodes ds t a (map p_abs rest)) = map skel rest"
  by (rule nth_equalityI) (use assms in \<open>simp_all add: elem_nodes_nth skel_def list_all_length\<close>)

lemma pool_entry_ok:
  assumes "entry_ok ext (p # rest)"
  shows "pool_entry (p # rest) = Inr (fwrite_u32 (p_abs p) @ fwrite_u32 (p_type p) @ fwrite_u32 (p_size p) @
     concat (map fwrite_u32 (map p_abs rest)))"
proof -
  have "rest = [] \<or> length rest = elem_count (p_size p)"
    using assms by (simp add: entry_ok_def split: if_split_asm)
  then show ?thesis by (cases "rest = []") (simp_all add: pool_entry_def elem_count_def comp_def)
qed

text \<open>One entry.\<close>

lemma pool_entry_read:
  assumes "entry_ok ext (p # rest)"
  shows "\<exists>st'. (\<forall>fp. restore_entry ext mal junk (p_abs p) (p_type p) (p_size p)
      (st, concat (map fwrite_u32 (map p_abs rest)) @ fp) = Inr (st', fp)) \<and> entry_added ext junk (p # rest) st st'"
proof -
  let ?t = "p_type p" and ?sz = "p_size p"
  have lt: "\<not> unat ERRORT \<le> unat ?t" and nd: "?t \<notin> set dropped_types" using assms by (auto simp: entry_ok_def)
  consider (off) "?t \<in> set offset_types" | (frm) "?t \<notin> set offset_types" "?t = WASMInterpFrameT"
    | (arr) "?t \<notin> set offset_types" "?t \<noteq> WASMInterpFrameT" "?t \<in> set array_types"
    | (oth) "?t \<notin> set offset_types" "?t \<noteq> WASMInterpFrameT" "?t \<notin> set array_types" by blast
  then show ?thesis
  proof cases
    case off
    obtain a h where m: "wasm_runtime_malloc mal (ld_heap st) (ucast (bytes_plus ext p)) = (a, h)" by fastforce
    have "?t \<noteq> WASMInterpFrameT" using off by (auto simp: offset_types_def)
    with off assms lt nd m show ?thesis
      by (intro exI [of _ "add_block junk ?t ?sz [node_of (p_abs p) ?t ?sz a] h (set_statics ?t a st)"])
        (simp add: restore_entry_def entry_ok_def bytes_plus_def entry_added_def frame_chain_def add_block_def
          set_statics_def node_of_def skel_def set_WASMExecEnv_def set_WASMModule_def)
  next
    case frm
    with assms lt nd show ?thesis
      by (cases p) (simp add: restore_entry_def entry_ok_def entry_added_def frame_chain_def node_of_def)
  next
    case arr
    obtain a h where "wasm_runtime_malloc mal (ld_heap st) (ucast (bytes_times ext p)) = (a, h)" by fastforce
    with arr assms lt nd show ?thesis
      by (intro exI [of _ "add_block junk ?t ?sz [node_of (p_abs p) ?t ?sz a] h st"])
        (simp add: restore_entry_def entry_ok_def bytes_times_def entry_added_def frame_chain_def add_block_def
          node_of_def skel_def)
  next
    case oth
    obtain a h where m: "wasm_runtime_malloc mal (ld_heap st) (ucast (bytes_times ext p)) = (a, h)" by fastforce
    let ?qs = "node_of (p_abs p) ?t ?sz a # elem_nodes (data_size ext ?t) ?t a (map p_abs rest)"
    have r: "bytes_times ext p \<noteq> 0" "length rest = elem_count ?sz" "list_all (\<lambda>q. p_size q = - 1 \<and> p_type q = ?t) rest"
      using assms oth by (simp_all add: entry_ok_def)
    have "restore_entry ext mal junk (p_abs p) ?t ?sz (st, concat (map fwrite_u32 (map p_abs rest)) @ fp)
        = Inr (add_block junk ?t ?sz ?qs h (set_statics ?t a st), fp)" for fp
      using oth lt nd m r u32_codec.array_back [of "map p_abs rest" "[]"] u32_codec.array_length [of "map p_abs rest"]
      by (simp add: restore_entry_def bytes_times_def)
    moreover have "p_raw (?qs ! i) = a + of_nat i * of_nat (data_size ext ?t)" if "i < length ?qs" for i
      using that by (cases i) (simp_all add: node_of_def elem_nodes_nth)
    then have "entry_added ext junk (p # rest) st (add_block junk ?t ?sz ?qs h (set_statics ?t a st))"
      using oth elem_nodes_skel [OF r(3)]
      by (simp add: entry_added_def frame_chain_def add_block_def set_statics_def set_WASMExecEnv_def
          set_WASMModule_def skel_def node_of_def)
    ultimately show ?thesis by blast
  qed
qed

lemma restore_pool_entry:
  assumes "entry_ok ext (p # rest)" "pool_entry (p # rest) = Inr bs"
  shows "\<exists>st'. (\<forall>fp. restore_pool ext mal junk st (bs @ fp) = restore_pool ext mal junk st' fp) \<and>
     entry_added ext junk (p # rest) st st'"
proof -
  obtain st' where *: "\<And>fp. restore_entry ext mal junk (p_abs p) (p_type p) (p_size p)
      (st, concat (map fwrite_u32 (map p_abs rest)) @ fp) = Inr (st', fp)" "entry_added ext junk (p # rest) st st'"
    using pool_entry_read [OF assms(1)] by blast
  have "restore_pool ext mal junk st (bs @ fp) = restore_pool ext mal junk st' fp" for fp
    using assms(2) pool_entry_ok [OF assms(1)] *(1) [of fp]
    by (subst restore_pool.simps) (auto simp: u32_codec.dec_enc simp del: map_map)
  with * show ?thesis by blast
qed

text \<open>The blocks of a registry hold fresh objects.\<close>

definition fresh_blocks :: "fresh_content \<Rightarrow> 'h load_st \<Rightarrow> bool" where
  "fresh_blocks junk st \<longleftrightarrow> (\<forall>qs \<in> set (root_info (ld_rg st)). \<forall>i < length qs.
     ld_mem st (p_raw (qs ! i)) = Some (junk (p_type (hd qs)) (p_size (hd qs)) i))"

lemma put_objs_other: "a \<notin> p_raw ` set ps \<Longrightarrow> put_objs junk t sz k ps m a = m a"
  by (induction ps arbitrary: k m) auto

lemma put_objs_nth:
  "distinct (map p_raw ps) \<Longrightarrow> i < length ps \<Longrightarrow> put_objs junk t sz k ps m (p_raw (ps ! i)) = Some (junk t sz (k + i))"
proof (induction ps arbitrary: i k m)
  case (Cons p ps)
  show ?case
  proof (cases i)
    case 0
    have "p_raw p \<notin> p_raw ` set ps" using Cons.prems by simp
    with 0 show ?thesis by (simp add: put_objs_other)
  next
    case (Suc j)
    with Cons show ?thesis by simp
  qed
qed simp

lemma fresh_blocks_added:
  assumes "entry_added ext junk ps st st'" "ps \<noteq> []" "fresh_blocks junk st"
    and "distinct (map p_raw (concat (root_info (ld_rg st'))))"
  shows "fresh_blocks junk st'"
proof (cases "frame_chain ps")
  case True
  with assms show ?thesis by (simp add: entry_added_def fresh_blocks_def)
next
  case False
  then obtain qs where q: "root_info (ld_rg st') = qs # root_info (ld_rg st)" "map skel qs = map skel ps"
    and m: "ld_mem st' = put_objs junk (p_type (hd ps)) (p_size (hd ps)) 0 qs (ld_mem st)"
    using assms(1) by (auto simp: entry_added_def)
  have hd: "p_type (hd qs) = p_type (hd ps)" "p_size (hd qs) = p_size (hd ps)"
    using q(2) assms(2) by (cases qs; cases ps; simp add: skel_def)+
  have d: "distinct (map p_raw qs)" "p_raw ` set qs \<inter> p_raw ` set (concat (root_info (ld_rg st))) = {}"
    using assms(4) by (auto simp: q(1))
  have "ld_mem st' (p_raw (rs ! i)) = Some (junk (p_type (hd rs)) (p_size (hd rs)) i)"
    if "rs \<in> set (root_info (ld_rg st))" "i < length rs" for rs i
  proof -
    have "p_raw (rs ! i) \<in> p_raw ` set (concat (root_info (ld_rg st)))" using that nth_mem by fastforce
    with d(2) have "p_raw (rs ! i) \<notin> p_raw ` set qs" by blast
    then show ?thesis using assms(3) that by (simp add: m put_objs_other fresh_blocks_def)
  qed
  then show ?thesis using d(1) by (simp add: fresh_blocks_def q(1) m hd put_objs_nth)
qed

fun pool_list :: "pool_chain list \<Rightarrow> stream res" where
  "pool_list [] = Inr []"
| "pool_list (ps # cs) = bind_res (pool_entry ps) (\<lambda>e. bind_res (pool_list cs) (\<lambda>rest. Inr (e @ rest)))"

text \<open>
  The registry a list of chains is rebuilt to: the chains in reverse order, the frames sorted by
  their offsets.
\<close>

definition rebuilt :: "(Data_Type \<Rightarrow> nat) \<Rightarrow> fresh_content \<Rightarrow> pool_chain list \<Rightarrow> 'h load_st \<Rightarrow> 'h load_st \<Rightarrow> bool" where
  "rebuilt ext junk cs st st' \<longleftrightarrow>
     pool_allocator (ld_rg st') = pool_allocator (ld_rg st) \<and>
     root_frame (ld_rg st') =
       fold (\<lambda>ps. insert_frame ((hd ps)\<lparr>p_raw := 0\<rparr>)) (filter frame_chain cs) (root_frame (ld_rg st)) \<and>
     (\<exists>new. root_info (ld_rg st') = new @ root_info (ld_rg st) \<and>
        map (map skel) new = rev (map (map skel) (filter (\<lambda>ps. \<not> frame_chain ps) cs))) \<and>
     (distinct (map p_raw (concat (root_info (ld_rg st')))) \<longrightarrow> fresh_blocks junk st \<longrightarrow> fresh_blocks junk st')"

lemma rebuilt_Cons:
  assumes "entry_added ext junk ps st st1" "ps \<noteq> []" "rebuilt ext junk cs st1 st2"
  shows "rebuilt ext junk (ps # cs) st st2"
proof -
  obtain new where new: "root_info (ld_rg st2) = new @ root_info (ld_rg st1)"
    "map (map skel) new = rev (map (map skel) (filter (\<lambda>ps. \<not> frame_chain ps) cs))"
    using assms(3) by (auto simp: rebuilt_def)
  have "fresh_blocks junk st2"
    if "distinct (map p_raw (concat (root_info (ld_rg st2))))" "fresh_blocks junk st"
  proof -
    have "distinct (map p_raw (concat (root_info (ld_rg st1))))" using that(1) by (simp add: new(1))
    from fresh_blocks_added [OF assms(1,2) that(2) this] that(1) assms(3) show ?thesis by (simp add: rebuilt_def)
  qed
  moreover have "\<exists>new'. root_info (ld_rg st2) = new' @ root_info (ld_rg st) \<and>
     map (map skel) new' = rev (map (map skel) (filter (\<lambda>ps. \<not> frame_chain ps) (ps # cs)))"
  proof (cases "frame_chain ps")
    case True
    with assms(1) new show ?thesis by (auto simp: entry_added_def)
  next
    case False
    then obtain qs where "root_info (ld_rg st1) = qs # root_info (ld_rg st)" "map skel qs = map skel ps"
      using assms(1) by (auto simp: entry_added_def)
    with False new show ?thesis by (intro exI [of _ "new @ [qs]"]) simp
  qed
  ultimately show ?thesis using assms(1,3) by (auto simp: rebuilt_def entry_added_def)
qed

lemma pool_img_roundtrip:
  "list_all (entry_ok ext) cs \<Longrightarrow>
     \<exists>out st'. pool_list cs = Inr out \<and> restore_pool ext mal junk st out = Inr st' \<and> rebuilt ext junk cs st st'"
proof (induction cs arbitrary: st)
  case Nil
  then show ?case by (simp add: restore_pool.simps rebuilt_def)
next
  case (Cons ps cs)
  obtain p rest where ps: "ps = p # rest" using Cons.prems by (cases ps) (simp_all add: entry_ok_def)
  obtain bs where bs: "pool_entry (p # rest) = Inr bs" using Cons.prems pool_entry_ok ps by fastforce
  obtain st1 where st1: "\<And>fp. restore_pool ext mal junk st (bs @ fp) = restore_pool ext mal junk st1 fp"
    "entry_added ext junk (p # rest) st st1"
    using restore_pool_entry [OF _ bs, of ext mal junk st] Cons.prems by (auto simp: ps)
  obtain out st2 where o: "pool_list cs = Inr out" "restore_pool ext mal junk st1 out = Inr st2"
    "rebuilt ext junk cs st1 st2" using Cons.IH [of st1] Cons.prems by auto
  have "rebuilt ext junk (ps # cs) st st2" using rebuilt_Cons [OF st1(2) _ o(3)] by (simp add: ps)
  with st1(1) o(1,2) bs show ?case by (simp add: ps)
qed

end
