(* ===== verification/Frames.thy ===== *)
theory Frames
  imports Image_Roundtrip
begin

text \<open>
  The interpreter's frames: the stack they live on (wasm_exec_env.h, wasm_interp_classic.c), their
  record in frame.img (\<open>dump_WASMInterpFrame\<close> and \<open>restore_WASMInterpFrame\<close>) and the last part of a
  restore, \<open>restore_frame_internal\<close>, which lays them out again on the new stack.
\<close>

section \<open>The wasm stack\<close>

text \<open>\<open>size * 2\<close> is computed as an \<open>unsigned int\<close>. The result is the frame, or NULL.\<close>

definition wasm_exec_env_alloc_wasm_frame :: "WASMExecEnv \<Rightarrow> u32 \<Rightarrow> addr \<times> WASMExecEnv" where
  "wasm_exec_env_alloc_wasm_frame ee sz =
     (if ee_top_boundary ee < ee_top ee + ucast (sz * 2) then (0, ee)
      else (ee_top ee, ee\<lparr>ee_top := ee_top ee + ucast sz\<rparr>))"

definition wasm_exec_env_free_wasm_frame :: "WASMExecEnv \<Rightarrow> addr \<Rightarrow> WASMExecEnv" where
  "wasm_exec_env_free_wasm_frame ee prev_top = ee\<lparr>ee_top := prev_top\<rparr>"

definition wasm_exec_env_set_cur_frame :: "WASMExecEnv \<Rightarrow> addr \<Rightarrow> WASMExecEnv" where
  "wasm_exec_env_set_cur_frame ee f = ee\<lparr>ee_cur_frame := f\<rparr>"

text \<open>\<open>wasm_set_exception\<close> formats \<open>Exception: ...\<close> into the 128 bytes of the instance, or
  clears them when it is given NULL.\<close>

definition exception_bytes :: "string option \<Rightarrow> byte list \<Rightarrow> byte list" where
  "exception_bytes exc old =
     (let bs = (case exc of None \<Rightarrow> [0]
                | Some msg \<Rightarrow> take 127 (map (of_nat \<circ> of_char) (''Exception: '' @ msg)) @ [0])
      in bs @ drop (length bs) old)"

definition wasm_set_exception :: "mem \<Rightarrow> addr \<Rightarrow> string option \<Rightarrow> mem res" where
  "wasm_set_exception m inst exc =
     bind_res (load as_WASMModuleInstance m inst) (\<lambda>mi.
     Inr (m(inst := Some (O_WASMModuleInstance (mi\<lparr>mi_cur_exception := exception_bytes exc (mi_cur_exception mi)\<rparr>)))))"

text \<open>\<open>wasm_get_exception\<close>: whether the buffer holds one.\<close>

definition wasm_get_exception :: "mem \<Rightarrow> addr \<Rightarrow> bool res" where
  "wasm_get_exception m inst =
     bind_res (load as_WASMModuleInstance m inst) (\<lambda>mi.
     case mi_cur_exception mi of [] \<Rightarrow> Inl (UB ''read past the object'') | b # _ \<Rightarrow> Inr (b \<noteq> 0))"

text \<open>\<open>stale a sz\<close> is what the stack memory at \<open>a\<close> holds, read as a frame of \<open>sz\<close> bytes. A frame
  that does not fit is NULL and an exception of the instance.\<close>

type_synonym stale_frame = "addr \<Rightarrow> u32 \<Rightarrow> WASMInterpFrame"

definition wasm_interp_alloc_frame :: "stale_frame \<Rightarrow> addr \<Rightarrow> u32 \<Rightarrow> addr \<Rightarrow> mem \<Rightarrow> (addr \<times> mem) res" where
  "wasm_interp_alloc_frame stale env sz prev m =
     bind_res (load as_WASMExecEnv m env) (\<lambda>ee.
     case wasm_exec_env_alloc_wasm_frame ee sz of (f, ee') \<Rightarrow>
       if f = 0 then
         bind_res (wasm_set_exception m (ee_module_inst ee) (Some ''wasm operand stack overflow'')) (\<lambda>m'. Inr (0, m'))
       else Inr (f, m(env := Some (O_WASMExecEnv ee'),
                      f := Some (O_WASMInterpFrame ((stale f sz)\<lparr>fr_prev_frame := prev\<rparr>)))))"

text \<open>\<open>ALLOC_FRAME\<close> does the same and registers the frame; \<open>FREE_FRAME\<close> takes both back.\<close>

definition ALLOC_FRAME ::
  "stale_frame \<Rightarrow> addr \<Rightarrow> u32 \<Rightarrow> addr \<Rightarrow> registry \<times> mem \<Rightarrow> (addr \<times> registry \<times> mem) res" where
  "ALLOC_FRAME stale env sz prev = (\<lambda>(rg, m).
     bind_res (wasm_interp_alloc_frame stale env sz prev m) (\<lambda>(f, m').
     if f = 0 then Inr (0, rg, m')
     else bind_res (alloc_info_ex rg f WASMInterpFrameT (ucast sz)) (\<lambda>rg'. Inr (f, rg', m'))))"

definition FREE_FRAME :: "addr \<Rightarrow> addr \<Rightarrow> registry \<times> mem \<Rightarrow> (registry \<times> mem) res" where
  "FREE_FRAME env f = (\<lambda>(rg, m).
     bind_res (load as_WASMExecEnv m env) (\<lambda>ee.
     bind_res (free_info rg f) (\<lambda>rg'.
     Inr (rg', m(env := Some (O_WASMExecEnv (wasm_exec_env_free_wasm_frame ee f)))))))"

section \<open>Restoring the frames\<close>

text \<open>The first loop of \<open>restore_frame_internal\<close>: a frame on the new stack for each chain of
  \<open>root_frame\<close>, linked to the one before it and made the current frame.\<close>

fun layout_frames :: "stale_frame \<Rightarrow> addr \<Rightarrow> addr \<Rightarrow> pool_chain list \<Rightarrow> mem \<Rightarrow> (pool_chain list \<times> mem) res" where
  "layout_frames stale env prev [] m = Inr ([], m)"
| "layout_frames stale env prev (c # cs) m =
     (case c of [] \<Rightarrow> Inl (UB ''NULL Pool_Info'')
      | p # rest \<Rightarrow>
          bind_res (wasm_interp_alloc_frame stale env (p_size p) prev m) (\<lambda>(f, m1).
          bind_res (load as_WASMExecEnv m1 env) (\<lambda>ee.
          bind_res (layout_frames stale env f cs
            (m1(env := Some (O_WASMExecEnv (wasm_exec_env_set_cur_frame ee f))))) (\<lambda>(cs', m').
          Inr ((p\<lparr>p_raw := f\<rparr> # rest) # cs', m')))))"

text \<open>The second loop, over frame.img.\<close>

lemma shrinking_fread_cells [shrinks]: "shrinking (fread_cells lp a count)"
  by (rule shrinkingI) (auto simp: fread_cells_def Let_def bind_res_eq_Inr fread_raw_def split: if_splits)

lemma shrinking_restore_branch_block [shrinks]: "shrinking (restore_branch_block code spb)"
  unfolding restore_branch_block_def restore_ip_def by (intro shrinks) (auto intro: shrinks)

lemma shrinking_restore_branch_blocks [shrinks]: "shrinking (restore_branch_blocks code i k)"
proof (induction k arbitrary: i)
  case (Suc k)
  have "shrinking (on_node (\<lambda>n. if length (fr_blocks n) \<le> i then (\<lambda>_. Inl (UB ''write past the object''))
      else on_member (\<lambda>n. fr_blocks n ! i) (\<lambda>f. fr_blocks_update (\<lambda>bs. bs[i := f (bs ! i)]))
        (restore_branch_block code (fr_sp_bottom n))))"
    by (rule shrinking_on_node) (simp add: shrinks)
  with Suc show ?case unfolding restore_branch_blocks.simps
    by (intro shrinking_exec_stmts) (auto intro: shrinks)
qed (simp add: shrinks)

lemma shrinking_restore_block_stack [shrinks]: "shrinking (restore_block_stack code)"
  by (rule shrinkingI)
    (auto simp: restore_block_stack_def bind_res_eq_Inr
      dest!: fread_raw_shrinks shrinkingD [OF shrinking_restore_branch_blocks])

lemma shrinking_WASMInterpFrame_body [shrinks]: "shrinking (WASMInterpFrame_body lp code fi fn)"
  unfolding WASMInterpFrame_body_def by (intro shrinks) (auto intro: shrinks)

lemma shrinking_WASMInterpFrame_fields [shrinks]: "shrinking (WASMInterpFrame_fields m rg p)"
proof -
  have "shrinking (\<lambda>s. bind_res (load as_WASMFunctionInstance m a) (\<lambda>fi. bind_res (wasm_get_func_code m fi)
      (\<lambda>code. bind_res (load as_WASMFunction m (fi_u fi)) (\<lambda>fn. WASMInterpFrame_body lp code fi fn s))))" for a lp
    by (rule shrinkingI) (auto simp: bind_res_eq_Inr dest: shrinkingD [OF shrinking_WASMInterpFrame_body])
  then have "shrinking (on_node (\<lambda>n. if fr_function n = 0 then skip
       else (\<lambda>s. bind_res (load as_WASMFunctionInstance m (fr_function n)) (\<lambda>fi. bind_res (wasm_get_func_code m fi)
      (\<lambda>code. bind_res (load as_WASMFunction m (fi_u fi)) (\<lambda>fn. WASMInterpFrame_body lp code fi fn s))))))" for lp
    by (intro shrinking_on_node) (simp add: shrinks)
  then show ?thesis unfolding WASMInterpFrame_fields_def
    by (intro shrinking_exec_stmts) (auto intro: shrinking_RESTORE_PTR)
qed

lemma shrinking_restore_WASMInterpFrame: "shrinking (restore_WASMInterpFrame ps)"
proof (rule shrinkingI)
  fix st gp st' gp'
  assume "restore_WASMInterpFrame ps (st, gp) = Inr (st', gp')"
  then have "HEADER_RESTORE_BUF as_WASMInterpFrame O_WASMInterpFrame (WASMInterpFrame_fields (rs_mem st)) ps (st, gp)
      = Inr (st', gp')" by (simp add: restore_WASMInterpFrame_def)
  then show "length gp' \<le> length gp"
    by (rule shrinkingD [OF shrinking_HEADER_RESTORE_BUF [OF shrinking_WASMInterpFrame_fields]])
qed

lemma frame_handler_shrinks:
  "restore_WASMInterpFrame ps (st, gp) = Inr (st', gp') \<Longrightarrow> length gp' \<le> length gp"
  using shrinking_restore_WASMInterpFrame by (rule shrinkingD)

function restore_frames :: "restore_st \<Rightarrow> stream \<Rightarrow> restore_st res" where
  "restore_frames st gp =
     (if length gp < 4 then Inr st
      else bind_res (fread_raw 4 gp) (\<lambda>(b1, gp1).
        bind_res (fread_raw 4 gp1) (\<lambda>(b2, gp2).
        bind_res (fread_raw 4 gp2) (\<lambda>(b3, gp3).
        bind_res (get_frame_info (rs_rg st) (le_word b3)) (\<lambda>info.
        bind_res (restore_WASMInterpFrame info (st, gp3)) (\<lambda>(st', gp4).
        restore_frames st' gp4))))))"
  by pat_completeness auto
termination
  by (relation "measure (\<lambda>(st, gp). length gp)") (auto dest!: fread_raw_shrinks frame_handler_shrinks)

declare restore_frames.simps [simp del]

text \<open>
  The last loop looks every imported function up again among the registered native symbols;
  \<open>resolve\<close> is \<open>wasm_native_resolve_symbol\<close> on the two names and the function type, with the
  linked function (NULL when there is none), its signature, attachment and calling convention.
\<close>

record native_link =
  nl_func :: addr
  nl_signature :: addr
  nl_attachment :: addr
  nl_call_conv_raw :: bool

type_synonym resolver = "addr \<Rightarrow> addr \<Rightarrow> addr \<Rightarrow> native_link"

definition link_import :: "resolver \<Rightarrow> WASMImport \<Rightarrow> WASMImport" where
  "link_import resolve im =
     (let l = resolve (im_module_name im) (im_field_name im) (imf_func_type im) in
      im\<lparr>imf_func_ptr_linked := nl_func l, imf_signature := nl_signature l,
         imf_attachment := nl_attachment l, imf_call_conv_raw := nl_call_conv_raw l\<rparr>)"

fun relink :: "resolver \<Rightarrow> addr \<Rightarrow> nat \<Rightarrow> mem \<Rightarrow> mem res" where
  "relink resolve a 0 m = Inr m"
| "relink resolve a (Suc k) m =
     bind_res (load as_WASMImport m a) (\<lambda>im.
     relink resolve (a + of_nat sizeof_WASMImport) k (m(a := Some (O_WASMImport (link_import resolve im)))))"

definition relink_imports :: "resolver \<Rightarrow> addr \<Rightarrow> mem \<Rightarrow> mem res" where
  "relink_imports resolve module m =
     bind_res (load as_WASMModule m module) (\<lambda>md.
     relink resolve (md_import_functions md) (unat (md_import_function_count md)) m)"

text \<open>
  The whole function. \<open>init_wasi\<close> is \<open>wasm_runtime_init_wasi\<close> on the restored module and instance;
  its result only selects the message printed.
\<close>

definition restore_frame_internal ::
  "stale_frame \<Rightarrow> (addr \<Rightarrow> addr \<Rightarrow> mem \<Rightarrow> mem) \<Rightarrow> resolver \<Rightarrow> restore_st \<Rightarrow> restore_st res" where
  "restore_frame_internal stale init_wasi resolve st =
     bind_res (layout_frames stale (rs_exec_env st) 0 (root_frame (rs_rg st)) (rs_mem st)) (\<lambda>(frames, m1).
     bind_res (restore_frames (st\<lparr>rs_rg := (rs_rg st)\<lparr>root_frame := frames\<rparr>, rs_mem := m1\<rparr>) (rs_gp st)) (\<lambda>st2.
     let m2 = init_wasi (rs_module_inst st2) (rs_module st2) (rs_mem st2) in
     bind_res (relink_imports resolve (rs_module st2) m2) (\<lambda>m3.
     Inr (st2\<lparr>rs_mem := m3\<rparr>))))"

section \<open>The restore as a whole\<close>

text \<open>\<open>restore_runtime\<close> ends by putting the frames in front of the other chains; with no frame it
  follows a NULL pointer. \<open>root_frame\<close> still points to the first frame, so both lists are then the same.\<close>

definition restore_runtime ::
  "(Data_Type \<Rightarrow> nat) \<Rightarrow> 'h allocator \<Rightarrow> fresh_content \<Rightarrow> stale_frame \<Rightarrow> (addr \<Rightarrow> addr \<Rightarrow> mem \<Rightarrow> mem) \<Rightarrow> resolver \<Rightarrow>
     images \<Rightarrow> 'h load_st \<Rightarrow> restore_st res" where
  "restore_runtime ext mal junk stale init_wasi resolve im ld =
     bind_res (restore_pool ext mal junk ld (img_pool im)) (\<lambda>ld'.
     bind_res (restore_internal \<lparr>rs_rg = ld_rg ld', rs_mem = ld_mem ld', rs_module = 0, rs_module_inst = 0,
        rs_exec_env = 0, rs_gp = img_frame im\<rparr> (img_dump im)) (\<lambda>st.
     bind_res (restore_frame_internal stale init_wasi resolve st) (\<lambda>st'.
     if root_frame (rs_rg st') = [] then Inl (UB ''NULL Pool_Info'')
     else let l = root_frame (rs_rg st') @ root_info (rs_rg st') in
       Inr (st'\<lparr>rs_rg := (rs_rg st')\<lparr>root_info := l, root_frame := l\<rparr>\<rparr>))))"

end
