(* ===== verification/Frame_Roundtrip.thy ===== *)
theory Frame_Roundtrip
  imports Frames
begin

text \<open>
  A frame written by \<open>dump_WASMInterpFrame\<close> and read back by \<open>restore_WASMInterpFrame\<close>, and the
  frames of a checkpoint as a whole: \<open>restore_frame_internal\<close> puts every frame at the offset it
  had on the stack of the dumping process, linked to its caller, with all its pointers rebased.
\<close>

section \<open>What a restored frame is\<close>

text \<open>The function of a frame: its instance, its code and its \<open>WASMFunction\<close>.\<close>

definition frame_fun :: "mem \<Rightarrow> addr \<Rightarrow> (WASMFunctionInstance \<times> addr \<times> WASMFunction) res" where
  "frame_fun m a = bind_res (load as_WASMFunctionInstance m a) (\<lambda>fi. bind_res (wasm_get_func_code m fi) (\<lambda>code.
     bind_res (load as_WASMFunction m (fi_u fi)) (\<lambda>fn. Inr (fi, code, fn))))"

text \<open>A pointer into one block moved to the same offset in another; NULL stays NULL.\<close>

definition rebase :: "addr \<Rightarrow> addr \<Rightarrow> addr \<Rightarrow> addr" where
  "rebase b b' a = a - b + b'"

definition rebase_opt :: "addr \<Rightarrow> addr \<Rightarrow> addr \<Rightarrow> addr" where
  "rebase_opt b b' a = (if a = 0 then 0 else rebase b b' a)"

text \<open>A pointer to an element of \<open>k\<close> bytes in an array at \<open>b\<close> of fewer than \<open>2 ^ 32\<close> elements.\<close>

definition elem_ptr :: "nat \<Rightarrow> addr \<Rightarrow> addr \<Rightarrow> bool" where
  "elem_ptr k b a \<longleftrightarrow> unat (a - b) mod k = 0 \<and> unat (a - b) div k < 2 ^ 32"

definition code_ptr_ok :: "addr \<Rightarrow> addr \<Rightarrow> bool" where
  "code_ptr_ok code a \<longleftrightarrow> a = 0 \<or> a - code \<noteq> - 1"

definition branch_ok :: "addr \<Rightarrow> addr \<Rightarrow> WASMBranchBlock \<Rightarrow> bool" where
  "branch_ok code spb bb \<longleftrightarrow> code_ptr_ok code (bb_begin_addr bb) \<and> code_ptr_ok code (bb_target_addr bb) \<and>
     (bb_frame_sp bb = 0 \<or> elem_ptr 4 spb (bb_frame_sp bb))"

definition branch_image :: "addr \<Rightarrow> addr \<Rightarrow> addr \<Rightarrow> addr \<Rightarrow> WASMBranchBlock \<Rightarrow> WASMBranchBlock" where
  "branch_image code code' spb spb' bb = bb\<lparr>bb_begin_addr := rebase_opt code code' (bb_begin_addr bb),
     bb_target_addr := rebase_opt code code' (bb_target_addr bb),
     bb_frame_sp := rebase_opt spb spb' (bb_frame_sp bb)\<rparr>"

definition block_depth :: "WASMInterpFrame \<Rightarrow> nat" where
  "block_depth n = unat (fr_csp n - fr_csp_bottom n) div sizeof_WASMBranchBlock"

definition cell_total :: "WASMFunctionInstance \<Rightarrow> WASMFunction \<Rightarrow> nat" where
  "cell_total fi fn = unat (fi_param_cell_num fi) + unat (fi_local_cell_num fi) + unat (fn_max_stack_cell_num fn)"

definition frame_sp_bottom :: "pool_node \<Rightarrow> WASMFunctionInstance \<Rightarrow> addr" where
  "frame_sp_bottom p fi = frame_lp (p_raw p) + 4 * ucast (fi_param_cell_num fi) + 4 * ucast (fi_local_cell_num fi)"

text \<open>The layout \<open>wasm_interp_call_func_bytecode\<close> gives a frame, and room for it in the new one.\<close>

definition frame_laid_out ::
  "pool_node \<Rightarrow> WASMFunctionInstance \<times> addr \<times> WASMFunction \<Rightarrow> WASMInterpFrame \<Rightarrow> WASMInterpFrame \<Rightarrow> bool" where
  "frame_laid_out p = (\<lambda>(fi, code, fn) n n0.
     fr_sp_bottom n = frame_sp_bottom p fi \<and> elem_ptr 4 (fr_sp_bottom n) (fr_sp n) \<and>
     elem_ptr sizeof_WASMBranchBlock (fr_csp_bottom n) (fr_csp n) \<and>
     block_depth n \<le> length (fr_blocks n) \<and> block_depth n \<le> length (fr_blocks n0) \<and>
     cell_total fi fn \<le> length (fr_cells n) \<and> cell_total fi fn \<le> length (fr_cells n0) \<and>
     list_all (branch_ok code (fr_sp_bottom n)) (take (block_depth n) (fr_blocks n)))"

definition same_cells :: "WASMFunctionInstance \<times> addr \<times> WASMFunction \<Rightarrow> WASMFunctionInstance \<times> addr \<times> WASMFunction \<Rightarrow> bool" where
  "same_cells = (\<lambda>(fi, code, fn) (fi', code', fn').
     fi_param_cell_num fi' = fi_param_cell_num fi \<and> fi_local_cell_num fi' = fi_local_cell_num fi \<and>
     fn_max_stack_cell_num fn' = fn_max_stack_cell_num fn \<and> fn_max_block_num fn' = fn_max_block_num fn)"

definition WASMInterpFrame_ok :: "mem \<Rightarrow> WASMInterpFrame node_cond" where
  "WASMInterpFrame_ok m c rg p q n n0 \<longleftrightarrow> fr_function n = 0 \<or>
     (ptr_ok rg (dc_base c) (fr_function n) \<and> reloc rg (dc_base c) (fr_function n) \<noteq> 0 \<and>
      (case (frame_fun (dc_mem c) (fr_function n), frame_fun m (reloc rg (dc_base c) (fr_function n))) of
         (Inr f, Inr f') \<Rightarrow> same_cells f f' \<and> frame_laid_out p f n n0
       | _ \<Rightarrow> False))"

text \<open>The image of a frame. An entry frame, whose function is NULL, keeps what its memory held.\<close>

definition WASMInterpFrame_image :: "mem \<Rightarrow> WASMInterpFrame node_image" where
  "WASMInterpFrame_image m c rg p q n n0 =
     (case (frame_fun (dc_mem c) (fr_function n), frame_fun m (reloc rg (dc_base c) (fr_function n))) of
        (Inr (fi, code, fn), Inr (fi', code', fn')) \<Rightarrow>
          if fr_function n = 0 then n0\<lparr>fr_function := 0\<rparr>
          else
          let spb = fr_sp_bottom n; spb' = frame_sp_bottom q fi'; spt = spb' + 4 * ucast (fn_max_stack_cell_num fn');
              k = block_depth n in
          n0\<lparr>fr_function := reloc rg (dc_base c) (fr_function n), fr_ip := rebase code code' (fr_ip n),
             fr_sp_bottom := spb', fr_sp_boundary := spt, fr_sp := rebase spb spb' (fr_sp n),
             fr_csp_bottom := spt, fr_csp := rebase (fr_csp_bottom n) spt (fr_csp n),
             fr_csp_boundary := spt + of_nat sizeof_WASMBranchBlock * ucast (fn_max_block_num fn'),
             fr_cells := overlay (cell_total fi fn) (fr_cells n) (fr_cells n0),
             fr_blocks := map (branch_image code code' spb spb') (take k (fr_blocks n)) @ drop k (fr_blocks n0)\<rparr>
      | _ \<Rightarrow> n0\<lparr>fr_function := 0\<rparr>)"

section \<open>Pointer differences\<close>

lemma sint_unat:
  assumes "unat (w :: u64) < 2 ^ 63"
  shows "sint w = int (unat w)"
proof -
  have "uint w = int (unat w)" by simp
  then have "uint w < 2 ^ 63" using assms by (metis of_nat_less_iff of_nat_numeral of_nat_power)
  then have "signed_take_bit 63 (uint w) = uint w" by (intro signed_take_bit_int_eq_self) (auto intro: order_trans [of _ 0])
  then show ?thesis by (simp add: sint_uint)
qed

lemma ptr_diff_elem:
  assumes "elem_ptr k b a" "0 < k" "k \<le> 2 ^ 31"
  shows "ptr_diff k a b = of_nat (unat (a - b) div k)"
proof -
  define d where "d = unat (a - b) div k"
  have *: "unat (a - b) = d * k" "d < 2 ^ 32" using assms by (auto simp: elem_ptr_def d_def)
  then have "d * k \<le> (2 ^ 32 - 1) * 2 ^ 31" using assms(3) by (intro mult_mono) auto
  then have "sint (a - b) = int (d * k)" using *(1) by (subst sint_unat) auto
  then show ?thesis using assms(2) * by (simp add: ptr_diff_def)
qed

lemma elem_ptr_offset:
  assumes "elem_ptr k b a"
  shows "of_nat k * of_nat (unat (a - b) div k) = a - b"
proof -
  have "k * (unat (a - b) div k) = unat (a - b)" using assms by (auto simp: elem_ptr_def)
  then have "(of_nat (k * (unat (a - b) div k)) :: u64) = a - b" by simp
  then show ?thesis by simp
qed

lemma elem_ptr_diff: "elem_ptr 4 b a \<Longrightarrow> 4 * ptr_diff 4 a b = a - b"
  using elem_ptr_offset [of 4 b a] by (simp add: ptr_diff_elem)

lemma elem_ptr_not_minus_one: "elem_ptr 4 b a \<Longrightarrow> ptr_diff 4 a b \<noteq> - 1"
proof
  assume *: "elem_ptr 4 b a" "ptr_diff 4 a b = - 1"
  then have "(of_nat (unat (a - b) div 4) :: u64) = - 1" by (simp add: ptr_diff_elem)
  then have "unat (of_nat (unat (a - b) div 4) :: u64) = unat (- 1 :: u64)" by simp
  moreover have "unat (of_nat (unat (a - b) div 4) :: u64) < 2 ^ 32"
    using *(1) by (auto simp: elem_ptr_def unsigned_of_nat take_bit_eq_mod intro: le_less_trans [OF mod_less_eq_dividend])
  ultimately show False by (simp add: unsigned_minus_1_eq_mask mask_eq_exp_minus_1)
qed

lemma block_depth_diff:
  assumes "elem_ptr sizeof_WASMBranchBlock (fr_csp_bottom n) (fr_csp n)"
  shows "unat (ucast (ptr_diff sizeof_WASMBranchBlock (fr_csp n) (fr_csp_bottom n)) :: u32) = block_depth n"
proof -
  have "block_depth n < 2 ^ 32" using assms by (simp add: block_depth_def elem_ptr_def)
  then show ?thesis using assms
    by (simp add: ptr_diff_elem layout flip: block_depth_def [unfolded layout])
      (simp add: unsigned_ucast_eq unsigned_of_nat take_bit_nat_eq_self)
qed

section \<open>Reading the parts back\<close>

lemma branch_block_back:
  assumes "branch_ok code spb bb"
  shows "restore_branch_block code' spb' (b0, dump_branch_block code spb bb @ gp)
     = Inr (branch_image code code' spb spb' bb, gp)"
proof -
  have ip: "restore_ip code' upd (b, dump_ip code a @ fp) = Inr (upd (\<lambda>_. rebase_opt code code' a) b, fp)"
    if "code_ptr_ok code a" for upd a fp b
    using that by (auto simp: restore_ip_def dump_ip_def fread_as_def rebase_opt_def rebase_def
        code_ptr_ok_def u64_codec.dec_enc)
  have sp: "fread_as 8 (\<lambda>bs. if (le_word bs :: u64) = - 1 then 0 else 4 * le_word bs + spb') upd
      (b, (if a = 0 then fwrite_u64 (- 1) else fwrite_u64 (ptr_diff 4 a spb)) @ fp)
      = Inr (upd (\<lambda>_. rebase_opt spb spb' a) b, fp)" if "a = 0 \<or> elem_ptr 4 spb a" for upd a fp b
    using that elem_ptr_not_minus_one [of spb a] elem_ptr_diff [of spb a]
    by (auto simp: fread_as_def rebase_opt_def rebase_def u64_codec.dec_enc)
  show ?thesis using assms unfolding branch_ok_def dump_branch_block_def restore_branch_block_def
    by (simp add: ip sp branch_image_def)
qed

lemma branch_blocks_back:
  assumes "list_all (branch_ok code spb) bbs" "i + length bbs \<le> length (fr_blocks n)"
  shows "restore_branch_blocks code' i (length bbs) (n, concat (map (dump_branch_block code spb) bbs) @ gp)
     = Inr (n\<lparr>fr_csp := fr_csp n + of_nat (sizeof_WASMBranchBlock * length bbs),
          fr_blocks := take i (fr_blocks n) @ map (branch_image code code' spb (fr_sp_bottom n)) bbs
            @ drop (i + length bbs) (fr_blocks n)\<rparr>, gp)"
  using assms
proof (induction bbs arbitrary: i n)
  case (Cons bb bbs)
  define b where "b = branch_image code code' spb (fr_sp_bottom n) bb"
  define n1 where "n1 = fr_csp_update (\<lambda>a. a + of_nat sizeof_WASMBranchBlock) (n\<lparr>fr_blocks := (fr_blocks n)[i := b]\<rparr>)"
  have [simp]: "bind_res r (exec_stmts []) = r" for r :: "(WASMInterpFrame \<times> stream) res" by (cases r) auto
  have "on_member (\<lambda>n. fr_blocks n ! i) (\<lambda>f. fr_blocks_update (\<lambda>bs. bs[i := f (bs ! i)]))
      (restore_branch_block code' (fr_sp_bottom n)) (n, dump_branch_block code spb bb @ fp)
      = Inr (n\<lparr>fr_blocks := (fr_blocks n)[i := b]\<rparr>, fp)" for fp
    using Cons.prems by (simp add: on_member_def branch_block_back b_def)
  then have "restore_branch_blocks code' i (length (bb # bbs)) (n, concat (map (dump_branch_block code spb) (bb # bbs)) @ gp)
      = restore_branch_blocks code' (Suc i) (length bbs) (n1, concat (map (dump_branch_block code spb) bbs) @ gp)"
    using Cons.prems by (simp add: n1_def)
  also have "\<dots> = Inr (n1\<lparr>fr_csp := fr_csp n1 + of_nat (sizeof_WASMBranchBlock * length bbs),
      fr_blocks := take (Suc i) (fr_blocks n1) @ map (branch_image code code' spb (fr_sp_bottom n1)) bbs
        @ drop (Suc i + length bbs) (fr_blocks n1)\<rparr>, gp)"
    using Cons.prems by (intro Cons.IH) (simp_all add: n1_def)
  also have "\<dots> = Inr (n\<lparr>fr_csp := fr_csp n + of_nat (sizeof_WASMBranchBlock * length (bb # bbs)),
      fr_blocks := take i (fr_blocks n) @ map (branch_image code code' spb (fr_sp_bottom n)) (bb # bbs)
        @ drop (i + length (bb # bbs)) (fr_blocks n)\<rparr>, gp)"
    using Cons.prems by (simp add: n1_def b_def take_Suc_conv_app_nth algebra_simps)
  finally show ?case .
qed simp

lemma overlay_extend:
  assumes "i + k \<le> length xs"
  shows "take i (overlay i xs old) @ take k (drop i xs) @ drop (i + k) (overlay i xs old) = overlay (i + k) xs old"
  using assms by (simp add: overlay_def take_add drop_drop add.commute)

lemma cell_index:
  assumes "i < 2 ^ 34"
  shows "unat (4 * of_nat i :: u64) = 4 * i"
proof -
  have "(4 * of_nat i :: u64) = of_nat (4 * i)" by simp
  moreover have "unat (of_nat (4 * i) :: u64) = 4 * i"
    using assms by (subst unsigned_of_nat, subst take_bit_nat_eq_self) auto
  ultimately show ?thesis by simp
qed

lemma cells_out:
  assumes "i < 2 ^ 34" "i + k \<le> length xs"
  shows "fwrite_cells lp xs (lp + 4 * of_nat i) k = Inr (concat (map fwrite_u32 (take k (drop i xs))))"
  using assms by (simp add: fwrite_cells_def cell_index Let_def)

lemma cells_back:
  assumes "fr_cells n = overlay i xs old" "i < 2 ^ 34" "i + k \<le> length xs" "i + k \<le> length old"
  shows "fread_cells lp (lp + 4 * of_nat i) k (n, concat (map fwrite_u32 (take k (drop i xs))) @ gp)
     = Inr (n\<lparr>fr_cells := overlay (i + k) xs old\<rparr>, gp)"
proof -
  define ys where "ys = take k (drop i xs)"
  have k: "length ys = k" using assms by (simp add: ys_def)
  then have "decode_array 4 le_word k (concat (map fwrite_u32 ys)) = ys"
    using u32_codec.array_back [of ys "[]"] by simp
  moreover have "length (concat (map fwrite_u32 ys)) = 4 * k" using k u32_codec.array_length by simp
  moreover have "length (overlay i xs old) = length old" using assms by (simp add: overlay_def)
  ultimately show ?thesis unfolding ys_def [symmetric]
    using assms overlay_extend [of i k xs old] by (simp add: fread_cells_def cell_index Let_def ys_def)
qed

lemma ucast_cells: "(ucast (w :: 'a::len word) :: u64) = of_nat (unat w)"
  by (simp add: unsigned_ucast_eq)

lemma count_less: "unat (w :: u16) < 2 ^ 32" "unat (v :: u32) < 2 ^ 32"
proof -
  have "unat w < 2 ^ 16" "unat v < 2 ^ 32"
    using unsigned_less [of w, where 'a = nat] unsigned_less [of v, where 'a = nat] by simp_all
  then show "unat w < 2 ^ 32" "unat v < 2 ^ 32" by simp_all
qed

lemma block_stack_back:
  assumes "list_all (branch_ok code spb) bbs" "length bbs \<le> length (fr_blocks n)" "length bbs < 2 ^ 32"
  shows "restore_block_stack code' (n, fwrite_u32 (of_nat (length bbs)) @
       concat (map (dump_branch_block code spb) bbs) @ gp)
     = Inr (n\<lparr>fr_csp := fr_csp n + of_nat (sizeof_WASMBranchBlock * length bbs),
          fr_blocks := map (branch_image code code' spb (fr_sp_bottom n)) bbs @ drop (length bbs) (fr_blocks n)\<rparr>, gp)"
proof -
  have "unat (of_nat (length bbs) :: u32) = length bbs"
    using assms(3) by (subst unsigned_of_nat, subst take_bit_nat_eq_self) auto
  then show ?thesis
    using branch_blocks_back [of code spb bbs 0 n code' gp] assms
    by (simp add: restore_block_stack_def u32_codec.dec_enc)
qed

text \<open>The bytes of a frame, in the order of the dump, and what the body reads from them.\<close>

definition frame_stream :: "WASMFunctionInstance \<times> addr \<times> WASMFunction \<Rightarrow> WASMInterpFrame \<Rightarrow> stream" where
  "frame_stream = (\<lambda>(fi, code, fn) n.
     fwrite_u64 (fr_ip n - code) @ fwrite_u64 (ptr_diff 4 (fr_sp n) (fr_sp_bottom n)) @
     fwrite_u32 (of_nat (block_depth n)) @
     concat (map (dump_branch_block code (fr_sp_bottom n)) (take (block_depth n) (fr_blocks n))) @
     concat (map fwrite_u32 (take (unat (fi_param_cell_num fi)) (drop 0 (fr_cells n)))) @
     concat (map fwrite_u32 (take (unat (fi_local_cell_num fi)) (drop (unat (fi_param_cell_num fi)) (fr_cells n)))) @
     concat (map fwrite_u32 (take (unat (fn_max_stack_cell_num fn))
       (drop (unat (fi_param_cell_num fi) + unat (fi_local_cell_num fi)) (fr_cells n)))))"

lemma frame_bytes:
  assumes "fr_function n \<noteq> 0" "frame_fun (dc_mem c) (fr_function n) = Inr f" "frame_laid_out p f n n0"
  shows "WASMInterpFrame_bytes c p n = Inr (DUMP_PTR (dc_base c) (fr_function n) @ frame_stream f n)"
proof -
  obtain fi code fn where f: "f = (fi, code, fn)" by (cases f)
  note L = assms(3) [unfolded f frame_laid_out_def prod.case]
  define P where "P = unat (fi_param_cell_num fi)"
  define M where "M = unat (fi_local_cell_num fi)"
  define S where "S = unat (fn_max_stack_cell_num fn)"
  have "P < 2 ^ 32" "M < 2 ^ 32" unfolding P_def M_def by (rule count_less)+
  then have PM: "P < 2 ^ 34" "P + M < 2 ^ 34" by simp_all
  have tot: "P + M + S \<le> length (fr_cells n)" using L by (simp add: cell_total_def P_def M_def S_def)
  have sp: "fr_sp_bottom n = frame_lp (p_raw p) + 4 * of_nat (P + M)"
    using L unfolding frame_sp_bottom_def ucast_cells P_def [symmetric] M_def [symmetric] by (simp add: algebra_simps)
  have cells: "fwrite_cells lp (fr_cells n) lp P = Inr (concat (map fwrite_u32 (take P (drop 0 (fr_cells n)))))"
    "fwrite_cells lp (fr_cells n) (lp + 4 * of_nat P) M = Inr (concat (map fwrite_u32 (take M (drop P (fr_cells n)))))"
    "fwrite_cells lp (fr_cells n) (lp + 4 * of_nat (P + M)) S
       = Inr (concat (map fwrite_u32 (take S (drop (P + M) (fr_cells n)))))" for lp
  proof -
    show "fwrite_cells lp (fr_cells n) lp P = Inr (concat (map fwrite_u32 (take P (drop 0 (fr_cells n)))))"
      using cells_out [of 0 P "fr_cells n" lp] tot by simp
  qed (rule cells_out, use PM tot in linarith, use tot in linarith)+
  have loads: "load as_WASMFunctionInstance (dc_mem c) (fr_function n) = Inr fi"
    "wasm_get_func_code (dc_mem c) fi = Inr code" "load as_WASMFunction (dc_mem c) (fi_u fi) = Inr fn"
    using assms(2) by (auto simp: frame_fun_def f bind_res_eq_Inr)
  have depth: "unat (ucast (ptr_diff sizeof_WASMBranchBlock (fr_csp n) (fr_csp_bottom n)) :: u32) = block_depth n"
    "\<not> length (fr_blocks n) < block_depth n"
    using L by (simp_all add: block_depth_diff)
  show ?thesis
    unfolding WASMInterpFrame_bytes_def loads bind_res_simps Let_def depth(1) if_not_P [OF assms(1)]
      if_not_P [OF depth(2)] frame_stream_def f prod.case ucast_cells P_def [symmetric] M_def [symmetric]
      S_def [symmetric] cells sp by simp
qed

lemma take_block_depth:
  assumes "frame_laid_out p (fi, code, fn) n n0"
  shows "length (take (block_depth n) (fr_blocks n)) = block_depth n" "block_depth n < 2 ^ 32"
    "block_depth n \<le> length (fr_blocks n0)"
    "of_nat (sizeof_WASMBranchBlock * block_depth n) = fr_csp n - fr_csp_bottom n"
proof -
  have e: "elem_ptr sizeof_WASMBranchBlock (fr_csp_bottom n) (fr_csp n)"
    using assms by (simp add: frame_laid_out_def)
  show "length (take (block_depth n) (fr_blocks n)) = block_depth n" "block_depth n < 2 ^ 32"
    "block_depth n \<le> length (fr_blocks n0)"
    using assms e by (auto simp: frame_laid_out_def elem_ptr_def block_depth_def)
  show "of_nat (sizeof_WASMBranchBlock * block_depth n) = fr_csp n - fr_csp_bottom n"
    using elem_ptr_offset [OF e] by (simp add: block_depth_def)
qed

lemma frame_blocks_back:
  assumes laid: "frame_laid_out p (fi, code, fn) n n0" and m: "fr_blocks m = fr_blocks n0"
  shows "restore_block_stack code' (m, fwrite_u32 (of_nat (block_depth n)) @
      concat (map (dump_branch_block code (fr_sp_bottom n)) (take (block_depth n) (fr_blocks n))) @ fp)
    = Inr (m\<lparr>fr_csp := rebase (fr_csp_bottom n) (fr_csp m) (fr_csp n),
        fr_blocks := map (branch_image code code' (fr_sp_bottom n) (fr_sp_bottom m)) (take (block_depth n) (fr_blocks n))
          @ drop (block_depth n) (fr_blocks n0)\<rparr>, fp)"
proof -
  note depth = take_block_depth [OF laid]
  have "list_all (branch_ok code (fr_sp_bottom n)) (take (block_depth n) (fr_blocks n))"
    using laid by (auto simp: frame_laid_out_def)
  from block_stack_back [OF this, of m code' fp] show ?thesis
    unfolding depth(1,4) m using depth(2,3) by (simp add: rebase_def add.commute)
qed

lemma frame_cells_back:
  assumes old: "fr_cells m = old" "fr_sp_bottom m = lp + 4 * of_nat (P + M)"
    and len: "P + M + S \<le> length xs" "P + M + S \<le> length old" and lt: "P < 2 ^ 34" "P + M < 2 ^ 34"
  shows "exec_stmts [fread_cells lp lp P, fread_cells lp (lp + 4 * of_nat P) M,
      on_node (\<lambda>n. fread_cells lp (fr_sp_bottom n) S)]
    (m, concat (map fwrite_u32 (take P (drop 0 xs))) @ concat (map fwrite_u32 (take M (drop P xs))) @
      concat (map fwrite_u32 (take S (drop (P + M) xs))) @ gp)
    = Inr (m\<lparr>fr_cells := overlay (P + M + S) xs old\<rparr>, gp)"
proof -
  have c1: "fread_cells lp lp P (m, concat (map fwrite_u32 (take P (drop 0 xs))) @ fp)
      = Inr (m\<lparr>fr_cells := overlay P xs old\<rparr>, fp)" for fp
    using cells_back [of m 0 xs old P lp fp] len old by (simp add: overlay_def)
  have c2: "fread_cells lp (lp + 4 * of_nat P) M (m\<lparr>fr_cells := overlay P xs old\<rparr>,
        concat (map fwrite_u32 (take M (drop P xs))) @ fp)
      = Inr (m\<lparr>fr_cells := overlay (P + M) xs old\<rparr>, fp)" for fp
    using cells_back [of "m\<lparr>fr_cells := overlay P xs old\<rparr>" P xs old M lp fp] lt len by simp
  have c3: "fread_cells lp (lp + 4 * of_nat (P + M)) S (m\<lparr>fr_cells := overlay (P + M) xs old\<rparr>,
        concat (map fwrite_u32 (take S (drop (P + M) xs))) @ fp)
      = Inr (m\<lparr>fr_cells := overlay (P + M + S) xs old\<rparr>, fp)" for fp
    using cells_back [of "m\<lparr>fr_cells := overlay (P + M) xs old\<rparr>" "P + M" xs old S lp fp] lt len by simp
  show ?thesis
    unfolding exec_stmts.simps c1 bind_res_simps c2 on_node_app using old(2) c3 by simp
qed

lemma frame_head_back:
  assumes "elem_ptr 4 (fr_sp_bottom n) (fr_sp n)"
    and spb: "spb' = lp + 4 * ucast (fi_param_cell_num fi) + 4 * ucast (fi_local_cell_num fi)"
    and spt: "spt = spb' + 4 * ucast (fn_max_stack_cell_num fn)"
  shows "WASMInterpFrame_body lp code' fi fn (n1, fwrite_u64 (fr_ip n - code) @
      fwrite_u64 (ptr_diff 4 (fr_sp n) (fr_sp_bottom n)) @ fp) =
    exec_stmts [restore_block_stack code', fread_cells lp lp (unat (fi_param_cell_num fi)),
      fread_cells lp (lp + 4 * ucast (fi_param_cell_num fi)) (unat (fi_local_cell_num fi)),
      on_node (\<lambda>n. fread_cells lp (fr_sp_bottom n) (unat (fn_max_stack_cell_num fn)))]
     (n1\<lparr>fr_ip := rebase code code' (fr_ip n), fr_sp_bottom := spb', fr_sp_boundary := spt,
        fr_sp := rebase (fr_sp_bottom n) spb' (fr_sp n), fr_csp := spt, fr_csp_bottom := spt,
        fr_csp_boundary := spt + of_nat sizeof_WASMBranchBlock * ucast (fn_max_block_num fn)\<rparr>, fp)"
  using elem_ptr_diff [OF assms(1)]
  by (simp add: WASMInterpFrame_body_def fread_as_def u64_codec.dec_enc rebase_def spt
      add.commute [of "fr_sp n - fr_sp_bottom n"] flip: spb)

lemma frame_body_back:
  assumes laid: "frame_laid_out p (fi, code, fn) n n0" and same: "same_cells (fi, code, fn) (fi', code', fn')"
    and n1: "fr_cells n1 = fr_cells n0" "fr_blocks n1 = fr_blocks n0"
    and spb: "spb' = frame_sp_bottom q fi'" and spt: "spt = spb' + 4 * ucast (fn_max_stack_cell_num fn')"
  shows "WASMInterpFrame_body (frame_lp (p_raw q)) code' fi' fn' (n1, frame_stream (fi, code, fn) n @ gp)
    = Inr (n1\<lparr>fr_ip := rebase code code' (fr_ip n),
             fr_sp_bottom := spb', fr_sp_boundary := spt, fr_sp := rebase (fr_sp_bottom n) spb' (fr_sp n),
             fr_csp_bottom := spt, fr_csp := rebase (fr_csp_bottom n) spt (fr_csp n),
             fr_csp_boundary := spt + of_nat sizeof_WASMBranchBlock * ucast (fn_max_block_num fn'),
             fr_cells := overlay (cell_total fi fn) (fr_cells n) (fr_cells n0),
             fr_blocks := map (branch_image code code' (fr_sp_bottom n) spb') (take (block_depth n) (fr_blocks n))
               @ drop (block_depth n) (fr_blocks n0)\<rparr>, gp)"
proof -
  define P M S lp where defs: "P = unat (fi_param_cell_num fi')" "M = unat (fi_local_cell_num fi')"
    "S = unat (fn_max_stack_cell_num fn')" "lp = frame_lp (p_raw q)"
  have eq: "unat (fi_param_cell_num fi) = P" "unat (fi_local_cell_num fi) = M" "unat (fn_max_stack_cell_num fn) = S"
    using same by (simp_all add: same_cells_def defs)
  have "P < 2 ^ 32" "M < 2 ^ 32" unfolding defs by (rule count_less)+
  then have PM: "P < 2 ^ 34" "P + M < 2 ^ 34" by simp_all
  have tot: "P + M + S \<le> length (fr_cells n)" "P + M + S \<le> length (fr_cells n0)"
    and sp: "elem_ptr 4 (fr_sp_bottom n) (fr_sp n)"
    using laid unfolding frame_laid_out_def cell_total_def prod.case eq by blast+
  have spb': "spb' = lp + 4 * ucast (fi_param_cell_num fi') + 4 * ucast (fi_local_cell_num fi')"
    by (simp add: spb frame_sp_bottom_def defs)
  have spc: "spb' = lp + 4 * of_nat (P + M)"
    unfolding spb' ucast_cells defs [symmetric] by (simp add: algebra_simps)
  have pc: "4 * ucast (fi_param_cell_num fi') = (4 * of_nat P :: u64)" unfolding ucast_cells defs ..
  define m where "m = n1\<lparr>fr_ip := rebase code code' (fr_ip n), fr_sp_bottom := spb', fr_sp_boundary := spt,
    fr_sp := rebase (fr_sp_bottom n) spb' (fr_sp n), fr_csp := spt, fr_csp_bottom := spt,
    fr_csp_boundary := spt + of_nat sizeof_WASMBranchBlock * ucast (fn_max_block_num fn')\<rparr>"
  have m: "fr_blocks m = fr_blocks n0" "fr_cells m = fr_cells n0" "fr_sp_bottom m = spb'" "fr_csp m = spt"
    by (simp_all add: m_def n1)
  define m' where "m' = m\<lparr>fr_csp := rebase (fr_csp_bottom n) spt (fr_csp n),
    fr_blocks := map (branch_image code code' (fr_sp_bottom n) spb') (take (block_depth n) (fr_blocks n))
      @ drop (block_depth n) (fr_blocks n0)\<rparr>"
  note head = frame_head_back [OF sp spb' spt, of code' n1 code, folded m_def, unfolded pc, folded defs]
  note blocks = frame_blocks_back [OF laid m(1), of code', unfolded m(3,4), folded m'_def]
  have "fr_cells m' = fr_cells n0" "fr_sp_bottom m' = lp + 4 * of_nat (P + M)"
    by (simp_all add: m'_def m spc)
  note cells = frame_cells_back [OF this tot PM, of gp]
  show ?thesis
    unfolding frame_stream_def prod.case defs(4) [symmetric] append_assoc eq head cell_total_def
      exec_stmts.simps(2) [of "restore_block_stack code'"] blocks bind_res_simps cells
    by (simp add: m'_def m_def)
qed

interpretation rt_WASMInterpFrame: node_codec as_WASMInterpFrame O_WASMInterpFrame WASMInterpFrame_bytes
  "WASMInterpFrame_fields m" "WASMInterpFrame_ok m" "WASMInterpFrame_image m" for m
proof
  fix c rg p q n n0
  assume ok: "WASMInterpFrame_ok m c rg p q n n0"
  show "\<exists>bs. WASMInterpFrame_bytes c p n = Inr bs \<and>
    (\<forall>fp. WASMInterpFrame_fields m rg q (n0, bs @ fp) = Inr (WASMInterpFrame_image m c rg p q n n0, fp))"
  proof (cases "fr_function n = 0")
    case True
    then show ?thesis
      by (auto simp: WASMInterpFrame_bytes_def WASMInterpFrame_fields_def WASMInterpFrame_image_def RESTORE_PTR_back
          ptr_ok_def split: sum.split prod.split)
  next
    case False
    let ?a = "reloc rg (dc_base c) (fr_function n)"
    obtain f fi' code' fn' where f: "frame_fun (dc_mem c) (fr_function n) = Inr f" "frame_fun m ?a = Inr (fi', code', fn')"
      "same_cells f (fi', code', fn')" "frame_laid_out p f n n0" and pt: "ptr_ok rg (dc_base c) (fr_function n)" "?a \<noteq> 0"
      using ok False by (auto simp: WASMInterpFrame_ok_def split: sum.split_asm)
    obtain fi code fn where [simp]: "f = (fi, code, fn)" by (cases f)
    have loads: "load as_WASMFunctionInstance m ?a = Inr fi'" "wasm_get_func_code m fi' = Inr code'"
      "load as_WASMFunction m (fi_u fi') = Inr fn'"
      using f(2) by (auto simp: frame_fun_def bind_res_eq_Inr)
    have "WASMInterpFrame_fields m rg q (n0, (DUMP_PTR (dc_base c) (fr_function n) @ frame_stream f n) @ fp)
        = Inr (WASMInterpFrame_image m c rg p q n n0, fp)" for fp
      using frame_body_back [of p fi code fn n n0 fi' code' fn' "n0\<lparr>fr_function := ?a\<rparr>", OF _ _ _ _ refl refl]
        f loads pt False
      by (simp add: WASMInterpFrame_fields_def RESTORE_PTR_back WASMInterpFrame_image_def Let_def)
    with frame_bytes [OF False f(1,4)] show ?thesis by blast
  qed
qed

end
