(* ===== verification/Frame_Stack.thy ===== *)
theory Frame_Stack
  imports Frame_Roundtrip "HOL-Library.Multiset"
begin

text \<open>
  The frames of a checkpoint together: the order pool_info.img gives them, their layout on the new
  stack (\<open>restore_frame_internal\<close>, first loop) and their contents (second loop), and the frame
  discipline of \<open>ALLOC_FRAME\<close> and \<open>FREE_FRAME\<close> while the program runs.
\<close>

section \<open>The order of the frames\<close>

definition frame_key :: "pool_node \<Rightarrow> int" where
  "frame_key p = sint (p_abs p)"

abbreviation singles :: "pool_node list \<Rightarrow> pool_chain list" where
  "singles \<equiv> map (\<lambda>p. [p])"

lemma insert_frame_insort: "insert_frame x (singles ps) = singles (insort_key frame_key x ps)"
  by (induction ps) (auto simp: frame_key_def)

lemma fold_insert_frame: "fold insert_frame xs (singles ps) = singles (fold (insort_key frame_key) xs ps)"
  by (induction xs arbitrary: ps) (simp_all add: insert_frame_insort)

lemma fold_insort_mset: "mset (fold (insort_key f) xs ps) = mset xs + mset ps"
  by (induction xs arbitrary: ps) simp_all

lemma fold_insort_sorted: "sorted (map f ps) \<Longrightarrow> sorted (map f (fold (insort_key f) xs ps))"
  by (induction xs arbitrary: ps) (simp_all add: sorted_insort_key)

text \<open>Whatever order the frames were registered in, they are rebuilt in the order of their offsets.\<close>

lemma insert_frames_sorted:
  assumes "mset xs = mset ps" "sorted_wrt (\<lambda>p q. frame_key p < frame_key q) ps"
  shows "fold insert_frame xs [] = singles ps"
proof -
  have "sorted_wrt (<) (map frame_key ps)" using assms(2) by (simp add: sorted_wrt_map)
  then have ps: "sorted (map frame_key ps)" and inj: "inj_on frame_key (set ps)"
    by (simp_all add: strict_sorted_iff distinct_map)
  define zs where "zs = fold (insort_key frame_key) xs []"
  have "mset ps = mset zs" using assms(1) by (simp add: zs_def fold_insort_mset)
  moreover have "sorted (map frame_key zs)" unfolding zs_def by (rule fold_insort_sorted) simp
  ultimately have "sort_key frame_key ps = zs" using inj by (intro sort_key_inj_key_eq)
  moreover have "sort_key frame_key ps = ps" using refl inj ps by (rule sort_key_inj_key_eq)
  ultimately have "zs = ps" by (rule trans [OF sym])
  then show ?thesis using fold_insert_frame [of xs "[]"] by (simp add: zs_def)
qed

section \<open>The layout of the frames\<close>

text \<open>Frames one after the other from \<open>t\<close> on.\<close>

fun laid_out :: "addr \<Rightarrow> pool_node list \<Rightarrow> pool_node list" where
  "laid_out t [] = []"
| "laid_out t (q # qs) = q\<lparr>p_raw := t\<rparr> # laid_out (t + ucast (p_size q)) qs"

fun stack_end :: "addr \<Rightarrow> pool_node list \<Rightarrow> addr" where
  "stack_end t [] = t"
| "stack_end t (q # qs) = stack_end (t + ucast (p_size q)) qs"

fun stack_fits :: "addr \<Rightarrow> addr \<Rightarrow> pool_node list \<Rightarrow> bool" where
  "stack_fits b t [] \<longleftrightarrow> True"
| "stack_fits b t (q # qs) \<longleftrightarrow> t \<noteq> 0 \<and> \<not> b < t + ucast (p_size q * 2) \<and> stack_fits b (t + ucast (p_size q)) qs"

text \<open>Fresh frames in memory, each linked to the one before it.\<close>

fun put_frames :: "stale_frame \<Rightarrow> addr \<Rightarrow> pool_node list \<Rightarrow> mem \<Rightarrow> mem" where
  "put_frames stale prev [] m = m"
| "put_frames stale prev (p # ps) m = put_frames stale (p_raw p) ps
     (m(p_raw p := Some (O_WASMInterpFrame ((stale (p_raw p) (p_size p))\<lparr>fr_prev_frame := prev\<rparr>))))"

definition frames_pushed :: "addr \<Rightarrow> pool_node list \<Rightarrow> WASMExecEnv \<Rightarrow> WASMExecEnv" where
  "frames_pushed t qs ee = (if qs = [] then ee
     else ee\<lparr>ee_top := stack_end t qs, ee_cur_frame := p_raw (last (laid_out t qs))\<rparr>)"

lemma laid_out_eq_Nil [simp]: "laid_out t qs = [] \<longleftrightarrow> qs = []"
  by (cases qs) simp_all

lemma put_frames_upd:
  "a \<notin> p_raw ` set ps \<Longrightarrow> put_frames stale prev ps (m(a := x)) = (put_frames stale prev ps m)(a := x)"
proof (induction ps arbitrary: prev m)
  case (Cons p ps)
  have "m(a := x, p_raw p := y) = m(p_raw p := y, a := x)" for y using Cons.prems by (intro fun_upd_twist) auto
  with Cons show ?case by (simp del: fun_upd_apply)
qed simp

lemma put_frames_other: "a \<notin> p_raw ` set ps \<Longrightarrow> put_frames stale prev ps m a = m a"
  by (induction ps arbitrary: prev m) auto

lemma put_frames_nth:
  "distinct (map p_raw ps) \<Longrightarrow> i < length ps \<Longrightarrow> put_frames stale prev ps m (p_raw (ps ! i))
     = Some (O_WASMInterpFrame ((stale (p_raw (ps ! i)) (p_size (ps ! i)))
         \<lparr>fr_prev_frame := (if i = 0 then prev else p_raw (ps ! (i - 1)))\<rparr>))"
proof (induction ps arbitrary: i prev m)
  case (Cons p ps)
  show ?case
  proof (cases i)
    case 0
    with Cons.prems show ?thesis by (simp add: put_frames_other)
  next
    case (Suc j)
    with Cons show ?thesis by (cases j) simp_all
  qed
qed simp

lemma wasm_interp_alloc_frame_ok:
  assumes "m env = Some (O_WASMExecEnv ee)" "ee_top ee \<noteq> 0" "\<not> ee_top_boundary ee < ee_top ee + ucast (sz * 2)"
  shows "wasm_interp_alloc_frame stale env sz prev m
    = Inr (ee_top ee, m(env := Some (O_WASMExecEnv (ee\<lparr>ee_top := ee_top ee + ucast sz\<rparr>)),
        ee_top ee := Some (O_WASMInterpFrame ((stale (ee_top ee) sz)\<lparr>fr_prev_frame := prev\<rparr>))))"
  using assms by (simp add: wasm_interp_alloc_frame_def wasm_exec_env_alloc_wasm_frame_def)

lemma layout_frames_step:
  assumes "m env = Some (O_WASMExecEnv ee)" "ee_top ee \<noteq> 0" "\<not> ee_top_boundary ee < ee_top ee + ucast (p_size q * 2)"
    and ne: "env \<noteq> ee_top ee"
  shows "layout_frames stale env prev (singles (q # qs)) m =
      bind_res (layout_frames stale env (ee_top ee) (singles qs)
        (m(ee_top ee := Some (O_WASMInterpFrame ((stale (ee_top ee) (p_size q))\<lparr>fr_prev_frame := prev\<rparr>)),
           env := Some (O_WASMExecEnv (ee\<lparr>ee_top := ee_top ee + ucast (p_size q), ee_cur_frame := ee_top ee\<rparr>)))))
        (\<lambda>(cs', m'). Inr ([q\<lparr>p_raw := ee_top ee\<rparr>] # cs', m'))"
proof -
  have "(m(env := x, ee_top ee := y))(env := z) = m(ee_top ee := y, env := z)" for x y z
    using ne by (auto simp: fun_eq_iff)
  moreover have "load as_WASMExecEnv (m(env := Some (O_WASMExecEnv e), ee_top ee := y)) env = Inr e" for e y
    using ne by simp
  ultimately show ?thesis
    by (simp add: wasm_interp_alloc_frame_ok [of m env ee "p_size q" stale prev, OF assms(1-3)]
        wasm_exec_env_set_cur_frame_def del: fun_upd_apply)
qed

lemma layout_frames_ok:
  assumes "m env = Some (O_WASMExecEnv ee)" "stack_fits (ee_top_boundary ee) (ee_top ee) qs"
    and "env \<notin> p_raw ` set (laid_out (ee_top ee) qs)"
  shows "layout_frames stale env prev (singles qs) m = Inr (singles (laid_out (ee_top ee) qs),
     (put_frames stale prev (laid_out (ee_top ee) qs) m)
       (env := Some (O_WASMExecEnv (frames_pushed (ee_top ee) qs ee))))"
  using assms
proof (induction qs arbitrary: m ee prev)
  case Nil
  then show ?case by (simp add: frames_pushed_def fun_upd_idem)
next
  case (Cons q qs)
  let ?t = "ee_top ee"
  let ?f = "Some (O_WASMInterpFrame ((stale ?t (p_size q))\<lparr>fr_prev_frame := prev\<rparr>))"
  define ee1 where "ee1 = ee\<lparr>ee_top := ?t + ucast (p_size q), ee_cur_frame := ?t\<rparr>"
  have ne: "env \<noteq> ?t" "env \<notin> p_raw ` set (laid_out (ee_top ee1) qs)"
    using Cons.prems(3) by (auto simp: ee1_def)
  have IH: "layout_frames stale env ?t (singles qs) (m(?t := ?f, env := Some (O_WASMExecEnv ee1)))
    = Inr (singles (laid_out (ee_top ee1) qs),
      (put_frames stale ?t (laid_out (ee_top ee1) qs) (m(?t := ?f, env := Some (O_WASMExecEnv ee1))))
        (env := Some (O_WASMExecEnv (frames_pushed (ee_top ee1) qs ee1))))"
    using Cons.prems ne(2) by (intro Cons.IH) (simp_all add: ee1_def)
  have pushed: "frames_pushed (ee_top ee1) qs ee1 = frames_pushed ?t (q # qs) ee"
    by (cases "qs = []") (simp_all add: frames_pushed_def ee1_def)
  have "layout_frames stale env prev (singles (q # qs)) m =
      bind_res (layout_frames stale env ?t (singles qs) (m(?t := ?f, env := Some (O_WASMExecEnv ee1))))
        (\<lambda>(cs', m'). Inr ([q\<lparr>p_raw := ?t\<rparr>] # cs', m'))"
    unfolding ee1_def using Cons.prems ne by (intro layout_frames_step) simp_all
  also have "\<dots> = Inr (singles (laid_out ?t (q # qs)), (put_frames stale prev (laid_out ?t (q # qs)) m)
       (env := Some (O_WASMExecEnv (frames_pushed ?t (q # qs) ee))))"
    unfolding IH put_frames_upd [OF ne(2)] pushed by (simp add: ee1_def)
  finally show ?case .
qed

section \<open>The contents of the frames\<close>

text \<open>frame.img for a list of frames, and a frame with the place laid out for it.\<close>

fun frame_list :: "dump_ctx \<Rightarrow> pool_node list \<Rightarrow> stream res" where
  "frame_list c [] = Inr []"
| "frame_list c (p # ps) =
     bind_res (dump_WASMInterpFrame c [p]) (\<lambda>out. bind_res (frame_list c ps) (\<lambda>rest. Inr (out @ rest)))"

definition frame_pair_ok :: "dump_ctx \<Rightarrow> registry \<Rightarrow> mem \<Rightarrow> pool_node \<times> pool_node \<Rightarrow> bool" where
  "frame_pair_ok c rg m = (\<lambda>(p, q). get_frame_info rg (p_abs p) = Inr [q] \<and>
     node_ok (lift_cond as_WASMInterpFrame (WASMInterpFrame_ok m)) c rg m p q)"

definition frame_pair_restored :: "dump_ctx \<Rightarrow> registry \<Rightarrow> mem \<Rightarrow> mem \<Rightarrow> pool_node \<times> pool_node \<Rightarrow> bool" where
  "frame_pair_restored c rg m m' = (\<lambda>(p, q).
     node_restored (lift_image as_WASMInterpFrame O_WASMInterpFrame (WASMInterpFrame_image m)) c rg m m' p q)"

lemma as_WASMInterpFrame_eq: "as_WASMInterpFrame ob = Some x \<longleftrightarrow> ob = O_WASMInterpFrame x"
  by (cases ob) (simp_all add: as_WASMInterpFrame_def)

lemma frame_fun_upd:
  assumes "m b = Some (O_WASMInterpFrame x)"
  shows "frame_fun (m(b := Some (O_WASMInterpFrame y))) = frame_fun m"
proof -
  have "load as_WASMFunctionInstance (m(b := Some (O_WASMInterpFrame y))) a = load as_WASMFunctionInstance m a"
    "load as_WASMFunction (m(b := Some (O_WASMInterpFrame y))) a = load as_WASMFunction m a" for a
    using assms by (simp_all add: load_def as_WASMFunctionInstance_def as_WASMFunction_def)
  then show ?thesis by (simp add: fun_eq_iff frame_fun_def wasm_get_func_code_def cong: if_cong)
qed

lemma frame_cond_cong:
  assumes "frame_fun m = frame_fun m1"
  shows "WASMInterpFrame_ok m = WASMInterpFrame_ok m1" "WASMInterpFrame_image m = WASMInterpFrame_image m1"
  unfolding WASMInterpFrame_ok_def [abs_def] WASMInterpFrame_image_def [abs_def] assms by simp_all

text \<open>One record of frame.img.\<close>

lemma frame_record_roundtrip:
  assumes "frame_pair_ok c (rs_rg st) (rs_mem st) (p, q)"
  shows "\<exists>bs st'. dump_WASMInterpFrame c [p] = Inr bs \<and> (\<forall>gp. restore_frames st (bs @ gp) = restore_frames st' gp) \<and>
     rs_rg st' = rs_rg st \<and> frame_fun (rs_mem st') = frame_fun (rs_mem st) \<and>
     frame_pair_restored c (rs_rg st) (rs_mem st) (rs_mem st') (p, q) \<and>
     (\<forall>a. a \<noteq> p_raw q \<longrightarrow> rs_mem st' a = rs_mem st a)"
proof -
  have gi: "get_frame_info (rs_rg st) (p_abs p) = Inr [q]"
    and ok: "chain_ok (lift_cond as_WASMInterpFrame (WASMInterpFrame_ok (rs_mem st))) c (rs_rg st) (rs_mem st) [p] [q]"
    using assms by (simp_all add: frame_pair_ok_def chain_ok_def)
  obtain bs st' where D: "dump_WASMInterpFrame c [p] = Inr (dump_header WASMInterpFrameT p @ bs)"
    and R: "\<And>gp. HEADER_RESTORE_BUF as_WASMInterpFrame O_WASMInterpFrame (WASMInterpFrame_fields (rs_mem st)) [q] (st, bs @ gp)
        = Inr (st', gp)" and rg: "rs_rg st' = rs_rg st"
    and r: "chain_restored (lift_image as_WASMInterpFrame O_WASMInterpFrame (WASMInterpFrame_image (rs_mem st))) c
      (rs_rg st) (rs_mem st) (rs_mem st') [p] [q]"
    using rt_WASMInterpFrame.head.handler_roundtrip [of "[p]" "[q]" "rs_mem st" c st WASMInterpFrameT] ok
    by (auto simp: dump_WASMInterpFrame_def)
  have "restore_frames st ((dump_header WASMInterpFrameT p @ bs) @ gp) = restore_frames st' gp" for gp
    by (subst restore_frames.simps)
      (simp add: dump_header_def u32_codec.dec_enc gi restore_WASMInterpFrame_def R)
  moreover have "frame_fun (rs_mem st') = frame_fun (rs_mem st)"
  proof -
    obtain x where x: "rs_mem st (p_raw q) = Some (O_WASMInterpFrame x)"
      using ok by (auto simp: chain_ok_def node_ok_def lift_cond_def as_WASMInterpFrame_eq split: option.split_asm)
    obtain y where "rs_mem st' = (rs_mem st)(p_raw q := Some (O_WASMInterpFrame y))"
      using r by (auto simp: chain_restored_def node_restored_def lift_image_def fun_eq_iff)
    with frame_fun_upd [of "rs_mem st" "p_raw q", OF x] show ?thesis by simp
  qed
  ultimately show ?thesis using D rg r
    by (intro exI [of _ "dump_header WASMInterpFrameT p @ bs"] exI [of _ st'])
      (simp add: frame_pair_restored_def chain_restored_def)
qed

text \<open>The whole of frame.img.\<close>

lemma frame_pair_cong:
  assumes "frame_fun m = frame_fun m1" "m (p_raw q) = m1 (p_raw q)"
  shows "frame_pair_ok c rg m (p, q) = frame_pair_ok c rg m1 (p, q)"
    "frame_pair_restored c rg m m' (p, q) = frame_pair_restored c rg m1 m' (p, q)"
  unfolding frame_pair_ok_def frame_pair_restored_def prod.case frame_cond_cong [OF assms(1)]
  by (simp_all add: node_ok_def node_restored_def assms(2))

lemma frame_img_roundtrip:
  "\<forall>x \<in> set prs. frame_pair_ok c (rs_rg st) (rs_mem st) x \<Longrightarrow> distinct (map (p_raw \<circ> snd) prs) \<Longrightarrow>
   \<exists>out st'. frame_list c (map fst prs) = Inr out \<and> restore_frames st out = Inr st' \<and> rs_rg st' = rs_rg st \<and>
     frame_fun (rs_mem st') = frame_fun (rs_mem st) \<and>
     (\<forall>x \<in> set prs. frame_pair_restored c (rs_rg st) (rs_mem st) (rs_mem st') x) \<and>
     (\<forall>a. a \<notin> p_raw ` snd ` set prs \<longrightarrow> rs_mem st' a = rs_mem st a)"
proof (induction prs arbitrary: st)
  case Nil
  then show ?case by (simp add: restore_frames.simps)
next
  case (Cons x prs)
  obtain p q where x: "x = (p, q)" by (cases x)
  have d: "p_raw q \<notin> p_raw ` snd ` set prs" "distinct (map (p_raw \<circ> snd) prs)"
    using Cons.prems(2) by (auto simp: x image_image comp_def)
  have ok1: "frame_pair_ok c (rs_rg st) (rs_mem st) (p, q)" using Cons.prems(1) x by simp
  obtain bs st1 where r: "dump_WASMInterpFrame c [p] = Inr bs" "\<And>gp. restore_frames st (bs @ gp) = restore_frames st1 gp"
    "rs_rg st1 = rs_rg st" "frame_fun (rs_mem st1) = frame_fun (rs_mem st)"
    and pr: "frame_pair_restored c (rs_rg st) (rs_mem st) (rs_mem st1) (p, q)"
    and fr: "\<And>a. a \<noteq> p_raw q \<Longrightarrow> rs_mem st1 a = rs_mem st a"
    using frame_record_roundtrip [OF ok1] by blast
  have same: "rs_mem st1 (p_raw (snd y)) = rs_mem st (p_raw (snd y))" if "y \<in> set prs" for y
    using that d(1) by (intro fr) (metis imageI)
  have "frame_pair_ok c (rs_rg st1) (rs_mem st1) y" if "y \<in> set prs" for y
    using Cons.prems(1) that frame_pair_cong(1) [OF r(4) same [OF that], of c "rs_rg st" "fst y"] r(3) by simp
  then obtain out st2 where o: "frame_list c (map fst prs) = Inr out" "restore_frames st1 out = Inr st2"
    "rs_rg st2 = rs_rg st1" "frame_fun (rs_mem st2) = frame_fun (rs_mem st1)"
    "\<forall>y \<in> set prs. frame_pair_restored c (rs_rg st1) (rs_mem st1) (rs_mem st2) y"
    "\<And>a. a \<notin> p_raw ` snd ` set prs \<Longrightarrow> rs_mem st2 a = rs_mem st1 a"
    using Cons.IH [of st1] d(2) by blast
  have "frame_pair_restored c (rs_rg st) (rs_mem st) (rs_mem st2) x"
    using pr o(6) [OF d(1)] by (simp add: x frame_pair_restored_def node_restored_def)
  moreover have "frame_pair_restored c (rs_rg st) (rs_mem st) (rs_mem st2) y" if "y \<in> set prs" for y
    using o(5) that frame_pair_cong(2) [OF r(4) same [OF that], of c "rs_rg st" "rs_mem st2" "fst y"] r(3) by simp
  ultimately have all: "\<forall>y \<in> set (x # prs). frame_pair_restored c (rs_rg st) (rs_mem st) (rs_mem st2) y"
    by (metis set_ConsD)
  have frame: "\<forall>a. a \<notin> p_raw ` snd ` set (x # prs) \<longrightarrow> rs_mem st2 a = rs_mem st a"
    using o(6) fr by (simp add: x)
  have "frame_list c (map fst (x # prs)) = Inr (bs @ out)" "restore_frames st (bs @ out) = Inr st2"
    using r(1,2) o(1,2) by (simp_all add: x)
  with o(3,4) r(3,4) all frame show ?case by (intro exI [of _ "bs @ out"] exI [of _ st2] conjI) simp_all
qed

section \<open>The frame discipline\<close>

lemma laid_out_length [simp]: "length (laid_out t qs) = length qs"
  by (induction qs arbitrary: t) simp_all

lemma laid_out_skel: "map skel (laid_out t qs) = map skel qs"
  by (induction qs arbitrary: t) (simp_all add: skel_def)

lemma laid_out_offset:
  "map p_size qs = map p_size ps \<Longrightarrow> i < length ps \<Longrightarrow>
     p_raw (laid_out t' qs ! i) - t' = p_raw (laid_out t ps ! i) - t"
proof (induction ps arbitrary: qs t t' i)
  case (Cons p ps)
  then obtain q qs' where qs: "qs = q # qs'" "p_size q = p_size p" "map p_size qs' = map p_size ps" by (cases qs) auto
  show ?case
  proof (cases i)
    case (Suc j)
    with Cons.prems have "p_raw (laid_out (t' + ucast (p_size p)) qs' ! j) - (t' + ucast (p_size p))
        = p_raw (laid_out (t + ucast (p_size p)) ps ! j) - (t + ucast (p_size p))"
      by (intro Cons.IH qs) simp
    then show ?thesis by (simp add: qs Suc algebra_simps)
  qed (simp add: qs)
qed simp

text \<open>A frame pushed and popped again leaves the registry and the stack as they were.\<close>

lemma alloc_free_frame:
  assumes env: "m env = Some (O_WASMExecEnv ee)" "env \<noteq> ee_top ee" and rg: "reg_ok rg" "reg_view rg (ee_top ee) = None"
    and fits: "ee_top ee \<noteq> 0" "\<not> ee_top_boundary ee < ee_top ee + ucast (sz * 2)"
  shows "\<exists>rg' m'. ALLOC_FRAME stale env sz prev (rg, m) = Inr (ee_top ee, rg', m') \<and>
     reg_view rg' = (reg_view rg)(ee_top ee := Some (WASMInterpFrameT, sz)) \<and>
     FREE_FRAME env (ee_top ee) (rg', m') = Inr (rg, m'(env := Some (O_WASMExecEnv ee)))"
proof -
  let ?f = "ee_top ee"
  define m' where "m' = m(env := Some (O_WASMExecEnv (ee\<lparr>ee_top := ?f + ucast sz\<rparr>)),
    ?f := Some (O_WASMInterpFrame ((stale ?f sz)\<lparr>fr_prev_frame := prev\<rparr>)))"
  have al: "wasm_interp_alloc_frame stale env sz prev m = Inr (?f, m')"
    unfolding m'_def using env(1) fits by (rule wasm_interp_alloc_frame_ok)
  define rg' where "rg' = rg\<lparr>root_info := [mk_node (pool_allocator rg) ?f WASMInterpFrameT (ucast sz)] # root_info rg\<rparr>"
  have reg: "alloc_info_ex rg ?f WASMInterpFrameT (ucast sz) = Inr rg'"
    using fits(1) by (simp add: alloc_info_ex_def rg'_def)
  have "reg_view rg' = (reg_view rg)(?f := Some (WASMInterpFrameT, ucast (ucast sz :: u64)))"
    using ex_registry.add_fresh [OF rg(1) fits(1) rg(2), of WASMInterpFrameT "ucast sz"] reg by auto
  moreover have "ucast (ucast sz :: u64) = sz" by (rule bit_word_eqI) (simp add: bit_simps)
  moreover have "free_info rg' ?f = Inr rg"
    by (simp add: free_info_def rg'_def mk_node_def)
  ultimately show ?thesis using fits(1) env
    by (intro exI [of _ rg'] exI [of _ m'])
      (simp add: ALLOC_FRAME_def al reg FREE_FRAME_def m'_def wasm_exec_env_free_wasm_frame_def)
qed

end
