(* ===== verification/Interp_Image.thy ===== *)
theory Interp_Image
  imports Frame_Stack
begin

text \<open>
  The fourth image: interp.img holds the local variables of \<open>wasm_interp_call_func_bytecode\<close>
  (wasm_interp_classic.c). The loop writes it when the signal flag is set, after
  \<open>SYNC_ALL_TO_FRAME\<close> and \<open>dump_runtime\<close>; a restored process reads it right after
  \<open>restore_runtime\<close> and goes on at the opcode that was fetched.
\<close>

section \<open>The locals of the interpreter loop\<close>

record interp_locals =
  iv_module :: addr
  iv_exec_env :: addr
  iv_cur_func :: addr
  iv_prev_frame :: addr
  iv_memory :: addr
  iv_num_bytes_per_page :: u32
  iv_global_data :: addr
  iv_linear_mem_size :: u32
  iv_wasm_types :: addr
  iv_globals :: addr
  iv_global :: addr
  iv_opcode_IMPDEP :: u8
  iv_frame :: addr
  iv_frame_ip :: addr
  iv_frame_lp :: addr
  iv_frame_sp :: addr
  iv_frame_csp :: addr
  iv_cache_items :: addr
  iv_frame_ip_end :: addr
  iv_opcode :: u8
  iv_i :: u32
  iv_depth :: u32
  iv_cond :: u32
  iv_count :: u32
  iv_fidx :: u32
  iv_tidx :: u32
  iv_lidx :: u32
  iv_frame_size :: u32
  iv_all_cell_num :: u64
  iv_val :: u32
  iv_else_addr :: addr
  iv_end_addr :: addr
  iv_maddr :: addr
  iv_local_idx :: u32
  iv_local_offset :: u32
  iv_global_idx :: u32
  iv_local_type :: u8
  iv_global_addr :: addr
  iv_cache_index :: u32
  iv_type_index :: u32
  iv_cell_num :: u32
  iv_value_type :: u8

text \<open>What the offsets are relative to: the code of the current function, the two stacks of the frame
  and the linear memory.\<close>

definition func_code :: "mem \<Rightarrow> addr \<Rightarrow> addr res" where
  "func_code m f = bind_res (load as_WASMFunctionInstance m f) (wasm_get_func_code m)"

definition wasm_get_func_code_end :: "mem \<Rightarrow> addr \<Rightarrow> addr res" where
  "wasm_get_func_code_end m f = bind_res (load as_WASMFunctionInstance m f) (\<lambda>fi.
     if fi_is_import_func fi then Inr 0
     else bind_res (load as_WASMFunction m (fi_u fi)) (\<lambda>fn. Inr (fn_code fn + ucast (fn_code_size fn))))"

definition sp_base :: "mem \<Rightarrow> addr \<Rightarrow> addr res" where
  "sp_base m f = bind_res (load as_WASMInterpFrame m f) (\<lambda>fr. Inr (fr_sp_bottom fr))"

definition csp_base :: "mem \<Rightarrow> addr \<Rightarrow> addr res" where
  "csp_base m f = bind_res (load as_WASMInterpFrame m f) (\<lambda>fr. Inr (fr_csp_bottom fr))"

definition mem_base :: "mem \<Rightarrow> addr \<Rightarrow> addr res" where
  "mem_base m a = bind_res (load as_WASMMemoryInstance m a) (\<lambda>mm. Inr (mm_memory_data mm))"

definition sizeof_BlockAddr :: nat where "sizeof_BlockAddr = c_size L_BlockAddr"

definition offsetof_block_addr_cache :: nat where
  "offsetof_block_addr_cache = c_offset (take 11 L_WASMExecEnv_head)
     (CArr L_BlockAddr (BLOCK_ADDR_CACHE_SIZE * BLOCK_ADDR_CONFLICT_SIZE))"

definition cache_row :: "addr \<Rightarrow> u32 \<Rightarrow> addr" where
  "cache_row env ix = env + of_nat offsetof_block_addr_cache
     + of_nat (BLOCK_ADDR_CONFLICT_SIZE * sizeof_BlockAddr) * ucast ix"

section \<open>Writing interp.img\<close>

definition SYNC_ALL_TO_FRAME :: "interp_locals \<Rightarrow> mem \<Rightarrow> mem res" where
  "SYNC_ALL_TO_FRAME v m = bind_res (load as_WASMInterpFrame m (iv_frame v)) (\<lambda>fr.
     Inr (m(iv_frame v := Some (O_WASMInterpFrame
       (fr\<lparr>fr_sp := iv_frame_sp v, fr_ip := iv_frame_ip v, fr_csp := iv_frame_csp v\<rparr>)))))"

text \<open>An offset in elements of \<open>k\<close> bytes; NULL is written as \<open>-1\<close> and its base is not looked at.\<close>

definition offset_from :: "nat \<Rightarrow> addr res \<Rightarrow> addr \<Rightarrow> u64 res" where
  "offset_from k base a = (if a = 0 then Inr (- 1) else bind_res base (\<lambda>b. Inr (ptr_diff k a b)))"

definition dump_interp :: "addr \<Rightarrow> mem \<Rightarrow> interp_locals \<Rightarrow> stream res" where
  "dump_interp base m v =
     bind_res (offset_from 1 (func_code m (iv_cur_func v)) (iv_frame_ip v)) (\<lambda>ip.
     bind_res (offset_from 4 (sp_base m (iv_frame v)) (iv_frame_sp v)) (\<lambda>sp.
     bind_res (offset_from sizeof_WASMBranchBlock (csp_base m (iv_frame v)) (iv_frame_csp v)) (\<lambda>csp.
     bind_res (offset_from 1 (func_code m (iv_cur_func v)) (iv_else_addr v)) (\<lambda>els.
     bind_res (offset_from 1 (func_code m (iv_cur_func v)) (iv_end_addr v)) (\<lambda>end_off.
     bind_res (offset_from 1 (mem_base m (iv_memory v)) (iv_maddr v)) (\<lambda>ma.
     Inr (DUMP_PTR base (iv_module v) @ DUMP_PTR base (iv_exec_env v) @ DUMP_PTR base (iv_cur_func v) @
       DUMP_PTR base (iv_prev_frame v) @ DUMP_PTR base (iv_memory v) @ fwrite_u32 (iv_num_bytes_per_page v) @
       DUMP_PTR base (iv_global_data v) @ fwrite_u32 (iv_linear_mem_size v) @
       DUMP_PTR base (iv_wasm_types v) @ DUMP_PTR base (iv_globals v) @ DUMP_PTR base (iv_global v) @
       fwrite_u8 (iv_opcode_IMPDEP v) @ DUMP_PTR base (iv_frame v) @
       fwrite_u64 ip @ fwrite_u64 sp @ fwrite_u64 csp @ fwrite_u8 (iv_opcode v) @
       fwrite_u32 (iv_i v) @ fwrite_u32 (iv_depth v) @ fwrite_u32 (iv_cond v) @ fwrite_u32 (iv_count v) @
       fwrite_u32 (iv_fidx v) @ fwrite_u32 (iv_tidx v) @ fwrite_u32 (iv_lidx v) @ fwrite_u32 (iv_frame_size v) @
       fwrite_u64 (iv_all_cell_num v) @ fwrite_u32 (iv_val v) @
       fwrite_u64 els @ fwrite_u64 end_off @ fwrite_u64 ma @
       fwrite_u32 (iv_local_idx v) @ fwrite_u32 (iv_local_offset v) @ fwrite_u32 (iv_global_idx v) @
       fwrite_u8 (iv_local_type v) @ fwrite_u64 (iv_global_addr v - iv_global_data v) @
       fwrite_u32 (iv_cache_index v) @ fwrite_u32 (iv_type_index v) @ fwrite_u32 (iv_cell_num v) @
       fwrite_u8 (iv_value_type v))))))))"

text \<open>The branch of the loop that takes a checkpoint; a restored process first gives the registry the
  offsets of its own pool. The process then exits.\<close>

definition checkpoint :: "bool \<Rightarrow> registry \<Rightarrow> mem \<Rightarrow> interp_locals \<Rightarrow> (images \<times> stream) res" where
  "checkpoint migr_flag rg m v =
     (let rg' = (if migr_flag then abs_translation rg else rg) in
      bind_res (SYNC_ALL_TO_FRAME v m) (\<lambda>m'.
      bind_res (dump_runtime rg' m') (\<lambda>im.
      bind_res (dump_interp (pool_allocator rg') m' v) (\<lambda>out. Inr (im, out)))))"

section \<open>Reading interp.img\<close>

definition RESTORE_FRAME_PTR :: "registry \<Rightarrow> ((addr \<Rightarrow> addr) \<Rightarrow> 'n \<Rightarrow> 'n) \<Rightarrow> 'n stmt" where
  "RESTORE_FRAME_PTR rg upd = (\<lambda>(n, fp). bind_res (fread_raw 4 fp) (\<lambda>(bs, fp').
     if (le_word bs :: u32) = - 1 then Inr (upd (\<lambda>_. 0) n, fp')
     else bind_res (get_frame_info rg (le_word bs)) (\<lambda>info.
       case info of [] \<Rightarrow> Inl (UB ''NULL Pool_Info'') | p # _ \<Rightarrow> Inr (upd (\<lambda>_. p_raw p) n, fp'))))"

definition restore_offset :: "nat \<Rightarrow> addr res \<Rightarrow> ((addr \<Rightarrow> addr) \<Rightarrow> 'n \<Rightarrow> 'n) \<Rightarrow> 'n stmt" where
  "restore_offset k base upd = (\<lambda>(n, fp). bind_res (fread_raw 8 fp) (\<lambda>(bs, fp').
     let off = le_word bs :: u64 in
     if off = - 1 then Inr (upd (\<lambda>_. 0) n, fp')
     else bind_res base (\<lambda>b. Inr (upd (\<lambda>_. of_nat k * off + b) n, fp'))))"

text \<open>The variables up to \<open>frame\<close>, the cached registers of the frame, and the temporaries.\<close>

definition interp_head :: "registry \<Rightarrow> interp_locals stmt" where
  "interp_head rg = exec_stmts [
     RESTORE_PTR rg iv_module_update, RESTORE_PTR rg iv_exec_env_update, RESTORE_PTR rg iv_cur_func_update,
     RESTORE_FRAME_PTR rg iv_prev_frame_update, RESTORE_PTR rg iv_memory_update,
     fread_u32 iv_num_bytes_per_page_update, RESTORE_PTR rg iv_global_data_update,
     fread_u32 iv_linear_mem_size_update, RESTORE_PTR rg iv_wasm_types_update,
     RESTORE_PTR rg iv_globals_update, RESTORE_PTR rg iv_global_update,
     fread_u8 iv_opcode_IMPDEP_update, RESTORE_FRAME_PTR rg iv_frame_update]"

definition interp_registers :: "mem \<Rightarrow> interp_locals stmt" where
  "interp_registers m = exec_stmts [
     on_node (\<lambda>v. restore_offset 1 (func_code m (iv_cur_func v)) iv_frame_ip_update),
     assign (\<lambda>v. v\<lparr>iv_frame_lp := frame_lp (iv_frame v)\<rparr>),
     on_node (\<lambda>v. restore_offset 4 (sp_base m (iv_frame v)) iv_frame_sp_update),
     on_node (\<lambda>v. restore_offset sizeof_WASMBranchBlock (csp_base m (iv_frame v)) iv_frame_csp_update),
     on_node (\<lambda>v s. bind_res (wasm_get_func_code_end m (iv_cur_func v)) (\<lambda>e. assign (\<lambda>v. v\<lparr>iv_frame_ip_end := e\<rparr>) s))]"

definition interp_temps :: "mem \<Rightarrow> interp_locals stmt" where
  "interp_temps m = exec_stmts [
     fread_u8 iv_opcode_update, fread_u32 iv_i_update, fread_u32 iv_depth_update, fread_u32 iv_cond_update,
     fread_u32 iv_count_update, fread_u32 iv_fidx_update, fread_u32 iv_tidx_update, fread_u32 iv_lidx_update,
     fread_u32 iv_frame_size_update, fread_u64 iv_all_cell_num_update, fread_u32 iv_val_update,
     on_node (\<lambda>v. restore_offset 1 (func_code m (iv_cur_func v)) iv_else_addr_update),
     on_node (\<lambda>v. restore_offset 1 (func_code m (iv_cur_func v)) iv_end_addr_update),
     on_node (\<lambda>v. restore_offset 1 (mem_base m (iv_memory v)) iv_maddr_update),
     fread_u32 iv_local_idx_update, fread_u32 iv_local_offset_update, fread_u32 iv_global_idx_update,
     fread_u8 iv_local_type_update,
     on_node (\<lambda>v. fread_as 8 (\<lambda>bs. le_word bs + iv_global_data v) iv_global_data_update),
     fread_u32 iv_cache_index_update, fread_u32 iv_type_index_update, fread_u32 iv_cell_num_update,
     assign (\<lambda>v. v\<lparr>iv_cache_items := cache_row (iv_exec_env v) (iv_cache_index v)\<rparr>),
     fread_u8 iv_value_type_update]"

definition restore_interp :: "registry \<Rightarrow> mem \<Rightarrow> interp_locals stmt" where
  "restore_interp rg m = exec_stmts [interp_head rg, interp_registers m, interp_temps m]"

text \<open>The branch of the function that resumes a checkpoint, up to the dispatch of the opcode.\<close>

definition resume ::
  "(Data_Type \<Rightarrow> nat) \<Rightarrow> 'h allocator \<Rightarrow> fresh_content \<Rightarrow> stale_frame \<Rightarrow> (addr \<Rightarrow> addr \<Rightarrow> mem \<Rightarrow> mem) \<Rightarrow> resolver \<Rightarrow>
     images \<times> stream \<Rightarrow> 'h load_st \<Rightarrow> interp_locals \<Rightarrow> (restore_st \<times> interp_locals) res" where
  "resume ext mal junk stale init_wasi resolve im ld v0 =
     bind_res (restore_runtime ext mal junk stale init_wasi resolve (fst im) ld) (\<lambda>st.
     bind_res (restore_interp (rs_rg st) (rs_mem st) (v0, snd im)) (\<lambda>(v, _). Inr (st, v)))"

section \<open>The round trip of interp.img\<close>

definition frame_ptr_ok :: "registry \<Rightarrow> addr \<Rightarrow> addr \<Rightarrow> bool" where
  "frame_ptr_ok rg base p \<longleftrightarrow> p = 0 \<or> (abs_of base p \<noteq> - 1 \<and> find_head (abs_of base p) (root_frame rg) \<noteq> None)"

definition frame_reloc :: "registry \<Rightarrow> addr \<Rightarrow> addr \<Rightarrow> addr" where
  "frame_reloc rg base p =
     (if p = 0 then 0
      else case find_head (abs_of base p) (root_frame rg) of Some (q # _) \<Rightarrow> p_raw q | _ \<Rightarrow> 0)"

lemma find_head_sound: "find_head pa cs = Some s \<Longrightarrow> s \<noteq> [] \<and> s \<in> set cs \<and> p_abs (hd s) = pa"
  by (induction cs) (auto split: if_splits)

lemma RESTORE_FRAME_PTR_back [codec]:
  assumes "frame_ptr_ok rg base p"
  shows "RESTORE_FRAME_PTR rg upd (n, DUMP_PTR base p @ fp) = Inr (upd (\<lambda>_. frame_reloc rg base p) n, fp)"
proof (cases "p = 0")
  case True
  then show ?thesis by (simp add: RESTORE_FRAME_PTR_def DUMP_PTR_def u32_codec.dec_enc frame_reloc_def)
next
  case False
  with assms obtain q qs where s: "find_head (abs_of base p) (root_frame rg) = Some (q # qs)" "abs_of base p \<noteq> - 1"
    using find_head_sound by (fastforce simp: frame_ptr_ok_def neq_Nil_conv)
  with False show ?thesis
    by (simp add: RESTORE_FRAME_PTR_def DUMP_PTR_def u32_codec.dec_enc get_frame_info_def frame_reloc_def abs_of_def)
qed

text \<open>A pointer written as an offset from \<open>base\<close> and read as one from \<open>base'\<close>.\<close>

definition offset_ok :: "nat \<Rightarrow> addr res \<Rightarrow> addr res \<Rightarrow> addr \<Rightarrow> bool" where
  "offset_ok k base base' a \<longleftrightarrow> a = 0 \<or>
     (case (base, base') of (Inr b, Inr b') \<Rightarrow> elem_ptr k b a | _ \<Rightarrow> False)"

definition moved :: "addr res \<Rightarrow> addr res \<Rightarrow> addr \<Rightarrow> addr" where
  "moved base base' a = (if a = 0 then 0 else case (base, base') of (Inr b, Inr b') \<Rightarrow> rebase b b' a | _ \<Rightarrow> 0)"

lemma elem_ptr_off:
  assumes "elem_ptr k b a" "0 < k" "k \<le> 2 ^ 31"
  shows "of_nat k * ptr_diff k a b = a - b" "ptr_diff k a b \<noteq> - 1"
proof -
  show "of_nat k * ptr_diff k a b = a - b" using elem_ptr_offset assms by (simp add: ptr_diff_elem)
  have lt: "unat (a - b) div k < 2 ^ 32" using assms(1) by (simp add: elem_ptr_def)
  show "ptr_diff k a b \<noteq> - 1"
  proof
    assume "ptr_diff k a b = - 1"
    then have "unat (of_nat (unat (a - b) div k) :: u64) = unat (- 1 :: u64)" using assms by (simp add: ptr_diff_elem)
    moreover have "unat (of_nat (unat (a - b) div k) :: u64) < 2 ^ 32"
      using lt by (auto simp: unsigned_of_nat take_bit_eq_mod intro: le_less_trans [OF mod_less_eq_dividend])
    ultimately show False by (simp add: unsigned_minus_1_eq_mask mask_eq_exp_minus_1)
  qed
qed

definition coded :: "nat \<Rightarrow> addr res \<Rightarrow> addr \<Rightarrow> u64" where
  "coded k base a = (if a = 0 then - 1 else case base of Inr b \<Rightarrow> ptr_diff k a b | Inl _ \<Rightarrow> 0)"

lemma offset_coded: "offset_ok k base base' a \<Longrightarrow> offset_from k base a = Inr (coded k base a)"
  by (auto simp: offset_ok_def offset_from_def coded_def split: sum.split_asm)

lemma offset_back:
  assumes "offset_ok k base base' a" "0 < k" "k \<le> 2 ^ 31"
  shows "restore_offset k base' upd (n, fwrite_u64 (coded k base a) @ fp) = Inr (upd (\<lambda>_. moved base base' a) n, fp)"
proof (cases "a = 0")
  case True
  then show ?thesis by (simp add: coded_def restore_offset_def moved_def u64_codec.dec_enc)
next
  case False
  then obtain b b' where b: "base = Inr b" "base' = Inr b'" "elem_ptr k b a"
    using assms(1) by (auto simp: offset_ok_def split: sum.split_asm)
  with False elem_ptr_off [OF b(3) assms(2,3)] show ?thesis
    by (simp add: coded_def restore_offset_def moved_def u64_codec.dec_enc rebase_def)
qed

definition interp_ok :: "addr \<Rightarrow> mem \<Rightarrow> registry \<Rightarrow> mem \<Rightarrow> interp_locals \<Rightarrow> bool" where
  "interp_ok base dm rg m v \<longleftrightarrow>
     list_all (ptr_ok rg base) [iv_module v, iv_exec_env v, iv_cur_func v, iv_memory v, iv_global_data v,
       iv_wasm_types v, iv_globals v, iv_global v] \<and>
     frame_ptr_ok rg base (iv_prev_frame v) \<and> frame_ptr_ok rg base (iv_frame v) \<and>
     list_all (offset_ok 1 (func_code dm (iv_cur_func v)) (func_code m (reloc rg base (iv_cur_func v))))
       [iv_frame_ip v, iv_else_addr v, iv_end_addr v] \<and>
     offset_ok 4 (sp_base dm (iv_frame v)) (sp_base m (frame_reloc rg base (iv_frame v))) (iv_frame_sp v) \<and>
     offset_ok sizeof_WASMBranchBlock (csp_base dm (iv_frame v)) (csp_base m (frame_reloc rg base (iv_frame v)))
       (iv_frame_csp v) \<and>
     offset_ok 1 (mem_base dm (iv_memory v)) (mem_base m (reloc rg base (iv_memory v))) (iv_maddr v) \<and>
     (\<exists>e. wasm_get_func_code_end m (reloc rg base (iv_cur_func v)) = Inr e)"

text \<open>The locals after the restore. \<open>global_data\<close> has the offset of \<open>global_addr\<close> added to it, and
  \<open>global_addr\<close> keeps what it held before.\<close>

definition interp_image :: "addr \<Rightarrow> mem \<Rightarrow> registry \<Rightarrow> mem \<Rightarrow> interp_locals \<Rightarrow> interp_locals \<Rightarrow> interp_locals" where
  "interp_image base dm rg m v v0 =
     (let cf = reloc rg base (iv_cur_func v); fr = frame_reloc rg base (iv_frame v);
          code = moved (func_code dm (iv_cur_func v)) (func_code m cf) in
      v\<lparr>iv_module := reloc rg base (iv_module v), iv_exec_env := reloc rg base (iv_exec_env v), iv_cur_func := cf,
        iv_prev_frame := frame_reloc rg base (iv_prev_frame v), iv_memory := reloc rg base (iv_memory v),
        iv_global_data := (iv_global_addr v - iv_global_data v) + reloc rg base (iv_global_data v),
        iv_wasm_types := reloc rg base (iv_wasm_types v), iv_globals := reloc rg base (iv_globals v),
        iv_global := reloc rg base (iv_global v), iv_frame := fr,
        iv_frame_ip := code (iv_frame_ip v), iv_frame_lp := frame_lp fr,
        iv_frame_sp := moved (sp_base dm (iv_frame v)) (sp_base m fr) (iv_frame_sp v),
        iv_frame_csp := moved (csp_base dm (iv_frame v)) (csp_base m fr) (iv_frame_csp v),
        iv_cache_items := cache_row (reloc rg base (iv_exec_env v)) (iv_cache_index v),
        iv_frame_ip_end := (case wasm_get_func_code_end m cf of Inr e \<Rightarrow> e | Inl _ \<Rightarrow> 0),
        iv_else_addr := code (iv_else_addr v), iv_end_addr := code (iv_end_addr v),
        iv_maddr := moved (mem_base dm (iv_memory v)) (mem_base m (reloc rg base (iv_memory v))) (iv_maddr v),
        iv_global_addr := iv_global_addr v0\<rparr>)"

lemma interp_roundtrip:
  assumes ok: "interp_ok base dm rg m v"
  shows "\<exists>out. dump_interp base dm v = Inr out \<and>
    (\<forall>fp. restore_interp rg m (v0, out @ fp) = Inr (interp_image base dm rg m v v0, fp))"
proof -
  let ?R = "reloc rg base" and ?F = "frame_reloc rg base"
  have k: "0 < sizeof_WASMBranchBlock" "sizeof_WASMBranchBlock \<le> 2147483648" by (simp_all add: layout)
  have ptrs: "ptr_ok rg base (iv_module v)" "ptr_ok rg base (iv_exec_env v)" "ptr_ok rg base (iv_cur_func v)"
    "ptr_ok rg base (iv_memory v)" "ptr_ok rg base (iv_global_data v)" "ptr_ok rg base (iv_wasm_types v)"
    "ptr_ok rg base (iv_globals v)" "ptr_ok rg base (iv_global v)"
    "frame_ptr_ok rg base (iv_prev_frame v)" "frame_ptr_ok rg base (iv_frame v)"
    using ok by (simp_all add: interp_ok_def)
  obtain e where e: "wasm_get_func_code_end m (?R (iv_cur_func v)) = Inr e" using ok by (auto simp: interp_ok_def)
  let ?code = "func_code dm (iv_cur_func v)" and ?code' = "func_code m (?R (iv_cur_func v))"
  have offs: "offset_ok 1 ?code ?code' (iv_frame_ip v)" "offset_ok 1 ?code ?code' (iv_else_addr v)"
    "offset_ok 1 ?code ?code' (iv_end_addr v)"
    "offset_ok 1 (mem_base dm (iv_memory v)) (mem_base m (?R (iv_memory v))) (iv_maddr v)"
    "offset_ok 4 (sp_base dm (iv_frame v)) (sp_base m (?F (iv_frame v))) (iv_frame_sp v)"
    "offset_ok sizeof_WASMBranchBlock (csp_base dm (iv_frame v)) (csp_base m (?F (iv_frame v))) (iv_frame_csp v)"
    using ok by (simp_all add: interp_ok_def)
  show ?thesis
    unfolding dump_interp_def offs [THEN offset_coded] bind_res_simps
    by (intro exI conjI allI, rule refl)
      (simp add: restore_interp_def interp_head_def interp_registers_def interp_temps_def ptrs offset_back offs k e
        RESTORE_PTR_back RESTORE_FRAME_PTR_back fread_as_def u64_codec.dec_enc interp_image_def Let_def del: One_nat_def)
qed

end
