(* ===== verification/Checkpoint.thy ===== *)
theory Checkpoint
  imports Interp_Image
begin

text \<open>
  A checkpoint from end to end: what \<open>dump_runtime\<close> writes is the concatenation of the images of the
  registered chains, and a process that reads them gets every object back. The properties of the
  images are stated here, with a concrete checkpoint each.
\<close>

section \<open>What dump\_runtime writes\<close>

definition live_chains :: "pool_chain list \<Rightarrow> pool_chain list" where
  "live_chains cs = filter (\<lambda>ps. p_type (hd ps) \<notin> set skipped_types) cs"

definition object_chains :: "pool_chain list \<Rightarrow> pool_chain list" where
  "object_chains cs = filter (\<lambda>ps. \<not> frame_chain ps) (live_chains cs)"

definition frame_nodes :: "pool_chain list \<Rightarrow> pool_node list" where
  "frame_nodes cs = map hd (filter frame_chain (live_chains cs))"

lemma frame_handler: "map_of init_dump_func WASMInterpFrameT = Some (Frame_Img, dump_WASMInterpFrame)"
  by (simp add: init_dump_func_def)

lemma dump_frame_head: "ps \<noteq> [] \<Longrightarrow> dump_WASMInterpFrame c ps = dump_WASMInterpFrame c [hd ps]"
  by (cases ps) (simp_all add: dump_WASMInterpFrame_def HEADER_DUMP_BUF_def)

lemma dump_chains_images:
  assumes "list_all (\<lambda>ps. ps \<noteq> []) cs" "dump_list c (object_chains cs) = Inr objs"
    "frame_list c (frame_nodes cs) = Inr frames" "pool_list (live_chains cs) = Inr pool"
  shows "dump_chains c cs im = Inr \<lparr>img_pool = img_pool im @ pool, img_dump = img_dump im @ objs,
    img_frame = img_frame im @ frames\<rparr>"
  using assms
proof (induction cs arbitrary: im objs frames pool)
  case Nil
  then show ?case by (simp add: live_chains_def object_chains_def frame_nodes_def)
next
  case (Cons ps cs)
  obtain p rest where ps: "ps = p # rest" using Cons.prems(1) by (cases ps) auto
  have ne: "list_all (\<lambda>ps. ps \<noteq> []) cs" using Cons.prems(1) by simp
  show ?case
  proof (cases "p_type p \<in> set skipped_types")
    case True
    with Cons ne show ?thesis by (simp add: ps live_chains_def object_chains_def frame_nodes_def)
  next
    case live: False
    obtain e pool1 where e: "pool_entry ps = Inr e" "pool_list (live_chains cs) = Inr pool1" "pool = e @ pool1"
      using Cons.prems(4) live by (auto simp: ps live_chains_def bind_res_eq_Inr)
    show ?thesis
    proof (cases "frame_chain ps")
      case True
      obtain out frames1 where f: "dump_WASMInterpFrame c ps = Inr out" "frame_list c (frame_nodes cs) = Inr frames1"
        "frames = out @ frames1"
        using Cons.prems(3) live True dump_frame_head [of ps c]
        by (auto simp: ps live_chains_def frame_nodes_def bind_res_eq_Inr)
      have "dump_list c (object_chains cs) = Inr objs"
        using Cons.prems(2) live True by (simp add: ps live_chains_def object_chains_def)
      from Cons.IH [OF ne this f(2) e(2)] show ?thesis
        using live True f(1,3) e(1,3) frame_handler by (simp add: ps frame_chain_def)
    next
      case False
      obtain D out objs1 where d: "map_of init_dump_func (p_type p) = Some (Dump_Img, D)" "D c ps = Inr out"
        "dump_list c (object_chains cs) = Inr objs1" "objs = out @ objs1"
        using Cons.prems(2) live False
        by (auto simp: ps live_chains_def object_chains_def bind_res_eq_Inr split: option.split_asm image_file.split_asm)
      have "frame_list c (frame_nodes cs) = Inr frames"
        using Cons.prems(3) live False by (simp add: ps live_chains_def frame_nodes_def)
      from Cons.IH [OF ne d(3) this e(2)] show ?thesis
        using live d e(1,3) by (simp add: ps)
    qed
  qed
qed

section \<open>The objects of a checkpoint\<close>

definition dump_ctx_of :: "registry \<Rightarrow> mem \<Rightarrow> dump_ctx" where
  "dump_ctx_of rg m = \<lparr>dc_base = pool_allocator rg, dc_mem = m, dc_module = rg_module rg\<rparr>"

text \<open>The process that restores: nothing registered yet.\<close>

definition fresh_process :: "'h load_st \<Rightarrow> bool" where
  "fresh_process ld \<longleftrightarrow> root_info (ld_rg ld) = [] \<and> root_frame (ld_rg ld) = []"

definition load_done :: "'h load_st \<Rightarrow> stream \<Rightarrow> restore_st" where
  "load_done ld gp = \<lparr>rs_rg = ld_rg ld, rs_mem = ld_mem ld, rs_module = 0, rs_module_inst = 0, rs_exec_env = 0, rs_gp = gp\<rparr>"

text \<open>A chain fits the chain allocated for it when its type has inverse handlers whose condition holds.\<close>

definition chain_fits :: "dump_ctx \<Rightarrow> registry \<Rightarrow> mem \<Rightarrow> pool_chain \<Rightarrow> pool_chain \<Rightarrow> bool" where
  "chain_fits c rg m ps qs \<longleftrightarrow>
     (case map_of codec_table (p_type (hd ps)) of None \<Rightarrow> False
      | Some (arr, cond, img) \<Rightarrow> (arr \<or> length ps = 1) \<and> chain_ok cond c rg m ps qs)"

definition offsets_ok :: "pool_chain list \<Rightarrow> bool" where
  "offsets_ok cs \<longleftrightarrow> distinct (map p_abs (concat cs)) \<and> - 1 \<notin> set (map p_abs (concat cs))"

lemma p_abs_skel: "map p_abs qs = map fst (map skel qs)"
  by (simp add: skel_def)

lemma skels_abs:
  assumes "map (map skel) qss = map (map skel) pss"
  shows "map p_abs (concat qss) = map p_abs (concat pss)"
proof -
  have "map p_abs (concat xss) = concat (map (map fst) (map (map skel) xss))" for xss
    unfolding p_abs_skel map_concat by (simp add: comp_def)
  then show ?thesis using assms by metis
qed

lemma rebuilt_objects:
  assumes "fresh_process ld" "rebuilt ext junk cs ld ld'"
  shows "map (map skel) (rev (root_info (ld_rg ld'))) = map (map skel) (filter (\<lambda>ps. \<not> frame_chain ps) cs)"
proof -
  obtain new where "root_info (ld_rg ld') = new @ root_info (ld_rg ld)"
    "map (map skel) new = rev (map (map skel) (filter (\<lambda>ps. \<not> frame_chain ps) cs))"
    using assms(2) by (auto simp: rebuilt_def)
  with assms(1) show ?thesis by (simp add: fresh_process_def flip: rev_map)
qed

lemma mset_concat_rev: "mset (concat (rev xss)) = mset (concat xss)"
  by (induction xss) simp_all

lemma pair_ok_rebuilt:
  assumes skel: "map (map skel) (rev (root_info rg)) = map (map skel) pss" and off: "offsets_ok pss"
    and fits: "chain_fits c rg m ps qs" and i: "i < length pss" "ps = pss ! i" "qs = rev (root_info rg) ! i" "ps \<noteq> []"
  shows "pair_ok c rg m (ps, qs)"
proof -
  have len: "length (rev (root_info rg)) = length pss" using arg_cong [OF skel, of length] by simp
  have "map skel qs = map skel ps" using arg_cong [OF skel, of "\<lambda>l. l ! i"] i len by simp
  then obtain q rest where qs: "qs = q # rest" "p_abs q = p_abs (hd ps)"
    using i(4) by (cases ps; cases qs) (auto simp: skel_def)
  have abs: "map p_abs (concat (rev (root_info rg))) = map p_abs (concat pss)" using skels_abs [OF skel] .
  have mem: "[] @ q # rest \<in> set (root_info rg)" using i len qs(1) nth_mem [of i "rev (root_info rg)"] by simp
  have "mset (map p_abs (concat (root_info rg))) = mset (map p_abs (concat pss))"
    unfolding abs [symmetric] mset_map mset_concat_rev ..
  then have d: "distinct (map p_abs (concat (root_info rg)))"
    using off mset_eq_imp_distinct_iff unfolding offsets_ok_def by blast
  have "p_abs (hd ps) \<in> set (map p_abs (concat pss))" using i nth_mem [of i pss] by (cases ps) force+
  then have "p_abs q \<noteq> - 1" using off qs(2) by (metis offsets_ok_def)
  with d mem have "get_info rg (p_abs q) = Inr qs"
    using chain_find_unique [of p_abs "root_info rg" "[]" q rest] by (simp add: get_info_def qs(1))
  with fits qs(2) i(4) show ?thesis by (auto simp: pair_ok_def chain_fits_def split: option.split)
qed

lemma entry_ok_nonempty: "list_all (entry_ok ext) cs \<Longrightarrow> ps \<in> set cs \<Longrightarrow> ps \<noteq> []"
  by (auto simp: list_all_iff entry_ok_def)

lemma objects_roundtrip:
  assumes ne: "list_all (\<lambda>ps. ps \<noteq> []) (root_info rg)" and ent: "list_all (entry_ok ext) (live_chains (root_info rg))"
    and off: "offsets_ok (object_chains (root_info rg))"
    and fr: "frame_list (dump_ctx_of rg m) (frame_nodes (root_info rg)) = Inr frames"
    and pool: "pool_list (live_chains (root_info rg)) = Inr pool"
    and ld: "fresh_process ld" "restore_pool ext mal junk ld pool = Inr ld'"
    and d: "distinct (map p_raw (concat (root_info (ld_rg ld'))))"
    and fits: "list_all2 (chain_fits (dump_ctx_of rg m) (ld_rg ld') (ld_mem ld')) (object_chains (root_info rg))
      (rev (root_info (ld_rg ld')))"
  shows "\<exists>objs st. dump_runtime rg m = Inr \<lparr>img_pool = pool, img_dump = objs, img_frame = frames\<rparr> \<and>
    restore_internal (load_done ld' frames) objs = Inr st \<and> rs_rg st = ld_rg ld' \<and>
    list_all2 (\<lambda>ps qs. pair_restored (dump_ctx_of rg m) (ld_rg ld') (ld_mem ld') (rs_mem st) (ps, qs))
      (object_chains (root_info rg)) (rev (root_info (ld_rg ld')))"
proof -
  let ?c = "dump_ctx_of rg m" and ?st = "load_done ld' frames"
  define pss where "pss = object_chains (root_info rg)"
  define qss where "qss = rev (root_info (ld_rg ld'))"
  have "rebuilt ext junk (live_chains (root_info rg)) ld ld'"
    using pool_img_roundtrip [OF ent, of mal junk ld] pool ld(2) by auto
  then have skel: "map (map skel) qss = map (map skel) pss"
    using rebuilt_objects [OF ld(1)] by (simp add: qss_def pss_def object_chains_def)
  have len: "length qss = length pss" using arg_cong [OF skel, of length] by simp
  have nn: "ps \<noteq> []" if "ps \<in> set pss" for ps
    using entry_ok_nonempty [OF ent] that by (simp add: pss_def object_chains_def)
  have ok: "\<forall>x \<in> set (zip pss qss). pair_ok ?c (rs_rg ?st) (rs_mem ?st) x"
  proof
    fix x assume "x \<in> set (zip pss qss)"
    then obtain i where i: "i < length pss" "x = (pss ! i, qss ! i)" using len by (auto simp: set_zip)
    have "chain_fits ?c (ld_rg ld') (ld_mem ld') (pss ! i) (qss ! i)"
      using fits i(1) unfolding pss_def [symmetric] qss_def [symmetric] by (rule list_all2_nthD)
    moreover have "offsets_ok pss" using off by (simp add: pss_def)
    ultimately have "pair_ok ?c (ld_rg ld') (ld_mem ld') (pss ! i, qss ! i)"
      using skel i(1) nn [of "pss ! i"] unfolding qss_def by (intro pair_ok_rebuilt) simp_all
    then show "pair_ok ?c (rs_rg ?st) (rs_mem ?st) x" by (simp add: i(2) load_done_def)
  qed
  have "mset (map p_raw (concat qss)) = mset (map p_raw (concat (root_info (ld_rg ld'))))"
    unfolding qss_def mset_map mset_concat_rev ..
  then have "distinct (map p_raw (concat (map snd (zip pss qss))))"
    using d mset_eq_imp_distinct_iff len by (metis map_snd_zip)
  from dump_img_roundtrip [OF ok this] obtain objs st where o: "dump_list ?c pss = Inr objs"
    "restore_internal ?st objs = Inr st" "rs_rg st = rs_rg ?st"
    "\<forall>x \<in> set (zip pss qss). pair_restored ?c (rs_rg ?st) (rs_mem ?st) (rs_mem st) x"
    using len by auto
  have "dump_runtime rg m = Inr \<lparr>img_pool = pool, img_dump = objs, img_frame = frames\<rparr>"
    using dump_chains_images [OF ne _ fr pool] o(1) by (simp add: dump_runtime_def dump_ctx_of_def pss_def)
  moreover have "list_all2 (\<lambda>ps qs. pair_restored ?c (ld_rg ld') (ld_mem ld') (rs_mem st) (ps, qs)) pss qss"
    using o(4) len by (auto simp: list_all2_iff load_done_def)
  ultimately show ?thesis using o(2,3) unfolding pss_def qss_def by (auto simp: load_done_def)
qed

section \<open>The frames of a checkpoint\<close>

lemma find_head_singles:
  "distinct (map p_abs ps) \<Longrightarrow> p \<in> set ps \<Longrightarrow> find_head (p_abs p) (singles ps) = Some [p]"
  by (induction ps) (auto simp: image_iff)

lemma frames_roundtrip:
  assumes env: "rs_mem st (rs_exec_env st) = Some (O_WASMExecEnv ee)" and rf: "root_frame (rs_rg st) = singles qs"
    and skel: "map skel qs = map skel ps" and off: "distinct (map p_abs ps)" "- 1 \<notin> p_abs ` set ps"
    and fits: "stack_fits (ee_top_boundary ee) (ee_top ee) qs"
    and rs: "rs = laid_out (ee_top ee) qs" "rs_exec_env st \<notin> p_raw ` set rs" "distinct (map p_raw rs)"
    and m1: "m1 = (put_frames stale 0 rs (rs_mem st))(rs_exec_env st := Some (O_WASMExecEnv (frames_pushed (ee_top ee) qs ee)))"
    and rg1: "rg1 = (rs_rg st)\<lparr>root_frame := singles rs\<rparr>" and prs: "mset prs = mset (zip ps rs)"
    and ok: "\<forall>(p, q) \<in> set prs. node_ok (lift_cond as_WASMInterpFrame (WASMInterpFrame_ok m1)) c rg1 m1 p q"
  shows "layout_frames stale (rs_exec_env st) 0 (root_frame (rs_rg st)) (rs_mem st) = Inr (singles rs, m1) \<and>
    (\<exists>out st'. frame_list c (map fst prs) = Inr out \<and>
      restore_frames (st\<lparr>rs_rg := rg1, rs_mem := m1\<rparr>) out = Inr st' \<and> rs_rg st' = rg1 \<and>
      (\<forall>x \<in> set prs. frame_pair_restored c rg1 m1 (rs_mem st') x) \<and>
      (\<forall>a. a \<notin> p_raw ` set rs \<longrightarrow> rs_mem st' a = m1 a))"
proof
  let ?st = "st\<lparr>rs_rg := rg1, rs_mem := m1\<rparr>"
  show "layout_frames stale (rs_exec_env st) 0 (root_frame (rs_rg st)) (rs_mem st) = Inr (singles rs, m1)"
    unfolding rf m1 rs(1) using env fits rs(2) unfolding rs(1) by (rule layout_frames_ok)
  have sk: "map skel rs = map skel ps" using skel laid_out_skel by (simp add: rs(1))
  have len: "length rs = length ps" using arg_cong [OF sk, of length] by simp
  have abs: "map p_abs rs = map p_abs ps" unfolding p_abs_skel sk ..
  have pairs: "set prs = set (zip ps rs)" using arg_cong [OF prs, of set_mset] by simp
  have snds: "mset (map snd prs) = mset rs" using arg_cong [OF prs, of "image_mset snd"] len by (simp flip: mset_map)
  have "frame_pair_ok c rg1 m1 (p, q)" if "(p, q) \<in> set prs" for p q
  proof -
    have q: "q \<in> set rs" using that pairs by (auto dest: set_zip_rightD)
    have n: "node_ok (lift_cond as_WASMInterpFrame (WASMInterpFrame_ok m1)) c rg1 m1 p q" using ok that by blast
    then have pq: "p_abs q = p_abs p" by (simp add: node_ok_def)
    have "p_abs q \<in> p_abs ` set ps" using q abs by (metis image_eqI list.set_map)
    then have "p_abs q \<noteq> - 1" using off(2) by metis
    moreover have "find_head (p_abs q) (singles rs) = Some [q]" using off(1) q abs by (intro find_head_singles) simp_all
    ultimately show ?thesis using n by (simp add: frame_pair_ok_def get_frame_info_def rg1 flip: pq)
  qed
  then have "\<forall>x \<in> set prs. frame_pair_ok c (rs_rg ?st) (rs_mem ?st) x" by auto
  moreover have "distinct (map (p_raw \<circ> snd) prs)"
    using rs(3) arg_cong [OF snds, of "image_mset p_raw"] mset_eq_imp_distinct_iff by (metis map_map mset_map)
  ultimately obtain out st' where "frame_list c (map fst prs) = Inr out" "restore_frames ?st out = Inr st'"
    "rs_rg st' = rg1" "\<forall>x \<in> set prs. frame_pair_restored c rg1 m1 (rs_mem st') x"
    "\<forall>a. a \<notin> p_raw ` snd ` set prs \<longrightarrow> rs_mem st' a = m1 a"
    using frame_img_roundtrip [of prs c ?st] by auto
  moreover have "snd ` set prs = set rs" using arg_cong [OF snds, of set_mset] by simp
  ultimately show "\<exists>out st'. frame_list c (map fst prs) = Inr out \<and>
      restore_frames ?st out = Inr st' \<and> rs_rg st' = rg1 \<and>
      (\<forall>x \<in> set prs. frame_pair_restored c rg1 m1 (rs_mem st') x) \<and>
      (\<forall>a. a \<notin> p_raw ` set rs \<longrightarrow> rs_mem st' a = m1 a)" by metis
qed

end
