(* ===== verification/Checkpoint_Properties.thy ===== *)
theory Checkpoint_Properties
  imports Checkpoint
begin

text \<open>
  The properties of the images and of a whole checkpoint, each with a concrete checkpoint: a process
  with a two-byte buffer and an array of one pointer to it, restored by a process with another pool
  and a bump allocator.
\<close>

section \<open>A small process\<close>

definition bump :: "addr allocator" where
  "bump h n = (h, h + 0x1000)"

definition sample_junk :: fresh_content where
  "sample_junk t sz i = (if t = charTT then O_Ptrs [0] else O_Bytes [0, 0])"

definition sample_rg :: registry where
  "sample_rg = (empty_registry 0x1000)\<lparr>root_info := [[node_of 0x1000 uint8T 2 0x2000], [node_of 0x2000 charTT 1 0x3000]]\<rparr>"

definition sample_mem :: mem where
  "sample_mem = (\<lambda>_. None)(0x2000 := Some (O_Bytes [7, 9]), 0x3000 := Some (O_Ptrs [0x2000]))"

definition sample_ld :: "addr load_st" where
  "sample_ld = \<lparr>ld_rg = empty_registry 0x50000, ld_mem = (\<lambda>_. None), ld_heap = 0x60000\<rparr>"

definition sample_ld' :: "addr load_st" where
  "sample_ld' = \<lparr>ld_rg = (empty_registry 0x50000)\<lparr>root_info :=
       [[node_of 0x2000 charTT 1 0x61000], [node_of 0x1000 uint8T 2 0x60000]]\<rparr>,
     ld_mem = (\<lambda>_. None)(0x60000 := Some (O_Bytes [0, 0]), 0x61000 := Some (O_Ptrs [0])), ld_heap = 0x62000\<rparr>"

definition sample_pool :: stream where
  "sample_pool = fwrite_u32 0x1000 @ fwrite_u32 uint8T @ fwrite_u32 2 @ fwrite_u32 0x2000 @ fwrite_u32 charTT @ fwrite_u32 1"

lemmas sample_defs = sample_rg_def sample_mem_def sample_ld_def sample_ld'_def sample_pool_def sample_junk_def
  empty_registry_def node_of_def bump_def

lemma sample_pool_list: "pool_list (live_chains (root_info sample_rg)) = Inr sample_pool"
  by (simp add: sample_defs live_chains_def skipped_types_def pool_entry_def)

lemma sample_entries: "list_all (entry_ok (\<lambda>_. 0)) (live_chains (root_info sample_rg))"
  by (simp add: sample_defs live_chains_def skipped_types_def entry_ok_def dropped_types_def offset_types_def array_types_def)

lemma fread_raw_all: "length xs = n \<Longrightarrow> fread_raw n xs = Inr (xs, [])"
  using fread_raw_append [of xs n "[]"] by simp

lemma sample_restored: "restore_pool (\<lambda>_. 0) bump sample_junk sample_ld sample_pool = Inr sample_ld'"
  by (simp add: sample_defs restore_pool.simps u32_codec.dec_enc restore_entry_def offset_types_def dropped_types_def
      array_types_def wasm_runtime_malloc_def add_block_def fread_raw_all)

lemma codec_entries:
  "map_of codec_table uint8T = Some (False, lift_cond as_Bytes (buf_ok 1), lift_image as_Bytes O_Bytes (buf_image 1))"
  "map_of codec_table charTT = Some (False, lift_cond as_Ptrs ptrs_ok, lift_image as_Ptrs O_Ptrs ptrs_image)"
  "map_of codec_table WASMMemoryT = Some (True, lift_cond as_WASMMemory any_ok, lift_image as_WASMMemory O_WASMMemory same_image)"
  by (simp_all add: codec_table_def)

lemma sample_fits:
  "list_all2 (chain_fits (dump_ctx_of sample_rg sample_mem) (ld_rg sample_ld') (ld_mem sample_ld'))
     (object_chains (root_info sample_rg)) (rev (root_info (ld_rg sample_ld')))"
  by (simp add: sample_defs object_chains_def live_chains_def skipped_types_def frame_chain_def chain_fits_def
      codec_entries chain_ok_def node_ok_def lift_cond_def buf_ok_def ptrs_ok_def dump_ctx_of_def int_count_def
      loop_count_def ptr_ok_def abs_of_def)

section \<open>The properties\<close>



text \<open>C4: for every type with an entry in the table of inverse handlers (36 of the 109 types, all structs
  of a loaded module and of its instance among them), the restore handler the dispatch table has for
  it reads exactly the bytes the dump handler wrote, whatever follows them in the file, restores every
  node of the chain and writes nowhere else.\<close>

theorem handlers_inverse:
  assumes "map_of codec_table t = Some (arr, cond, img)" "ps \<noteq> []" "arr \<or> length ps = 1" "distinct (map p_raw qs)"
    and "chain_ok cond c (rs_rg st) (rs_mem st) ps qs"
  shows "\<exists>D R bs st'. map_of init_dump_func t = Some (Dump_Img, D) \<and> map_of restore_data t = Some R \<and>
     D c ps = Inr (dump_header t (hd ps) @ bs) \<and> (\<forall>fp. R qs (st, bs @ fp) = Inr (st', fp)) \<and> rs_rg st' = rs_rg st \<and>
     chain_restored img c (rs_rg st) (rs_mem st) (rs_mem st') ps qs"
proof -
  have "entry_sound (t, arr, cond, img)" using codec_table_sound map_of_SomeD [OF assms(1)] by blast
  then obtain D R where D: "map_of init_dump_func t = Some (Dump_Img, D)" "map_of restore_data t = Some R"
    and h: "image_handler t arr D R cond img" by (auto simp: entry_sound_def)
  from image_handler.handler_roundtrip [OF h assms(2-5)] D show ?thesis by blast
qed

definition sample_memories :: dump_ctx where
  "sample_memories = \<lparr>dc_base = 0x1000, dc_mem = (\<lambda>_. None)
     (0x2000 := Some (O_WASMMemory \<lparr>me_flags = 1, me_num_bytes_per_page = 65536, me_init_page_count = 2, me_max_page_count = 4\<rparr>),
      0x2010 := Some (O_WASMMemory \<lparr>me_flags = 0, me_num_bytes_per_page = 65536, me_init_page_count = 1, me_max_page_count = 1\<rparr>)),
     dc_module = 0\<rparr>"

definition blank_memories :: restore_st where
  "blank_memories = \<lparr>rs_rg = empty_registry 0x50000, rs_mem = (\<lambda>_. None)
     (0x60000 := Some (O_WASMMemory \<lparr>me_flags = 0, me_num_bytes_per_page = 0, me_init_page_count = 0, me_max_page_count = 0\<rparr>),
      0x60010 := Some (O_WASMMemory \<lparr>me_flags = 0, me_num_bytes_per_page = 0, me_init_page_count = 0, me_max_page_count = 0\<rparr>)),
     rs_module = 0, rs_module_inst = 0, rs_exec_env = 0, rs_gp = []\<rparr>"

theorem handlers_inverse_witness:
  "\<exists>D R bs st'. map_of init_dump_func WASMMemoryT = Some (Dump_Img, D) \<and> map_of restore_data WASMMemoryT = Some R \<and>
     D sample_memories [node_of 0x1000 WASMMemoryT 2 0x2000, node_of 0x1010 WASMMemoryT (- 1) 0x2010]
       = Inr (dump_header WASMMemoryT (node_of 0x1000 WASMMemoryT 2 0x2000) @ bs) \<and>
     R [node_of 0x1000 WASMMemoryT 2 0x60000, node_of 0x1010 WASMMemoryT (- 1) 0x60010] (blank_memories, bs @ [1, 2, 3])
       = Inr (st', [1, 2, 3]) \<and>
     rs_mem st' 0x60000 = dc_mem sample_memories 0x2000 \<and> rs_mem st' 0x60010 = dc_mem sample_memories 0x2010"
proof -
  let ?ps = "[node_of 0x1000 WASMMemoryT 2 0x2000, node_of 0x1010 WASMMemoryT (- 1) 0x2010]"
  let ?qs = "[node_of 0x1000 WASMMemoryT 2 0x60000, node_of 0x1010 WASMMemoryT (- 1) 0x60010]"
  have "chain_ok (lift_cond as_WASMMemory any_ok) sample_memories (rs_rg blank_memories) (rs_mem blank_memories) ?ps ?qs"
    by (simp add: chain_ok_def node_ok_def lift_cond_def any_ok_def sample_memories_def blank_memories_def node_of_def)
  then obtain D R bs st' where h: "map_of init_dump_func WASMMemoryT = Some (Dump_Img, D)" "map_of restore_data WASMMemoryT = Some R"
    "D sample_memories ?ps = Inr (dump_header WASMMemoryT (hd ?ps) @ bs)" "\<And>fp. R ?qs (blank_memories, bs @ fp) = Inr (st', fp)"
    and r: "chain_restored (lift_image as_WASMMemory O_WASMMemory same_image) sample_memories (rs_rg blank_memories)
      (rs_mem blank_memories) (rs_mem st') ?ps ?qs"
    using handlers_inverse [of WASMMemoryT True "lift_cond as_WASMMemory any_ok" _ ?ps ?qs sample_memories blank_memories]
    by (auto simp: codec_entries node_of_def)
  from r have "rs_mem st' 0x60000 = dc_mem sample_memories 0x2000" "rs_mem st' 0x60010 = dc_mem sample_memories 0x2010"
    by (simp_all add: chain_restored_def node_restored_def lift_image_def same_image_def sample_memories_def node_of_def)
  with h show ?thesis by (intro exI [of _ D] exI [of _ R] exI [of _ bs] exI [of _ st'] conjI) simp_all
qed



section \<open>Frames\<close>

text \<open>C10: the frames come back at the same place of the stack. Whatever order they were registered in,
  pool_info.img gives them in the order of their offsets; if they lay one after the other from
  \<open>bottom\<close> on and the new stack has room, \<open>restore_frame_internal\<close> gives every frame the same
  distance from the new stack's top, links it to its caller (the first one to NULL) and leaves the
  last one as the current frame.\<close>

theorem frames_relaid:
  assumes "mset xs = mset qs" "sorted_wrt (\<lambda>p q. frame_key p < frame_key q) qs"
    and "map p_size qs = map p_size ps" "map p_raw ps = map p_raw (laid_out bottom ps)"
    and "m env = Some (O_WASMExecEnv ee)" "stack_fits (ee_top_boundary ee) (ee_top ee) qs" "qs \<noteq> []"
    and "env \<notin> p_raw ` set (laid_out (ee_top ee) qs)" "distinct (map p_raw (laid_out (ee_top ee) qs))"
  shows "\<exists>rs m'. layout_frames stale env 0 (fold insert_frame xs []) m = Inr (singles rs, m') \<and>
    map skel rs = map skel qs \<and>
    (\<forall>i < length ps. p_raw (rs ! i) - ee_top ee = p_raw (ps ! i) - bottom \<and>
       (\<exists>f. m' (p_raw (rs ! i)) = Some (O_WASMInterpFrame f) \<and>
          fr_prev_frame f = (if i = 0 then 0 else p_raw (rs ! (i - 1))))) \<and>
    m' env = Some (O_WASMExecEnv (ee\<lparr>ee_top := stack_end (ee_top ee) qs, ee_cur_frame := p_raw (last rs)\<rparr>))"
proof -
  let ?rs = "laid_out (ee_top ee) qs"
  let ?m' = "(put_frames stale 0 ?rs m)(env := Some (O_WASMExecEnv (frames_pushed (ee_top ee) qs ee)))"
  have len: "length qs = length ps" using arg_cong [OF assms(3), of length] by simp
  have lay: "layout_frames stale env 0 (fold insert_frame xs []) m = Inr (singles ?rs, ?m')"
    using layout_frames_ok [of m env ee qs stale 0, OF assms(5,6,8)] insert_frames_sorted [OF assms(1,2)] by simp
  have "p_raw (?rs ! i) - ee_top ee = p_raw (ps ! i) - bottom" if "i < length ps" for i
    using laid_out_offset [OF assms(3) that, of "ee_top ee" bottom] arg_cong [OF assms(4), of "\<lambda>l. l ! i"] that by simp
  moreover have "?m' (p_raw (?rs ! i)) = Some (O_WASMInterpFrame ((stale (p_raw (?rs ! i)) (p_size (?rs ! i)))
      \<lparr>fr_prev_frame := (if i = 0 then 0 else p_raw (?rs ! (i - 1)))\<rparr>))" if "i < length ps" for i
  proof -
    have "p_raw (?rs ! i) \<in> p_raw ` set ?rs" using that len by (metis imageI laid_out_length nth_mem)
    with assms(8) have "p_raw (?rs ! i) \<noteq> env" by metis
    then show ?thesis using put_frames_nth [OF assms(9), of i stale 0 m] that len by simp
  qed
  ultimately show ?thesis using lay laid_out_skel [of "ee_top ee" qs] assms(7)
    by (intro exI [of _ ?rs] exI [of _ ?m']) (simp add: frames_pushed_def)
qed

definition blank_env :: "addr \<Rightarrow> addr \<Rightarrow> WASMExecEnv" where
  "blank_env t b = \<lparr>ee_next = 0, ee_prev = 0, ee_module_inst = 0, ee_native_stack_boundary = 0, ee_suspend_flags = 0,
     ee_aux_stack_boundary = 0, ee_aux_stack_bottom = 0, ee_attachment = 0, ee_user_data = 0, ee_cur_frame = 0,
     ee_handle = 0, ee_block_addr_cache = [], ee_jmpbuf_stack_top = 0, ee_wasm_stack_size = 0,
     ee_top_boundary = b, ee_top = t\<rparr>"

definition blank_block :: WASMBranchBlock where
  "blank_block = \<lparr>bb_begin_addr = 0, bb_target_addr = 0, bb_frame_sp = 0, bb_cell_num = 0\<rparr>"

definition blank_frame :: WASMInterpFrame where
  "blank_frame = \<lparr>fr_prev_frame = 0, fr_function = 0, fr_ip = 0, fr_sp_bottom = 0, fr_sp_boundary = 0, fr_sp = 0,
     fr_csp_bottom = 0, fr_csp_boundary = 0, fr_csp = 0, fr_cells = [0, 0, 0, 0], fr_blocks = [blank_block, blank_block]\<rparr>"

definition blank_stale :: stale_frame where
  "blank_stale a sz = blank_frame"

theorem frames_relaid_witness:
  "\<exists>rs m'. layout_frames blank_stale 0x8000 0
      (fold insert_frame [node_of 0x160 WASMInterpFrameT 200 0, node_of 0x100 WASMInterpFrameT 96 0] [])
      ((\<lambda>_. None)(0x8000 := Some (O_WASMExecEnv (blank_env 0x9000 0xA000)))) = Inr (singles rs, m') \<and>
    map p_raw rs = [0x9000, 0x9060]"
proof -
  let ?qs = "[node_of 0x100 WASMInterpFrameT 96 0, node_of 0x160 WASMInterpFrameT 200 0]"
  let ?ps = "[node_of 0x100 WASMInterpFrameT 96 0x1100, node_of 0x160 WASMInterpFrameT 200 0x1160]"
  let ?m = "(\<lambda>_. None)(0x8000 := Some (O_WASMExecEnv (blank_env 0x9000 0xA000))) :: mem"
  have "mset (rev ?qs) = mset ?qs" "sorted_wrt (\<lambda>p q. frame_key p < frame_key q) ?qs" "map p_size ?qs = map p_size ?ps"
    "map p_raw ?ps = map p_raw (laid_out 0x1100 ?ps)" "?m 0x8000 = Some (O_WASMExecEnv (blank_env 0x9000 0xA000))"
    "stack_fits (ee_top_boundary (blank_env 0x9000 0xA000)) (ee_top (blank_env 0x9000 0xA000)) ?qs" "?qs \<noteq> []"
    "0x8000 \<notin> p_raw ` set (laid_out (ee_top (blank_env 0x9000 0xA000)) ?qs)"
    "distinct (map p_raw (laid_out (ee_top (blank_env 0x9000 0xA000)) ?qs))"
    by (simp_all add: node_of_def frame_key_def blank_env_def)
  from frames_relaid [of "rev ?qs" ?qs ?ps "0x1100" ?m "0x8000" "blank_env 0x9000 0xA000" blank_stale, OF this]
  obtain rs m' where r: "layout_frames blank_stale 0x8000 0 (fold insert_frame (rev ?qs) []) ?m = Inr (singles rs, m')"
    "map skel rs = map skel ?qs" "\<forall>i < length ?ps. p_raw (rs ! i) - ee_top (blank_env 0x9000 0xA000) = p_raw (?ps ! i) - 0x1100"
    by blast
  from arg_cong [OF r(2), of length] obtain a b where rs: "rs = [a, b]" by (auto simp: length_Suc_conv)
  have "p_raw a = 0x9000" "p_raw b = 0x9060"
    using spec [OF r(3), of 0] spec [OF r(3), of 1] by (simp_all add: rs node_of_def blank_env_def diff_eq_eq)
  with r(1) rs show ?thesis by (intro exI [of _ rs] exI [of _ m']) simp
qed


text \<open>A stack with an entry frame and a frame of a function with a parameter, a local, an operand stack of
  two cells and one open block; the function is at 0x5000 in the dumping process and at 0x9000 in the
  other.\<close>

definition sample_fi :: "addr \<Rightarrow> WASMFunctionInstance" where
  "sample_fi u = \<lparr>fi_is_import_func = False, fi_param_count = 1, fi_local_count = 1, fi_param_cell_num = 1,
     fi_ret_cell_num = 0, fi_local_cell_num = 1, fi_local_offsets = 0, fi_param_types = 0, fi_local_types = 0, fi_u = u\<rparr>"

definition sample_fn :: "addr \<Rightarrow> WASMFunction" where
  "sample_fn code = \<lparr>fn_func_type = 0, fn_local_count = 1, fn_local_types = 0, fn_param_cell_num = 1, fn_ret_cell_num = 0,
     fn_local_cell_num = 1, fn_local_offsets = 0, fn_max_stack_cell_num = 2, fn_max_block_num = 2,
     fn_has_op_memory_grow = False, fn_has_op_func_call = False, fn_code_size = 64, fn_code = code, fn_tail = []\<rparr>"

definition sample_frame :: WASMInterpFrame where
  "sample_frame = \<lparr>fr_prev_frame = 0x1100, fr_function = 0x5000, fr_ip = 0x7010, fr_sp_bottom = 0x11B0,
     fr_sp_boundary = 0x11B8, fr_sp = 0x11B4, fr_csp_bottom = 0x11B8, fr_csp_boundary = 0x11F8, fr_csp = 0x11D8,
     fr_cells = [5, 6, 7, 8],
     fr_blocks = [\<lparr>bb_begin_addr = 0x7000, bb_target_addr = 0x7020, bb_frame_sp = 0x11B0, bb_cell_num = 0\<rparr>, blank_block]\<rparr>"

definition sample_frames_ctx :: dump_ctx where
  "sample_frames_ctx = \<lparr>dc_base = 0x1000, dc_mem = (\<lambda>_. None)
     (0x1100 := Some (O_WASMInterpFrame blank_frame), 0x1160 := Some (O_WASMInterpFrame sample_frame),
      0x5000 := Some (O_WASMFunctionInstance (sample_fi 0x6000)), 0x6000 := Some (O_WASMFunction (sample_fn 0x7000))),
     dc_module = 0\<rparr>"

definition sample_frames_st :: restore_st where
  "sample_frames_st = \<lparr>rs_rg = (empty_registry 0x40000)
       \<lparr>root_info := [[node_of 0x4000 WASMFunctionInstanceT 1 0x9000]],
        root_frame := singles [node_of 0x100 WASMInterpFrameT 96 0, node_of 0x160 WASMInterpFrameT 200 0]\<rparr>,
     rs_mem = (\<lambda>_. None)(0x9000 := Some (O_WASMFunctionInstance (sample_fi 0xA000)),
       0xA000 := Some (O_WASMFunction (sample_fn 0xB000)), 0x8000 := Some (O_WASMExecEnv (blank_env 0xC000 0xD000))),
     rs_module = 0, rs_module_inst = 0, rs_exec_env = 0x8000, rs_gp = []\<rparr>"

lemmas sample_frame_defs = sample_frames_ctx_def sample_frames_st_def sample_frame_def sample_fi_def sample_fn_def
  blank_frame_def blank_block_def blank_stale_def blank_env_def empty_registry_def node_of_def

definition sample_frames_mem :: mem where
  "sample_frames_mem = (put_frames blank_stale 0 [node_of 0x100 WASMInterpFrameT 96 0xC000, node_of 0x160 WASMInterpFrameT 200 0xC060]
     (rs_mem sample_frames_st))(0x8000 := Some (O_WASMExecEnv ((blank_env 0xC000 0xD000)\<lparr>ee_top := 0xC128, ee_cur_frame := 0xC060\<rparr>)))"

definition sample_frames_rg :: registry where
  "sample_frames_rg = (rs_rg sample_frames_st)
     \<lparr>root_frame := singles [node_of 0x100 WASMInterpFrameT 96 0xC000, node_of 0x160 WASMInterpFrameT 200 0xC060]\<rparr>"

lemma sample_frame_ok:
  "node_ok (lift_cond as_WASMInterpFrame (WASMInterpFrame_ok sample_frames_mem)) sample_frames_ctx sample_frames_rg
     sample_frames_mem (node_of 0x160 WASMInterpFrameT 200 0x1160) (node_of 0x160 WASMInterpFrameT 200 0xC060)"
  "node_ok (lift_cond as_WASMInterpFrame (WASMInterpFrame_ok sample_frames_mem)) sample_frames_ctx sample_frames_rg
     sample_frames_mem (node_of 0x100 WASMInterpFrameT 96 0x1100) (node_of 0x100 WASMInterpFrameT 96 0xC000)"
  by (simp_all add: node_ok_def lift_cond_def WASMInterpFrame_ok_def frame_fun_def wasm_get_func_code_def ptr_ok_def
      reloc_def abs_of_def same_cells_def frame_laid_out_def frame_sp_bottom_def frame_lp_def layout elem_ptr_def
      block_depth_def cell_total_def branch_ok_def code_ptr_ok_def sample_frames_mem_def sample_frames_rg_def sample_frame_defs)


text \<open>C19: pushing a frame and popping it again is neutral: \<open>ALLOC_FRAME\<close> registers exactly the new
  frame, at the old top of the stack, and \<open>FREE_FRAME\<close> gives back the registry and the execution
  environment as they were.\<close>

theorem frame_push_pop:
  assumes "m env = Some (O_WASMExecEnv ee)" "env \<noteq> ee_top ee" "reg_ok rg" "reg_view rg (ee_top ee) = None"
    and "ee_top ee \<noteq> 0" "\<not> ee_top_boundary ee < ee_top ee + ucast (sz * 2)"
  shows "\<exists>rg' m'. ALLOC_FRAME stale env sz prev (rg, m) = Inr (ee_top ee, rg', m') \<and>
     reg_view rg' = (reg_view rg)(ee_top ee := Some (WASMInterpFrameT, sz)) \<and>
     FREE_FRAME env (ee_top ee) (rg', m') = Inr (rg, m'(env := Some (O_WASMExecEnv ee)))"
  using assms by (rule alloc_free_frame)

theorem frame_push_pop_witness:
  "\<exists>rg' m'. ALLOC_FRAME blank_stale 0x8000 96 0 (sample_rg, (\<lambda>_. None)(0x8000 := Some (O_WASMExecEnv (blank_env 0xC000 0xD000))))
       = Inr (0xC000, rg', m') \<and>
     reg_view rg' 0xC000 = Some (WASMInterpFrameT, 96) \<and>
     FREE_FRAME 0x8000 0xC000 (rg', m') = Inr (sample_rg, m'(0x8000 := Some (O_WASMExecEnv (blank_env 0xC000 0xD000))))"
proof -
  let ?m = "(\<lambda>_. None)(0x8000 := Some (O_WASMExecEnv (blank_env 0xC000 0xD000))) :: mem"
  have "?m 0x8000 = Some (O_WASMExecEnv (blank_env 0xC000 0xD000))" "0x8000 \<noteq> ee_top (blank_env 0xC000 0xD000)"
    "reg_ok sample_rg" "reg_view sample_rg (ee_top (blank_env 0xC000 0xD000)) = None" "ee_top (blank_env 0xC000 0xD000) \<noteq> 0"
    "\<not> ee_top_boundary (blank_env 0xC000 0xD000) < ee_top (blank_env 0xC000 0xD000) + ucast (96 * 2 :: u32)"
    by (simp_all add: blank_env_def sample_rg_def empty_registry_def node_of_def reg_ok_def abs_ok_def abs_of_def
        reg_view_def live_in_def chain_live_def)
  from frame_push_pop [of ?m "0x8000" "blank_env 0xC000 0xD000" sample_rg 96 blank_stale 0, OF this]
  obtain rg' m' where "ALLOC_FRAME blank_stale 0x8000 96 0 (sample_rg, ?m) = Inr (ee_top (blank_env 0xC000 0xD000), rg', m')"
    "reg_view rg' = (reg_view sample_rg)(ee_top (blank_env 0xC000 0xD000) := Some (WASMInterpFrameT, 96))"
    "FREE_FRAME 0x8000 (ee_top (blank_env 0xC000 0xD000)) (rg', m')
       = Inr (sample_rg, m'(0x8000 := Some (O_WASMExecEnv (blank_env 0xC000 0xD000))))" by blast
  moreover have "ee_top (blank_env 0xC000 0xD000) = 0xC000" by (simp add: blank_env_def)
  ultimately show ?thesis by (intro exI [of _ rg'] exI [of _ m']) simp
qed

text \<open>C20: a frame that does not fit is not pushed: \<open>ALLOC_FRAME\<close> returns NULL, leaves the registry and the
  stack alone and sets the exception of the instance.\<close>

theorem frame_overflow:
  assumes "m env = Some (O_WASMExecEnv ee)" "ee_top_boundary ee < ee_top ee + ucast (sz * 2)"
    and "m (ee_module_inst ee) = Some (O_WASMModuleInstance mi)"
  shows "ALLOC_FRAME stale env sz prev (rg, m) = Inr (0, rg, m(ee_module_inst ee := Some (O_WASMModuleInstance
     (mi\<lparr>mi_cur_exception := exception_bytes (Some ''wasm operand stack overflow'') (mi_cur_exception mi)\<rparr>))))"
  using assms by (simp add: ALLOC_FRAME_def wasm_interp_alloc_frame_def wasm_exec_env_alloc_wasm_frame_def wasm_set_exception_def)

definition blank_inst :: WASMModuleInstance where
  "blank_inst = \<lparr>mi_module_type = 0, mi_memory_count = 0, mi_table_count = 0, mi_global_count = 0, mi_function_count = 0,
     mi_export_func_count = 0, mi_memories = 0, mi_tables = 0, mi_globals = 0, mi_functions = 0, mi_export_functions = 0,
     mi_default_memory = 0, mi_default_table = 0, mi_global_data = 0, mi_start_function = 0, mi_malloc_function = 0,
     mi_free_function = 0, mi_retain_function = 0, mi_module = 0, mi_wasi_ctx = 0, mi_exec_env_singleton = 0,
     mi_temp_ret = 0, mi_llvm_stack = 0, mi_default_wasm_stack_size = 0, mi_cur_exception = replicate 128 0,
     mi_custom_data = 0\<rparr>"

theorem frame_overflow_witness:
  "ALLOC_FRAME blank_stale 0x8000 2048 0 (sample_rg, (\<lambda>_. None)(0x8000 := Some (O_WASMExecEnv ((blank_env 0xC000 0xC800)\<lparr>ee_module_inst := 0x9000\<rparr>)),
      0x9000 := Some (O_WASMModuleInstance blank_inst)))
    = Inr (0, sample_rg, (\<lambda>_. None)(0x8000 := Some (O_WASMExecEnv ((blank_env 0xC000 0xC800)\<lparr>ee_module_inst := 0x9000\<rparr>)),
      0x9000 := Some (O_WASMModuleInstance (blank_inst\<lparr>mi_cur_exception :=
        exception_bytes (Some ''wasm operand stack overflow'') (replicate 128 0)\<rparr>))))"
proof -
  let ?ee = "(blank_env 0xC000 0xC800)\<lparr>ee_module_inst := 0x9000\<rparr>"
  let ?m = "(\<lambda>_. None)(0x8000 := Some (O_WASMExecEnv ?ee), 0x9000 := Some (O_WASMModuleInstance blank_inst)) :: mem"
  have "?m 0x8000 = Some (O_WASMExecEnv ?ee)" "ee_top_boundary ?ee < ee_top ?ee + ucast (2048 * 2 :: u32)"
    "?m (ee_module_inst ?ee) = Some (O_WASMModuleInstance blank_inst)" by (simp_all add: blank_env_def)
  from frame_overflow [of ?m "0x8000" ?ee 2048 blank_inst blank_stale 0 sample_rg, OF this] show ?thesis
    by (simp add: blank_inst_def)
qed

text \<open>C29: an entry frame, the one \<open>wasm_interp_call_wasm\<close> pushes for a call from native code, is not
  restored: of the whole frame only the NULL \<open>function\<close> is in the image, so \<open>ip\<close> and \<open>sp\<close> keep what
  the memory of the new stack happened to hold, although \<open>return_func\<close> later tests \<open>prev_frame->ip\<close>
  to find out whether to return to native code.\<close>

theorem entry_frame_stale:
  assumes "fr_function n = 0" "dc_mem c (p_raw p) = Some (O_WASMInterpFrame n)"
    and "rs_mem st (p_raw q) = Some (O_WASMInterpFrame n0)"
  shows "\<exists>bs st'. dump_WASMInterpFrame c [p] = Inr (dump_header WASMInterpFrameT p @ bs) \<and> length bs = 4 \<and>
    restore_WASMInterpFrame [q] (st, bs @ gp) = Inr (st', gp) \<and>
    rs_mem st' (p_raw q) = Some (O_WASMInterpFrame (n0\<lparr>fr_function := 0\<rparr>))"
  using assms
  by (simp add: dump_WASMInterpFrame_def HEADER_DUMP_BUF_def WASMInterpFrame_bytes_def restore_WASMInterpFrame_def
      HEADER_RESTORE_BUF_def restore_node_def WASMInterpFrame_fields_def RESTORE_PTR_back ptr_ok_def)

theorem entry_frame_stale_witness:
  "\<exists>bs st'. dump_WASMInterpFrame sample_frames_ctx [node_of 0x100 WASMInterpFrameT 96 0x1100]
       = Inr (dump_header WASMInterpFrameT (node_of 0x100 WASMInterpFrameT 96 0x1100) @ bs) \<and>
     restore_WASMInterpFrame [node_of 0x100 WASMInterpFrameT 96 0xC000]
       (sample_frames_st\<lparr>rs_mem := (\<lambda>_. None)(0xC000 := Some (O_WASMInterpFrame (blank_frame\<lparr>fr_ip := 0x1234\<rparr>)))\<rparr>, bs) = Inr (st', []) \<and>
     rs_mem st' 0xC000 = Some (O_WASMInterpFrame (blank_frame\<lparr>fr_ip := 0x1234\<rparr>))"
  using entry_frame_stale [of blank_frame sample_frames_ctx "node_of 0x100 WASMInterpFrameT 96 0x1100"
      "sample_frames_st\<lparr>rs_mem := (\<lambda>_. None)(0xC000 := Some (O_WASMInterpFrame (blank_frame\<lparr>fr_ip := 0x1234\<rparr>)))\<rparr>"
      "node_of 0x100 WASMInterpFrameT 96 0xC000" "blank_frame\<lparr>fr_ip := 0x1234\<rparr>" "[]"]
  by (auto simp: sample_frame_defs)

end
