(* ===== verification/Resume_Properties.thy ===== *)
theory Resume_Properties
  imports Checkpoint_Properties
begin

text \<open>
  The properties of interp.img and of the handlers that do not invert each other, with the process of
  \<open>Checkpoint_Properties\<close> as the concrete instance.
\<close>

section \<open>The locals of the interpreter loop\<close>


definition blank_locals :: interp_locals where
  "blank_locals = \<lparr>iv_module = 0, iv_exec_env = 0, iv_cur_func = 0, iv_prev_frame = 0, iv_memory = 0,
     iv_num_bytes_per_page = 0, iv_global_data = 0, iv_linear_mem_size = 0, iv_wasm_types = 0, iv_globals = 0,
     iv_global = 0, iv_opcode_IMPDEP = 0, iv_frame = 0, iv_frame_ip = 0, iv_frame_lp = 0, iv_frame_sp = 0,
     iv_frame_csp = 0, iv_cache_items = 0, iv_frame_ip_end = 0, iv_opcode = 0, iv_i = 0, iv_depth = 0, iv_cond = 0,
     iv_count = 0, iv_fidx = 0, iv_tidx = 0, iv_lidx = 0, iv_frame_size = 0, iv_all_cell_num = 0, iv_val = 0,
     iv_else_addr = 0, iv_end_addr = 0, iv_maddr = 0, iv_local_idx = 0, iv_local_offset = 0, iv_global_idx = 0,
     iv_local_type = 0, iv_global_addr = 0, iv_cache_index = 0, iv_type_index = 0, iv_cell_num = 0, iv_value_type = 0\<rparr>"

text \<open>The locals of the process with the two frames; its global data is at 0x4000, and the last global
  accessed was the one at offset 8.\<close>

definition sample_locals :: interp_locals where
  "sample_locals = blank_locals\<lparr>iv_cur_func := 0x5000, iv_prev_frame := 0x1100, iv_frame := 0x1160, iv_frame_ip := 0x7010,
     iv_frame_sp := 0x11B4, iv_frame_csp := 0x11D8, iv_opcode := 0x6A, iv_end_addr := 0x7020, iv_global_data := 0x4000,
     iv_global_addr := 0x4008\<rparr>"

definition sample_resumed_rg :: registry where
  "sample_resumed_rg = sample_frames_rg\<lparr>root_info := [[node_of 0x4000 WASMFunctionInstanceT 1 0x9000],
     [node_of 0x3000 uint8T 16 0xE000]]\<rparr>"

definition sample_resumed_mem :: mem where
  "sample_resumed_mem = sample_frames_mem(0xC060 := Some (O_WASMInterpFrame (blank_frame
     \<lparr>fr_sp_bottom := 0xC0B0, fr_csp_bottom := 0xC0B8\<rparr>)))"

lemmas sample_resumed_defs = sample_locals_def blank_locals_def sample_resumed_rg_def sample_resumed_mem_def
  sample_frames_rg_def sample_frames_mem_def sample_frame_defs

lemma sample_interp_ok: "interp_ok 0x1000 (dc_mem sample_frames_ctx) sample_resumed_rg sample_resumed_mem sample_locals"
  by (simp add: interp_ok_def ptr_ok_def frame_ptr_ok_def offset_ok_def func_code_def sp_base_def csp_base_def
      wasm_get_func_code_def wasm_get_func_code_end_def elem_ptr_def reloc_def frame_reloc_def abs_of_def layout
      sample_resumed_defs)

lemma interp_image_sel:
  "iv_frame (interp_image base dm rg m v v0) = frame_reloc rg base (iv_frame v)"
  "iv_prev_frame (interp_image base dm rg m v v0) = frame_reloc rg base (iv_prev_frame v)"
  "iv_cur_func (interp_image base dm rg m v v0) = reloc rg base (iv_cur_func v)"
  "iv_frame_ip (interp_image base dm rg m v v0)
    = moved (func_code dm (iv_cur_func v)) (func_code m (reloc rg base (iv_cur_func v))) (iv_frame_ip v)"
  "iv_end_addr (interp_image base dm rg m v v0)
    = moved (func_code dm (iv_cur_func v)) (func_code m (reloc rg base (iv_cur_func v))) (iv_end_addr v)"
  "iv_frame_sp (interp_image base dm rg m v v0)
    = moved (sp_base dm (iv_frame v)) (sp_base m (frame_reloc rg base (iv_frame v))) (iv_frame_sp v)"
  "iv_frame_csp (interp_image base dm rg m v v0)
    = moved (csp_base dm (iv_frame v)) (csp_base m (frame_reloc rg base (iv_frame v))) (iv_frame_csp v)"
  "iv_opcode (interp_image base dm rg m v v0) = iv_opcode v"
  "iv_global_data (interp_image base dm rg m v v0)
    = (iv_global_addr v - iv_global_data v) + reloc rg base (iv_global_data v)"
  "iv_global_addr (interp_image base dm rg m v v0) = iv_global_addr v0"
  by (simp_all add: interp_image_def Let_def)

lemmas interp_image_eval = interp_image_sel reloc_def frame_reloc_def abs_of_def moved_def func_code_def sp_base_def
  csp_base_def mem_base_def wasm_get_func_code_def rebase_def sample_resumed_defs


text \<open>C28: the restore branch adds the offset of \<open>global_addr\<close> to \<open>global_data\<close> and leaves \<open>global_addr\<close>
  as it is, so the restored \<open>global_data\<close> is the restored block exactly when the last global
  accessed before the checkpoint was at offset 0.\<close>

theorem global_data_shifted:
  assumes "interp_ok base dm rg m v"
  shows "\<exists>out v'. dump_interp base dm v = Inr out \<and> restore_interp rg m (v0, out) = Inr (v', []) \<and>
    iv_global_data v' = reloc rg base (iv_global_data v) + (iv_global_addr v - iv_global_data v) \<and>
    iv_global_addr v' = iv_global_addr v0 \<and>
    (iv_global_data v' = reloc rg base (iv_global_data v) \<longleftrightarrow> iv_global_addr v = iv_global_data v)"
proof -
  obtain out where o: "dump_interp base dm v = Inr out"
    and r: "\<And>fp. restore_interp rg m (v0, out @ fp) = Inr (interp_image base dm rg m v v0, fp)"
    using interp_roundtrip [OF assms] by blast
  from r [of "[]"] o show ?thesis
    by (intro exI [of _ out] exI [of _ "interp_image base dm rg m v v0"]) (simp add: interp_image_sel)
qed

theorem global_data_shifted_witness:
  "\<exists>out v. dump_interp 0x1000 (dc_mem sample_frames_ctx) sample_locals = Inr out \<and>
     restore_interp sample_resumed_rg sample_resumed_mem (blank_locals, out) = Inr (v, []) \<and>
     iv_global_data v = 0xE008 \<and> reloc sample_resumed_rg 0x1000 (iv_global_data sample_locals) = 0xE000"
proof -
  obtain out v' where "dump_interp 0x1000 (dc_mem sample_frames_ctx) sample_locals = Inr out"
    "restore_interp sample_resumed_rg sample_resumed_mem (blank_locals, out) = Inr (v', [])"
    "iv_global_data v' = reloc sample_resumed_rg 0x1000 (iv_global_data sample_locals)
       + (iv_global_addr sample_locals - iv_global_data sample_locals)"
    using global_data_shifted [OF sample_interp_ok] by blast
  moreover have "reloc sample_resumed_rg 0x1000 (iv_global_data sample_locals) = 0xE000"
    "iv_global_addr sample_locals - iv_global_data sample_locals = 8"
    by (simp_all add: reloc_def abs_of_def sample_resumed_defs)
  ultimately show ?thesis by (intro exI [of _ out] exI [of _ v']) simp
qed

end
