(* ===== verification/Runtime_Memory.thy ===== *)
theory Runtime_Memory
  imports Interp_Image
begin

text \<open>
  The memory functions of src/core/iwasm/common/wasm_memory.c on top of the two allocators, and
  \<open>wasm_enlarge_memory\<close> (interpreter/wasm_runtime.c), which moves the linear memory of an instance. The pool
  allocator and the allocation functions of the embedder are parameters.
\<close>

section \<open>The runtime's heap\<close>

datatype Memory_Mode = MEMORY_MODE_UNKNOWN | MEMORY_MODE_POOL | MEMORY_MODE_ALLOCATOR

record 'h heap =
  memory_mode :: Memory_Mode
  global_pool_size :: u32
  malloc_func :: addr
  realloc_func :: addr
  free_func :: addr
  hp_state :: 'h

text \<open>What is below: \<open>mem_allocator_create\<close> gives the handle of a pool or NULL, the \<open>pool_\<close> functions work on
  the pool, and \<open>call_\<close> calls the function at an address.\<close>

record 'h allocs =
  pool_create :: "addr \<Rightarrow> u32 \<Rightarrow> 'h \<Rightarrow> addr \<times> 'h"
  pool_malloc :: "'h \<Rightarrow> u32 \<Rightarrow> addr \<times> 'h"
  pool_realloc :: "'h \<Rightarrow> addr \<Rightarrow> u32 \<Rightarrow> addr \<times> 'h"
  pool_free :: "'h \<Rightarrow> addr \<Rightarrow> 'h"
  call_malloc :: "addr \<Rightarrow> 'h \<Rightarrow> u32 \<Rightarrow> addr \<times> 'h"
  call_realloc :: "addr \<Rightarrow> 'h \<Rightarrow> addr \<Rightarrow> u32 \<Rightarrow> addr \<times> 'h"
  call_free :: "addr \<Rightarrow> 'h \<Rightarrow> addr \<Rightarrow> 'h"
  heap_migrate :: "addr \<Rightarrow> addr \<Rightarrow> u32 \<Rightarrow> 'h \<Rightarrow> bool \<times> 'h"

definition wasm_memory_init_with_pool :: "'h allocs \<Rightarrow> addr \<Rightarrow> u32 \<Rightarrow> registry \<times> 'h heap \<Rightarrow> bool \<times> registry \<times> 'h heap" where
  "wasm_memory_init_with_pool al buf bytes = (\<lambda>(rg, hp).
     case pool_create al buf bytes (hp_state hp) of (a, h) \<Rightarrow>
       if a \<noteq> 0 then (True, rg\<lparr>pool_allocator := a\<rparr>,
         hp\<lparr>memory_mode := MEMORY_MODE_POOL, global_pool_size := bytes, hp_state := h\<rparr>)
       else (False, rg, hp\<lparr>hp_state := h\<rparr>))"

definition wasm_memory_init_with_allocator :: "addr \<Rightarrow> addr \<Rightarrow> addr \<Rightarrow> 'h heap \<Rightarrow> bool \<times> 'h heap" where
  "wasm_memory_init_with_allocator mf rf ff hp =
     (if mf \<noteq> 0 \<and> ff \<noteq> 0 \<and> mf \<noteq> ff
      then (True, hp\<lparr>memory_mode := MEMORY_MODE_ALLOCATOR, malloc_func := mf, realloc_func := rf, free_func := ff\<rparr>)
      else (False, hp))"

datatype mem_alloc_type_t = Alloc_With_Pool addr u32 | Alloc_With_Allocator addr addr addr | Alloc_With_System_Allocator

text \<open>\<open>os\<close> are the addresses of \<open>os_malloc\<close>, \<open>os_realloc\<close> and \<open>os_free\<close>.\<close>

definition wasm_runtime_memory_init ::
  "'h allocs \<Rightarrow> addr \<times> addr \<times> addr \<Rightarrow> mem_alloc_type_t \<Rightarrow> registry \<times> 'h heap \<Rightarrow> bool \<times> registry \<times> 'h heap" where
  "wasm_runtime_memory_init al os t = (\<lambda>(rg, hp). case t of
      Alloc_With_Pool buf bytes \<Rightarrow> wasm_memory_init_with_pool al buf bytes (rg, hp)
    | Alloc_With_Allocator mf rf ff \<Rightarrow> (case wasm_memory_init_with_allocator mf rf ff hp of (ok, hp') \<Rightarrow> (ok, rg, hp'))
    | Alloc_With_System_Allocator \<Rightarrow> (case os of (mf, rf, ff) \<Rightarrow>
        case wasm_memory_init_with_allocator mf rf ff hp of (ok, hp') \<Rightarrow> (ok, rg, hp')))"

definition wasm_runtime_memory_pool_size :: "'h heap \<Rightarrow> u32" where
  "wasm_runtime_memory_pool_size hp = (if memory_mode hp = MEMORY_MODE_POOL then global_pool_size hp else 1024 * 1024 * 1024)"

section \<open>Allocation\<close>

definition wasm_runtime_malloc_internal :: "'h allocs \<Rightarrow> 'h heap \<Rightarrow> u32 \<Rightarrow> addr \<times> 'h heap" where
  "wasm_runtime_malloc_internal al hp sz = (case memory_mode hp of
      MEMORY_MODE_UNKNOWN \<Rightarrow> (0, hp)
    | MEMORY_MODE_POOL \<Rightarrow> (case pool_malloc al (hp_state hp) sz of (a, h) \<Rightarrow> (a, hp\<lparr>hp_state := h\<rparr>))
    | MEMORY_MODE_ALLOCATOR \<Rightarrow> (case call_malloc al (malloc_func hp) (hp_state hp) sz of (a, h) \<Rightarrow> (a, hp\<lparr>hp_state := h\<rparr>)))"

definition wasm_runtime_realloc_internal :: "'h allocs \<Rightarrow> 'h heap \<Rightarrow> addr \<Rightarrow> u32 \<Rightarrow> addr \<times> 'h heap" where
  "wasm_runtime_realloc_internal al hp p sz = (case memory_mode hp of
      MEMORY_MODE_UNKNOWN \<Rightarrow> (0, hp)
    | MEMORY_MODE_POOL \<Rightarrow> (case pool_realloc al (hp_state hp) p sz of (a, h) \<Rightarrow> (a, hp\<lparr>hp_state := h\<rparr>))
    | MEMORY_MODE_ALLOCATOR \<Rightarrow>
        if realloc_func hp = 0 then (0, hp)
        else (case call_realloc al (realloc_func hp) (hp_state hp) p sz of (a, h) \<Rightarrow> (a, hp\<lparr>hp_state := h\<rparr>)))"

definition wasm_runtime_free_internal :: "'h allocs \<Rightarrow> 'h heap \<Rightarrow> addr \<Rightarrow> 'h heap" where
  "wasm_runtime_free_internal al hp p =
     (if p = 0 then hp
      else case memory_mode hp of
        MEMORY_MODE_UNKNOWN \<Rightarrow> hp
      | MEMORY_MODE_POOL \<Rightarrow> hp\<lparr>hp_state := pool_free al (hp_state hp) p\<rparr>
      | MEMORY_MODE_ALLOCATOR \<Rightarrow> hp\<lparr>hp_state := call_free al (free_func hp) (hp_state hp) p\<rparr>)"

text \<open>The registry, the objects and the heap, as one state. A block that is released holds no object, and a block
  that is reallocated keeps the bytes it had; \<open>junk a n\<close> are the bytes of fresh memory.\<close>

record 'h store =
  st_rg :: registry
  st_mem :: mem
  st_heap :: "'h heap"

type_synonym fresh_bytes = "addr \<Rightarrow> nat \<Rightarrow> byte list"

definition fresh_block :: "fresh_bytes \<Rightarrow> addr \<Rightarrow> nat \<Rightarrow> byte list \<Rightarrow> obj" where
  "fresh_block junk a n old = O_Bytes (take n (old @ drop (length old) (junk a n) @ replicate n 0))"

definition rt_malloc :: "'h allocs \<Rightarrow> fresh_bytes \<Rightarrow> u32 \<Rightarrow> 'h store \<Rightarrow> addr \<times> 'h store" where
  "rt_malloc al junk sz st = (case wasm_runtime_malloc (wasm_runtime_malloc_internal al) (st_heap st) sz of (a, hp) \<Rightarrow>
     (a, if a = 0 then st\<lparr>st_heap := hp\<rparr>
         else st\<lparr>st_heap := hp, st_mem := (st_mem st)(a := Some (fresh_block junk a (unat sz) []))\<rparr>))"

definition wasm_runtime_realloc :: "'h allocs \<Rightarrow> fresh_bytes \<Rightarrow> addr \<Rightarrow> u32 \<Rightarrow> 'h store \<Rightarrow> (addr \<times> 'h store) res" where
  "wasm_runtime_realloc al junk p sz st = (case wasm_runtime_realloc_internal al (st_heap st) p sz of (a, hp) \<Rightarrow>
     if a = 0 then Inr (0, st\<lparr>st_heap := hp\<rparr>)
     else bind_res (free_info (st_rg st) p) (\<lambda>rg.
       bind_res (if p = 0 then Inr [] else load as_Bytes (st_mem st) p) (\<lambda>old.
       Inr (a, st\<lparr>st_rg := rg, st_heap := hp,
         st_mem := (st_mem st)(p := None, a := Some (fresh_block junk a (unat sz) old))\<rparr>))))"

definition wasm_runtime_free :: "'h allocs \<Rightarrow> addr \<Rightarrow> 'h store \<Rightarrow> 'h store res" where
  "wasm_runtime_free al p st =
     bind_res (free_info (st_rg st) p) (\<lambda>rg.
     Inr (st\<lparr>st_rg := rg, st_heap := wasm_runtime_free_internal al (st_heap st) p,
       st_mem := (if p = 0 \<or> memory_mode (st_heap st) = MEMORY_MODE_UNKNOWN then st_mem st else (st_mem st)(p := None))\<rparr>))"

section \<open>Growing the linear memory\<close>

text \<open>The new block: reallocated, or allocated, filled and the old one released. \<open>None\<close> when there is no memory.
  Then the registration and the clearing of the bytes that are new.\<close>

definition grow_block :: "'h allocs \<Rightarrow> fresh_bytes \<Rightarrow> addr \<Rightarrow> u32 \<Rightarrow> u32 \<Rightarrow> 'h store \<Rightarrow> (addr option \<times> 'h store) res" where
  "grow_block al junk p old_size sz st =
     bind_res (wasm_runtime_realloc al junk p sz st) (\<lambda>(a, st1).
     if a \<noteq> 0 then Inr (Some a, st1)
     else case rt_malloc al junk sz st1 of (b, st2) \<Rightarrow>
       if b = 0 then Inr (None, st2)
       else if p = 0 then Inr (Some b, st2)
       else bind_res (load as_Bytes (st_mem st2) p) (\<lambda>old.
         if length old < unat old_size then Inl (UB ''read past the object'')
         else bind_res (wasm_runtime_free al p
             (st2\<lparr>st_mem := (st_mem st2)(b := Some (fresh_block junk b (unat sz) (take (unat old_size) old)))\<rparr>)) (\<lambda>st3.
           Inr (Some b, st3))))"

definition clear_tail :: "addr \<Rightarrow> u32 \<Rightarrow> u32 \<Rightarrow> mem \<Rightarrow> mem res" where
  "clear_tail a old_size sz m = bind_res (load as_Bytes m a) (\<lambda>bs.
     if length bs < unat old_size + unat (sz - old_size) then Inl (UB ''write past the object'')
     else Inr (m(a := Some (O_Bytes (take (unat old_size) bs @ replicate (unat (sz - old_size)) 0
       @ drop (unat old_size + unat (sz - old_size)) bs)))))"

definition moved_memory :: "addr \<Rightarrow> u32 \<Rightarrow> WASMMemoryInstance \<Rightarrow> WASMMemoryInstance" where
  "moved_memory a pages mm =
     (let heap = mm_heap_data mm + (a - mm_memory_data mm);
          heap_size = ucast (mm_heap_data_end mm - mm_heap_data mm) :: u32 in
      mm\<lparr>mm_memory_data := a, mm_cur_page_count := pages, mm_heap_data := heap,
        mm_heap_data_end := heap + ucast heap_size,
        mm_memory_data_end := a + ucast (mm_num_bytes_per_page mm * pages)\<rparr>)"

definition enlarge_to :: "'h allocs \<Rightarrow> fresh_bytes \<Rightarrow> addr \<Rightarrow> WASMMemoryInstance \<Rightarrow> u32 \<Rightarrow> u32 \<Rightarrow> 'h store \<Rightarrow> (bool \<times> 'h store) res" where
  "enlarge_to al junk ma mm pages total_size st =
     (let old_size = ucast (mm_memory_data_end mm - mm_memory_data mm) :: u32;
          heap_size = ucast (mm_heap_data_end mm - mm_heap_data mm) :: u32 in
      bind_res (grow_block al junk (mm_memory_data mm) old_size total_size st) (\<lambda>(r, st1).
      case r of None \<Rightarrow> Inr (False, st1)
      | Some a \<Rightarrow>
          bind_res (alloc_info_buf (st_rg st1) a uint8T (ucast total_size)) (\<lambda>rg.
          bind_res (clear_tail a old_size total_size (st_mem st1)) (\<lambda>m.
          case (if 0 < heap_size
                then heap_migrate al (mm_heap_handle mm) (mm_heap_data mm + (a - mm_memory_data mm)) heap_size (hp_state (st_heap st1))
                else (True, hp_state (st_heap st1))) of (ok, h) \<Rightarrow>
            let st2 = st1\<lparr>st_rg := rg, st_mem := m, st_heap := (st_heap st1)\<lparr>hp_state := h\<rparr>\<rparr> in
            if \<not> ok then Inr (False, st2)
            else Inr (True, st2\<lparr>st_mem := m(ma := Some (O_WASMMemoryInstance (moved_memory a pages mm)))\<rparr>)))))"

definition wasm_enlarge_memory :: "'h allocs \<Rightarrow> fresh_bytes \<Rightarrow> addr \<Rightarrow> u32 \<Rightarrow> 'h store \<Rightarrow> (bool \<times> 'h store) res" where
  "wasm_enlarge_memory al junk inst inc_page_count st =
     bind_res (load as_WASMModuleInstance (st_mem st) inst) (\<lambda>mi.
     if mi_default_memory mi = 0 then Inr (False, st)
     else bind_res (load as_WASMMemoryInstance (st_mem st) (mi_default_memory mi)) (\<lambda>mm.
       let pages = inc_page_count + mm_cur_page_count mm;
           total_size = ucast (mm_num_bytes_per_page mm) * ucast pages :: u64 in
       if inc_page_count = 0 then Inr (True, st)
       else if pages < mm_cur_page_count mm \<or> mm_max_page_count mm < pages then Inr (False, st)
       else if 0xFFFFFFFF \<le> total_size then Inr (False, st)
       else enlarge_to al junk (mi_default_memory mi) mm pages (ucast total_size) st))"

end
