(* ===== verification/Numeric.thy ===== *)
theory Numeric
  imports Prelude "HOL-Library.While_Combinator"
begin

text \<open>
  The arithmetic helpers of wasm_interp_classic.c: rotations, counts of leading, trailing and set bits (each a
  loop over a shrinking word), and the sign extensions of narrow loads. The loops are \<open>while_option\<close>, whose value
  \<open>None\<close> is a loop that does not end. Each is compared with what it computes.
\<close>

section \<open>Definitions\<close>

definition rotl32 :: "u32 \<Rightarrow> u32 \<Rightarrow> u32" where
  "rotl32 n c = (let c = (c mod 32) AND 31 in push_bit (unat c) n OR drop_bit (unat ((0 - c) AND 31)) n)"

definition rotr32 :: "u32 \<Rightarrow> u32 \<Rightarrow> u32" where
  "rotr32 n c = (let c = (c mod 32) AND 31 in drop_bit (unat c) n OR push_bit (unat ((0 - c) AND 31)) n)"

definition rotl64 :: "u64 \<Rightarrow> u64 \<Rightarrow> u64" where
  "rotl64 n c = (let c = (c mod 64) AND 63 in push_bit (unat c) n OR drop_bit (unat ((0 - c) AND 63)) n)"

definition rotr64 :: "u64 \<Rightarrow> u64 \<Rightarrow> u64" where
  "rotr64 n c = (let c = (c mod 64) AND 63 in drop_bit (unat c) n OR push_bit (unat ((0 - c) AND 63)) n)"

text \<open>The value a counting loop ends with.\<close>

definition count_of :: "(u32 \<times> 'a) option \<Rightarrow> u32 res" where
  "count_of r = (case r of None \<Rightarrow> Inl Diverge | Some (num, _) \<Rightarrow> Inr num)"

definition clz32 :: "u32 \<Rightarrow> u32 res" where
  "clz32 t = (if t = 0 then Inr 32
     else count_of (while_option (\<lambda>(num, t). t AND 0x80000000 = 0) (\<lambda>(num, t). (num + 1, push_bit 1 t)) (0, t)))"

definition clz64 :: "u64 \<Rightarrow> u32 res" where
  "clz64 t = (if t = 0 then Inr 64
     else count_of (while_option (\<lambda>(num, t). t AND 0x8000000000000000 = 0) (\<lambda>(num, t). (num + 1, push_bit 1 t)) (0, t)))"

definition ctz32 :: "u32 \<Rightarrow> u32 res" where
  "ctz32 t = (if t = 0 then Inr 32
     else count_of (while_option (\<lambda>(num, t). t AND 1 = 0) (\<lambda>(num, t). (num + 1, drop_bit 1 t)) (0, t)))"

definition ctz64 :: "u64 \<Rightarrow> u32 res" where
  "ctz64 t = (if t = 0 then Inr 64
     else count_of (while_option (\<lambda>(num, t). t AND 1 = 0) (\<lambda>(num, t). (num + 1, drop_bit 1 t)) (0, t)))"

definition popcount32 :: "u32 \<Rightarrow> u32 res" where
  "popcount32 u = count_of (while_option (\<lambda>(ret, u). u \<noteq> 0) (\<lambda>(ret, u). (ret + 1, u AND (u - 1))) (0, u))"

definition popcount64 :: "u64 \<Rightarrow> u32 res" where
  "popcount64 u = count_of (while_option (\<lambda>(ret, u). u \<noteq> 0) (\<lambda>(ret, u). (ret + 1, u AND (u - 1))) (0, u))"

definition sign_ext_8_32 :: "u8 \<Rightarrow> u32" where
  "sign_ext_8_32 v = (if v AND 0x80 \<noteq> 0 then scast v OR 0xffffff00 else scast v)"

definition sign_ext_16_32 :: "u16 \<Rightarrow> u32" where
  "sign_ext_16_32 v = (if v AND 0x8000 \<noteq> 0 then scast v OR 0xffff0000 else scast v)"

definition sign_ext_8_64 :: "u8 \<Rightarrow> u64" where
  "sign_ext_8_64 v = (if v AND 0x80 \<noteq> 0 then scast v OR 0xffffffffffffff00 else scast v)"

definition sign_ext_16_64 :: "u16 \<Rightarrow> u64" where
  "sign_ext_16_64 v = (if v AND 0x8000 \<noteq> 0 then scast v OR 0xffffffffffff0000 else scast v)"

definition sign_ext_32_64 :: "u32 \<Rightarrow> u64" where
  "sign_ext_32_64 v = (if v AND 0x80000000 \<noteq> 0 then scast v OR 0xffffffff00000000 else scast v)"

section \<open>Rotations\<close>

lemma unat_mod_pow: "unat ((c::'a::len word) AND mask k) = unat c mod 2 ^ k"
  by (metis take_bit_eq_mask take_bit_eq_mod unsigned_take_bit_eq)

lemma mod_and_mask: "(c mod 2 ^ k) AND mask k = (c::'a::len word) AND mask k"
  by (simp flip: take_bit_eq_mod take_bit_eq_mask)

lemma unat_neg: "unat (- x) = (2 ^ LENGTH('a) - unat x) mod 2 ^ LENGTH('a)" for x :: "'a::len word"
proof -
  have "of_nat (2 ^ LENGTH('a) - unat x) = - x"
    by (simp add: of_nat_diff order.strict_implies_order [OF unsigned_less])
  then show ?thesis by (metis unat_of_nat)
qed

lemma rot_amount:
  fixes c :: "'a::len word"
  assumes "k \<le> LENGTH('a)"
  shows "unat (c AND mask k) = unat c mod 2 ^ k"
    "unat ((0 - (c AND mask k)) AND mask k) = (2 ^ k - unat c mod 2 ^ k) mod 2 ^ k"
proof -
  let ?r = "unat c mod 2 ^ k"
  show r: "unat (c AND mask k) = ?r" by (rule unat_mod_pow)
  have d: "2 ^ k dvd (2 ^ LENGTH('a) :: nat)" using assms by (rule le_imp_power_dvd)
  then obtain q where q: "(2::nat) ^ LENGTH('a) = 2 ^ k * q" by (auto elim: dvdE)
  have "unat ((0 - (c AND mask k)) AND mask k) = (2 ^ LENGTH('a) - ?r) mod 2 ^ LENGTH('a) mod 2 ^ k"
    using r by (simp only: unat_mod_pow diff_0 unat_neg)
  also have "\<dots> = (2 ^ LENGTH('a) - ?r) mod 2 ^ k" using d by (simp add: mod_mod_cancel)
  also have "\<dots> = (2 ^ k - ?r) mod 2 ^ k"
  proof -
    have "0 < q" using q by (cases q) auto
    then have "2 ^ LENGTH('a) - ?r = 2 ^ k * (q - 1) + (2 ^ k - ?r)" using q by (cases q) auto
    then show ?thesis by (simp only: mod_mult_self4)
  qed
  finally show "unat ((0 - (c AND mask k)) AND mask k) = (2 ^ k - ?r) mod 2 ^ k" .
qed

lemma rot_bits:
  fixes n :: "'a::len word"
  assumes "r < LENGTH('a)"
  shows "push_bit r n OR drop_bit ((LENGTH('a) - r) mod LENGTH('a)) n = word_rotl r n"
    "drop_bit r n OR push_bit ((LENGTH('a) - r) mod LENGTH('a)) n = word_rotr r n"
proof -
  let ?L = "LENGTH('a)"
  have L: "bit n i \<longleftrightarrow> i < ?L \<and> bit n i" for i by (auto dest: bit_imp_le_length)
  have "(r \<le> i \<and> bit n (i - r)) \<or> bit n ((?L - r) mod ?L + i) \<longleftrightarrow> bit n ((i + (?L - r mod ?L)) mod ?L)" if "i < ?L" for i
    using assms that L [of "?L - r + i"] L [of "?L + i - r"]
    by (cases "r = 0"; cases "r \<le> i") (auto simp: mod_if add.commute)
  then show "push_bit r n OR drop_bit ((?L - r) mod ?L) n = word_rotl r n"
    by (intro bit_word_eqI) (auto simp: bit_or_iff bit_push_bit_iff bit_drop_bit_eq bit_word_rotl_iff)
  have "bit n (r + i) \<or> ((?L - r) mod ?L \<le> i \<and> bit n (i - (?L - r) mod ?L)) \<longleftrightarrow> bit n ((i + r) mod ?L)" if "i < ?L" for i
    using assms that L [of "r + i"]
    by (cases "r = 0"; cases "i + r < ?L") (auto simp: mod_if add.commute)
  then show "drop_bit r n OR push_bit ((?L - r) mod ?L) n = word_rotr r n"
    by (intro bit_word_eqI) (auto simp: bit_or_iff bit_push_bit_iff bit_drop_bit_eq bit_word_rotr_iff)
qed


section \<open>Counting loops\<close>

lemma clz_loop:
  fixes t :: "'a::len word"
  assumes "n < LENGTH('a)" "bit t (LENGTH('a) - 1 - n)" "\<And>i. i < n \<Longrightarrow> \<not> bit t (LENGTH('a) - 1 - i)"
  shows "\<exists>t'. while_option (\<lambda>(num, t). \<not> bit t (LENGTH('a) - 1)) (\<lambda>(num, t). (num + 1, push_bit 1 t)) (k, t)
    = Some (k + of_nat n, t')"
  using assms
proof (induction n arbitrary: k t)
  case (Suc n)
  have "\<not> bit t (LENGTH('a) - 1)" using Suc.prems(3) [of 0] by simp
  moreover have up: "bit (push_bit 1 t) (LENGTH('a) - 1 - i) \<longleftrightarrow> bit t (LENGTH('a) - 1 - Suc i)" if "i \<le> n" for i
    using Suc.prems(1) that by (subst bit_push_bit_iff) auto
  moreover have "\<not> bit (push_bit 1 t) (LENGTH('a) - 1 - i)" if "i < n" for i
    using up [of i] Suc.prems(3) [of "Suc i"] that by (simp del: One_nat_def)
  ultimately show ?case
    using Suc.IH [of "push_bit 1 t" "k + 1"] Suc.prems(1,2) up [of n]
    by (subst while_option_unfold) (simp add: ac_simps)
qed (subst while_option_unfold, simp)

lemma ctz_loop:
  fixes t :: "'a::len word"
  assumes "bit t n" "\<And>i. i < n \<Longrightarrow> \<not> bit t i"
  shows "\<exists>t'. while_option (\<lambda>(num, t). \<not> bit t 0) (\<lambda>(num, t). (num + 1, drop_bit 1 t)) (k, t) = Some (k + of_nat n, t')"
  using assms
proof (induction n arbitrary: k t)
  case (Suc n)
  have "\<not> bit t 0" using Suc.prems(2) [of 0] by simp
  moreover have "bit (drop_bit 1 t) n" "\<And>i. i < n \<Longrightarrow> \<not> bit (drop_bit 1 t) i"
    using Suc.prems by (auto simp: bit_drop_bit_eq)
  ultimately show ?case
    using Suc.IH [of "drop_bit 1 t" "k + 1"] by (subst while_option_unfold) (simp add: ac_simps)
qed (subst while_option_unfold, simp)


lemma clz_spec:
  fixes t :: "'a::len word"
  assumes "t \<noteq> 0"
  shows "\<exists>n < LENGTH('a). count_of (while_option (\<lambda>(num, t). \<not> bit t (LENGTH('a) - 1)) (\<lambda>(num, t). (num + 1, push_bit 1 t)) (0, t))
    = Inr (of_nat n) \<and> (\<forall>i < n. \<not> bit t (LENGTH('a) - 1 - i)) \<and> bit t (LENGTH('a) - 1 - n)"
proof -
  obtain j where j: "bit t j" using assms by (auto simp: bit_eq_iff)
  let ?P = "\<lambda>n. bit t (LENGTH('a) - 1 - n)"
  have "?P (LENGTH('a) - 1 - j)" using j bit_imp_le_length [OF j] by simp
  define n where "n = (LEAST n. ?P n)"
  have "?P n" unfolding n_def using \<open>?P (LENGTH('a) - 1 - j)\<close> by (rule LeastI)
  moreover have "n \<le> LENGTH('a) - 1 - j" unfolding n_def using \<open>?P (LENGTH('a) - 1 - j)\<close> by (rule Least_le)
  moreover have "\<not> ?P i" if "i < n" for i using that unfolding n_def by (rule not_less_Least)
  moreover have "0 < LENGTH('a)" by simp
  ultimately have n: "n < LENGTH('a)" "?P n" "\<And>i. i < n \<Longrightarrow> \<not> ?P i" by (linarith, blast, blast)
  obtain t' where "while_option (\<lambda>(num, t). \<not> bit t (LENGTH('a) - 1)) (\<lambda>(num, t). (num + 1, push_bit 1 t)) (0 :: u32, t) = Some (0 + of_nat n, t')"
    using clz_loop [OF n] by blast
  with n show ?thesis by (intro exI [of _ n]) (simp add: count_of_def)
qed

lemma ctz_spec:
  fixes t :: "'a::len word"
  assumes "t \<noteq> 0"
  shows "\<exists>n < LENGTH('a). count_of (while_option (\<lambda>(num, t). \<not> bit t 0) (\<lambda>(num, t). (num + 1, drop_bit 1 t)) (0, t))
    = Inr (of_nat n) \<and> (\<forall>i < n. \<not> bit t i) \<and> bit t n"
proof -
  obtain j where "bit t j" using assms by (auto simp: bit_eq_iff)
  then have P: "bit t (LEAST n. bit t n)" by (rule LeastI)
  define n where "n = (LEAST n. bit t n)"
  have n: "bit t n" "\<And>i. i < n \<Longrightarrow> \<not> bit t i" using P not_less_Least unfolding n_def by auto
  obtain t' where "while_option (\<lambda>(num, t). \<not> bit t 0) (\<lambda>(num, t). (num + 1, drop_bit 1 t)) (0 :: u32, t) = Some (0 + of_nat n, t')"
    using ctz_loop [OF n] by blast
  with n bit_imp_le_length [OF n(1)] show ?thesis by (intro exI [of _ n]) (simp add: count_of_def)
qed

lemma test_bit_mask: "(t::'a::len word) AND 2 ^ i = 0 \<longleftrightarrow> \<not> bit t i"
  by (simp add: and_exp_eq_0_iff_not_bit)

text \<open>\<open>u & (u - 1)\<close> clears the lowest set bit.\<close>

lemma bits_double: "{i. bit (2 * n) i} = Suc ` {i. bit n i}" for n :: nat
proof (rule set_eqI)
  fix i show "i \<in> {i. bit (2 * n) i} \<longleftrightarrow> i \<in> Suc ` {i. bit n i}"
    by (cases i) (auto simp: bit_Suc bit_0)
qed

lemma finite_bits: "finite {i. bit (n::nat) i}"
proof (rule finite_subset)
  show "{i. bit n i} \<subseteq> {..<n}"
  proof
    fix i assume "i \<in> {i. bit n i}"
    then have "n div 2 ^ i \<noteq> 0" by (auto simp: bit_iff_odd intro!: odd_pos)
    then have "2 ^ i \<le> n" by (simp add: div_eq_0_iff)
    then show "i \<in> {..<n}" using order.strict_trans2 [OF less_exp [of i]] by simp
  qed
qed simp

lemma clear_lowest:
  fixes n :: nat
  assumes "0 < n"
  shows "card {i. bit n i} = Suc (card {i. bit (n AND (n - 1)) i})"
  using assms
proof (induction n rule: nat_bit_induct)
  case (even n)
  have "2 * n AND (2 * n - 1) = 2 * (n AND (n - 1))"
  proof -
    have "(2 * n - 1) div 2 = n - 1" using even.hyps by (cases n) simp_all
    then show ?thesis by (subst and_nat_rec) simp
  qed
  with even show ?case by (simp add: bits_double card_image)
next
  case (odd n)
  have "{i. bit (2 * n + 1) i} = insert 0 {i. bit (2 * n) i}"
    by (rule set_eqI) (case_tac x; auto simp: bit_Suc bit_0)
  moreover have "(2 * n + 1) AND (2 * n + 1 - 1) = 2 * n" by (subst and_nat_rec) simp
  moreover have "finite {i. bit (2 * n) i}" "0 \<notin> {i. bit (2 * n) i}" by (rule finite_bits) (simp add: bit_0)
  ultimately show ?case by simp
qed simp

lemma popcount_loop:
  "while_option (\<lambda>(ret, u). u \<noteq> 0) (\<lambda>(ret, u). (ret + 1, u AND (u - 1))) (k, u :: 'a::len word)
    = Some (k + of_nat (card {i. bit u i}), 0)"
proof (induction "card {i. bit (unat u) i}" arbitrary: k u)
  case 0
  then have "{i. bit (unat u) i} = {}" using finite_bits [of "unat u"] by simp
  then have "unat u = 0" by (intro bit_eqI) auto
  then show ?case by (subst while_option_unfold) (simp add: unat_eq_zero bot_fun_def)
next
  case (Suc c)
  then have u: "u \<noteq> 0" by (auto simp: bot_fun_def)
  have *: "unat (u AND (u - 1)) = unat u AND (unat u - 1)"
    using u by (simp add: unsigned_and_eq unat_minus_one)
  have bits: "{i. bit (unat w) i} = {i. bit w i}" for w :: "'a word" by (auto simp: bit_unsigned_iff dest: bit_imp_le_length)
  have "card {i. bit (unat u) i} = Suc (card {i. bit (unat (u AND (u - 1))) i})"
    unfolding * using u by (intro clear_lowest) (simp add: unat_gt_0)
  with Suc.hyps(1) [of "u AND (u - 1)" "k + 1"] Suc.hyps(2) u show ?case
    by (subst while_option_unfold) (simp add: bits ac_simps)
qed


section \<open>Properties\<close>

text \<open>C25: the four rotations are the rotations of the word, for every rotation count, however large.\<close>

theorem rotations:
  "rotl32 n32 c32 = word_rotl (unat c32) n32 \<and> rotr32 n32 c32 = word_rotr (unat c32) n32 \<and>
   rotl64 n64 c64 = word_rotl (unat c64) n64 \<and> rotr64 n64 c64 = word_rotr (unat c64) n64"
proof -
  have m: "(31::u32) = mask 5" "(63::u64) = mask 6" "(c32 mod 32) AND mask 5 = c32 AND mask 5" "(c64 mod 64) AND mask 6 = c64 AND mask 6"
    using mod_and_mask [of c32 5] mod_and_mask [of c64 6] by (simp_all add: mask_eq_exp_minus_1)
  have r: "word_rotl (i mod LENGTH('a)) w = word_rotl i w" "word_rotr (i mod LENGTH('a)) w = word_rotr i w"
    for i and w :: "'a::len word"
    by (auto intro!: bit_word_eqI simp: bit_word_rotl_iff bit_word_rotr_iff mod_add_right_eq)
  have a: "unat (c32 AND mask 5) = unat c32 mod 32" "unat ((0 - (c32 AND mask 5)) AND mask 5) = (32 - unat c32 mod 32) mod 32"
    "unat (c64 AND mask 6) = unat c64 mod 64" "unat ((0 - (c64 AND mask 6)) AND mask 6) = (64 - unat c64 mod 64) mod 64"
    using rot_amount [of 5 c32] rot_amount [of 6 c64] by simp_all
  have b: "push_bit (unat c32 mod 32) n32 OR drop_bit ((32 - unat c32 mod 32) mod 32) n32 = word_rotl (unat c32) n32"
    "drop_bit (unat c32 mod 32) n32 OR push_bit ((32 - unat c32 mod 32) mod 32) n32 = word_rotr (unat c32) n32"
    "push_bit (unat c64 mod 64) n64 OR drop_bit ((64 - unat c64 mod 64) mod 64) n64 = word_rotl (unat c64) n64"
    "drop_bit (unat c64 mod 64) n64 OR push_bit ((64 - unat c64 mod 64) mod 64) n64 = word_rotr (unat c64) n64"
    using rot_bits [of "unat c32 mod 32" n32] rot_bits [of "unat c64 mod 64" n64] r [of "unat c32" n32] r [of "unat c64" n64]
    by simp_all
  show ?thesis unfolding rotl32_def rotr32_def rotl64_def rotr64_def Let_def m a b by (intro conjI refl)
qed

text \<open>C26: the counting loops end and count: set bits, leading zeros and trailing zeros (the width of the word
  for 0).\<close>

theorem bit_counts:
  "popcount32 u = Inr (of_nat (card {i. bit u i})) \<and> popcount64 v = Inr (of_nat (card {i. bit v i})) \<and>
   (\<exists>n \<le> 32. clz32 u = Inr (of_nat n) \<and> (\<forall>i < n. \<not> bit u (31 - i)) \<and> (n = 32 \<or> bit u (31 - n))) \<and>
   (\<exists>n \<le> 64. clz64 v = Inr (of_nat n) \<and> (\<forall>i < n. \<not> bit v (63 - i)) \<and> (n = 64 \<or> bit v (63 - n))) \<and>
   (\<exists>n \<le> 32. ctz32 u = Inr (of_nat n) \<and> (\<forall>i < n. \<not> bit u i) \<and> (n = 32 \<or> bit u n)) \<and>
   (\<exists>n \<le> 64. ctz64 v = Inr (of_nat n) \<and> (\<forall>i < n. \<not> bit v i) \<and> (n = 64 \<or> bit v n))"
proof (intro conjI)
  have t: "t AND 0x80000000 = 0 \<longleftrightarrow> \<not> bit t 31" "t AND 1 = 0 \<longleftrightarrow> \<not> bit t 0" for t :: u32
    using test_bit_mask [of t 31] test_bit_mask [of t 0] by simp_all
  have t': "t AND 0x8000000000000000 = 0 \<longleftrightarrow> \<not> bit t 63" "t AND 1 = 0 \<longleftrightarrow> \<not> bit t 0" for t :: u64
    using test_bit_mask [of t 63] test_bit_mask [of t 0] by simp_all
  show "popcount32 u = Inr (of_nat (card {i. bit u i}))" "popcount64 v = Inr (of_nat (card {i. bit v i}))"
    by (simp_all add: popcount32_def popcount64_def popcount_loop count_of_def)
  show "\<exists>n \<le> 32. clz32 u = Inr (of_nat n) \<and> (\<forall>i < n. \<not> bit u (31 - i)) \<and> (n = 32 \<or> bit u (31 - n))"
    using clz_spec [of u] unfolding clz32_def t by (cases "u = 0") (auto intro: less_imp_le)
  show "\<exists>n \<le> 64. clz64 v = Inr (of_nat n) \<and> (\<forall>i < n. \<not> bit v (63 - i)) \<and> (n = 64 \<or> bit v (63 - n))"
    using clz_spec [of v] unfolding clz64_def t' by (cases "v = 0") (auto intro: less_imp_le)
  show "\<exists>n \<le> 32. ctz32 u = Inr (of_nat n) \<and> (\<forall>i < n. \<not> bit u i) \<and> (n = 32 \<or> bit u n)"
    using ctz_spec [of u] unfolding ctz32_def t by (cases "u = 0") (auto intro: less_imp_le)
  show "\<exists>n \<le> 64. ctz64 v = Inr (of_nat n) \<and> (\<forall>i < n. \<not> bit v i) \<and> (n = 64 \<or> bit v n)"
    using ctz_spec [of v] unfolding ctz64_def t' by (cases "v = 0") (auto intro: less_imp_le)
qed

theorem bit_counts_witness: "clz32 1 = Inr 31 \<and> ctz64 1 = Inr 0"
proof -
  obtain n where n: "n \<le> 32" "clz32 1 = Inr (of_nat n)" "\<forall>i < n. \<not> bit (1::u32) (31 - i)" "n = 32 \<or> bit (1::u32) (31 - n)"
    using bit_counts [of 1 1] by blast
  obtain k where k: "ctz64 1 = Inr (of_nat k)" "\<forall>i < k. \<not> bit (1::u64) i" using bit_counts [of 1 1] by blast
  have "n = 31"
  proof (rule ccontr)
    assume "n \<noteq> 31"
    with n(1) consider "n < 31" | "n = 32" by linarith
    then show False using n(3) [rule_format, of 31] n(4) by cases (auto simp: bit_1_iff)
  qed
  moreover have "k = 0" using k(2) by (cases k) auto
  ultimately show ?thesis using n(2) k(1) by simp
qed

end
