(* ===== verification/Leb128.thy ===== *)
theory Leb128
  imports Prelude
begin

text \<open>
  The variable-length integers of WebAssembly, as read by the interpreter (\<open>read_leb\<close> and the \<open>read_leb_*\<close> macros of
  wasm_interp_classic.c, which check nothing) and by the loader (\<open>read_leb\<close> of wasm_loader.c, which checks length,
  end of buffer and unused bits). A buffer is the list of bytes from the pointer on.
\<close>

section \<open>The reader of the interpreter\<close>

text \<open>The loop; a shift by 64 or more is undefined. It returns the value, the shift, the last byte and what
  follows it.\<close>

fun read_leb_loop :: "u64 \<Rightarrow> nat \<Rightarrow> byte list \<Rightarrow> (u64 \<times> nat \<times> byte \<times> byte list) res" where
  "read_leb_loop result shift [] = Inl (UB ''read past the buffer'')"
| "read_leb_loop result shift (b # bs) =
     (if 64 \<le> shift then Inl (UB ''shift past the width'')
      else let result' = result OR push_bit shift (ucast (b AND 0x7f)); shift' = shift + 7 in
           if b AND 0x80 = 0 then Inr (result', shift', b, bs) else read_leb_loop result' shift' bs)"

definition read_leb :: "byte list \<Rightarrow> nat \<Rightarrow> bool \<Rightarrow> (u64 \<times> byte list) res" where
  "read_leb buf maxbits sign = bind_res (read_leb_loop 0 0 buf) (\<lambda>(result, shift, b, rest).
     Inr (if sign \<and> shift < maxbits \<and> b AND 0x40 \<noteq> 0 then result OR push_bit shift (NOT 0) else result, rest))"

text \<open>The macros take a short cut for a single byte.\<close>

definition read_leb_uint32 :: "byte list \<Rightarrow> (u32 \<times> byte list) res" where
  "read_leb_uint32 p = (case p of [] \<Rightarrow> Inl (UB ''read past the buffer'')
     | b # rest \<Rightarrow> if b AND 0x80 = 0 then Inr (ucast b, rest)
         else bind_res (read_leb p 32 False) (\<lambda>(r, rest). Inr (ucast r, rest)))"

definition read_leb_int32 :: "byte list \<Rightarrow> (u32 \<times> byte list) res" where
  "read_leb_int32 p = (case p of [] \<Rightarrow> Inl (UB ''read past the buffer'')
     | b # rest \<Rightarrow> if b AND 0x80 = 0 then Inr (if b AND 0x40 \<noteq> 0 then ucast b OR 0xFFFFFF80 else ucast b, rest)
         else bind_res (read_leb p 32 True) (\<lambda>(r, rest). Inr (ucast r, rest)))"

definition read_leb_int64 :: "byte list \<Rightarrow> (u64 \<times> byte list) res" where
  "read_leb_int64 p = (case p of [] \<Rightarrow> Inl (UB ''read past the buffer'')
     | b # rest \<Rightarrow> if b AND 0x80 = 0 then Inr (if b AND 0x40 \<noteq> 0 then ucast b OR 0xFFFFFFFFFFFFFF80 else ucast b, rest)
         else read_leb p 64 True)"

fun skip_leb :: "byte list \<Rightarrow> byte list res" where
  "skip_leb [] = Inl (UB ''read past the buffer'')"
| "skip_leb (b # bs) = (if b AND 0x80 \<noteq> 0 then skip_leb bs else Inr bs)"

section \<open>The reader of the loader\<close>

text \<open>\<open>bcnt\<close> bytes have been read; \<open>Inl\<close> is the message left in the error buffer.\<close>

fun wl_leb_loop :: "nat \<Rightarrow> u64 \<Rightarrow> nat \<Rightarrow> nat \<Rightarrow> byte list \<Rightarrow> string + (u64 \<times> nat \<times> byte \<times> byte list)" where
  "wl_leb_loop maxbits result shift bcnt bs =
     (if bcnt + 1 > (maxbits + 6) div 7 then Inl ''integer representation too long''
      else case bs of [] \<Rightarrow> Inl ''unexpected end of section or function''
        | b # rest \<Rightarrow>
            let result' = result OR push_bit shift (ucast (b AND 0x7f)); shift' = shift + 7 in
            if b AND 0x80 = 0 then Inr (result', shift', b, rest)
            else wl_leb_loop maxbits result' shift' (bcnt + 1) rest)"

definition wl_read_leb :: "byte list \<Rightarrow> nat \<Rightarrow> bool \<Rightarrow> string + (u64 \<times> byte list)" where
  "wl_read_leb buf maxbits sign =
     (case wl_leb_loop maxbits 0 0 0 buf of
        Inl e \<Rightarrow> Inl e
      | Inr (result, shift, b, rest) \<Rightarrow>
          if \<not> sign \<and> maxbits = 32 \<and> shift \<ge> maxbits then
            if b AND 0xf0 \<noteq> 0 then Inl ''integer too large'' else Inr (result, rest)
          else if sign \<and> maxbits = 32 then
            if shift < maxbits then Inr (if b AND 0x40 \<noteq> 0 then result OR push_bit shift (NOT 0) else result, rest)
            else if (b AND 0x8 \<noteq> 0 \<and> b AND 0xf0 \<noteq> 0x70) \<or> (b AND 0x8 = 0 \<and> b AND 0xf0 \<noteq> 0)
            then Inl ''integer too large'' else Inr (result, rest)
          else if sign \<and> maxbits = 64 then
            if shift < maxbits then Inr (if b AND 0x40 \<noteq> 0 then result OR push_bit shift (NOT 0) else result, rest)
            else if (b AND 0x1 \<noteq> 0 \<and> b AND 0xfe \<noteq> 0x7e) \<or> (b AND 0x1 = 0 \<and> b AND 0xfe \<noteq> 0)
            then Inl ''integer too large'' else Inr (result, rest)
          else Inr (result, rest))"

section \<open>Reference encoders\<close>

function leb_u :: "nat \<Rightarrow> byte list" where
  "leb_u n = (if n < 128 then [of_nat n] else of_nat (n mod 128 + 128) # leb_u (n div 128))"
  by auto
termination by (relation "measure id") auto

function leb_s :: "int \<Rightarrow> byte list" where
  "leb_s i = (if - 64 \<le> i \<and> i < 64 then [of_int (i mod 128)] else of_int (i mod 128 + 128) # leb_s (i div 128))"
  by auto
termination by (relation "measure (\<lambda>i. nat \<bar>i\<bar>)") auto

declare wl_leb_loop.simps [simp del] leb_u.simps [simp del] leb_s.simps [simp del]

section \<open>The two readers agree\<close>

lemma wl_loop_agrees:
  assumes "wl_leb_loop maxbits r (7 * k) k bs = Inr x" "maxbits \<le> 64"
  shows "read_leb_loop r (7 * k) bs = Inr x"
  using assms
proof (induction bs arbitrary: r k)
  case (Cons b bs)
  let ?r = "r OR push_bit (7 * k) (ucast (b AND 0x7f))"
  have "k + 1 \<le> (maxbits + 6) div 7" using Cons.prems(1) by (simp add: wl_leb_loop.simps [of _ _ _ k] split: if_splits)
  then have k: "7 * k < 64" using Cons.prems(2) by simp
  moreover have "read_leb_loop ?r (7 * Suc k) bs = Inr x" if "b AND 0x80 \<noteq> 0"
    using Cons.prems that by (intro Cons.IH) (auto simp: wl_leb_loop.simps [of _ _ _ k] Let_def add.commute split: if_splits)
  ultimately show ?case
    using Cons.prems by (auto simp: wl_leb_loop.simps [of _ _ _ k] Let_def add.commute split: if_splits)
qed (simp add: wl_leb_loop.simps split: if_splits)

section \<open>Reading back\<close>

text \<open>Both encoders write the digits of a number to the base 128, \<open>d + 1\<close> of them.\<close>

fun leb_digits :: "nat \<Rightarrow> int \<Rightarrow> byte list" where
  "leb_digits 0 i = [of_int (i mod 128)]"
| "leb_digits (Suc d) i = of_int (i mod 128 + 128) # leb_digits d (i div 128)"

lemma leb_u_digits: "\<exists>d. leb_u n = leb_digits d (int n) \<and> n < 128 ^ Suc d \<and> (d = 0 \<or> 128 ^ d \<le> n)"
proof (induction n rule: leb_u.induct)
  case (1 n)
  show ?case
  proof (cases "n < 128")
    case True then show ?thesis by (intro exI [of _ 0]) (simp add: leb_u.simps)
  next
    case False
    then obtain d where d: "leb_u (n div 128) = leb_digits d (int (n div 128))" "n div 128 < 128 ^ Suc d"
      "d = 0 \<or> 128 ^ d \<le> n div 128" using 1 by blast
    then have "n < 128 ^ Suc (Suc d)" "128 ^ Suc d \<le> n"
      using False by (auto simp: less_eq_div_iff_mult_less_eq div_less_iff_less_mult algebra_simps)
    moreover have "leb_digits (Suc d) (int n) = leb_u n"
    proof -
      have e: "int n mod 128 + 128 = int (n mod 128 + 128)" "int n div 128 = int (n div 128)" by (simp_all add: zdiv_int zmod_int)
      show ?thesis using False by (simp only: leb_digits.simps leb_u.simps [of n] d(1) e of_int_of_nat_eq if_False)
    qed
    ultimately show ?thesis by (intro exI [of _ "Suc d"]) simp
  qed
qed

lemma leb_s_digits:
  "\<exists>d. leb_s i = leb_digits d i \<and> - 64 * 128 ^ d \<le> i \<and> i < 64 * 128 ^ d
     \<and> (d = 0 \<or> i < - 64 * 128 ^ (d - 1) \<or> 64 * 128 ^ (d - 1) \<le> i)"
proof (induction i rule: leb_s.induct)
  case (1 i)
  show ?case
  proof (cases "- 64 \<le> i \<and> i < 64")
    case True then show ?thesis by (intro exI [of _ 0]) (simp add: leb_s.simps)
  next
    case False
    then obtain d where d: "leb_s (i div 128) = leb_digits d (i div 128)" "- 64 * 128 ^ d \<le> i div 128" "i div 128 < 64 * 128 ^ d"
      "d = 0 \<or> i div 128 < - 64 * 128 ^ (d - 1) \<or> 64 * 128 ^ (d - 1) \<le> i div 128" using 1 by blast
    have "- 64 * 128 ^ Suc d \<le> i" "i < 64 * 128 ^ Suc d" using d(2,3) by auto
    moreover have "i < - 64 * 128 ^ d \<or> 64 * 128 ^ d \<le> i" using d(4) False by (cases d) auto
    ultimately show ?thesis using d(1) False
      by (intro exI [of _ "Suc d"]) (simp add: leb_s.simps [of i])
  qed
qed

lemma digit_join: "(of_int (i mod 128) :: u64) OR push_bit 7 (of_int (i div 128 mod 128 ^ d)) = of_int (i mod 128 ^ Suc d)"
proof -
  have "take_bit 7 i OR push_bit 7 (take_bit (7 * d) (drop_bit 7 i)) = take_bit (7 * Suc d) i"
    by (rule bit_eqI) (auto simp: bit_simps)
  then have "i mod 128 OR push_bit 7 (i div 128 mod 128 ^ d) = i mod 128 ^ Suc d"
    by (simp add: take_bit_eq_mod drop_bit_eq_div power_mult power_add)
  then show ?thesis by (metis of_int_or_eq push_bit_of_int)
qed

lemma digit_word: "of_int (i mod 128) = (of_int i :: 'a::len word) AND 0x7f"
proof -
  have "i mod 128 = take_bit 7 i" by (simp add: take_bit_eq_mod)
  then have "of_int (i mod 128) = (take_bit 7 (of_int i) :: 'a word)" by (simp only: take_bit_of_int)
  then show ?thesis by (simp add: take_bit_eq_mask mask_eq_exp_minus_1)
qed

lemma digit_bits:
  "(of_int (i mod 128) :: byte) AND 0x80 = 0" "(of_int (i mod 128 + 128) :: byte) AND 0x80 \<noteq> 0"
  "ucast ((of_int (i mod 128) :: byte) AND 0x7f) = (of_int (i mod 128) :: u64)"
  "ucast ((of_int (i mod 128 + 128) :: byte) AND 0x7f) = (of_int (i mod 128) :: u64)"
proof -
  let ?w = "(of_int i :: byte) AND 0x7f"
  have z: "?w AND 0x80 = 0" by (simp add: and.assoc)
  have "?w + 0x80 = ?w OR 0x80"
  proof (rule disjunctive_add)
    fix n show "\<not> bit ?w n \<or> \<not> bit (0x80 :: byte) n" using arg_cong [OF z, of "\<lambda>x. bit x n"] by (simp only: bit_and_iff bit_0_eq) simp
  qed
  then have o: "of_int (i mod 128 + 128) = ?w OR 0x80" by (simp add: digit_word)
  have u: "ucast ?w = (of_int (i mod 128) :: u64)"
  proof -
    have t: "(of_int i :: 'b::len word) AND 0x7f = take_bit 7 (of_int i)" by (simp add: take_bit_eq_mask mask_eq_exp_minus_1)
    show ?thesis unfolding digit_word t by (rule bit_word_eqI) (auto simp: bit_simps)
  qed
  show "(of_int (i mod 128) :: byte) AND 0x80 = 0" by (simp add: digit_word and.assoc)
  show "(of_int (i mod 128 + 128) :: byte) AND 0x80 \<noteq> 0" unfolding o by (simp add: bit.conj_disj_distrib2 and.assoc)
  show "ucast ((of_int (i mod 128) :: byte) AND 0x7f) = (of_int (i mod 128) :: u64)" using u by (simp add: digit_word and.assoc)
  show "ucast ((of_int (i mod 128 + 128) :: byte) AND 0x7f) = (of_int (i mod 128) :: u64)"
    unfolding o using u by (simp add: digit_word bit.conj_disj_distrib2 and.assoc)
qed

lemma loop_digits:
  assumes "k + d + 1 \<le> (maxbits + 6) div 7"
  shows "wl_leb_loop maxbits r (7 * k) k (leb_digits d i @ rest)
    = Inr (r OR push_bit (7 * k) (of_int (i mod 128 ^ Suc d)), 7 * (k + d + 1), of_int (i div 128 ^ d mod 128), rest)"
  using assms
proof (induction d arbitrary: i k r)
  case 0
  then show ?case by (simp add: wl_leb_loop.simps digit_bits)
next
  case (Suc d)
  have "push_bit (7 * Suc k) x = push_bit (7 * k) (push_bit 7 x)" for x :: u64 by (simp add: push_bit_push_bit add.commute)
  then have j: "(r OR push_bit (7 * k) (of_int (i mod 128))) OR push_bit (7 * Suc k) (of_int (i div 128 mod 128 ^ Suc d))
      = r OR push_bit (7 * k) (of_int (i mod 128 ^ Suc (Suc d)))"
    by (simp only: or.assoc push_bit_or digit_join flip: push_bit_or)
  have v: "i div 128 div 128 ^ d = i div 128 ^ Suc d" by (simp add: zdiv_zmult2_eq)
  have "wl_leb_loop maxbits r (7 * k) k (leb_digits (Suc d) i @ rest)
      = wl_leb_loop maxbits (r OR push_bit (7 * k) (of_int (i mod 128))) (7 * Suc k) (Suc k) (leb_digits d (i div 128) @ rest)"
    using Suc.prems digit_bits [of i] by (subst wl_leb_loop.simps) (simp add: Let_def add.commute)
  also have "\<dots> = Inr (r OR push_bit (7 * k) (of_int (i mod 128 ^ Suc (Suc d))), 7 * (Suc k + d + 1),
      of_int (i div 128 ^ Suc d mod 128), rest)"
    using Suc.prems by (subst Suc.IH, simp, simp only: j v)
  finally show ?case by simp
qed

lemma byte_test: "(of_int m :: byte) AND 2 ^ k = 0 \<longleftrightarrow> 8 \<le> k \<or> even (m div 2 ^ k)"
proof -
  have "bit (of_int m :: byte) k \<longleftrightarrow> k < 8 \<and> bit m k" by (simp add: bit_simps)
  then show ?thesis unfolding and_exp_eq_0_iff_not_bit by (auto simp: bit_iff_odd [of m])
qed

lemma small_byte:
  "0 \<le> m \<Longrightarrow> m < 16 \<Longrightarrow> (of_int m :: byte) AND 0xf0 = 0"
  "0 \<le> m \<Longrightarrow> m < 8 \<Longrightarrow> (of_int m :: byte) AND 8 = 0"
  "120 \<le> m \<Longrightarrow> m < 128 \<Longrightarrow> (of_int m :: byte) AND 8 \<noteq> 0 \<and> (of_int m :: byte) AND 0xf0 = 0x70"
  "0 \<le> m \<Longrightarrow> m < 128 \<Longrightarrow> (of_int m :: byte) AND 0x40 = 0 \<longleftrightarrow> m < 64"
proof -
  assume "0 \<le> m" "m < 16"
  then have "of_int m = take_bit 4 (of_int m :: byte)" by (simp only: take_bit_of_int) (simp add: take_bit_eq_mod)
  then have "of_int m = (of_int m :: byte) AND 0xf" by (simp add: take_bit_eq_mask mask_eq_exp_minus_1)
  then have "(of_int m :: byte) AND 0xf0 = (of_int m AND 0xf) AND 0xf0" by simp
  then show "(of_int m :: byte) AND 0xf0 = 0" by (simp add: and.assoc)
next
  assume "0 \<le> m" "m < 8"
  then show "(of_int m :: byte) AND 8 = 0" using byte_test [of m 3] by simp
next
  assume "120 \<le> m" "m < 128"
  then have "m \<in> {120, 121, 122, 123, 124, 125, 126, 127}" by auto
  then show "(of_int m :: byte) AND 8 \<noteq> 0 \<and> (of_int m :: byte) AND 0xf0 = 0x70" by auto
next
  assume "0 \<le> m" "m < 128"
  then have "m div 64 = (if m < 64 then 0 else 1)" by auto
  then show "(of_int m :: byte) AND 0x40 = 0 \<longleftrightarrow> m < 64" using byte_test [of m 6] by simp
qed

lemma wl_uint32:
  assumes "n < 2 ^ 32"
  shows "wl_read_leb (leb_u n @ rest) 32 False = Inr (of_nat n, rest)"
proof -
  obtain d where d: "leb_u n = leb_digits d (int n)" "n < 128 ^ Suc d" "d = 0 \<or> 128 ^ d \<le> n"
    using leb_u_digits by blast
  have "d \<le> 4"
  proof (rule ccontr)
    assume "\<not> d \<le> 4"
    then have "(128::nat) ^ 5 \<le> 128 ^ d" by (intro power_increasing) auto
    with d(3) \<open>\<not> d \<le> 4\<close> assms show False by auto
  qed
  moreover have "(of_int (int n div 128 ^ d mod 128) :: byte) AND 0xf0 = 0" if "d = 4"
    using assms that by (intro small_byte) (auto simp: div_less_iff_less_mult)
  moreover have "of_int (int n mod 128 ^ Suc d) = (of_nat n :: u64)" 
  proof -
    have "int n < 128 ^ Suc d" using d(2) by (metis of_nat_less_iff of_nat_numeral of_nat_power)
    then show ?thesis by simp
  qed
  ultimately show ?thesis
    using loop_digits [of 0 d 32 0 "int n" rest] d(1) by (cases "d = 4") (auto simp: wl_read_leb_def)
qed

lemma div_bounds:
  fixes i :: int
  assumes "a * p \<le> i" "i < b * p" "0 < p"
  shows "a \<le> i div p" "i div p < b"
proof -
  have "a * p div p \<le> i div p" using assms by (intro zdiv_mono1)
  then show "a \<le> i div p" using assms by simp
  have "i div p * p \<le> i" using assms(3) pos_mod_sign [of p i] by (simp add: minus_mod_eq_div_mult [symmetric])
  then have "i div p * p < b * p" using assms by linarith
  then show "i div p < b" using assms(3) by (simp add: mult_less_cancel_right)
qed

lemma sign_extended:
  assumes "- 64 * 128 ^ d \<le> i" "i < 64 * 128 ^ d"
  shows "(of_int (i div 128 ^ d mod 128) :: byte) AND 0x40 = 0 \<longleftrightarrow> 0 \<le> i"
    "0 \<le> i \<Longrightarrow> i mod 128 ^ Suc d = i"
    "i < 0 \<Longrightarrow> of_int (i mod 128 ^ Suc d) OR push_bit (7 * Suc d) (NOT 0) = (of_int i :: u64)"
proof -
  have p: "0 < (128::int) ^ d" by simp
  have q: "- 64 \<le> i div 128 ^ d" "i div 128 ^ d < 64"
    using div_bounds [OF assms p] .
  have s: "0 \<le> i \<longleftrightarrow> 0 \<le> i div 128 ^ d" using p by (simp add: pos_imp_zdiv_nonneg_iff)
  have "x mod 128 < 64 \<longleftrightarrow> 0 \<le> x" if "- 64 \<le> x" "x < 64" for x :: int using that by presburger
  then have "i div 128 ^ d mod 128 < 64 \<longleftrightarrow> 0 \<le> i div 128 ^ d" using q by blast
  with s show "(of_int (i div 128 ^ d mod 128) :: byte) AND 0x40 = 0 \<longleftrightarrow> 0 \<le> i" by (simp add: small_byte(4))
  show "0 \<le> i \<Longrightarrow> i mod 128 ^ Suc d = i" using assms by (intro mod_pos_pos_trivial) auto
  assume neg: "i < 0"
  have m: "i mod 128 ^ Suc d = take_bit (7 * Suc d) i" by (simp add: take_bit_eq_mod power_mult power_add)
  have "bit i n" if "7 * Suc d \<le> n" for n
  proof -
    have "(2::int) ^ (7 * Suc d) \<le> 2 ^ n" using that by (intro power_increasing) auto
    moreover have "64 * 128 ^ d \<le> (2::int) ^ (7 * Suc d)" by (simp add: power_mult power_add)
    ultimately have "- 1 * 2 ^ n \<le> i" using assms(1) by linarith
    then have "i div 2 ^ n = - 1" using div_bounds [of "- 1" "2 ^ n" i 0] neg by simp
    then show ?thesis by (simp add: bit_iff_odd)
  qed
  then show "of_int (i mod 128 ^ Suc d) OR push_bit (7 * Suc d) (NOT 0) = (of_int i :: u64)"
    unfolding m by (intro bit_word_eqI) (auto simp: bit_simps)
qed

lemma leb_s_short:
  assumes "- (2 ^ b) \<le> i" "i < 2 ^ b" "7 * k + 6 \<ge> b"
  shows "\<exists>d \<le> k. leb_s i = leb_digits d i \<and> - 64 * 128 ^ d \<le> i \<and> i < 64 * 128 ^ d"
proof -
  obtain d where d: "leb_s i = leb_digits d i" "- 64 * 128 ^ d \<le> i" "i < 64 * 128 ^ d"
    "d = 0 \<or> i < - 64 * 128 ^ (d - 1) \<or> 64 * 128 ^ (d - 1) \<le> i" using leb_s_digits by blast
  have "d \<le> k"
  proof (rule ccontr)
    assume "\<not> d \<le> k"
    then have "(128::int) ^ k \<le> 128 ^ (d - 1)" by (intro power_increasing) auto
    moreover have "(2::int) ^ b \<le> 2 ^ (7 * k + 6)" using assms(3) by (intro power_increasing) auto
    moreover have "(2::int) ^ (7 * k + 6) = 64 * 128 ^ k" by (simp add: power_add power_mult)
    moreover have "d \<noteq> 0" using \<open>\<not> d \<le> k\<close> by simp
    ultimately show False using d(4) assms(1,2) by linarith
  qed
  with d show ?thesis by blast
qed


lemma wl_int64:
  assumes "- (2 ^ 63) \<le> i" "i < 2 ^ 63"
  shows "wl_read_leb (leb_s i @ rest) 64 True = Inr (of_int i, rest)"
proof -
  obtain d where d: "d \<le> 9" "leb_s i = leb_digits d i" "- 64 * 128 ^ d \<le> i" "i < 64 * 128 ^ d"
    using leb_s_short [of 63 i 9] assms by auto
  have loop: "wl_leb_loop 64 0 0 0 (leb_s i @ rest)
      = Inr (of_int (i mod 128 ^ Suc d), 7 * (d + 1), of_int (i div 128 ^ d mod 128), rest)"
    using loop_digits [of 0 d 64 0 i rest] d(1,2) by simp
  note se = sign_extended [OF d(3,4)]
  show ?thesis
  proof (cases "d = 9")
    case False
    then show ?thesis using loop d(1) se by (cases "0 \<le> i") (simp_all add: wl_read_leb_def)
  next
    case True
    have q: "i div 128 ^ 9 = (if 0 \<le> i then 0 else - 1)" 
      using div_bounds [of "- 1" "128 ^ 9" i 0] div_bounds [of 0 "128 ^ 9" i 1] assms by auto
    have "(of_int (i mod 128 ^ 10) :: u64) = of_int i"
    proof -
      have "(128::int) ^ 10 = 2 ^ 64 * 64" by simp
      then have "i mod 128 ^ 10 mod 2 ^ 64 = i mod 2 ^ 64" by (metis dvd_triv_left mod_mod_cancel)
      then show ?thesis by (simp add: word_of_int_eq_iff take_bit_eq_mod)
    qed
    then show ?thesis using loop True q by (simp add: wl_read_leb_def)
  qed
qed

lemma wl_int32:
  assumes "- (2 ^ 31) \<le> i" "i < 2 ^ 31"
  shows "\<exists>v. wl_read_leb (leb_s i @ rest) 32 True = Inr (v, rest) \<and> (ucast v :: u32) = of_int i"
proof -
  obtain d where d: "d \<le> 4" "leb_s i = leb_digits d i" "- 64 * 128 ^ d \<le> i" "i < 64 * 128 ^ d"
    using leb_s_short [of 31 i 4] assms by auto
  have loop: "wl_leb_loop 32 0 0 0 (leb_s i @ rest)
      = Inr (of_int (i mod 128 ^ Suc d), 7 * (d + 1), of_int (i div 128 ^ d mod 128), rest)"
    using loop_digits [of 0 d 32 0 i rest] d(1,2) by simp
  note se = sign_extended [OF d(3,4)]
  have u: "(ucast (of_int i :: u64) :: u32) = of_int i" for i by (rule bit_word_eqI) (simp add: bit_simps)
  show ?thesis
  proof (cases "d = 4")
    case False
    then have "wl_read_leb (leb_s i @ rest) 32 True = Inr (of_int i, rest)"
      using loop d(1) se by (cases "0 \<le> i") (simp_all add: wl_read_leb_def)
    with u show ?thesis by blast
  next
    case True
    have q: "- 8 \<le> i div 128 ^ 4" "i div 128 ^ 4 < 8" using div_bounds [of "- 8" "128 ^ 4" i 8] assms by auto
    then have "i div 128 ^ 4 mod 128 = (if 0 \<le> i div 128 ^ 4 then i div 128 ^ 4 else i div 128 ^ 4 + 128)"
      using mod_pos_pos_trivial [of "i div 128 ^ 4" 128] mod_pos_pos_trivial [of "i div 128 ^ 4 + 128" 128] by auto
    then have "wl_read_leb (leb_s i @ rest) 32 True = Inr (of_int (i mod 128 ^ 5), rest)"
      using loop True q small_byte [of "i div 128 ^ 4 mod 128"] by (auto simp: wl_read_leb_def split: if_splits)
    moreover have "(ucast (of_int (i mod 128 ^ 5) :: u64) :: u32) = of_int i"
    proof -
      have "(128::int) ^ 5 = 2 ^ 32 * 8" by simp
      then have "i mod 128 ^ 5 mod 2 ^ 32 = i mod 2 ^ 32" by (metis dvd_triv_left mod_mod_cancel)
      then show ?thesis unfolding u by (simp add: word_of_int_eq_iff take_bit_eq_mod)
    qed
    ultimately show ?thesis by blast
  qed
qed


lemma agrees:
  assumes "wl_read_leb buf maxbits sign = Inr (v, rest)" "maxbits = 32 \<or> maxbits = 64"
  shows "read_leb buf maxbits sign = Inr (v, rest)"
proof -
  obtain r s b l where l: "wl_leb_loop maxbits 0 0 0 buf = Inr (r, s, b, l)"
    using assms(1) by (auto simp: wl_read_leb_def split: sum.splits)
  have "read_leb_loop 0 0 buf = Inr (r, s, b, l)" using wl_loop_agrees [of maxbits 0 0 buf] l assms(2) by auto
  with assms l show ?thesis by (auto simp: wl_read_leb_def read_leb_def split: if_splits)
qed

text \<open>The short cut of the macros is what the loop computes.\<close>

lemma sign_bits: "push_bit 7 (NOT 0) = (0xFFFFFFFFFFFFFF80 :: u64)" "push_bit 7 (NOT 0) = (0xFFFFFF80 :: u32)"
proof -
  have "(- 128 :: u32) = 0xFFFFFF80" "(- 128 :: u64) = 0xFFFFFFFFFFFFFF80" by (rule eq_neg_iff_add_eq_0 [THEN iffD2, symmetric], simp)+
  then show "push_bit 7 (NOT 0) = (0xFFFFFFFFFFFFFF80 :: u64)" "push_bit 7 (NOT 0) = (0xFFFFFF80 :: u32)"
    by (simp_all add: push_bit_eq_mult)
qed

lemma short_cut:
  assumes "b AND 0x80 = 0"
  shows "read_leb (b # rest) 32 False = Inr (ucast b, rest)"
    "read_leb (b # rest) 32 True = Inr (if b AND 0x40 \<noteq> 0 then ucast b OR 0xFFFFFFFFFFFFFF80 else ucast b, rest)"
    "read_leb (b # rest) 64 True = Inr (if b AND 0x40 \<noteq> 0 then ucast b OR 0xFFFFFFFFFFFFFF80 else ucast b, rest)"
proof -
  have "\<not> bit b 7" using assms and_exp_eq_0_iff_not_bit [of b 7] by simp
  then have "take_bit 7 b = b" by (intro bit_word_eqI) (auto simp: bit_simps less_Suc_eq eval_nat_numeral)
  then have "b AND 0x7f = b" by (simp add: take_bit_eq_mask mask_eq_exp_minus_1)
  with assms show "read_leb (b # rest) 32 False = Inr (ucast b, rest)"
    "read_leb (b # rest) 32 True = Inr (if b AND 0x40 \<noteq> 0 then ucast b OR 0xFFFFFFFFFFFFFF80 else ucast b, rest)"
    "read_leb (b # rest) 64 True = Inr (if b AND 0x40 \<noteq> 0 then ucast b OR 0xFFFFFFFFFFFFFF80 else ucast b, rest)"
    using sign_bits by (simp_all only: read_leb_def read_leb_loop.simps Let_def) (simp_all add: read_leb_def)
qed

lemma macro_forms:
  "read_leb_uint32 p = bind_res (read_leb p 32 False) (\<lambda>(r, rest). Inr (ucast r, rest))"
  "read_leb_int32 p = bind_res (read_leb p 32 True) (\<lambda>(r, rest). Inr (ucast r, rest))"
  "read_leb_int64 p = read_leb p 64 True"
proof -
  have u: "(ucast (ucast b :: u64) :: u32) = ucast b" "(ucast (ucast b OR 0xFFFFFFFFFFFFFF80 :: u64) :: u32) = ucast b OR 0xFFFFFF80"
    for b :: byte
  proof -
    show "(ucast (ucast b :: u64) :: u32) = ucast b" by (rule bit_word_eqI) (simp add: bit_simps)
    have "(ucast (ucast b OR push_bit 7 (NOT 0) :: u64) :: u32) = ucast b OR push_bit 7 (NOT 0)"
      by (rule bit_word_eqI) (auto simp: bit_simps)
    then show "(ucast (ucast b OR 0xFFFFFFFFFFFFFF80 :: u64) :: u32) = ucast b OR 0xFFFFFF80" by (simp only: sign_bits)
  qed
  show "read_leb_uint32 p = bind_res (read_leb p 32 False) (\<lambda>(r, rest). Inr (ucast r, rest))"
    by (cases p) (auto simp: read_leb_uint32_def short_cut u, simp add: read_leb_def)
  show "read_leb_int32 p = bind_res (read_leb p 32 True) (\<lambda>(r, rest). Inr (ucast r, rest))"
    by (cases p) (auto simp: read_leb_int32_def short_cut u, simp add: read_leb_def)
  show "read_leb_int64 p = read_leb p 64 True"
    by (cases p) (auto simp: read_leb_int64_def short_cut, simp add: read_leb_def)
qed


section \<open>Properties\<close>

text \<open>C23: an integer the loader has accepted is read by the interpreter, which checks nothing, as the same value
  and with the same length.\<close>

theorem interp_reads_what_loader_read:
  assumes "wl_read_leb buf maxbits sign = Inr (v, rest)" "maxbits = 32 \<or> maxbits = 64"
  shows "read_leb buf maxbits sign = Inr (v, rest)"
  using assms by (rule agrees)

theorem interp_reads_what_loader_read_witness:
  "read_leb [0xE5, 0x8E, 0x26, 0x0B] 32 False = Inr (624485, [0x0B])"
  by (rule interp_reads_what_loader_read) (simp_all add: wl_read_leb_def wl_leb_loop.simps push_bit_eq_mult)

text \<open>C24: every unsigned 32 bit number, signed 32 bit number and signed 64 bit number, encoded in the shortest
  way, is accepted by the loader and read back by the macros of the interpreter, up to the byte after it.\<close>

theorem leb_read_back:
  assumes "n < 2 ^ 32" "- (2 ^ 31) \<le> i" "i < 2 ^ 31" "- (2 ^ 63) \<le> j" "j < 2 ^ 63"
  shows "wl_read_leb (leb_u n @ rest) 32 False = Inr (of_nat n, rest) \<and> read_leb_uint32 (leb_u n @ rest) = Inr (of_nat n, rest) \<and>
    (\<exists>v. wl_read_leb (leb_s i @ rest) 32 True = Inr (v, rest)) \<and> read_leb_int32 (leb_s i @ rest) = Inr (of_int i, rest) \<and>
    wl_read_leb (leb_s j @ rest) 64 True = Inr (of_int j, rest) \<and> read_leb_int64 (leb_s j @ rest) = Inr (of_int j, rest)"
proof -
  obtain v where v: "wl_read_leb (leb_s i @ rest) 32 True = Inr (v, rest)" "(ucast v :: u32) = of_int i"
    using wl_int32 assms(2,3) by blast
  have "(ucast (of_nat n :: u64) :: u32) = of_nat n" by (rule bit_word_eqI) (simp add: bit_simps)
  with wl_uint32 [OF assms(1)] v wl_int64 [OF assms(4,5)] show ?thesis by (simp add: macro_forms agrees)
qed

theorem leb_read_back_witness:
  "read_leb_int32 (leb_s (- 624485) @ [0x0B]) = Inr (- 624485, [0x0B]) \<and> leb_s (- 624485) = [0x9B, 0xF1, 0x59]"
  using leb_read_back [of 0 "- 624485" 0 "[0x0B]"] by (simp add: leb_s.simps)

end
