(* ===== verification/Opcode.thy ===== *)
theory Opcode
  imports Prelude
begin

text \<open>The opcodes of wasm_opcode.h, and the value types and label types of wasm.h.\<close>

type_synonym WASMOpcode = u8
type_synonym WASMMiscEXTOpcode = u8

abbreviation WASM_OP_UNREACHABLE :: WASMOpcode where "WASM_OP_UNREACHABLE \<equiv> 0x00"
abbreviation WASM_OP_NOP :: WASMOpcode where "WASM_OP_NOP \<equiv> 0x01"
abbreviation WASM_OP_BLOCK :: WASMOpcode where "WASM_OP_BLOCK \<equiv> 0x02"
abbreviation WASM_OP_LOOP :: WASMOpcode where "WASM_OP_LOOP \<equiv> 0x03"
abbreviation WASM_OP_IF :: WASMOpcode where "WASM_OP_IF \<equiv> 0x04"
abbreviation WASM_OP_ELSE :: WASMOpcode where "WASM_OP_ELSE \<equiv> 0x05"
abbreviation WASM_OP_END :: WASMOpcode where "WASM_OP_END \<equiv> 0x0b"
abbreviation WASM_OP_BR :: WASMOpcode where "WASM_OP_BR \<equiv> 0x0c"
abbreviation WASM_OP_BR_IF :: WASMOpcode where "WASM_OP_BR_IF \<equiv> 0x0d"
abbreviation WASM_OP_BR_TABLE :: WASMOpcode where "WASM_OP_BR_TABLE \<equiv> 0x0e"
abbreviation WASM_OP_RETURN :: WASMOpcode where "WASM_OP_RETURN \<equiv> 0x0f"
abbreviation WASM_OP_CALL :: WASMOpcode where "WASM_OP_CALL \<equiv> 0x10"
abbreviation WASM_OP_CALL_INDIRECT :: WASMOpcode where "WASM_OP_CALL_INDIRECT \<equiv> 0x11"
abbreviation WASM_OP_RETURN_CALL :: WASMOpcode where "WASM_OP_RETURN_CALL \<equiv> 0x12"
abbreviation WASM_OP_RETURN_CALL_INDIRECT :: WASMOpcode where "WASM_OP_RETURN_CALL_INDIRECT \<equiv> 0x13"
abbreviation WASM_OP_DROP :: WASMOpcode where "WASM_OP_DROP \<equiv> 0x1a"
abbreviation WASM_OP_SELECT :: WASMOpcode where "WASM_OP_SELECT \<equiv> 0x1b"
abbreviation WASM_OP_SELECT_T :: WASMOpcode where "WASM_OP_SELECT_T \<equiv> 0x1c"
abbreviation WASM_OP_GET_GLOBAL_64 :: WASMOpcode where "WASM_OP_GET_GLOBAL_64 \<equiv> 0x1d"
abbreviation WASM_OP_SET_GLOBAL_64 :: WASMOpcode where "WASM_OP_SET_GLOBAL_64 \<equiv> 0x1e"
abbreviation WASM_OP_SET_GLOBAL_AUX_STACK :: WASMOpcode where "WASM_OP_SET_GLOBAL_AUX_STACK \<equiv> 0x1f"
abbreviation WASM_OP_GET_LOCAL :: WASMOpcode where "WASM_OP_GET_LOCAL \<equiv> 0x20"
abbreviation WASM_OP_SET_LOCAL :: WASMOpcode where "WASM_OP_SET_LOCAL \<equiv> 0x21"
abbreviation WASM_OP_TEE_LOCAL :: WASMOpcode where "WASM_OP_TEE_LOCAL \<equiv> 0x22"
abbreviation WASM_OP_GET_GLOBAL :: WASMOpcode where "WASM_OP_GET_GLOBAL \<equiv> 0x23"
abbreviation WASM_OP_SET_GLOBAL :: WASMOpcode where "WASM_OP_SET_GLOBAL \<equiv> 0x24"
abbreviation WASM_OP_TABLE_GET :: WASMOpcode where "WASM_OP_TABLE_GET \<equiv> 0x25"
abbreviation WASM_OP_TABLE_SET :: WASMOpcode where "WASM_OP_TABLE_SET \<equiv> 0x26"
abbreviation WASM_OP_I32_LOAD :: WASMOpcode where "WASM_OP_I32_LOAD \<equiv> 0x28"
abbreviation WASM_OP_I64_LOAD :: WASMOpcode where "WASM_OP_I64_LOAD \<equiv> 0x29"
abbreviation WASM_OP_F32_LOAD :: WASMOpcode where "WASM_OP_F32_LOAD \<equiv> 0x2a"
abbreviation WASM_OP_F64_LOAD :: WASMOpcode where "WASM_OP_F64_LOAD \<equiv> 0x2b"
abbreviation WASM_OP_I32_LOAD8_S :: WASMOpcode where "WASM_OP_I32_LOAD8_S \<equiv> 0x2c"
abbreviation WASM_OP_I32_LOAD8_U :: WASMOpcode where "WASM_OP_I32_LOAD8_U \<equiv> 0x2d"
abbreviation WASM_OP_I32_LOAD16_S :: WASMOpcode where "WASM_OP_I32_LOAD16_S \<equiv> 0x2e"
abbreviation WASM_OP_I32_LOAD16_U :: WASMOpcode where "WASM_OP_I32_LOAD16_U \<equiv> 0x2f"
abbreviation WASM_OP_I64_LOAD8_S :: WASMOpcode where "WASM_OP_I64_LOAD8_S \<equiv> 0x30"
abbreviation WASM_OP_I64_LOAD8_U :: WASMOpcode where "WASM_OP_I64_LOAD8_U \<equiv> 0x31"
abbreviation WASM_OP_I64_LOAD16_S :: WASMOpcode where "WASM_OP_I64_LOAD16_S \<equiv> 0x32"
abbreviation WASM_OP_I64_LOAD16_U :: WASMOpcode where "WASM_OP_I64_LOAD16_U \<equiv> 0x33"
abbreviation WASM_OP_I64_LOAD32_S :: WASMOpcode where "WASM_OP_I64_LOAD32_S \<equiv> 0x34"
abbreviation WASM_OP_I64_LOAD32_U :: WASMOpcode where "WASM_OP_I64_LOAD32_U \<equiv> 0x35"
abbreviation WASM_OP_I32_STORE :: WASMOpcode where "WASM_OP_I32_STORE \<equiv> 0x36"
abbreviation WASM_OP_I64_STORE :: WASMOpcode where "WASM_OP_I64_STORE \<equiv> 0x37"
abbreviation WASM_OP_F32_STORE :: WASMOpcode where "WASM_OP_F32_STORE \<equiv> 0x38"
abbreviation WASM_OP_F64_STORE :: WASMOpcode where "WASM_OP_F64_STORE \<equiv> 0x39"
abbreviation WASM_OP_I32_STORE8 :: WASMOpcode where "WASM_OP_I32_STORE8 \<equiv> 0x3a"
abbreviation WASM_OP_I32_STORE16 :: WASMOpcode where "WASM_OP_I32_STORE16 \<equiv> 0x3b"
abbreviation WASM_OP_I64_STORE8 :: WASMOpcode where "WASM_OP_I64_STORE8 \<equiv> 0x3c"
abbreviation WASM_OP_I64_STORE16 :: WASMOpcode where "WASM_OP_I64_STORE16 \<equiv> 0x3d"
abbreviation WASM_OP_I64_STORE32 :: WASMOpcode where "WASM_OP_I64_STORE32 \<equiv> 0x3e"
abbreviation WASM_OP_MEMORY_SIZE :: WASMOpcode where "WASM_OP_MEMORY_SIZE \<equiv> 0x3f"
abbreviation WASM_OP_MEMORY_GROW :: WASMOpcode where "WASM_OP_MEMORY_GROW \<equiv> 0x40"
abbreviation WASM_OP_I32_CONST :: WASMOpcode where "WASM_OP_I32_CONST \<equiv> 0x41"
abbreviation WASM_OP_I64_CONST :: WASMOpcode where "WASM_OP_I64_CONST \<equiv> 0x42"
abbreviation WASM_OP_F32_CONST :: WASMOpcode where "WASM_OP_F32_CONST \<equiv> 0x43"
abbreviation WASM_OP_F64_CONST :: WASMOpcode where "WASM_OP_F64_CONST \<equiv> 0x44"
abbreviation WASM_OP_I32_EQZ :: WASMOpcode where "WASM_OP_I32_EQZ \<equiv> 0x45"
abbreviation WASM_OP_I32_EQ :: WASMOpcode where "WASM_OP_I32_EQ \<equiv> 0x46"
abbreviation WASM_OP_I32_NE :: WASMOpcode where "WASM_OP_I32_NE \<equiv> 0x47"
abbreviation WASM_OP_I32_LT_S :: WASMOpcode where "WASM_OP_I32_LT_S \<equiv> 0x48"
abbreviation WASM_OP_I32_LT_U :: WASMOpcode where "WASM_OP_I32_LT_U \<equiv> 0x49"
abbreviation WASM_OP_I32_GT_S :: WASMOpcode where "WASM_OP_I32_GT_S \<equiv> 0x4a"
abbreviation WASM_OP_I32_GT_U :: WASMOpcode where "WASM_OP_I32_GT_U \<equiv> 0x4b"
abbreviation WASM_OP_I32_LE_S :: WASMOpcode where "WASM_OP_I32_LE_S \<equiv> 0x4c"
abbreviation WASM_OP_I32_LE_U :: WASMOpcode where "WASM_OP_I32_LE_U \<equiv> 0x4d"
abbreviation WASM_OP_I32_GE_S :: WASMOpcode where "WASM_OP_I32_GE_S \<equiv> 0x4e"
abbreviation WASM_OP_I32_GE_U :: WASMOpcode where "WASM_OP_I32_GE_U \<equiv> 0x4f"
abbreviation WASM_OP_I64_EQZ :: WASMOpcode where "WASM_OP_I64_EQZ \<equiv> 0x50"
abbreviation WASM_OP_I64_EQ :: WASMOpcode where "WASM_OP_I64_EQ \<equiv> 0x51"
abbreviation WASM_OP_I64_NE :: WASMOpcode where "WASM_OP_I64_NE \<equiv> 0x52"
abbreviation WASM_OP_I64_LT_S :: WASMOpcode where "WASM_OP_I64_LT_S \<equiv> 0x53"
abbreviation WASM_OP_I64_LT_U :: WASMOpcode where "WASM_OP_I64_LT_U \<equiv> 0x54"
abbreviation WASM_OP_I64_GT_S :: WASMOpcode where "WASM_OP_I64_GT_S \<equiv> 0x55"
abbreviation WASM_OP_I64_GT_U :: WASMOpcode where "WASM_OP_I64_GT_U \<equiv> 0x56"
abbreviation WASM_OP_I64_LE_S :: WASMOpcode where "WASM_OP_I64_LE_S \<equiv> 0x57"
abbreviation WASM_OP_I64_LE_U :: WASMOpcode where "WASM_OP_I64_LE_U \<equiv> 0x58"
abbreviation WASM_OP_I64_GE_S :: WASMOpcode where "WASM_OP_I64_GE_S \<equiv> 0x59"
abbreviation WASM_OP_I64_GE_U :: WASMOpcode where "WASM_OP_I64_GE_U \<equiv> 0x5a"
abbreviation WASM_OP_F32_EQ :: WASMOpcode where "WASM_OP_F32_EQ \<equiv> 0x5b"
abbreviation WASM_OP_F32_NE :: WASMOpcode where "WASM_OP_F32_NE \<equiv> 0x5c"
abbreviation WASM_OP_F32_LT :: WASMOpcode where "WASM_OP_F32_LT \<equiv> 0x5d"
abbreviation WASM_OP_F32_GT :: WASMOpcode where "WASM_OP_F32_GT \<equiv> 0x5e"
abbreviation WASM_OP_F32_LE :: WASMOpcode where "WASM_OP_F32_LE \<equiv> 0x5f"
abbreviation WASM_OP_F32_GE :: WASMOpcode where "WASM_OP_F32_GE \<equiv> 0x60"
abbreviation WASM_OP_F64_EQ :: WASMOpcode where "WASM_OP_F64_EQ \<equiv> 0x61"
abbreviation WASM_OP_F64_NE :: WASMOpcode where "WASM_OP_F64_NE \<equiv> 0x62"
abbreviation WASM_OP_F64_LT :: WASMOpcode where "WASM_OP_F64_LT \<equiv> 0x63"
abbreviation WASM_OP_F64_GT :: WASMOpcode where "WASM_OP_F64_GT \<equiv> 0x64"
abbreviation WASM_OP_F64_LE :: WASMOpcode where "WASM_OP_F64_LE \<equiv> 0x65"
abbreviation WASM_OP_F64_GE :: WASMOpcode where "WASM_OP_F64_GE \<equiv> 0x66"
abbreviation WASM_OP_I32_CLZ :: WASMOpcode where "WASM_OP_I32_CLZ \<equiv> 0x67"
abbreviation WASM_OP_I32_CTZ :: WASMOpcode where "WASM_OP_I32_CTZ \<equiv> 0x68"
abbreviation WASM_OP_I32_POPCNT :: WASMOpcode where "WASM_OP_I32_POPCNT \<equiv> 0x69"
abbreviation WASM_OP_I32_ADD :: WASMOpcode where "WASM_OP_I32_ADD \<equiv> 0x6a"
abbreviation WASM_OP_I32_SUB :: WASMOpcode where "WASM_OP_I32_SUB \<equiv> 0x6b"
abbreviation WASM_OP_I32_MUL :: WASMOpcode where "WASM_OP_I32_MUL \<equiv> 0x6c"
abbreviation WASM_OP_I32_DIV_S :: WASMOpcode where "WASM_OP_I32_DIV_S \<equiv> 0x6d"
abbreviation WASM_OP_I32_DIV_U :: WASMOpcode where "WASM_OP_I32_DIV_U \<equiv> 0x6e"
abbreviation WASM_OP_I32_REM_S :: WASMOpcode where "WASM_OP_I32_REM_S \<equiv> 0x6f"
abbreviation WASM_OP_I32_REM_U :: WASMOpcode where "WASM_OP_I32_REM_U \<equiv> 0x70"
abbreviation WASM_OP_I32_AND :: WASMOpcode where "WASM_OP_I32_AND \<equiv> 0x71"
abbreviation WASM_OP_I32_OR :: WASMOpcode where "WASM_OP_I32_OR \<equiv> 0x72"
abbreviation WASM_OP_I32_XOR :: WASMOpcode where "WASM_OP_I32_XOR \<equiv> 0x73"
abbreviation WASM_OP_I32_SHL :: WASMOpcode where "WASM_OP_I32_SHL \<equiv> 0x74"
abbreviation WASM_OP_I32_SHR_S :: WASMOpcode where "WASM_OP_I32_SHR_S \<equiv> 0x75"
abbreviation WASM_OP_I32_SHR_U :: WASMOpcode where "WASM_OP_I32_SHR_U \<equiv> 0x76"
abbreviation WASM_OP_I32_ROTL :: WASMOpcode where "WASM_OP_I32_ROTL \<equiv> 0x77"
abbreviation WASM_OP_I32_ROTR :: WASMOpcode where "WASM_OP_I32_ROTR \<equiv> 0x78"
abbreviation WASM_OP_I64_CLZ :: WASMOpcode where "WASM_OP_I64_CLZ \<equiv> 0x79"
abbreviation WASM_OP_I64_CTZ :: WASMOpcode where "WASM_OP_I64_CTZ \<equiv> 0x7a"
abbreviation WASM_OP_I64_POPCNT :: WASMOpcode where "WASM_OP_I64_POPCNT \<equiv> 0x7b"
abbreviation WASM_OP_I64_ADD :: WASMOpcode where "WASM_OP_I64_ADD \<equiv> 0x7c"
abbreviation WASM_OP_I64_SUB :: WASMOpcode where "WASM_OP_I64_SUB \<equiv> 0x7d"
abbreviation WASM_OP_I64_MUL :: WASMOpcode where "WASM_OP_I64_MUL \<equiv> 0x7e"
abbreviation WASM_OP_I64_DIV_S :: WASMOpcode where "WASM_OP_I64_DIV_S \<equiv> 0x7f"
abbreviation WASM_OP_I64_DIV_U :: WASMOpcode where "WASM_OP_I64_DIV_U \<equiv> 0x80"
abbreviation WASM_OP_I64_REM_S :: WASMOpcode where "WASM_OP_I64_REM_S \<equiv> 0x81"
abbreviation WASM_OP_I64_REM_U :: WASMOpcode where "WASM_OP_I64_REM_U \<equiv> 0x82"
abbreviation WASM_OP_I64_AND :: WASMOpcode where "WASM_OP_I64_AND \<equiv> 0x83"
abbreviation WASM_OP_I64_OR :: WASMOpcode where "WASM_OP_I64_OR \<equiv> 0x84"
abbreviation WASM_OP_I64_XOR :: WASMOpcode where "WASM_OP_I64_XOR \<equiv> 0x85"
abbreviation WASM_OP_I64_SHL :: WASMOpcode where "WASM_OP_I64_SHL \<equiv> 0x86"
abbreviation WASM_OP_I64_SHR_S :: WASMOpcode where "WASM_OP_I64_SHR_S \<equiv> 0x87"
abbreviation WASM_OP_I64_SHR_U :: WASMOpcode where "WASM_OP_I64_SHR_U \<equiv> 0x88"
abbreviation WASM_OP_I64_ROTL :: WASMOpcode where "WASM_OP_I64_ROTL \<equiv> 0x89"
abbreviation WASM_OP_I64_ROTR :: WASMOpcode where "WASM_OP_I64_ROTR \<equiv> 0x8a"
abbreviation WASM_OP_F32_ABS :: WASMOpcode where "WASM_OP_F32_ABS \<equiv> 0x8b"
abbreviation WASM_OP_F32_NEG :: WASMOpcode where "WASM_OP_F32_NEG \<equiv> 0x8c"
abbreviation WASM_OP_F32_CEIL :: WASMOpcode where "WASM_OP_F32_CEIL \<equiv> 0x8d"
abbreviation WASM_OP_F32_FLOOR :: WASMOpcode where "WASM_OP_F32_FLOOR \<equiv> 0x8e"
abbreviation WASM_OP_F32_TRUNC :: WASMOpcode where "WASM_OP_F32_TRUNC \<equiv> 0x8f"
abbreviation WASM_OP_F32_NEAREST :: WASMOpcode where "WASM_OP_F32_NEAREST \<equiv> 0x90"
abbreviation WASM_OP_F32_SQRT :: WASMOpcode where "WASM_OP_F32_SQRT \<equiv> 0x91"
abbreviation WASM_OP_F32_ADD :: WASMOpcode where "WASM_OP_F32_ADD \<equiv> 0x92"
abbreviation WASM_OP_F32_SUB :: WASMOpcode where "WASM_OP_F32_SUB \<equiv> 0x93"
abbreviation WASM_OP_F32_MUL :: WASMOpcode where "WASM_OP_F32_MUL \<equiv> 0x94"
abbreviation WASM_OP_F32_DIV :: WASMOpcode where "WASM_OP_F32_DIV \<equiv> 0x95"
abbreviation WASM_OP_F32_MIN :: WASMOpcode where "WASM_OP_F32_MIN \<equiv> 0x96"
abbreviation WASM_OP_F32_MAX :: WASMOpcode where "WASM_OP_F32_MAX \<equiv> 0x97"
abbreviation WASM_OP_F32_COPYSIGN :: WASMOpcode where "WASM_OP_F32_COPYSIGN \<equiv> 0x98"
abbreviation WASM_OP_F64_ABS :: WASMOpcode where "WASM_OP_F64_ABS \<equiv> 0x99"
abbreviation WASM_OP_F64_NEG :: WASMOpcode where "WASM_OP_F64_NEG \<equiv> 0x9a"
abbreviation WASM_OP_F64_CEIL :: WASMOpcode where "WASM_OP_F64_CEIL \<equiv> 0x9b"
abbreviation WASM_OP_F64_FLOOR :: WASMOpcode where "WASM_OP_F64_FLOOR \<equiv> 0x9c"
abbreviation WASM_OP_F64_TRUNC :: WASMOpcode where "WASM_OP_F64_TRUNC \<equiv> 0x9d"
abbreviation WASM_OP_F64_NEAREST :: WASMOpcode where "WASM_OP_F64_NEAREST \<equiv> 0x9e"
abbreviation WASM_OP_F64_SQRT :: WASMOpcode where "WASM_OP_F64_SQRT \<equiv> 0x9f"
abbreviation WASM_OP_F64_ADD :: WASMOpcode where "WASM_OP_F64_ADD \<equiv> 0xa0"
abbreviation WASM_OP_F64_SUB :: WASMOpcode where "WASM_OP_F64_SUB \<equiv> 0xa1"
abbreviation WASM_OP_F64_MUL :: WASMOpcode where "WASM_OP_F64_MUL \<equiv> 0xa2"
abbreviation WASM_OP_F64_DIV :: WASMOpcode where "WASM_OP_F64_DIV \<equiv> 0xa3"
abbreviation WASM_OP_F64_MIN :: WASMOpcode where "WASM_OP_F64_MIN \<equiv> 0xa4"
abbreviation WASM_OP_F64_MAX :: WASMOpcode where "WASM_OP_F64_MAX \<equiv> 0xa5"
abbreviation WASM_OP_F64_COPYSIGN :: WASMOpcode where "WASM_OP_F64_COPYSIGN \<equiv> 0xa6"
abbreviation WASM_OP_I32_WRAP_I64 :: WASMOpcode where "WASM_OP_I32_WRAP_I64 \<equiv> 0xa7"
abbreviation WASM_OP_I32_TRUNC_S_F32 :: WASMOpcode where "WASM_OP_I32_TRUNC_S_F32 \<equiv> 0xa8"
abbreviation WASM_OP_I32_TRUNC_U_F32 :: WASMOpcode where "WASM_OP_I32_TRUNC_U_F32 \<equiv> 0xa9"
abbreviation WASM_OP_I32_TRUNC_S_F64 :: WASMOpcode where "WASM_OP_I32_TRUNC_S_F64 \<equiv> 0xaa"
abbreviation WASM_OP_I32_TRUNC_U_F64 :: WASMOpcode where "WASM_OP_I32_TRUNC_U_F64 \<equiv> 0xab"
abbreviation WASM_OP_I64_EXTEND_S_I32 :: WASMOpcode where "WASM_OP_I64_EXTEND_S_I32 \<equiv> 0xac"
abbreviation WASM_OP_I64_EXTEND_U_I32 :: WASMOpcode where "WASM_OP_I64_EXTEND_U_I32 \<equiv> 0xad"
abbreviation WASM_OP_I64_TRUNC_S_F32 :: WASMOpcode where "WASM_OP_I64_TRUNC_S_F32 \<equiv> 0xae"
abbreviation WASM_OP_I64_TRUNC_U_F32 :: WASMOpcode where "WASM_OP_I64_TRUNC_U_F32 \<equiv> 0xaf"
abbreviation WASM_OP_I64_TRUNC_S_F64 :: WASMOpcode where "WASM_OP_I64_TRUNC_S_F64 \<equiv> 0xb0"
abbreviation WASM_OP_I64_TRUNC_U_F64 :: WASMOpcode where "WASM_OP_I64_TRUNC_U_F64 \<equiv> 0xb1"
abbreviation WASM_OP_F32_CONVERT_S_I32 :: WASMOpcode where "WASM_OP_F32_CONVERT_S_I32 \<equiv> 0xb2"
abbreviation WASM_OP_F32_CONVERT_U_I32 :: WASMOpcode where "WASM_OP_F32_CONVERT_U_I32 \<equiv> 0xb3"
abbreviation WASM_OP_F32_CONVERT_S_I64 :: WASMOpcode where "WASM_OP_F32_CONVERT_S_I64 \<equiv> 0xb4"
abbreviation WASM_OP_F32_CONVERT_U_I64 :: WASMOpcode where "WASM_OP_F32_CONVERT_U_I64 \<equiv> 0xb5"
abbreviation WASM_OP_F32_DEMOTE_F64 :: WASMOpcode where "WASM_OP_F32_DEMOTE_F64 \<equiv> 0xb6"
abbreviation WASM_OP_F64_CONVERT_S_I32 :: WASMOpcode where "WASM_OP_F64_CONVERT_S_I32 \<equiv> 0xb7"
abbreviation WASM_OP_F64_CONVERT_U_I32 :: WASMOpcode where "WASM_OP_F64_CONVERT_U_I32 \<equiv> 0xb8"
abbreviation WASM_OP_F64_CONVERT_S_I64 :: WASMOpcode where "WASM_OP_F64_CONVERT_S_I64 \<equiv> 0xb9"
abbreviation WASM_OP_F64_CONVERT_U_I64 :: WASMOpcode where "WASM_OP_F64_CONVERT_U_I64 \<equiv> 0xba"
abbreviation WASM_OP_F64_PROMOTE_F32 :: WASMOpcode where "WASM_OP_F64_PROMOTE_F32 \<equiv> 0xbb"
abbreviation WASM_OP_I32_REINTERPRET_F32 :: WASMOpcode where "WASM_OP_I32_REINTERPRET_F32 \<equiv> 0xbc"
abbreviation WASM_OP_I64_REINTERPRET_F64 :: WASMOpcode where "WASM_OP_I64_REINTERPRET_F64 \<equiv> 0xbd"
abbreviation WASM_OP_F32_REINTERPRET_I32 :: WASMOpcode where "WASM_OP_F32_REINTERPRET_I32 \<equiv> 0xbe"
abbreviation WASM_OP_F64_REINTERPRET_I64 :: WASMOpcode where "WASM_OP_F64_REINTERPRET_I64 \<equiv> 0xbf"
abbreviation WASM_OP_I32_EXTEND8_S :: WASMOpcode where "WASM_OP_I32_EXTEND8_S \<equiv> 0xc0"
abbreviation WASM_OP_I32_EXTEND16_S :: WASMOpcode where "WASM_OP_I32_EXTEND16_S \<equiv> 0xc1"
abbreviation WASM_OP_I64_EXTEND8_S :: WASMOpcode where "WASM_OP_I64_EXTEND8_S \<equiv> 0xc2"
abbreviation WASM_OP_I64_EXTEND16_S :: WASMOpcode where "WASM_OP_I64_EXTEND16_S \<equiv> 0xc3"
abbreviation WASM_OP_I64_EXTEND32_S :: WASMOpcode where "WASM_OP_I64_EXTEND32_S \<equiv> 0xc4"
abbreviation WASM_OP_DROP_64 :: WASMOpcode where "WASM_OP_DROP_64 \<equiv> 0xc5"
abbreviation WASM_OP_SELECT_64 :: WASMOpcode where "WASM_OP_SELECT_64 \<equiv> 0xc6"
abbreviation EXT_OP_GET_LOCAL_FAST :: WASMOpcode where "EXT_OP_GET_LOCAL_FAST \<equiv> 0xc7"
abbreviation EXT_OP_SET_LOCAL_FAST_I64 :: WASMOpcode where "EXT_OP_SET_LOCAL_FAST_I64 \<equiv> 0xc8"
abbreviation EXT_OP_SET_LOCAL_FAST :: WASMOpcode where "EXT_OP_SET_LOCAL_FAST \<equiv> 0xc9"
abbreviation EXT_OP_TEE_LOCAL_FAST :: WASMOpcode where "EXT_OP_TEE_LOCAL_FAST \<equiv> 0xca"
abbreviation EXT_OP_TEE_LOCAL_FAST_I64 :: WASMOpcode where "EXT_OP_TEE_LOCAL_FAST_I64 \<equiv> 0xcb"
abbreviation EXT_OP_COPY_STACK_TOP :: WASMOpcode where "EXT_OP_COPY_STACK_TOP \<equiv> 0xcc"
abbreviation EXT_OP_COPY_STACK_TOP_I64 :: WASMOpcode where "EXT_OP_COPY_STACK_TOP_I64 \<equiv> 0xcd"
abbreviation EXT_OP_COPY_STACK_VALUES :: WASMOpcode where "EXT_OP_COPY_STACK_VALUES \<equiv> 0xce"
abbreviation WASM_OP_IMPDEP :: WASMOpcode where "WASM_OP_IMPDEP \<equiv> 0xcf"
abbreviation WASM_OP_REF_NULL :: WASMOpcode where "WASM_OP_REF_NULL \<equiv> 0xd0"
abbreviation WASM_OP_REF_IS_NULL :: WASMOpcode where "WASM_OP_REF_IS_NULL \<equiv> 0xd1"
abbreviation WASM_OP_REF_FUNC :: WASMOpcode where "WASM_OP_REF_FUNC \<equiv> 0xd2"
abbreviation EXT_OP_BLOCK :: WASMOpcode where "EXT_OP_BLOCK \<equiv> 0xd3"
abbreviation EXT_OP_LOOP :: WASMOpcode where "EXT_OP_LOOP \<equiv> 0xd4"
abbreviation EXT_OP_IF :: WASMOpcode where "EXT_OP_IF \<equiv> 0xd5"
abbreviation WASM_OP_MISC_PREFIX :: WASMOpcode where "WASM_OP_MISC_PREFIX \<equiv> 0xfc"
abbreviation WASM_OP_SIMD_PREFIX :: WASMOpcode where "WASM_OP_SIMD_PREFIX \<equiv> 0xfd"
abbreviation WASM_OP_ATOMIC_PREFIX :: WASMOpcode where "WASM_OP_ATOMIC_PREFIX \<equiv> 0xfe"

abbreviation WASM_OP_I32_TRUNC_SAT_S_F32 :: WASMMiscEXTOpcode where "WASM_OP_I32_TRUNC_SAT_S_F32 \<equiv> 0x00"
abbreviation WASM_OP_I32_TRUNC_SAT_U_F32 :: WASMMiscEXTOpcode where "WASM_OP_I32_TRUNC_SAT_U_F32 \<equiv> 0x01"
abbreviation WASM_OP_I32_TRUNC_SAT_S_F64 :: WASMMiscEXTOpcode where "WASM_OP_I32_TRUNC_SAT_S_F64 \<equiv> 0x02"
abbreviation WASM_OP_I32_TRUNC_SAT_U_F64 :: WASMMiscEXTOpcode where "WASM_OP_I32_TRUNC_SAT_U_F64 \<equiv> 0x03"
abbreviation WASM_OP_I64_TRUNC_SAT_S_F32 :: WASMMiscEXTOpcode where "WASM_OP_I64_TRUNC_SAT_S_F32 \<equiv> 0x04"
abbreviation WASM_OP_I64_TRUNC_SAT_U_F32 :: WASMMiscEXTOpcode where "WASM_OP_I64_TRUNC_SAT_U_F32 \<equiv> 0x05"
abbreviation WASM_OP_I64_TRUNC_SAT_S_F64 :: WASMMiscEXTOpcode where "WASM_OP_I64_TRUNC_SAT_S_F64 \<equiv> 0x06"
abbreviation WASM_OP_I64_TRUNC_SAT_U_F64 :: WASMMiscEXTOpcode where "WASM_OP_I64_TRUNC_SAT_U_F64 \<equiv> 0x07"
abbreviation WASM_OP_MEMORY_INIT :: WASMMiscEXTOpcode where "WASM_OP_MEMORY_INIT \<equiv> 0x08"
abbreviation WASM_OP_DATA_DROP :: WASMMiscEXTOpcode where "WASM_OP_DATA_DROP \<equiv> 0x09"
abbreviation WASM_OP_MEMORY_COPY :: WASMMiscEXTOpcode where "WASM_OP_MEMORY_COPY \<equiv> 0x0a"
abbreviation WASM_OP_MEMORY_FILL :: WASMMiscEXTOpcode where "WASM_OP_MEMORY_FILL \<equiv> 0x0b"
abbreviation WASM_OP_TABLE_INIT :: WASMMiscEXTOpcode where "WASM_OP_TABLE_INIT \<equiv> 0x0c"
abbreviation WASM_OP_ELEM_DROP :: WASMMiscEXTOpcode where "WASM_OP_ELEM_DROP \<equiv> 0x0d"
abbreviation WASM_OP_TABLE_COPY :: WASMMiscEXTOpcode where "WASM_OP_TABLE_COPY \<equiv> 0x0e"
abbreviation WASM_OP_TABLE_GROW :: WASMMiscEXTOpcode where "WASM_OP_TABLE_GROW \<equiv> 0x0f"
abbreviation WASM_OP_TABLE_SIZE :: WASMMiscEXTOpcode where "WASM_OP_TABLE_SIZE \<equiv> 0x10"
abbreviation WASM_OP_TABLE_FILL :: WASMMiscEXTOpcode where "WASM_OP_TABLE_FILL \<equiv> 0x11"

abbreviation VALUE_TYPE_I32 :: u8 where "VALUE_TYPE_I32 \<equiv> 0x7f"
abbreviation VALUE_TYPE_I64 :: u8 where "VALUE_TYPE_I64 \<equiv> 0x7e"
abbreviation VALUE_TYPE_F32 :: u8 where "VALUE_TYPE_F32 \<equiv> 0x7d"
abbreviation VALUE_TYPE_F64 :: u8 where "VALUE_TYPE_F64 \<equiv> 0x7c"
abbreviation VALUE_TYPE_V128 :: u8 where "VALUE_TYPE_V128 \<equiv> 0x7b"
abbreviation VALUE_TYPE_VOID :: u8 where "VALUE_TYPE_VOID \<equiv> 0x40"
abbreviation LABEL_TYPE_BLOCK :: u8 where "LABEL_TYPE_BLOCK \<equiv> 0"
abbreviation LABEL_TYPE_LOOP :: u8 where "LABEL_TYPE_LOOP \<equiv> 1"
abbreviation LABEL_TYPE_IF :: u8 where "LABEL_TYPE_IF \<equiv> 2"
abbreviation LABEL_TYPE_FUNCTION :: u8 where "LABEL_TYPE_FUNCTION \<equiv> 3"

end
