(* ===== verification/Block_Find.thy ===== *)
theory Block_Find
  imports Wasm_Types Leb128 Opcode "HOL-Library.Sublist"
begin

text \<open>
  \<open>wasm_loader_find_block_addr\<close> (wasm_loader.c): the interpreter's search for the \<open>else\<close> and the \<open>end\<close> of a block,
  with the cache of the execution environment. The code is the list of bytes from the start address to the end of
  the function's code; the interpreter passes no end address, so running off the list is an undefined read.
\<close>

section \<open>Skipping an instruction\<close>

text \<open>The immediates of an instruction that does not open or close a block: \<open>Inr None\<close> is an opcode that makes
  the search fail.\<close>

definition skip_bytes :: "nat \<Rightarrow> byte list \<Rightarrow> byte list option res" where
  "skip_bytes n bs = (if length bs < n then Inl (UB ''read past the buffer'') else Inr (Some (drop n bs)))"

definition skip_one :: "byte list \<Rightarrow> byte list option res" where
  "skip_one bs = bind_res (skip_leb bs) (\<lambda>rest. Inr (Some rest))"

fun skip_lebs :: "nat \<Rightarrow> byte list \<Rightarrow> byte list option res" where
  "skip_lebs 0 bs = Inr (Some bs)"
| "skip_lebs (Suc n) bs = bind_res (skip_leb bs) (skip_lebs n)"

text \<open>The loader's \<open>read_leb_uint32\<close> with an end address that is never reached.\<close>

definition find_leb_uint32 :: "byte list \<Rightarrow> (u32 \<times> byte list) option res" where
  "find_leb_uint32 bs = (case wl_read_leb bs 32 False of
      Inr (v, rest) \<Rightarrow> Inr (Some (ucast v, rest))
    | Inl e \<Rightarrow> if e = ''unexpected end of section or function'' then Inl (UB ''read past the buffer'') else Inr None)"

fun skip_targets :: "(u32 \<times> byte list) option \<Rightarrow> byte list option res" where
  "skip_targets None = Inr None"
| "skip_targets (Some (count, rest)) = skip_lebs (unat count + 1) rest"

fun skip_misc :: "(u32 \<times> byte list) option \<Rightarrow> byte list option res" where
  "skip_misc None = Inr None"
| "skip_misc (Some (opcode1, rest)) = (if opcode1 \<le> ucast WASM_OP_I64_TRUNC_SAT_U_F64 then Inr (Some rest) else Inr None)"

definition skip_imm :: "u8 \<Rightarrow> byte list \<Rightarrow> byte list option res" where
  "skip_imm opcode bs =
     (if opcode \<in> {WASM_OP_UNREACHABLE, WASM_OP_NOP, WASM_OP_RETURN, WASM_OP_DROP, WASM_OP_SELECT, WASM_OP_DROP_64, WASM_OP_SELECT_64}
        \<or> WASM_OP_I32_EQZ \<le> opcode \<and> opcode \<le> WASM_OP_I64_EXTEND32_S then Inr (Some bs)
      else if opcode \<in> {WASM_OP_BR, WASM_OP_BR_IF, WASM_OP_CALL, WASM_OP_GET_GLOBAL_64, WASM_OP_SET_GLOBAL_64,
          WASM_OP_SET_GLOBAL_AUX_STACK, WASM_OP_GET_LOCAL, WASM_OP_SET_LOCAL, WASM_OP_TEE_LOCAL, WASM_OP_GET_GLOBAL,
          WASM_OP_SET_GLOBAL, WASM_OP_MEMORY_SIZE, WASM_OP_MEMORY_GROW, WASM_OP_I32_CONST, WASM_OP_I64_CONST} then skip_one bs
      else if WASM_OP_I32_LOAD \<le> opcode \<and> opcode \<le> WASM_OP_I64_STORE32 then skip_lebs 2 bs
      else if opcode = WASM_OP_BR_TABLE then
        bind_res (find_leb_uint32 bs) skip_targets
      else if opcode = WASM_OP_CALL_INDIRECT then bind_res (skip_leb bs) (skip_bytes 1)
      else if opcode \<in> {EXT_OP_GET_LOCAL_FAST, EXT_OP_SET_LOCAL_FAST, EXT_OP_TEE_LOCAL_FAST} then skip_bytes 1 bs
      else if opcode = WASM_OP_F32_CONST then skip_bytes 4 bs
      else if opcode = WASM_OP_F64_CONST then skip_bytes 8 bs
      else if opcode = WASM_OP_MISC_PREFIX then
        bind_res (find_leb_uint32 bs) skip_misc
      else Inr None)"

text \<open>The opcodes that open a block, and the block type that follows: one byte, or an index for the extended forms.\<close>

definition opens_block :: "u8 \<Rightarrow> bool" where
  "opens_block opcode \<longleftrightarrow> opcode \<in> {WASM_OP_BLOCK, WASM_OP_LOOP, WASM_OP_IF, EXT_OP_BLOCK, EXT_OP_LOOP, EXT_OP_IF}"

definition skip_block_type :: "u8 \<Rightarrow> byte list \<Rightarrow> byte list res" where
  "skip_block_type opcode bs =
     (if opcode \<in> {WASM_OP_BLOCK, WASM_OP_LOOP, WASM_OP_IF}
      then case bs of [] \<Rightarrow> Inl (UB ''read past the buffer'') | _ # rest \<Rightarrow> Inr rest
      else skip_leb bs)"

section \<open>The search\<close>

definition block_stack_size :: nat where "block_stack_size = 16"

definition null_addr :: BlockAddr where "null_addr = \<lparr>ba_start_addr = 0, ba_else_addr = 0, ba_end_addr = 0\<rparr>"

text \<open>An update of an entry of \<open>block_stack\<close> that is skipped when the nesting is deeper than the array.\<close>

definition stack_upd :: "nat \<Rightarrow> (BlockAddr \<Rightarrow> BlockAddr) \<Rightarrow> BlockAddr list \<Rightarrow> BlockAddr list" where
  "stack_upd d f st = (if d < block_stack_size then st[d := f (st ! d)] else st)"

text \<open>Writing one entry into its row of the cache: the first free slot, or the first slot after the row has been
  moved down.\<close>

definition cache_slot :: "addr \<Rightarrow> nat" where
  "cache_slot a = 2 * unat (a AND 63)"

definition cache_put :: "BlockAddr \<Rightarrow> BlockAddr list \<Rightarrow> BlockAddr list" where
  "cache_put e cache = (let k = cache_slot (ba_start_addr e) in
     if ba_start_addr (cache ! k) = 0 then cache[k := e]
     else if ba_start_addr (cache ! Suc k) = 0 then cache[Suc k := e]
     else cache[Suc k := cache ! k, k := e])"

fun cache_fill :: "BlockAddr list \<Rightarrow> BlockAddr list \<Rightarrow> BlockAddr list" where
  "cache_fill [] cache = cache"
| "cache_fill (e # es) cache = (if ba_start_addr e = 0 then cache else cache_fill es (cache_put e cache))"

text \<open>The loop. \<open>p\<close> is the address of the first byte of the list. The result is NULL or the new value of the else
  address (only for an if), the end address and the new cache.\<close>

type_synonym found = "(addr option \<times> addr \<times> BlockAddr list) option"

lemma skip_leb_suffix: "skip_leb bs = Inr rest \<Longrightarrow> suffix rest bs"
  by (induction bs) (auto split: if_splits intro: suffix_ConsI)

lemma skip_lebs_suffix: "skip_lebs n bs = Inr (Some rest) \<Longrightarrow> suffix rest bs"
  by (induction n arbitrary: bs) (auto simp: bind_res_eq_Inr dest!: skip_leb_suffix intro: suffix_order.trans)

lemma wl_loop_suffix: "wl_leb_loop mb r s k bs = Inr (r', s', b, rest) \<Longrightarrow> suffix rest bs"
proof (induction bs arbitrary: r s k)
  case (Cons c cs) then show ?case
    by (subst (asm) wl_leb_loop.simps) (auto simp: Let_def split: if_splits intro: suffix_ConsI)
qed (simp add: wl_leb_loop.simps split: if_splits)

lemma find_leb_suffix: "find_leb_uint32 bs = Inr (Some (v, rest)) \<Longrightarrow> suffix rest bs"
  by (auto simp: find_leb_uint32_def wl_read_leb_def split: sum.splits if_splits prod.splits dest: wl_loop_suffix)

lemma skip_after_suffix:
  "skip_targets r = Inr (Some rest) \<Longrightarrow> \<exists>n tail. r = Some (n, tail) \<and> suffix rest tail"
  "skip_misc r = Inr (Some rest) \<Longrightarrow> \<exists>n tail. r = Some (n, tail) \<and> suffix rest tail"
  by (cases r; force simp del: skip_lebs.simps dest: skip_lebs_suffix split: if_splits)+

lemma skip_imm_suffix: "skip_imm opcode bs = Inr (Some rest) \<Longrightarrow> suffix rest bs"
  by (auto simp: skip_imm_def skip_one_def skip_bytes_def bind_res_eq_Inr suffix_drop split: if_splits
      dest!: skip_leb_suffix find_leb_suffix skip_lebs_suffix skip_after_suffix intro: suffix_order.trans [OF suffix_drop] suffix_order.trans)

lemma skip_block_type_suffix: "skip_block_type opcode bs = Inr rest \<Longrightarrow> suffix rest bs"
  by (auto simp: skip_block_type_def split: if_splits list.splits intro: suffix_ConsI dest: skip_leb_suffix)

lemmas skip_suffix = skip_imm_suffix skip_block_type_suffix

function scan_block :: "u8 \<Rightarrow> addr \<Rightarrow> byte list \<Rightarrow> nat \<Rightarrow> BlockAddr list \<Rightarrow> addr \<Rightarrow> BlockAddr list \<Rightarrow> found res" where
  "scan_block label p [] depth st els cache = Inl (UB ''read past the buffer'')"
| "scan_block label p (opcode # bs) depth st els cache =
     (let next = (\<lambda>rest. p + of_nat (length (opcode # bs) - length rest)) in
      if opens_block opcode then
        (case skip_block_type opcode bs of Inl e \<Rightarrow> Inl e
         | Inr rest \<Rightarrow> scan_block label (next rest) rest (depth + 1)
             (stack_upd depth (\<lambda>b. b\<lparr>ba_start_addr := next rest, ba_else_addr := 0\<rparr>) st) els cache)
      else if opcode = WASM_OP_ELSE then
        scan_block label (p + 1) bs depth (stack_upd (depth - 1) (\<lambda>b. b\<lparr>ba_else_addr := p\<rparr>) st)
          (if label = LABEL_TYPE_IF \<and> depth = 1 then p else els) cache
      else if opcode = WASM_OP_END then
        (if depth = 1 then
           Inr (Some (if label = LABEL_TYPE_IF then Some els else None, p,
             cache_fill (st[0 := (st ! 0)\<lparr>ba_end_addr := p\<rparr>]) cache))
         else scan_block label (p + 1) bs (depth - 1) (stack_upd (depth - 1) (\<lambda>b. b\<lparr>ba_end_addr := p\<rparr>) st) els cache)
      else (case skip_imm opcode bs of Inl e \<Rightarrow> Inl e | Inr None \<Rightarrow> Inr None
            | Inr (Some rest) \<Rightarrow> scan_block label (next rest) rest depth st els cache))"
  by pat_completeness auto
termination
  by (relation "measure (\<lambda>(_, _, bs, _). length bs)")
    (auto dest!: skip_suffix suffix_length_le)

definition wasm_loader_find_block_addr :: "BlockAddr list \<Rightarrow> addr \<Rightarrow> byte list \<Rightarrow> u8 \<Rightarrow> found res" where
  "wasm_loader_find_block_addr cache start bs label =
     (let k = cache_slot start in
      if ba_start_addr (cache ! k) = start then
        Inr (Some (Some (ba_else_addr (cache ! k)), ba_end_addr (cache ! k), cache))
      else if ba_start_addr (cache ! Suc k) = start then
        Inr (Some (Some (ba_else_addr (cache ! Suc k)), ba_end_addr (cache ! Suc k), cache))
      else scan_block label start bs 1 ((replicate block_stack_size null_addr)[0 := null_addr\<lparr>ba_start_addr := start\<rparr>]) 0 cache)"

section \<open>The reference search\<close>

text \<open>The search without stack and cache: the \<open>else\<close> (or 0) and the \<open>end\<close> that belong to nesting depth one.\<close>

function ref_scan :: "addr \<Rightarrow> byte list \<Rightarrow> nat \<Rightarrow> addr \<Rightarrow> (addr \<times> addr) option res" where
  "ref_scan p [] depth els = Inl (UB ''read past the buffer'')"
| "ref_scan p (opcode # bs) depth els =
     (let next = (\<lambda>rest. p + of_nat (length (opcode # bs) - length rest)) in
      if opens_block opcode then
        (case skip_block_type opcode bs of Inl e \<Rightarrow> Inl e | Inr rest \<Rightarrow> ref_scan (next rest) rest (depth + 1) els)
      else if opcode = WASM_OP_ELSE then ref_scan (p + 1) bs depth (if depth = 1 then p else els)
      else if opcode = WASM_OP_END then
        (if depth = 1 then Inr (Some (els, p)) else ref_scan (p + 1) bs (depth - 1) els)
      else (case skip_imm opcode bs of Inl e \<Rightarrow> Inl e | Inr None \<Rightarrow> Inr None
            | Inr (Some rest) \<Rightarrow> ref_scan (next rest) rest depth els))"
  by pat_completeness auto
termination
  by (relation "measure (\<lambda>(_, bs, _). length bs)") (auto dest!: skip_suffix suffix_length_le)

definition code_from :: "addr \<Rightarrow> byte list \<Rightarrow> addr \<Rightarrow> byte list" where
  "code_from base code a = drop (unat (a - base)) code"

definition block_ref :: "addr \<Rightarrow> byte list \<Rightarrow> addr \<Rightarrow> (addr \<times> addr) option res" where
  "block_ref base code a = ref_scan a (code_from base code a) 1 0"

definition block_entry_ok :: "addr \<Rightarrow> byte list \<Rightarrow> BlockAddr \<Rightarrow> bool" where
  "block_entry_ok base code e \<longleftrightarrow> ba_start_addr e = 0 \<or> block_ref base code (ba_start_addr e) = Inr (Some (ba_else_addr e, ba_end_addr e))"

definition cache_ok :: "addr \<Rightarrow> byte list \<Rightarrow> BlockAddr list \<Rightarrow> bool" where
  "cache_ok base code cache \<longleftrightarrow> length cache = 128 \<and> list_all (block_entry_ok base code) cache"

text \<open>The stack of the search: an entry below the depth waits for its end, an entry above it is complete.\<close>

definition stack_ok :: "addr \<Rightarrow> byte list \<Rightarrow> addr \<Rightarrow> byte list \<Rightarrow> nat \<Rightarrow> BlockAddr list \<Rightarrow> bool" where
  "stack_ok base code p bs d st \<longleftrightarrow> length st = block_stack_size \<and>
     (\<forall>t < block_stack_size. ba_start_addr (st ! t) \<noteq> 0 \<longrightarrow>
        block_ref base code (ba_start_addr (st ! t)) =
          (if t < d then ref_scan p bs (d - t) (ba_else_addr (st ! t)) else Inr (Some (ba_else_addr (st ! t), ba_end_addr (st ! t)))))"

definition code_at :: "addr \<Rightarrow> byte list \<Rightarrow> addr \<Rightarrow> byte list \<Rightarrow> bool" where
  "code_at base code p bs \<longleftrightarrow> suffix bs code \<and> p = base + of_nat (length code - length bs)"

section \<open>The cache agrees with the search\<close>

lemma code_at_skip:
  assumes "code_at base code p bs" "suffix rest bs"
  shows "code_at base code (p + of_nat (length bs - length rest)) rest"
  using assms suffix_length_le [of bs code] suffix_length_le [of rest bs]
  by (auto simp: code_at_def intro: suffix_order.trans simp flip: of_nat_add)

lemma code_from_at:
  assumes "code_at base code p bs" "length code < 2 ^ 64"
  shows "code_from base code p = bs"
proof -
  have "unat (of_nat (length code - length bs) :: u64) = length code - length bs"
    using assms(2) by (simp add: unat_of_nat take_bit_nat_eq_self)
  then show ?thesis using assms(1) by (auto simp: code_at_def code_from_def suffix_def)
qed

lemma stack_ok_open:
  assumes "stack_ok base code p (opcode # bs) d st" "opens_block opcode" "skip_block_type opcode bs = Inr rest"
    and "code_at base code p (opcode # bs)" "length code < 2 ^ 64"
    and "p' = p + of_nat (length (opcode # bs) - length rest)"
  shows "stack_ok base code p' rest (d + 1) (stack_upd d (\<lambda>b. b\<lparr>ba_start_addr := p', ba_else_addr := 0\<rparr>) st)"
proof -
  have c: "code_from base code p' = rest"
    using code_from_at [OF code_at_skip [OF assms(4)] assms(5)] skip_block_type_suffix [OF assms(3)] assms(6)
    by (auto intro: suffix_ConsI)
  have r: "block_ref base code p' = ref_scan p' rest 1 0" by (simp add: block_ref_def c)
  have n: "ref_scan p (opcode # bs) k e = ref_scan p' rest (Suc k) e" for k e using assms(2,3,6) by simp
  show ?thesis using assms(1) r
    by (auto simp: stack_ok_def stack_upd_def nth_list_update n Suc_diff_le less_Suc_eq simp del: ref_scan.simps)
qed

lemma stack_ok_else:
  assumes "stack_ok base code p (WASM_OP_ELSE # bs) d st" "0 < d"
  shows "stack_ok base code (p + 1) bs d (stack_upd (d - 1) (\<lambda>b. b\<lparr>ba_else_addr := p\<rparr>) st)"
proof -
  have n: "ref_scan p (WASM_OP_ELSE # bs) k e = ref_scan (p + 1) bs k (if k = 1 then p else e)" for k e
    by (simp add: opens_block_def)
  show ?thesis using assms
    by (auto simp: stack_ok_def stack_upd_def nth_list_update n simp del: ref_scan.simps)
qed

lemma stack_ok_end:
  assumes "stack_ok base code p (WASM_OP_END # bs) d st" "1 < d"
  shows "stack_ok base code (p + 1) bs (d - 1) (stack_upd (d - 1) (\<lambda>b. b\<lparr>ba_end_addr := p\<rparr>) st)"
proof -
  have n: "ref_scan p (WASM_OP_END # bs) k e = (if k = 1 then Inr (Some (e, p)) else ref_scan (p + 1) bs (k - 1) e)" for k e
    by (simp add: opens_block_def)
  show ?thesis using assms
    by (auto simp: stack_ok_def stack_upd_def nth_list_update n simp del: ref_scan.simps)
qed

lemma stack_ok_skip:
  assumes "stack_ok base code p (opcode # bs) d st" "\<not> opens_block opcode" "opcode \<notin> {WASM_OP_ELSE, WASM_OP_END}"
    and "skip_imm opcode bs = Inr (Some rest)" "p' = p + of_nat (length (opcode # bs) - length rest)"
  shows "stack_ok base code p' rest d st"
proof -
  have n: "ref_scan p (opcode # bs) k e = ref_scan p' rest k e" for k e using assms(2-5) by simp
  show ?thesis using assms(1) by (simp add: stack_ok_def n del: ref_scan.simps)
qed

lemma stack_ok_done:
  assumes "stack_ok base code p (WASM_OP_END # bs) 1 st"
  shows "list_all (block_entry_ok base code) (st[0 := (st ! 0)\<lparr>ba_end_addr := p\<rparr>])"
proof -
  have n: "ref_scan p (WASM_OP_END # bs) 1 e = Inr (Some (e, p))" for e by (simp add: opens_block_def)
  have "block_entry_ok base code ((st ! 0)\<lparr>ba_end_addr := p\<rparr>)"
    using assms n by (force simp: block_entry_ok_def stack_ok_def block_stack_size_def simp del: ref_scan.simps)
  then show ?thesis using assms
    by (auto simp: list_all_length block_entry_ok_def stack_ok_def nth_list_update block_stack_size_def simp del: ref_scan.simps)
qed

lemma cache_put_ok:
  assumes "cache_ok base code cache" "block_entry_ok base code e"
  shows "cache_ok base code (cache_put e cache)"
proof -
  have k: "Suc (cache_slot (ba_start_addr e)) < 128"
  proof -
    have "unat (ba_start_addr e AND 63) \<le> 63"
      using word_and_le1 [of "ba_start_addr e" 63] by (simp add: word_le_nat_alt)
    then show ?thesis by (simp add: cache_slot_def)
  qed
  show ?thesis using assms k
    by (auto simp: cache_ok_def cache_put_def Let_def list_all_length nth_list_update)
qed

lemma cache_fill_ok:
  "cache_ok base code cache \<Longrightarrow> list_all (block_entry_ok base code) es \<Longrightarrow> cache_ok base code (cache_fill es cache)"
  by (induction es arbitrary: cache) (auto intro: cache_put_ok)

lemma scan_keeps_cache:
  assumes "scan_block label p bs d st els cache = Inr (Some (e, en, cache'))"
    and "stack_ok base code p bs d st" "code_at base code p bs" "length code < 2 ^ 64" "0 < d" "cache_ok base code cache"
  shows "cache_ok base code cache'"
  using assms
proof (induction label p bs d st els cache rule: scan_block.induct)
  case (2 label p opcode bs d st els cache)
  have suf: "code_at base code (p + of_nat (length (opcode # bs) - length rest)) rest" if "suffix rest bs" for rest
    using code_at_skip [OF 2(7)] that by (auto intro: suffix_ConsI)
  have one: "code_at base code (p + 1) bs" using suf [of bs] by simp
  consider (opn) rest where "opens_block opcode" "skip_block_type opcode bs = Inr rest"
    | (els) "opcode = WASM_OP_ELSE" | (fin) "opcode = WASM_OP_END" "d = 1" | (inner) "opcode = WASM_OP_END" "1 < d"
    | (imm) rest where "\<not> opens_block opcode" "opcode \<notin> {WASM_OP_ELSE, WASM_OP_END}" "skip_imm opcode bs = Inr (Some rest)"
    using 2(5,9) by (auto simp: Let_def split: if_splits sum.splits option.splits)
  then show ?case
  proof cases
    case opn
    show ?thesis
      by (rule 2(1) [OF refl opn _ stack_ok_open [OF 2(6) opn 2(7,8) refl] suf 2(8) _ 2(10)])
        (use 2(5) opn in \<open>simp_all add: skip_block_type_suffix\<close>)
  next
    case els
    show ?thesis
      by (rule 2(2) [OF refl _ els _ stack_ok_else one 2(8) 2(9,10)])
        (use 2(5,6,9) els in \<open>simp_all add: opens_block_def\<close>)
  next
    case fin
    then show ?thesis using 2(5,6,10) by (auto simp: opens_block_def intro!: cache_fill_ok stack_ok_done)
  next
    case inner
    show ?thesis
      by (rule 2(3) [OF refl _ _ inner(1) _ _ stack_ok_end one 2(8) _ 2(10)])
        (use 2(5,6) inner in \<open>simp_all add: opens_block_def\<close>)
  next
    case imm
    show ?thesis
      by (rule 2(4) [OF refl imm(1) _ _ imm(3) _ _ stack_ok_skip [OF 2(6) imm refl] suf 2(8) 2(9,10)])
        (use 2(5) imm in \<open>simp_all add: skip_imm_suffix\<close>)
  qed
qed simp

text \<open>What the caller sees of a result: nothing about the cache, and the else address only for an if.\<close>

definition seen :: "found res \<Rightarrow> (addr option \<times> addr) option res" where
  "seen r = map_sum id (map_option (\<lambda>(e, en, cache). (e, en))) r"

definition shown :: "u8 \<Rightarrow> (addr \<times> addr) option res \<Rightarrow> (addr option \<times> addr) option res" where
  "shown label r = map_sum id (map_option (\<lambda>(e, en). (if label = LABEL_TYPE_IF then Some e else None, en))) r"

lemma scan_agrees:
  "(label = LABEL_TYPE_IF \<longrightarrow> els' = els) \<Longrightarrow> seen (scan_block label p bs d st els cache) = shown label (ref_scan p bs d els')"
proof (induction label p bs d st els cache arbitrary: els' rule: scan_block.induct)
  case (2 label p opcode bs d st els cache)
  consider "opens_block opcode" | "opcode = WASM_OP_ELSE" | "opcode = WASM_OP_END"
    | "\<not> opens_block opcode" "opcode \<noteq> WASM_OP_ELSE" "opcode \<noteq> WASM_OP_END" by blast
  then show ?case
  proof cases
    case 1
    then show ?thesis using 2(1) [OF refl 1] 2(5) by (auto simp: seen_def shown_def split: sum.splits)
  next
    case b: 2
    then have n: "\<not> opens_block opcode" by (simp add: opens_block_def)
    show ?thesis using 2(2) [OF refl n b, of "if d = 1 then p else els'"] 2(5) n b by (auto split: if_splits)
  next
    case 3
    then have n: "\<not> opens_block opcode" by (simp add: opens_block_def)
    show ?thesis using 2(3) [OF refl n _ 3] 2(5) n 3 by (auto simp: seen_def shown_def)
  next
    case 4
    then show ?thesis using 2(4) [OF refl 4] 2(5) by (auto simp: seen_def shown_def split: sum.splits option.splits)
  qed
qed (simp add: seen_def shown_def)

lemma stack_ok_initial:
  "code_at base code p bs \<Longrightarrow> length code < 2 ^ 64 \<Longrightarrow>
   stack_ok base code p bs 1 ((replicate block_stack_size null_addr)[0 := null_addr\<lparr>ba_start_addr := p\<rparr>])"
  by (auto simp: stack_ok_def nth_list_update null_addr_def block_stack_size_def block_ref_def code_from_at simp del: ref_scan.simps)

lemma cache_hit:
  assumes "cache_ok base code cache" "start \<noteq> 0" "k < 128" "ba_start_addr (cache ! k) = start"
  shows "block_ref base code start = Inr (Some (ba_else_addr (cache ! k), ba_end_addr (cache ! k)))"
  using assms by (auto simp: cache_ok_def list_all_length block_entry_ok_def)

lemma cache_slot_bound: "Suc (cache_slot a) < 128"
proof -
  have "unat (a AND 63) \<le> 63" using word_and_le1 [of a 63] by (simp add: word_le_nat_alt)
  then show ?thesis by (simp add: cache_slot_def)
qed

lemma find_block_cases:
  assumes "cache_ok base code cache" "start \<noteq> 0" "code_at base code start bs" "length code < 2 ^ 64"
  obtains (hit) e en where "wasm_loader_find_block_addr cache start bs label = Inr (Some (Some e, en, cache))"
      "block_ref base code start = Inr (Some (e, en))"
  | (miss) "seen (wasm_loader_find_block_addr cache start bs label) = shown label (block_ref base code start)"
      "\<And>e en cache'. wasm_loader_find_block_addr cache start bs label = Inr (Some (e, en, cache')) \<Longrightarrow> cache_ok base code cache'"
proof -
  let ?k = "cache_slot start"
  consider "ba_start_addr (cache ! ?k) = start" | "ba_start_addr (cache ! ?k) \<noteq> start" "ba_start_addr (cache ! Suc ?k) = start"
    | "ba_start_addr (cache ! ?k) \<noteq> start" "ba_start_addr (cache ! Suc ?k) \<noteq> start" by blast
  then show ?thesis
  proof cases
    case 1 then show ?thesis
      using hit cache_hit [OF assms(1,2) _ 1] cache_slot_bound [of start] by (simp add: wasm_loader_find_block_addr_def)
  next
    case 2 then show ?thesis
      using hit cache_hit [OF assms(1,2) _ 2(2)] cache_slot_bound [of start] by (simp add: wasm_loader_find_block_addr_def)
  next
    case 3
    have m: "wasm_loader_find_block_addr cache start bs label =
        scan_block label start bs 1 ((replicate block_stack_size null_addr)[0 := null_addr\<lparr>ba_start_addr := start\<rparr>]) 0 cache"
      using 3 by (simp add: wasm_loader_find_block_addr_def)
    have r: "block_ref base code start = ref_scan start bs 1 0" by (simp add: block_ref_def code_from_at [OF assms(3,4)])
    show ?thesis
    proof (rule miss)
      show "seen (wasm_loader_find_block_addr cache start bs label) = shown label (block_ref base code start)"
        unfolding m r by (rule scan_agrees) simp
      show "cache_ok base code cache'" if "wasm_loader_find_block_addr cache start bs label = Inr (Some (e, en, cache'))" for e en cache'
        using scan_keeps_cache [OF that [unfolded m] stack_ok_initial [OF assms(3,4)] assms(3,4) _ assms(1)] by simp
    qed
  qed
qed

text \<open>C21: the block cache is transparent. With a cache whose entries are right, \<open>wasm_loader_find_block_addr\<close> ends
  the same way as the search without cache and stack (the same end address, for an if the same else address, the same
  failure), and the entries of the cache it leaves, those of the nested blocks included, are right again.\<close>

theorem block_cache_transparent:
  assumes "cache_ok base code cache" "start \<noteq> 0" "code_at base code start bs" "length code < 2 ^ 64"
  shows "case wasm_loader_find_block_addr cache start bs label of
      Inl x \<Rightarrow> block_ref base code start = Inl x
    | Inr None \<Rightarrow> block_ref base code start = Inr None
    | Inr (Some (e, en, cache')) \<Rightarrow> cache_ok base code cache' \<and>
        (\<exists>els. block_ref base code start = Inr (Some (els, en)) \<and> (e = Some els \<or> e = None \<and> label \<noteq> LABEL_TYPE_IF))"
proof (rule find_block_cases [OF assms, of label], goal_cases)
  case 2
  then show ?case
    by (auto simp: seen_def shown_def map_sum_def map_option_case split: sum.splits option.splits if_splits prod.splits)
qed (use assms in simp)

definition sample_code :: "byte list" where
  "sample_code = [WASM_OP_NOP, WASM_OP_BLOCK, 0x40, WASM_OP_BR, 0, WASM_OP_END] @ WASM_OP_ELSE # [WASM_OP_I32_CONST, 5, WASM_OP_DROP] @
     WASM_OP_END # [WASM_OP_END]"

definition cold_cache :: "BlockAddr list" where "cold_cache = replicate 128 null_addr"

lemma sample_cache_ok: "cache_ok 0x1000 sample_code cold_cache"
  by (simp add: cache_ok_def cold_cache_def list_all_length block_entry_ok_def null_addr_def)

lemma sample_code_at: "code_at 0x1000 sample_code 0x1000 sample_code"
  by (simp add: code_at_def)

theorem block_cache_transparent_witness:
  "case wasm_loader_find_block_addr cold_cache 0x1000 sample_code LABEL_TYPE_IF of
      Inl x \<Rightarrow> block_ref 0x1000 sample_code 0x1000 = Inl x
    | Inr None \<Rightarrow> block_ref 0x1000 sample_code 0x1000 = Inr None
    | Inr (Some (e, en, cache')) \<Rightarrow> cache_ok 0x1000 sample_code cache' \<and>
        (\<exists>els. block_ref 0x1000 sample_code 0x1000 = Inr (Some (els, en)) \<and> (e = Some els \<or> e = None \<and> LABEL_TYPE_IF \<noteq> LABEL_TYPE_IF))"
  by (rule block_cache_transparent [OF sample_cache_ok _ sample_code_at]) (simp_all add: sample_code_def)

section \<open>The search finds the matching else and end\<close>

text \<open>Well nested code, by its grammar: instructions without a block, blocks, and ifs with two branches.\<close>

inductive nested :: "byte list \<Rightarrow> bool" where
  nil: "nested []"
| instr: "nested (opcode # imm @ bs)" if "\<not> opens_block opcode" "opcode \<noteq> WASM_OP_ELSE" "opcode \<noteq> WASM_OP_END"
    "\<And>rest. skip_imm opcode (imm @ rest) = Inr (Some rest)" "nested bs"
| block: "nested (opcode # bt @ body @ WASM_OP_END # bs)" if "opens_block opcode"
    "\<And>rest. skip_block_type opcode (bt @ rest) = Inr rest" "nested body" "nested bs"
| if_else: "nested (opcode # bt @ body @ WASM_OP_ELSE # body2 @ WASM_OP_END # bs)" if "opens_block opcode"
    "\<And>rest. skip_block_type opcode (bt @ rest) = Inr rest" "nested body" "nested body2" "nested bs"

lemma ref_scan_else: "ref_scan p (WASM_OP_ELSE # bs) k e = ref_scan (p + 1) bs k (if k = 1 then p else e)"
  by (simp add: opens_block_def)

lemma ref_scan_end: "ref_scan p (WASM_OP_END # bs) k e = (if k = 1 then Inr (Some (e, p)) else ref_scan (p + 1) bs (k - 1) e)"
  by (simp add: opens_block_def)

lemma ref_scan_open:
  assumes "opens_block opcode" "skip_block_type opcode (bt @ rest) = Inr rest"
  shows "ref_scan p (opcode # bt @ rest) k e = ref_scan (p + of_nat (length (opcode # bt))) rest (Suc k) e"
  using assms by simp

lemma ref_scan_instr:
  assumes "\<not> opens_block opcode" "opcode \<noteq> WASM_OP_ELSE" "opcode \<noteq> WASM_OP_END" "skip_imm opcode (imm @ rest) = Inr (Some rest)"
  shows "ref_scan p (opcode # imm @ rest) k e = ref_scan (p + of_nat (length (opcode # imm))) rest k e"
  using assms by simp

lemma ref_scan_nested:
  "nested bs \<Longrightarrow> 0 < d \<Longrightarrow> ref_scan p (bs @ rest) d els = ref_scan (p + of_nat (length bs)) rest d els"
proof (induction bs arbitrary: p d els rest rule: nested.induct)
  case (instr opcode imm bs)
  then show ?case by (simp add: ref_scan_instr ac_simps del: ref_scan.simps)
next
  case (block opcode bt body bs)
  then show ?case by (simp add: ref_scan_open ref_scan_end ac_simps del: ref_scan.simps)
next
  case (if_else opcode bt body body2 bs)
  then show ?case by (simp add: ref_scan_open ref_scan_end ref_scan_else ac_simps del: ref_scan.simps)
qed simp

lemma find_block_if_else:
  assumes "cache_ok base code cache" "start \<noteq> 0" "length code < 2 ^ 64" "nested body" "nested body2"
    and c: "code_at base code start (body @ WASM_OP_ELSE # body2 @ WASM_OP_END # bs)"
  shows "seen (wasm_loader_find_block_addr cache start (body @ WASM_OP_ELSE # body2 @ WASM_OP_END # bs) LABEL_TYPE_IF)
        = Inr (Some (Some (start + of_nat (length body)), start + of_nat (length body + 1 + length body2)))"
proof -
  have r: "block_ref base code start = Inr (Some (start + of_nat (length body), start + of_nat (length body + 1 + length body2)))"
    using assms(4,5)
    by (simp add: block_ref_def code_from_at [OF c assms(3)] ref_scan_nested ref_scan_else ref_scan_end ac_simps del: ref_scan.simps)
  show ?thesis
    by (rule find_block_cases [OF assms(1,2) c assms(3), of LABEL_TYPE_IF]) (use r in \<open>simp_all add: seen_def shown_def\<close>)
qed

lemma find_block_end:
  assumes "cache_ok base code cache" "start \<noteq> 0" "length code < 2 ^ 64" "nested body"
    and c: "code_at base code start (body @ WASM_OP_END # bs)"
  shows "\<exists>e. seen (wasm_loader_find_block_addr cache start (body @ WASM_OP_END # bs) label) = Inr (Some (e, start + of_nat (length body)))
      \<and> (label = LABEL_TYPE_IF \<longrightarrow> e = Some 0)"
proof -
  have r: "block_ref base code start = Inr (Some (0, start + of_nat (length body)))"
    using assms(4) by (simp add: block_ref_def code_from_at [OF c assms(3)] ref_scan_nested ref_scan_end del: ref_scan.simps)
  show ?thesis
    by (rule find_block_cases [OF assms(1,2) c assms(3), of label]) (use r in \<open>simp_all add: seen_def shown_def\<close>)
qed


lemma sample_nested:
  "nested [WASM_OP_NOP, WASM_OP_BLOCK, 0x40, WASM_OP_BR, 0, WASM_OP_END]" "nested [WASM_OP_I32_CONST, 5, WASM_OP_DROP]"
proof -
  have br: "nested [WASM_OP_BR, 0]"
    using nested.instr [of WASM_OP_BR "[0]" "[]"] by (simp add: opens_block_def skip_imm_def skip_one_def nested.nil)
  have bl: "nested [WASM_OP_BLOCK, 0x40, WASM_OP_BR, 0, WASM_OP_END]"
    using nested.block [of WASM_OP_BLOCK "[0x40]", OF _ _ br nested.nil] by (simp add: opens_block_def skip_block_type_def)
  show "nested [WASM_OP_NOP, WASM_OP_BLOCK, 0x40, WASM_OP_BR, 0, WASM_OP_END]"
    using nested.instr [of WASM_OP_NOP "[]", OF _ _ _ _ bl] by (simp add: opens_block_def skip_imm_def)
  have dr: "nested [WASM_OP_DROP]"
    using nested.instr [of WASM_OP_DROP "[]" "[]"] by (simp add: opens_block_def skip_imm_def nested.nil)
  show "nested [WASM_OP_I32_CONST, 5, WASM_OP_DROP]"
    using nested.instr [of WASM_OP_I32_CONST "[5]", OF _ _ _ _ dr] by (simp add: opens_block_def skip_imm_def skip_one_def)
qed


end
