(* ===== verification/Machine.thy ===== *)
theory Machine
  imports Runtime_Memory Numeric Block_Find
begin

text \<open>
  The state of the classic interpreter (wasm_interp_classic.c) and the macros its opcode handlers are written with:
  operand stack, block stack, instruction stream, linear memory, globals and exceptions. A handler is a
  computation on the locals of \<open>wasm_interp_call_func_bytecode\<close>, the objects, the registry and the heap.
\<close>

section \<open>Computations\<close>

text \<open>\<open>vm_outs\<close> are the cells above the top of the stack where a caller leaves the arguments (\<open>outs_area\<close>).\<close>

record 'h machine = "'h store" +
  vm_iv :: interp_locals
  vm_outs :: "u32 list"

text \<open>A computation stops when the program has no behaviour or the process ends (\<open>Crash\<close>), when the function
  returns (\<open>Halt\<close>), or when a checkpoint has been written (\<open>Dumped\<close>).\<close>

datatype 'h stop = Crash failure | Halt "'h machine" | Dumped "images \<times> stream"

type_synonym ('h, 'a) op = "'h machine \<Rightarrow> 'h stop + 'a \<times> 'h machine"

definition ret_op :: "'a \<Rightarrow> ('h, 'a) op" where
  "ret_op x s = Inr (x, s)"

definition bind_op :: "('h, 'a) op \<Rightarrow> ('a \<Rightarrow> ('h, 'b) op) \<Rightarrow> ('h, 'b) op" where
  "bind_op c f s = (case c s of Inl e \<Rightarrow> Inl e | Inr (x, s') \<Rightarrow> f x s')"

definition then_op :: "('h, 'a) op \<Rightarrow> ('h, 'b) op \<Rightarrow> ('h, 'b) op" where
  "then_op c d = bind_op c (\<lambda>_. d)"

fun seq_ops :: "('h, unit) op list \<Rightarrow> ('h, unit) op" where
  "seq_ops [] = ret_op ()"
| "seq_ops (c # cs) = then_op c (seq_ops cs)"

definition halt :: "('h, 'a) op" where
  "halt s = Inl (Halt s)"

definition crash :: "failure \<Rightarrow> ('h, 'a) op" where
  "crash e s = Inl (Crash e)"

definition from_res :: "'a res \<Rightarrow> ('h, 'a) op" where
  "from_res r s = (case r of Inl e \<Rightarrow> Inl (Crash e) | Inr x \<Rightarrow> Inr (x, s))"

definition var :: "(interp_locals \<Rightarrow> 'a) \<Rightarrow> ('h, 'a) op" where
  "var sel s = Inr (sel (vm_iv s), s)"

definition set_var :: "(('a \<Rightarrow> 'a) \<Rightarrow> interp_locals \<Rightarrow> interp_locals) \<Rightarrow> 'a \<Rightarrow> ('h, unit) op" where
  "set_var upd x s = Inr ((), s\<lparr>vm_iv := upd (\<lambda>_. x) (vm_iv s)\<rparr>)"

definition look :: "(mem \<Rightarrow> 'a res) \<Rightarrow> ('h, 'a) op" where
  "look f s = from_res (f (st_mem s)) s"

definition change :: "(mem \<Rightarrow> mem res) \<Rightarrow> ('h, unit) op" where
  "change f s = (case f (st_mem s) of Inl e \<Rightarrow> Inl (Crash e) | Inr m \<Rightarrow> Inr ((), s\<lparr>st_mem := m\<rparr>))"

text \<open>A function on registry, objects and heap.\<close>

definition on_store :: "('h store \<Rightarrow> ('a \<times> 'h store) res) \<Rightarrow> ('h, 'a) op" where
  "on_store f s = (case f (store.truncate s) of Inl e \<Rightarrow> Inl (Crash e) | Inr (x, t) \<Rightarrow> Inr (x, store.extend t (machine.fields (vm_iv s) (vm_outs s))))"

section \<open>The cells of a frame\<close>

definition cell_index :: "addr \<Rightarrow> WASMInterpFrame \<Rightarrow> addr \<Rightarrow> nat option" where
  "cell_index f fr a = (let d = unat (a - frame_lp f) in
     if d mod 4 = 0 \<and> d div 4 < length (fr_cells fr) then Some (d div 4) else None)"

definition read_cell :: "addr \<Rightarrow> addr \<Rightarrow> mem \<Rightarrow> u32 res" where
  "read_cell f a m = bind_res (load as_WASMInterpFrame m f) (\<lambda>fr.
     case cell_index f fr a of None \<Rightarrow> Inl (UB ''read past the frame'') | Some i \<Rightarrow> Inr (fr_cells fr ! i))"

definition write_cell :: "addr \<Rightarrow> addr \<Rightarrow> u32 \<Rightarrow> mem \<Rightarrow> mem res" where
  "write_cell f a v m = bind_res (load as_WASMInterpFrame m f) (\<lambda>fr.
     case cell_index f fr a of None \<Rightarrow> Inl (UB ''write past the frame'')
     | Some i \<Rightarrow> Inr (m(f := Some (O_WASMInterpFrame (fr\<lparr>fr_cells := (fr_cells fr)[i := v]\<rparr>)))))"

definition get_cell :: "addr \<Rightarrow> ('h, u32) op" where
  "get_cell a = bind_op (var iv_frame) (\<lambda>f. look (read_cell f a))"

definition put_cell :: "addr \<Rightarrow> u32 \<Rightarrow> ('h, unit) op" where
  "put_cell a v = bind_op (var iv_frame) (\<lambda>f. change (write_cell f a v))"

definition GET_I64_FROM_ADDR :: "addr \<Rightarrow> ('h, u64) op" where
  "GET_I64_FROM_ADDR a = bind_op (get_cell a) (\<lambda>lo. bind_op (get_cell (a + 4)) (\<lambda>hi. ret_op (word_cat hi lo)))"

definition PUT_I64_TO_ADDR :: "addr \<Rightarrow> u64 \<Rightarrow> ('h, unit) op" where
  "PUT_I64_TO_ADDR a v = then_op (put_cell a (ucast v)) (put_cell (a + 4) (ucast (drop_bit 32 v)))"

definition move_sp :: "addr \<Rightarrow> ('h, unit) op" where
  "move_sp d = bind_op (var iv_frame_sp) (\<lambda>sp. set_var iv_frame_sp_update (sp + d))"

definition PUSH_I32 :: "u32 \<Rightarrow> ('h, unit) op" where
  "PUSH_I32 v = bind_op (var iv_frame_sp) (\<lambda>sp. then_op (put_cell sp v) (set_var iv_frame_sp_update (sp + 4)))"

definition PUSH_I64 :: "u64 \<Rightarrow> ('h, unit) op" where
  "PUSH_I64 v = bind_op (var iv_frame_sp) (\<lambda>sp. then_op (PUT_I64_TO_ADDR sp v) (set_var iv_frame_sp_update (sp + 8)))"

definition POP_I32 :: "('h, u32) op" where
  "POP_I32 = then_op (move_sp (- 4)) (bind_op (var iv_frame_sp) get_cell)"

definition POP_I64 :: "('h, u64) op" where
  "POP_I64 = then_op (move_sp (- 8)) (bind_op (var iv_frame_sp) GET_I64_FROM_ADDR)"

fun word_copy :: "addr \<Rightarrow> addr \<Rightarrow> nat \<Rightarrow> ('h, unit) op" where
  "word_copy dest src 0 = ret_op ()"
| "word_copy dest src (Suc n) = then_op (bind_op (get_cell src) (put_cell dest)) (word_copy (dest + 4) (src + 4) n)"

section \<open>Blocks\<close>

definition block_index :: "WASMInterpFrame \<Rightarrow> addr \<Rightarrow> nat option" where
  "block_index fr a = (let d = unat (a - fr_csp_bottom fr) in
     if d mod sizeof_WASMBranchBlock = 0 \<and> d div sizeof_WASMBranchBlock < length (fr_blocks fr)
     then Some (d div sizeof_WASMBranchBlock) else None)"

definition read_block :: "addr \<Rightarrow> addr \<Rightarrow> mem \<Rightarrow> WASMBranchBlock res" where
  "read_block f a m = bind_res (load as_WASMInterpFrame m f) (\<lambda>fr.
     case block_index fr a of None \<Rightarrow> Inl (UB ''read past the frame'') | Some i \<Rightarrow> Inr (fr_blocks fr ! i))"

definition write_block :: "addr \<Rightarrow> addr \<Rightarrow> WASMBranchBlock \<Rightarrow> mem \<Rightarrow> mem res" where
  "write_block f a b m = bind_res (load as_WASMInterpFrame m f) (\<lambda>fr.
     case block_index fr a of None \<Rightarrow> Inl (UB ''write past the frame'')
     | Some i \<Rightarrow> Inr (m(f := Some (O_WASMInterpFrame (fr\<lparr>fr_blocks := (fr_blocks fr)[i := b]\<rparr>)))))"

definition get_block :: "addr \<Rightarrow> ('h, WASMBranchBlock) op" where
  "get_block a = bind_op (var iv_frame) (\<lambda>f. look (read_block f a))"

definition PUSH_CSP :: "u32 \<Rightarrow> addr \<Rightarrow> ('h, unit) op" where
  "PUSH_CSP cell_num target =
     bind_op (var iv_frame) (\<lambda>f. bind_op (var iv_frame_csp) (\<lambda>csp. bind_op (var iv_frame_ip) (\<lambda>ip. bind_op (var iv_frame_sp) (\<lambda>sp.
     then_op (change (write_block f csp \<lparr>bb_begin_addr = ip, bb_target_addr = target, bb_frame_sp = sp, bb_cell_num = cell_num\<rparr>))
       (set_var iv_frame_csp_update (csp + of_nat sizeof_WASMBranchBlock))))))"

definition POP_CSP :: "('h, unit) op" where
  "POP_CSP = bind_op (var iv_frame_csp) (\<lambda>csp. set_var iv_frame_csp_update (csp - of_nat sizeof_WASMBranchBlock))"

definition POP_CSP_N :: "u32 \<Rightarrow> ('h, unit) op" where
  "POP_CSP_N n =
     bind_op (var iv_frame_sp) (\<lambda>old. bind_op (var iv_frame_csp) (\<lambda>csp0.
     let csp = csp0 - ucast n * of_nat sizeof_WASMBranchBlock in
     then_op (set_var iv_frame_csp_update csp)
     (bind_op (get_block (csp - of_nat sizeof_WASMBranchBlock)) (\<lambda>b.
     then_op (set_var iv_frame_ip_update (bb_target_addr b))
     (then_op (word_copy (bb_frame_sp b) (old - 4 * ucast (bb_cell_num b)) (unat (bb_cell_num b)))
     (set_var iv_frame_sp_update (bb_frame_sp b + 4 * ucast (bb_cell_num b))))))))"

section \<open>The instruction stream\<close>

text \<open>The bytes from an address to the end of the code of the current function.\<close>

definition code_bytes :: "addr \<Rightarrow> addr \<Rightarrow> mem \<Rightarrow> byte list res" where
  "code_bytes func ip m = bind_res (func_code m func) (\<lambda>code. bind_res (load as_Bytes m code) (\<lambda>bs.
     if length bs < unat (ip - code) then Inl (UB ''read past the code'') else Inr (drop (unat (ip - code)) bs)))"

definition stream_at :: "addr \<Rightarrow> ('h, byte list) op" where
  "stream_at ip = bind_op (var iv_cur_func) (\<lambda>func. look (code_bytes func ip))"

definition read_imm :: "(byte list \<Rightarrow> ('a \<times> byte list) res) \<Rightarrow> ('h, 'a) op" where
  "read_imm rd = bind_op (var iv_frame_ip) (\<lambda>ip. bind_op (stream_at ip) (\<lambda>bs. bind_op (from_res (rd bs)) (\<lambda>(x, rest).
     then_op (set_var iv_frame_ip_update (ip + of_nat (length bs - length rest))) (ret_op x))))"

definition read_byte :: "byte list \<Rightarrow> (byte \<times> byte list) res" where
  "read_byte bs = (case bs of [] \<Rightarrow> Inl (UB ''read past the code'') | b # rest \<Rightarrow> Inr (b, rest))"

definition imm_u8 :: "('h, u8) op" where "imm_u8 = read_imm read_byte"
definition imm_u32 :: "('h, u32) op" where "imm_u32 = read_imm read_leb_uint32"
definition imm_i32 :: "('h, u32) op" where "imm_i32 = read_imm read_leb_int32"
definition imm_i64 :: "('h, u64) op" where "imm_i64 = read_imm read_leb_int64"

definition imm_to :: "((u32 \<Rightarrow> u32) \<Rightarrow> interp_locals \<Rightarrow> interp_locals) \<Rightarrow> ('h, unit) op" where
  "imm_to upd = bind_op imm_u32 (set_var upd)"

definition skip_imm_leb :: "('h, unit) op" where
  "skip_imm_leb = read_imm (\<lambda>bs. bind_res (skip_leb bs) (\<lambda>rest. Inr ((), rest)))"

section \<open>Exceptions\<close>

definition SYNC_ALL :: "('h, unit) op" where
  "SYNC_ALL = bind_op (\<lambda>s. Inr (vm_iv s, s)) (\<lambda>v. change (SYNC_ALL_TO_FRAME v))"

definition UPDATE_ALL_FROM_FRAME :: "('h, unit) op" where
  "UPDATE_ALL_FROM_FRAME = bind_op (var iv_frame) (\<lambda>f. bind_op (look (\<lambda>m. load as_WASMInterpFrame m f)) (\<lambda>fr.
     seq_ops [set_var iv_frame_sp_update (fr_sp fr), set_var iv_frame_ip_update (fr_ip fr), set_var iv_frame_csp_update (fr_csp fr)]))"

definition got_exception :: "('h, 'a) op" where
  "got_exception = then_op SYNC_ALL halt"

text \<open>\<open>wasm_set_exception\<close> on the module instance of the interpreter, and the way out.\<close>

definition trap :: "string \<Rightarrow> ('h, 'a) op" where
  "trap msg = then_op (bind_op (var iv_module) (\<lambda>inst. change (\<lambda>m. wasm_set_exception m inst (Some msg)))) got_exception"

section \<open>Linear memory\<close>

definition default_memory :: "('h, WASMMemoryInstance) op" where
  "default_memory = bind_op (var iv_memory) (\<lambda>a. look (\<lambda>m. load as_WASMMemoryInstance m a))"

definition CHECK_MEMORY_OVERFLOW :: "u32 \<Rightarrow> u32 \<Rightarrow> u64 \<Rightarrow> ('h, unit) op" where
  "CHECK_MEMORY_OVERFLOW offset ad bytes =
     (let offset1 = ucast offset + ucast ad :: u64 in
      bind_op (var iv_linear_mem_size) (\<lambda>sz.
      if offset1 + bytes \<le> ucast sz
      then bind_op default_memory (\<lambda>mm. set_var iv_maddr_update (mm_memory_data mm + offset1))
      else trap ''out of bounds memory access''))"

text \<open>\<open>n\<close> bytes at an address of the block at \<open>base\<close>.\<close>

definition read_bytes :: "addr \<Rightarrow> addr \<Rightarrow> nat \<Rightarrow> mem \<Rightarrow> byte list res" where
  "read_bytes base a n m = bind_res (load as_Bytes m base) (\<lambda>bs. let i = unat (a - base) in
     if length bs < i + n then Inl (UB ''read past the object'') else Inr (take n (drop i bs)))"

definition write_bytes :: "addr \<Rightarrow> addr \<Rightarrow> byte list \<Rightarrow> mem \<Rightarrow> mem res" where
  "write_bytes base a xs m = bind_res (load as_Bytes m base) (\<lambda>bs. let i = unat (a - base) in
     if length bs < i + length xs then Inl (UB ''write past the object'')
     else Inr (m(base := Some (O_Bytes (take i bs @ xs @ drop (i + length xs) bs)))))"

definition load_maddr :: "nat \<Rightarrow> ('h, byte list) op" where
  "load_maddr n = bind_op default_memory (\<lambda>mm. bind_op (var iv_maddr) (\<lambda>a. look (read_bytes (mm_memory_data mm) a n)))"

definition store_maddr :: "addr \<Rightarrow> byte list \<Rightarrow> ('h, unit) op" where
  "store_maddr d xs = bind_op default_memory (\<lambda>mm. bind_op (var iv_maddr) (\<lambda>a. change (write_bytes (mm_memory_data mm) (a + d) xs)))"

section \<open>Laws\<close>

lemma op_simps [simp]:
  "bind_op (ret_op x) f = f x"
  "bind_op (bind_op c f) g = bind_op c (\<lambda>x. bind_op (f x) g)"
  "bind_op halt f' = halt" "bind_op (crash e) f' = crash e"
  by (auto simp: fun_eq_iff bind_op_def ret_op_def halt_def crash_def split: sum.split prod.split)

end
