(* ===== verification/Float.thy ===== *)
theory Float
  imports Prelude Complex_Main
begin

text \<open>
  The floating point arithmetic the interpreter's handlers use of C: IEEE 754 binary32 and binary64 on bit
  patterns, with exact rational values, rounding to nearest with ties to even, and the operations of wasm_interp_classic.c
  built on them. A finite number is a sign and a magnitude. Which NaN an operation returns is left to the machine:
  it is a parameter.
\<close>

section \<open>Formats\<close>

datatype flt = FNaN | FInf bool | FFin bool rat

text \<open>\<open>mb\<close> bits of fraction and \<open>eb\<close> bits of exponent.\<close>

definition bias :: "nat \<Rightarrow> nat" where "bias eb = 2 ^ (eb - 1) - 1"

definition fdecode :: "nat \<Rightarrow> nat \<Rightarrow> nat \<Rightarrow> flt" where
  "fdecode mb eb b =
     (let s = odd (b div 2 ^ (mb + eb)); e = (b div 2 ^ mb) mod 2 ^ eb; f = b mod 2 ^ mb in
      if e = 2 ^ eb - 1 then if f = 0 then FInf s else FNaN
      else if e = 0 then FFin s (of_nat f / 2 ^ (bias eb + mb - 1))
      else FFin s (of_nat (f + 2 ^ mb) * 2 ^ e / 2 ^ (bias eb + mb)))"

definition round_half_even :: "rat \<Rightarrow> int" where
  "round_half_even y = (let f = \<lfloor>y\<rfloor>; d = y - of_int f in
     if d < 1 / 2 then f else if 1 / 2 < d then f + 1 else if even f then f else f + 1)"

text \<open>The exponent field of a magnitude below \<open>2 ^ (bias + 1)\<close>, and the bits of the nearest number without its sign.
  A mantissa that rounds up to the next power of two carries into the exponent.\<close>

definition fexp :: "nat \<Rightarrow> nat \<Rightarrow> rat \<Rightarrow> nat" where
  "fexp mb eb x = (case List.find (\<lambda>E. x * 2 ^ (bias eb - 1) < 2 ^ E) [1..<2 ^ eb - 1] of Some E \<Rightarrow> E | None \<Rightarrow> 2 ^ eb - 2)"

definition fround :: "nat \<Rightarrow> nat \<Rightarrow> rat \<Rightarrow> nat" where
  "fround mb eb x =
     (if 2 ^ (bias eb + 1) \<le> x then (2 ^ eb - 1) * 2 ^ mb
      else let E = fexp mb eb x in (E - 1) * 2 ^ mb + nat (round_half_even (x * 2 ^ (bias eb + mb) / 2 ^ E)))"

definition fencode :: "nat \<Rightarrow> nat \<Rightarrow> nat \<Rightarrow> flt \<Rightarrow> nat" where
  "fencode mb eb nan v = (case v of FNaN \<Rightarrow> nan
     | FInf s \<Rightarrow> of_bool s * 2 ^ (mb + eb) + (2 ^ eb - 1) * 2 ^ mb
     | FFin s x \<Rightarrow> of_bool s * 2 ^ (mb + eb) + fround mb eb x)"

section \<open>Values\<close>

definition signed :: "bool \<Rightarrow> rat \<Rightarrow> rat" where "signed s x = (if s then - x else x)"

definition of_signed :: "bool \<Rightarrow> rat \<Rightarrow> flt" where
  "of_signed zero_sign v = (if v = 0 then FFin zero_sign 0 else FFin (v < 0) \<bar>v\<bar>)"

fun fneg :: "flt \<Rightarrow> flt" where
  "fneg FNaN = FNaN" | "fneg (FInf s) = FInf (\<not> s)" | "fneg (FFin s x) = FFin (\<not> s) x"

fun fadd :: "flt \<Rightarrow> flt \<Rightarrow> flt" where
  "fadd FNaN b = FNaN" | "fadd (FInf s) FNaN = FNaN" | "fadd (FFin s x) FNaN = FNaN"
| "fadd (FInf s) (FInf t) = (if s = t then FInf s else FNaN)"
| "fadd (FInf s) (FFin t y) = FInf s"
| "fadd (FFin s x) (FInf t) = FInf t"
| "fadd (FFin s x) (FFin t y) = of_signed (s \<and> t) (signed s x + signed t y)"

definition fsub :: "flt \<Rightarrow> flt \<Rightarrow> flt" where "fsub a b = fadd a (fneg b)"

fun fmul :: "flt \<Rightarrow> flt \<Rightarrow> flt" where
  "fmul FNaN b = FNaN" | "fmul (FInf s) FNaN = FNaN" | "fmul (FFin s x) FNaN = FNaN"
| "fmul (FInf s) (FInf t) = FInf (s \<noteq> t)"
| "fmul (FInf s) (FFin t y) = (if y = 0 then FNaN else FInf (s \<noteq> t))"
| "fmul (FFin s x) (FInf t) = (if x = 0 then FNaN else FInf (s \<noteq> t))"
| "fmul (FFin s x) (FFin t y) = FFin (s \<noteq> t) (x * y)"

fun fdiv :: "flt \<Rightarrow> flt \<Rightarrow> flt" where
  "fdiv FNaN b = FNaN" | "fdiv (FInf s) FNaN = FNaN" | "fdiv (FFin s x) FNaN = FNaN"
| "fdiv (FInf s) (FInf t) = FNaN"
| "fdiv (FInf s) (FFin t y) = FInf (s \<noteq> t)"
| "fdiv (FFin s x) (FInf t) = FFin (s \<noteq> t) 0"
| "fdiv (FFin s x) (FFin t y) = (if y = 0 then if x = 0 then FNaN else FInf (s \<noteq> t) else FFin (s \<noteq> t) (x / y))"

fun fless :: "flt \<Rightarrow> flt \<Rightarrow> bool" where
  "fless FNaN b = False" | "fless (FInf s) FNaN = False" | "fless (FFin s x) FNaN = False"
| "fless (FInf s) (FInf t) = (s \<and> \<not> t)"
| "fless (FInf s) (FFin t y) = s"
| "fless (FFin s x) (FInf t) = (\<not> t)"
| "fless (FFin s x) (FFin t y) = (signed s x < signed t y)"

fun feq :: "flt \<Rightarrow> flt \<Rightarrow> bool" where
  "feq FNaN b = False" | "feq (FInf s) FNaN = False" | "feq (FFin s x) FNaN = False"
| "feq (FInf s) (FInf t) = (s = t)"
| "feq (FInf s) (FFin t y) = False"
| "feq (FFin s x) (FInf t) = False"
| "feq (FFin s x) (FFin t y) = (signed s x = signed t y)"

definition fle :: "flt \<Rightarrow> flt \<Rightarrow> bool" where "fle a b \<longleftrightarrow> fless a b \<or> feq a b"

text \<open>To an integer, keeping the sign of zero: the C functions \<open>ceil\<close>, \<open>floor\<close>, \<open>trunc\<close> and \<open>rint\<close>.\<close>

fun fintegral :: "(rat \<Rightarrow> int) \<Rightarrow> flt \<Rightarrow> flt" where
  "fintegral r FNaN = FNaN" | "fintegral r (FInf s) = FInf s"
| "fintegral r (FFin s x) = FFin s (\<bar>of_int (r (signed s x))\<bar>)"

definition rtrunc :: "rat \<Rightarrow> int" where "rtrunc x = (if 0 \<le> x then \<lfloor>x\<rfloor> else \<lceil>x\<rceil>)"

section \<open>Square root\<close>

text \<open>The correctly rounded square root, from the integer square root of the scaled magnitude.\<close>

fun isqrt :: "nat \<Rightarrow> nat" where
  "isqrt n = (if n = 0 then 0 else let r = 2 * isqrt (n div 4) in if (r + 1) * (r + 1) \<le> n then r + 1 else r)"

declare isqrt.simps [simp del]

definition fexp_sqrt :: "nat \<Rightarrow> nat \<Rightarrow> rat \<Rightarrow> nat" where
  "fexp_sqrt mb eb x = (case List.find (\<lambda>E. x * (2 ^ (bias eb - 1))\<^sup>2 < (2 ^ E)\<^sup>2) [1..<2 ^ eb - 1] of Some E \<Rightarrow> E | None \<Rightarrow> 2 ^ eb - 2)"

definition fround_sqrt :: "nat \<Rightarrow> nat \<Rightarrow> rat \<Rightarrow> nat" where
  "fround_sqrt mb eb x =
     (let E = fexp_sqrt mb eb x; y2 = x * (2 ^ (bias eb + mb) / 2 ^ E)\<^sup>2; n = isqrt (nat \<lfloor>y2\<rfloor>); h = (of_nat n + 1 / 2)\<^sup>2 in
      (E - 1) * 2 ^ mb + (if y2 < h then n else if h < y2 then n + 1 else if even n then n else n + 1))"

section \<open>The two C types\<close>

definition f32 :: "u32 \<Rightarrow> flt" where "f32 b = fdecode 23 8 (unat b)"
definition f64 :: "u64 \<Rightarrow> flt" where "f64 b = fdecode 52 11 (unat b)"

text \<open>\<open>nan\<close> is the pattern of the result when it is a NaN.\<close>

definition to_f32 :: "u32 \<Rightarrow> flt \<Rightarrow> u32" where "to_f32 nan v = of_nat (fencode 23 8 (unat nan) v)"
definition to_f64 :: "u64 \<Rightarrow> flt \<Rightarrow> u64" where "to_f64 nan v = of_nat (fencode 52 11 (unat nan) v)"

definition to_sqrt64 :: "u64 \<Rightarrow> flt \<Rightarrow> u64" where
  "to_sqrt64 nan v = (case v of FNaN \<Rightarrow> nan
     | FInf s \<Rightarrow> if s then nan else to_f64 nan v
     | FFin s x \<Rightarrow> if x = 0 then to_f64 nan v else if s then nan else of_nat (fround_sqrt 52 11 x))"

definition isnan32 :: "u32 \<Rightarrow> bool" where "isnan32 b \<longleftrightarrow> f32 b = FNaN"
definition isnan64 :: "u64 \<Rightarrow> bool" where "isnan64 b \<longleftrightarrow> f64 b = FNaN"

text \<open>The NaN of an operation on two operands (twice the same for one operand), and of the conversions between the
  two types.\<close>

record nan_choice =
  nan32 :: "u32 \<Rightarrow> u32 \<Rightarrow> u32"
  nan64 :: "u64 \<Rightarrow> u64 \<Rightarrow> u64"
  nan_demote :: "u64 \<Rightarrow> u32"
  nan_promote :: "u32 \<Rightarrow> u64"

definition op32 :: "nan_choice \<Rightarrow> (flt \<Rightarrow> flt \<Rightarrow> flt) \<Rightarrow> u32 \<Rightarrow> u32 \<Rightarrow> u32" where
  "op32 nc g a b = to_f32 (nan32 nc a b) (g (f32 a) (f32 b))"

definition op64 :: "nan_choice \<Rightarrow> (flt \<Rightarrow> flt \<Rightarrow> flt) \<Rightarrow> u64 \<Rightarrow> u64 \<Rightarrow> u64" where
  "op64 nc g a b = to_f64 (nan64 nc a b) (g (f64 a) (f64 b))"

definition demote :: "nan_choice \<Rightarrow> u64 \<Rightarrow> u32" where "demote nc a = to_f32 (nan_demote nc a) (f64 a)"
definition promote :: "nan_choice \<Rightarrow> u32 \<Rightarrow> u64" where "promote nc a = to_f64 (nan_promote nc a) (f32 a)"

text \<open>The functions of math.h on doubles; a float argument is promoted and the result demoted.\<close>

definition c_fabs :: "u64 \<Rightarrow> u64" where "c_fabs a = a AND 0x7FFFFFFFFFFFFFFF"
definition c_neg :: "u64 \<Rightarrow> u64" where "c_neg a = a XOR 0x8000000000000000"
definition c_integral :: "nan_choice \<Rightarrow> (rat \<Rightarrow> int) \<Rightarrow> u64 \<Rightarrow> u64" where
  "c_integral nc r a = to_f64 (nan64 nc a a) (fintegral r (f64 a))"
definition c_ceil :: "nan_choice \<Rightarrow> u64 \<Rightarrow> u64" where "c_ceil nc = c_integral nc ceiling"
definition c_floor :: "nan_choice \<Rightarrow> u64 \<Rightarrow> u64" where "c_floor nc = c_integral nc floor"
definition c_trunc :: "nan_choice \<Rightarrow> u64 \<Rightarrow> u64" where "c_trunc nc = c_integral nc rtrunc"
definition c_rint :: "nan_choice \<Rightarrow> u64 \<Rightarrow> u64" where "c_rint nc = c_integral nc round_half_even"
definition c_sqrt :: "nan_choice \<Rightarrow> u64 \<Rightarrow> u64" where "c_sqrt nc a = to_sqrt64 (nan64 nc a a) (f64 a)"
definition c_fmin :: "u64 \<Rightarrow> u64 \<Rightarrow> u64" where "c_fmin a b = (if fless (f64 b) (f64 a) then b else a)"
definition c_fmax :: "u64 \<Rightarrow> u64 \<Rightarrow> u64" where "c_fmax a b = (if fless (f64 a) (f64 b) then b else a)"

definition lift32 :: "nan_choice \<Rightarrow> (u64 \<Rightarrow> u64) \<Rightarrow> u32 \<Rightarrow> u32" where
  "lift32 nc g a = demote nc (g (promote nc a))"

section \<open>The helpers of the interpreter\<close>

definition fzero :: flt where "fzero = FFin False 0"

definition wa_fmax :: "u64 \<Rightarrow> u64 \<Rightarrow> u64" where
  "wa_fmax a b = (let c = c_fmax a b in
     if feq (f64 c) fzero \<and> feq (f64 a) (f64 b) then if bit a 63 then b else a else c)"

definition wa_fmin :: "u64 \<Rightarrow> u64 \<Rightarrow> u64" where
  "wa_fmin a b = (let c = c_fmin a b in
     if feq (f64 c) fzero \<and> feq (f64 a) (f64 b) then if bit a 63 then a else b else c)"

text \<open>The C cast of a float to an integer type, for a value in range: its integral part.\<close>

fun cast_int :: "flt \<Rightarrow> int" where
  "cast_int (FFin s x) = rtrunc (signed s x)"
| "cast_int _ = 0"

text \<open>\<open>TRUNC_FUNCTION\<close>, for all four pairs of types: the word type of the result is the destination type.\<close>

definition trunc_to :: "flt \<Rightarrow> flt \<Rightarrow> flt \<Rightarrow> 'a::len word \<Rightarrow> 'a word \<Rightarrow> 'a word" where
  "trunc_to v src_min src_max dst_min dst_max =
     (if v = FNaN then 0 else if fle v src_min then dst_min else if fle src_max v then dst_max else word_of_int (cast_int v))"

text \<open>The range check of \<open>trunc_f32_to_int\<close> and \<open>trunc_f64_to_int\<close>, with the message of the exception.\<close>

definition trunc_check :: "flt \<Rightarrow> flt \<Rightarrow> flt \<Rightarrow> string option" where
  "trunc_check v src_min src_max =
     (if v = FNaN then Some ''invalid conversion to integer''
      else if fle v src_min \<or> fle src_max v then Some ''integer overflow'' else None)"

definition int_bounds :: "bool \<Rightarrow> 'a::len word \<times> 'a word" where
  "int_bounds is_sign = (if is_sign then (push_bit (LENGTH('a) - 1) 1, NOT (push_bit (LENGTH('a) - 1) 1)) else (0, NOT 0))"

end
