(* ===== verification/Calls.thy ===== *)
theory Calls
  imports Machine Float
begin

text \<open>
  Calls and returns of the classic interpreter: entering a function of the module, calling a native function,
  returning to the caller (\<open>call_func_from_interp\<close>, \<open>call_func_from_entry\<close>, \<open>return_func\<close> and
  \<open>wasm_interp_call_func_native\<close> of wasm_interp_classic.c).
\<close>

section \<open>The host\<close>

text \<open>What the interpreter runs on: the allocators, fresh and stale memory, the NaNs of the machine, the C string at an
  address, and the invocation of a native function: \<open>wasm_runtime_invoke_native\<close> and its variants, on the import, the
  cells of the arguments and the state, with the success and the two result cells.\<close>

record 'h host =
  ho_allocs :: "'h allocs"
  ho_junk :: fresh_bytes
  ho_stale :: stale_frame
  ho_nan :: nan_choice
  ho_cstr :: "mem \<Rightarrow> addr \<Rightarrow> string"
  ho_invoke :: "WASMImport \<Rightarrow> u32 list \<Rightarrow> 'h store \<Rightarrow> ((bool \<times> u32 \<times> u32) \<times> 'h store) res"

section \<open>Frames\<close>

definition align_uint :: "u32 \<Rightarrow> u32 \<Rightarrow> u32" where
  "align_uint v b = (let m = b - 1 in (v + m) AND NOT m)"

definition wasm_interp_interp_frame_size :: "u32 \<Rightarrow> u32" where
  "wasm_interp_interp_frame_size all_cell_num = align_uint (of_nat offsetof_WASMInterpFrame_lp + all_cell_num * 5) 4"

definition alloc_frame :: "'h host \<Rightarrow> addr \<Rightarrow> u32 \<Rightarrow> addr \<Rightarrow> ('h, addr) op" where
  "alloc_frame ho env sz prev = on_store (\<lambda>st.
     bind_res (ALLOC_FRAME (ho_stale ho) env sz prev (st_rg st, st_mem st)) (\<lambda>(f, rg, m).
     Inr (f, st\<lparr>st_rg := rg, st_mem := m\<rparr>)))"

definition free_frame :: "addr \<Rightarrow> addr \<Rightarrow> ('h, unit) op" where
  "free_frame env f = on_store (\<lambda>st.
     bind_res (FREE_FRAME env f (st_rg st, st_mem st)) (\<lambda>(rg, m). Inr ((), st\<lparr>st_rg := rg, st_mem := m\<rparr>)))"

definition set_cur_frame :: "addr \<Rightarrow> addr \<Rightarrow> ('h, unit) op" where
  "set_cur_frame env f = change (\<lambda>m. bind_res (load as_WASMExecEnv m env) (\<lambda>ee.
     Inr (m(env := Some (O_WASMExecEnv (wasm_exec_env_set_cur_frame ee f))))))"

definition get_frame :: "addr \<Rightarrow> ('h, WASMInterpFrame) op" where
  "get_frame f = look (\<lambda>m. load as_WASMInterpFrame m f)"

definition on_frame :: "addr \<Rightarrow> (WASMInterpFrame \<Rightarrow> WASMInterpFrame) \<Rightarrow> ('h, unit) op" where
  "on_frame f g = change (\<lambda>m. bind_res (load as_WASMInterpFrame m f) (\<lambda>fr. Inr (m(f := Some (O_WASMInterpFrame (g fr))))))"

definition get_func :: "addr \<Rightarrow> ('h, WASMFunctionInstance) op" where
  "get_func a = look (\<lambda>m. load as_WASMFunctionInstance m a)"

text \<open>Memory that still holds what was there, read as \<open>n\<close> cells or blocks.\<close>

definition pad :: "nat \<Rightarrow> 'a \<Rightarrow> 'a list \<Rightarrow> 'a list" where
  "pad n d xs = take n (xs @ replicate n d)"

definition null_block :: WASMBranchBlock where
  "null_block = \<lparr>bb_begin_addr = 0, bb_target_addr = 0, bb_frame_sp = 0, bb_cell_num = 0\<rparr>"

section \<open>Native functions\<close>

text \<open>\<open>u.func_import\<close> points at the union of the import.\<close>

definition func_import :: "WASMFunctionInstance \<Rightarrow> mem \<Rightarrow> WASMImport res" where
  "func_import fi m = load as_WASMImport m (fi_u fi - of_nat offsetof_WASMImport_u)"

definition unlinked_message :: "'h host \<Rightarrow> mem \<Rightarrow> WASMImport \<Rightarrow> string" where
  "unlinked_message ho m im = take 127 (''failed to call unlinked import function ('' @ ho_cstr ho m (im_module_name im) @ '', ''
     @ ho_cstr ho m (im_field_name im) @ '')'')"

text \<open>\<open>prev_frame->sp[0] = v, prev_frame->sp++\<close>.\<close>

definition push_to :: "addr \<Rightarrow> u32 \<Rightarrow> ('h, unit) op" where
  "push_to f v = bind_op (get_frame f) (\<lambda>fr. then_op (change (write_cell f (fr_sp fr) v)) (on_frame f (fr_sp_update (\<lambda>a. a + 4))))"

definition invoke :: "'h host \<Rightarrow> WASMImport \<Rightarrow> u32 list \<Rightarrow> ('h, bool \<times> u32 \<times> u32) op" where
  "invoke ho im args = on_store (ho_invoke ho im args)"

definition native_frame :: "addr \<Rightarrow> addr \<Rightarrow> u32 list \<Rightarrow> WASMInterpFrame \<Rightarrow> WASMInterpFrame" where
  "native_frame f func args fr = fr\<lparr>fr_function := func, fr_ip := 0, fr_sp := frame_lp f + 8, fr_cells := pad 2 0 (args @ drop (length args) (fr_cells fr))\<rparr>"

definition wasm_interp_call_func_native :: "'h host \<Rightarrow> ('h, unit) op" where
  "wasm_interp_call_func_native ho =
     bind_op (var iv_module) (\<lambda>inst. bind_op (var iv_exec_env) (\<lambda>env. bind_op (var iv_cur_func) (\<lambda>func. bind_op (var iv_prev_frame) (\<lambda>prev.
     bind_op (get_func func) (\<lambda>fi. bind_op (look (func_import fi)) (\<lambda>im.
     bind_op (\<lambda>s. Inr (vm_outs s, s)) (\<lambda>outs. let args = pad (unat (fi_param_cell_num fi)) 0 outs in
     bind_op (alloc_frame ho env (wasm_interp_interp_frame_size 2) prev) (\<lambda>f.
     if f = 0 then ret_op ()
     else then_op (on_frame f (native_frame f func args)) (then_op (set_cur_frame env f)
       (if imf_func_ptr_linked im = 0
        then change (\<lambda>m. wasm_set_exception m inst (Some (unlinked_message ho m im)))
        else bind_op (invoke ho im args) (\<lambda>(ok, r0, r1).
          if \<not> ok then ret_op ()
          else seq_ops [
            if fi_ret_cell_num fi = 1 then push_to prev r0
            else if fi_ret_cell_num fi = 2 then then_op (push_to prev r0) (push_to prev r1)
            else ret_op (),
            free_frame env f, set_cur_frame env prev])))))))))))"

section \<open>Calling\<close>

definition cell_count :: "WASMFunctionInstance \<Rightarrow> WASMFunction \<Rightarrow> u64" where
  "cell_count fi fn = ucast (fi_param_cell_num fi) + ucast (fi_local_cell_num fi) + ucast (fn_max_stack_cell_num fn)
     + ucast (fn_max_block_num fn) * of_nat sizeof_WASMBranchBlock div 4"

text \<open>The frame of a function: arguments, cleared locals, and the two stacks with what the memory held.\<close>

definition fresh_frame :: "addr \<Rightarrow> addr \<Rightarrow> u32 list \<Rightarrow> WASMFunctionInstance \<Rightarrow> WASMFunction \<Rightarrow> WASMInterpFrame \<Rightarrow> WASMInterpFrame" where
  "fresh_frame f func args fi fn fr =
     (let sp_bottom = frame_lp f + 4 * (ucast (fi_param_cell_num fi) + ucast (fi_local_cell_num fi));
          sp_boundary = sp_bottom + 4 * ucast (fn_max_stack_cell_num fn);
          np = unat (fi_param_cell_num fi); nl = unat (fi_local_cell_num fi) in
      fr\<lparr>fr_function := func, fr_sp_bottom := sp_bottom, fr_sp_boundary := sp_boundary, fr_csp_bottom := sp_boundary,
        fr_csp_boundary := sp_boundary + of_nat sizeof_WASMBranchBlock * ucast (fn_max_block_num fn),
        fr_cells := pad np 0 args @ replicate nl 0 @ pad (unat (fn_max_stack_cell_num fn)) 0 (drop (np + nl) (fr_cells fr)),
        fr_blocks := pad (unat (fn_max_block_num fn)) null_block (fr_blocks fr)\<rparr>)"

definition enter_func :: "'h host \<Rightarrow> addr \<Rightarrow> WASMFunctionInstance \<Rightarrow> ('h, unit) op" where
  "enter_func ho func fi =
     bind_op (look (\<lambda>m. load as_WASMFunction m (fi_u fi))) (\<lambda>fn. let n = cell_count fi fn in
     then_op (set_var iv_all_cell_num_update n)
     (if 0xFFFFFFFF \<le> n then trap ''wasm operand stack overflow''
      else let sz = wasm_interp_interp_frame_size (ucast n) in
       then_op (set_var iv_frame_size_update sz)
       (bind_op (var iv_exec_env) (\<lambda>env. bind_op (var iv_prev_frame) (\<lambda>prev.
       bind_op (alloc_frame ho env sz prev) (\<lambda>f.
       if f = 0 then then_op (set_var iv_frame_update prev) got_exception
       else bind_op (\<lambda>s. Inr (vm_outs s, s)) (\<lambda>outs.
         then_op (set_var iv_frame_update f)
         (then_op (on_frame f (fresh_frame f func outs fi fn))
         (bind_op (look (\<lambda>m. func_code m func)) (\<lambda>code. bind_op (look (\<lambda>m. wasm_get_func_code_end m func)) (\<lambda>code_end.
         bind_op (get_frame f) (\<lambda>fr.
         bind_op (look (\<lambda>m. load as_WASMType m (fn_func_type fn))) (\<lambda>ty.
         seq_ops [set_var iv_frame_ip_update code, set_var iv_frame_ip_end_update code_end,
           set_var iv_frame_lp_update (frame_lp f), set_var iv_frame_sp_update (fr_sp_bottom fr),
           set_var iv_frame_csp_update (fr_csp_bottom fr), set_var iv_cell_num_update (ucast (ty_ret_cell_num ty)),
           PUSH_CSP (ucast (ty_ret_cell_num ty)) (code_end - 1), set_cur_frame env f])))))))))))))"

definition after_native :: "('h, unit) op" where
  "after_native =
     bind_op (var iv_frame) (\<lambda>f. bind_op (get_frame f) (\<lambda>fr.
     seq_ops [set_var iv_prev_frame_update (fr_prev_frame fr), set_var iv_cur_func_update (fr_function fr), UPDATE_ALL_FROM_FRAME,
       bind_op (var iv_module) (\<lambda>inst. bind_op (look (\<lambda>m. load as_WASMModuleInstance m inst)) (\<lambda>mi.
       then_op (set_var iv_memory_update (mi_default_memory mi))
       (if mi_default_memory mi = 0 then ret_op ()
        else bind_op default_memory (\<lambda>mm. bind_op (var iv_num_bytes_per_page) (\<lambda>npp.
          set_var iv_linear_mem_size_update (npp * mm_cur_page_count mm)))))),
       bind_op (var iv_module) (\<lambda>inst. bind_op (look (\<lambda>m. wasm_get_exception m inst)) (\<lambda>exc.
         if exc then got_exception else ret_op ()))]))"

definition call_func_from_entry :: "'h host \<Rightarrow> ('h, unit) op" where
  "call_func_from_entry ho =
     bind_op (var iv_cur_func) (\<lambda>func. bind_op (get_func func) (\<lambda>fi.
     if fi_is_import_func fi then then_op (wasm_interp_call_func_native ho) after_native
     else enter_func ho func fi))"

text \<open>The cells from \<open>a\<close> on, copied to the outs area.\<close>

fun read_cells :: "addr \<Rightarrow> nat \<Rightarrow> ('h, u32 list) op" where
  "read_cells a 0 = ret_op []"
| "read_cells a (Suc n) = bind_op (get_cell a) (\<lambda>v. bind_op (read_cells (a + 4) n) (\<lambda>vs. ret_op (v # vs)))"

definition call_func_from_interp :: "'h host \<Rightarrow> ('h, unit) op" where
  "call_func_from_interp ho =
     bind_op (var iv_cur_func) (\<lambda>func. bind_op (get_func func) (\<lambda>fi.
     then_op (move_sp (- (4 * ucast (fi_param_cell_num fi)))) (then_op SYNC_ALL
     (bind_op (var iv_frame_sp) (\<lambda>sp. bind_op (read_cells sp (unat (fi_param_cell_num fi))) (\<lambda>args.
     then_op (\<lambda>s. Inr ((), s\<lparr>vm_outs := args\<rparr>))
     (bind_op (var iv_frame) (\<lambda>f. then_op (set_var iv_prev_frame_update f) (call_func_from_entry ho)))))))))"

section \<open>Returning\<close>

definition RECOVER_CONTEXT :: "addr \<Rightarrow> ('h, unit) op" where
  "RECOVER_CONTEXT f = bind_op (get_frame f) (\<lambda>fr.
     seq_ops [set_var iv_frame_update f, set_var iv_cur_func_update (fr_function fr),
       set_var iv_prev_frame_update (fr_prev_frame fr), set_var iv_frame_ip_update (fr_ip fr),
       bind_op (look (\<lambda>m. wasm_get_func_code_end m (fr_function fr))) (set_var iv_frame_ip_end_update),
       set_var iv_frame_lp_update (frame_lp f), set_var iv_frame_sp_update (fr_sp fr), set_var iv_frame_csp_update (fr_csp fr)])"

definition return_func :: "('h, unit) op" where
  "return_func = bind_op (var iv_exec_env) (\<lambda>env. bind_op (var iv_frame) (\<lambda>f. bind_op (var iv_prev_frame) (\<lambda>prev.
     then_op (free_frame env f) (then_op (set_cur_frame env prev)
     (bind_op (get_frame prev) (\<lambda>fr. if fr_ip fr = 0 then halt else RECOVER_CONTEXT prev))))))"

text \<open>The loop that copies the results to the caller's stack; \<open>i\<close> is the C variable.\<close>

fun copy_results :: "addr \<Rightarrow> addr \<Rightarrow> nat \<Rightarrow> ('h, unit) op" where
  "copy_results prev sp 0 = ret_op ()"
| "copy_results prev sp (Suc n) = seq_ops [bind_op (get_cell sp) (push_to prev),
     bind_op (var iv_i) (\<lambda>i. set_var iv_i_update (i + 1)), copy_results prev (sp + 4) n]"

definition op_RETURN :: "('h, unit) op" where
  "op_RETURN = bind_op (var iv_cur_func) (\<lambda>func. bind_op (get_func func) (\<lambda>fi.
     then_op (move_sp (- (4 * ucast (fi_ret_cell_num fi)))) (then_op (set_var iv_i_update 0)
     (bind_op (var iv_prev_frame) (\<lambda>prev. bind_op (var iv_frame_sp) (\<lambda>sp.
     then_op (copy_results prev sp (unat (fi_ret_cell_num fi))) return_func))))))"

end
