(* ===== verification/Control.thy ===== *)
theory Control
  imports Calls
begin

text \<open>
  The control, parametric and variable instructions of wasm_interp_classic.c, one definition per handler.
\<close>

section \<open>Types and tables\<close>

definition wasm_value_type_cell_num :: "u8 \<Rightarrow> u16" where
  "wasm_value_type_cell_num value_type =
     (if value_type = VALUE_TYPE_VOID then 0
      else if value_type = VALUE_TYPE_I32 \<or> value_type = VALUE_TYPE_F32 then 1
      else if value_type = VALUE_TYPE_I64 \<or> value_type = VALUE_TYPE_F64 then 2
      else 0)"

definition wasm_type_equal :: "WASMType \<Rightarrow> WASMType \<Rightarrow> bool res" where
  "wasm_type_equal t1 t2 =
     (if ty_param_count t1 \<noteq> ty_param_count t2 \<or> ty_result_count t1 \<noteq> ty_result_count t2 then Inr False
      else let n = unat (ty_param_count t1) + unat (ty_result_count t1) in
        if length (ty_types t1) < n \<or> length (ty_types t2) < n then Inl (UB ''read past the object'')
        else Inr (take n (ty_types t1) = take n (ty_types t2)))"

definition elem_of :: "'a list \<Rightarrow> nat \<Rightarrow> 'a res" where
  "elem_of xs i = (if i < length xs then Inr (xs ! i) else Inl (UB ''read past the object''))"

definition type_at :: "u32 \<Rightarrow> ('h, WASMType) op" where
  "type_at idx = bind_op (var iv_wasm_types) (\<lambda>ts. look (\<lambda>m.
     bind_res (load as_Ptrs m ts) (\<lambda>ps. bind_res (elem_of ps (unat idx)) (load as_WASMType m))))"

definition module_inst :: "('h, WASMModuleInstance) op" where
  "module_inst = bind_op (var iv_module) (\<lambda>a. look (\<lambda>m. load as_WASMModuleInstance m a))"

definition exec_env :: "('h, WASMExecEnv) op" where
  "exec_env = bind_op (var iv_exec_env) (\<lambda>a. look (\<lambda>m. load as_WASMExecEnv m a))"

section \<open>Blocks\<close>

definition cache_entries :: "('h, BlockAddr \<times> BlockAddr) op" where
  "cache_entries =
     bind_op (var iv_frame_ip) (\<lambda>ip. bind_op (var iv_exec_env) (\<lambda>env. bind_op exec_env (\<lambda>ee.
     let ix = ucast (ip AND of_nat (BLOCK_ADDR_CACHE_SIZE - 1)) :: u32 in
     then_op (set_var iv_cache_index_update ix) (then_op (set_var iv_cache_items_update (cache_row env ix))
     (bind_op (from_res (elem_of (ee_block_addr_cache ee) (2 * unat ix))) (\<lambda>b0.
     bind_op (from_res (elem_of (ee_block_addr_cache ee) (2 * unat ix + 1))) (\<lambda>b1. ret_op (b0, b1))))))))"

definition handle_op_block :: "('h, unit) op" where
  "handle_op_block =
     bind_op cache_entries (\<lambda>(b0, b1). bind_op (var iv_frame_ip) (\<lambda>ip.
     then_op (set_var iv_end_addr_update (if ba_start_addr b0 = ip then ba_end_addr b0
       else if ba_start_addr b1 = ip then ba_end_addr b1 else 0))
     (bind_op (var iv_cell_num) (\<lambda>n. bind_op (var iv_end_addr) (\<lambda>e. PUSH_CSP n e)))))"

definition handle_op_loop :: "('h, unit) op" where
  "handle_op_loop = bind_op (var iv_cell_num) (\<lambda>n. bind_op (var iv_frame_ip) (\<lambda>ip. PUSH_CSP n ip))"

text \<open>\<open>wasm_loader_find_block_addr\<close> on the cache of the execution environment, with the addresses of the two locals.\<close>

definition find_block :: "addr \<Rightarrow> u8 \<Rightarrow> ('h, unit) op" where
  "find_block start label =
     bind_op (var iv_exec_env) (\<lambda>env. bind_op exec_env (\<lambda>ee. bind_op (stream_at start) (\<lambda>bs.
     if length (ee_block_addr_cache ee) < 128 then crash (UB ''read past the object'')
     else bind_op (from_res (wasm_loader_find_block_addr (ee_block_addr_cache ee) start bs label)) (\<lambda>r.
       case r of None \<Rightarrow> trap ''find block address failed''
       | Some (els, en, cache) \<Rightarrow> seq_ops [
           change (\<lambda>m. Inr (m(env := Some (O_WASMExecEnv (ee\<lparr>ee_block_addr_cache := cache\<rparr>))))),
           case els of None \<Rightarrow> ret_op () | Some e \<Rightarrow> set_var iv_else_addr_update e,
           set_var iv_end_addr_update en]))))"

definition handle_op_if :: "('h, unit) op" where
  "handle_op_if =
     bind_op cache_entries (\<lambda>(b0, b1). bind_op (var iv_frame_ip) (\<lambda>ip.
     then_op
       (if ba_start_addr b0 = ip
        then then_op (set_var iv_else_addr_update (ba_else_addr b0)) (set_var iv_end_addr_update (ba_end_addr b0))
        else if ba_start_addr b1 = ip
        then then_op (set_var iv_else_addr_update (ba_else_addr b1)) (set_var iv_end_addr_update (ba_end_addr b1))
        else find_block ip LABEL_TYPE_IF)
     (bind_op POP_I32 (\<lambda>c. then_op (set_var iv_cond_update c)
     (bind_op (var iv_cell_num) (\<lambda>n. bind_op (var iv_else_addr) (\<lambda>els. bind_op (var iv_end_addr) (\<lambda>en.
     if c \<noteq> 0 then PUSH_CSP n en
     else if els = 0 then set_var iv_frame_ip_update (en + 1)
     else then_op (PUSH_CSP n en) (set_var iv_frame_ip_update (els + 1))))))))))"

text \<open>The block type of the two forms of the opcodes: an index of a type, or one byte.\<close>

definition block_type_index :: "(WASMType \<Rightarrow> u16) \<Rightarrow> ('h, unit) op" where
  "block_type_index cells = then_op (imm_to iv_type_index_update)
     (bind_op (var iv_type_index) (\<lambda>i. bind_op (type_at i) (\<lambda>t. set_var iv_cell_num_update (ucast (cells t)))))"

definition block_type_byte :: "('h, unit) op" where
  "block_type_byte = bind_op imm_u8 (\<lambda>t. then_op (set_var iv_value_type_update t)
     (set_var iv_cell_num_update (ucast (wasm_value_type_cell_num t))))"

definition op_ELSE :: "('h, unit) op" where
  "op_ELSE = bind_op (var iv_frame_csp) (\<lambda>csp. bind_op (get_block (csp - of_nat sizeof_WASMBranchBlock)) (\<lambda>b.
     set_var iv_frame_ip_update (bb_target_addr b)))"

definition op_END :: "('h, unit) op" where
  "op_END = bind_op (var iv_frame_csp) (\<lambda>csp. bind_op (var iv_frame) (\<lambda>f. bind_op (get_frame f) (\<lambda>fr.
     if fr_csp_bottom fr + of_nat sizeof_WASMBranchBlock < csp then POP_CSP else op_RETURN)))"

section \<open>Branches\<close>

definition label_pop_csp_n :: "('h, unit) op" where
  "label_pop_csp_n =
     bind_op (var iv_depth) (\<lambda>depth. then_op (POP_CSP_N depth)
     (bind_op (var iv_frame_ip) (\<lambda>ip.
     if ip \<noteq> 0 then ret_op ()
     else bind_op (var iv_frame_csp) (\<lambda>csp. bind_op (get_block (csp - of_nat sizeof_WASMBranchBlock)) (\<lambda>b.
       then_op (find_block (bb_begin_addr b) LABEL_TYPE_BLOCK)
         (bind_op (var iv_end_addr) (set_var iv_frame_ip_update)))))))"

definition op_BR :: "('h, unit) op" where
  "op_BR = then_op (imm_to iv_depth_update) label_pop_csp_n"

definition op_BR_IF :: "('h, unit) op" where
  "op_BR_IF = then_op (imm_to iv_depth_update) (bind_op POP_I32 (\<lambda>c. then_op (set_var iv_cond_update c)
     (if c \<noteq> 0 then label_pop_csp_n else ret_op ())))"

fun repeat_op :: "nat \<Rightarrow> ('h, unit) op \<Rightarrow> ('h, unit) op" where
  "repeat_op 0 c = ret_op ()"
| "repeat_op (Suc n) c = then_op c (repeat_op n c)"

definition op_BR_TABLE :: "('h, unit) op" where
  "op_BR_TABLE = then_op (imm_to iv_count_update) (bind_op (var iv_count) (\<lambda>count. bind_op POP_I32 (\<lambda>x.
     let lidx = (if count < x then count else x) in
     seq_ops [set_var iv_lidx_update lidx, repeat_op (unat lidx) skip_imm_leb, set_var iv_i_update lidx,
       imm_to iv_depth_update, label_pop_csp_n])))"

section \<open>Calls\<close>

definition function_addr :: "u32 \<Rightarrow> ('h, addr) op" where
  "function_addr idx = bind_op module_inst (\<lambda>mi. ret_op (mi_functions mi + ucast idx * of_nat (c_size L_WASMFunctionInstance)))"

definition op_CALL :: "'h host \<Rightarrow> ('h, unit) op" where
  "op_CALL ho = then_op (imm_to iv_fidx_update) (bind_op (var iv_fidx) (\<lambda>idx. bind_op (function_addr idx) (\<lambda>a.
     then_op (set_var iv_cur_func_update a) (call_func_from_interp ho))))"

definition func_type_of :: "WASMFunctionInstance \<Rightarrow> mem \<Rightarrow> WASMType res" where
  "func_type_of fi m = bind_res (if fi_is_import_func fi then bind_res (func_import fi m) (\<lambda>im. Inr (imf_func_type im))
       else bind_res (load as_WASMFunction m (fi_u fi)) (\<lambda>fn. Inr (fn_func_type fn))) (load as_WASMType m)"

definition table_inst :: "u32 \<Rightarrow> ('h, WASMTableInstance) op" where
  "table_inst idx = bind_op module_inst (\<lambda>mi. look (\<lambda>m.
     bind_res (load as_Ptrs m (mi_tables mi)) (\<lambda>ps. bind_res (elem_of ps (unat idx)) (load as_WASMTableInstance m))))"

definition table_elem :: "WASMTableInstance \<Rightarrow> u32 \<Rightarrow> u32 res" where
  "table_elem t i = (let bs = take 4 (drop (4 * unat i) (ti_base_addr t)) in
     if length bs < 4 then Inl (UB ''read past the object'') else Inr (le_word bs))"

definition op_CALL_INDIRECT :: "'h host \<Rightarrow> ('h, unit) op" where
  "op_CALL_INDIRECT ho =
     then_op (imm_to iv_tidx_update) (bind_op (var iv_tidx) (\<lambda>tidx. bind_op (type_at tidx) (\<lambda>cur_type.
     bind_op imm_u32 (\<lambda>tbl_idx. bind_op (table_inst tbl_idx) (\<lambda>tbl.
     bind_op POP_I32 (\<lambda>val. then_op (set_var iv_val_update val)
     (if sint val < 0 \<or> sint (ti_cur_size tbl) \<le> sint val then trap ''undefined element''
      else bind_op (from_res (table_elem tbl val)) (\<lambda>fidx. then_op (set_var iv_fidx_update fidx)
       (if fidx = - 1 then trap ''uninitialized element''
        else bind_op module_inst (\<lambda>mi.
          if mi_function_count mi \<le> fidx then trap ''unknown function''
          else bind_op (function_addr fidx) (\<lambda>a. then_op (set_var iv_cur_func_update a)
            (bind_op (get_func a) (\<lambda>fi. bind_op (look (func_type_of fi)) (\<lambda>cur_func_type.
             bind_op (from_res (wasm_type_equal cur_type cur_func_type)) (\<lambda>same.
             if \<not> same then trap ''indirect call type mismatch'' else call_func_from_interp ho)))))))))))))))"

section \<open>Parametric instructions\<close>

definition op_SELECT :: "('h, unit) op" where
  "op_SELECT = bind_op POP_I32 (\<lambda>c. then_op (set_var iv_cond_update c) (then_op (move_sp (- 4))
     (bind_op (var iv_frame_sp) (\<lambda>sp. if c \<noteq> 0 then ret_op () else bind_op (get_cell sp) (put_cell (sp - 4))))))"

definition op_SELECT_64 :: "('h, unit) op" where
  "op_SELECT_64 = bind_op POP_I32 (\<lambda>c. then_op (set_var iv_cond_update c) (then_op (move_sp (- 8))
     (bind_op (var iv_frame_sp) (\<lambda>sp. if c \<noteq> 0 then ret_op ()
       else then_op (bind_op (get_cell sp) (put_cell (sp - 8))) (bind_op (get_cell (sp + 4)) (put_cell (sp - 4)))))))"

section \<open>Locals\<close>

text \<open>The tables of a function of the module: offsets of 16 bits, and the types of parameters and locals, which
  the instance takes from its type and from the end of the \<open>WASMFunction\<close>.\<close>

definition local_offset_at :: "WASMFunctionInstance \<Rightarrow> u32 \<Rightarrow> mem \<Rightarrow> u16 res" where
  "local_offset_at fi idx m = bind_res (load as_Bytes m (fi_local_offsets fi)) (\<lambda>bs.
     let e = take 2 (drop (2 * unat idx) bs) in if length e < 2 then Inl (UB ''read past the object'') else Inr (le_word e))"

definition local_type_at :: "WASMFunctionInstance \<Rightarrow> u32 \<Rightarrow> mem \<Rightarrow> u8 res" where
  "local_type_at fi idx m = bind_res (load as_WASMFunction m (fi_u fi)) (\<lambda>fn.
     if idx < ucast (fi_param_count fi) then
       bind_res (load as_WASMType m (fn_func_type fn)) (\<lambda>ty.
         if fi_param_types fi = fn_func_type fn + of_nat offsetof_WASMType_types then elem_of (ty_types ty) (unat idx)
         else Inl (UB ''invalid access''))
     else if fi_local_types fi = fi_u fi + of_nat sizeof_WASMFunction
       then elem_of (fn_tail fn) (unat (idx - ucast (fi_param_count fi)))
       else Inl (UB ''invalid access''))"

definition GET_LOCAL_INDEX_TYPE_AND_OFFSET :: "('h, unit) op" where
  "GET_LOCAL_INDEX_TYPE_AND_OFFSET =
     then_op (imm_to iv_local_idx_update) (bind_op (var iv_local_idx) (\<lambda>idx. bind_op (var iv_cur_func) (\<lambda>func. bind_op (get_func func) (\<lambda>fi.
     bind_op (look (local_offset_at fi idx)) (\<lambda>off. then_op (set_var iv_local_offset_update (ucast off))
     (bind_op (look (local_type_at fi idx)) (set_var iv_local_type_update)))))))"

definition local_addr :: "u32 \<Rightarrow> ('h, addr) op" where
  "local_addr off = bind_op (var iv_frame_lp) (\<lambda>lp. ret_op (lp + 4 * ucast off))"

text \<open>The switch on the type of the local: one cell, two cells, or an exception.\<close>

definition by_local_type :: "(addr \<Rightarrow> ('h, unit) op) \<Rightarrow> (addr \<Rightarrow> ('h, unit) op) \<Rightarrow> ('h, unit) op" where
  "by_local_type one two = then_op GET_LOCAL_INDEX_TYPE_AND_OFFSET
     (bind_op (var iv_local_type) (\<lambda>t. bind_op (var iv_local_offset) (\<lambda>off. bind_op (local_addr off) (\<lambda>a.
     if t = VALUE_TYPE_I32 \<or> t = VALUE_TYPE_F32 then one a
     else if t = VALUE_TYPE_I64 \<or> t = VALUE_TYPE_F64 then two a
     else trap ''invalid local type''))))"

definition by_fast_local :: "(addr \<Rightarrow> ('h, unit) op) \<Rightarrow> (addr \<Rightarrow> ('h, unit) op) \<Rightarrow> ('h, unit) op" where
  "by_fast_local one two = bind_op imm_u8 (\<lambda>b. then_op (set_var iv_local_offset_update (ucast b))
     (if b AND 0x80 \<noteq> 0 then bind_op (local_addr (ucast b AND 0x7F)) two else bind_op (local_addr (ucast b)) one))"

definition get_local_32 :: "addr \<Rightarrow> ('h, unit) op" where "get_local_32 a = bind_op (get_cell a) PUSH_I32"
definition get_local_64 :: "addr \<Rightarrow> ('h, unit) op" where "get_local_64 a = bind_op (GET_I64_FROM_ADDR a) PUSH_I64"
definition set_local_32 :: "addr \<Rightarrow> ('h, unit) op" where "set_local_32 a = bind_op POP_I32 (put_cell a)"
definition set_local_64 :: "addr \<Rightarrow> ('h, unit) op" where "set_local_64 a = bind_op POP_I64 (PUT_I64_TO_ADDR a)"
definition tee_local_32 :: "addr \<Rightarrow> ('h, unit) op" where
  "tee_local_32 a = bind_op (var iv_frame_sp) (\<lambda>sp. bind_op (get_cell (sp - 4)) (put_cell a))"
definition tee_local_64 :: "addr \<Rightarrow> ('h, unit) op" where
  "tee_local_64 a = bind_op (var iv_frame_sp) (\<lambda>sp. bind_op (GET_I64_FROM_ADDR (sp - 8)) (PUT_I64_TO_ADDR a))"

section \<open>Globals\<close>

text \<open>A global is a slot of the block \<open>global_data\<close> of the instance.\<close>

definition global_slot :: "('h, addr) op" where
  "global_slot = then_op (imm_to iv_global_idx_update) (bind_op (var iv_global_idx) (\<lambda>idx. bind_op (var iv_globals) (\<lambda>gs.
     then_op (set_var iv_global_update (gs + ucast idx * of_nat (c_size L_WASMGlobalInstance)))
     (bind_op (var iv_global) (\<lambda>g. bind_op (look (\<lambda>m. load as_WASMGlobalInstance m g)) (\<lambda>gi. bind_op (var iv_global_data) (\<lambda>gd.
     then_op (set_var iv_global_addr_update (gd + ucast (gi_data_offset gi))) (var iv_global_addr))))))))"

definition read_global :: "nat \<Rightarrow> addr \<Rightarrow> ('h, byte list) op" where
  "read_global n a = bind_op module_inst (\<lambda>mi. look (read_bytes (mi_global_data mi) a n))"

definition write_global :: "addr \<Rightarrow> byte list \<Rightarrow> ('h, unit) op" where
  "write_global a xs = bind_op module_inst (\<lambda>mi. change (write_bytes (mi_global_data mi) a xs))"

definition op_GET_GLOBAL :: "('h, unit) op" where
  "op_GET_GLOBAL = bind_op global_slot (\<lambda>a. bind_op (read_global 4 a) (\<lambda>bs. PUSH_I32 (le_word bs)))"

definition op_GET_GLOBAL_64 :: "('h, unit) op" where
  "op_GET_GLOBAL_64 = bind_op global_slot (\<lambda>a. bind_op (read_global 8 a) (\<lambda>bs. PUSH_I64 (le_word bs)))"

definition op_SET_GLOBAL :: "('h, unit) op" where
  "op_SET_GLOBAL = bind_op global_slot (\<lambda>a. bind_op POP_I32 (\<lambda>v. write_global a (le_bytes 4 v)))"

definition op_SET_GLOBAL_64 :: "('h, unit) op" where
  "op_SET_GLOBAL_64 = bind_op global_slot (\<lambda>a. bind_op POP_I64 (\<lambda>v. write_global a (le_bytes 8 v)))"

definition op_SET_GLOBAL_AUX_STACK :: "('h, unit) op" where
  "op_SET_GLOBAL_AUX_STACK = bind_op global_slot (\<lambda>a. bind_op (var iv_frame_sp) (\<lambda>sp. bind_op (get_cell (sp - 4)) (\<lambda>aux_stack_top.
     bind_op exec_env (\<lambda>ee.
     if ucast aux_stack_top \<le> ee_aux_stack_boundary ee then trap ''wasm auxiliary stack overflow''
     else if ee_aux_stack_bottom ee < ucast aux_stack_top then trap ''wasm auxiliary stack underflow''
     else then_op (write_global a (le_bytes 4 aux_stack_top)) (move_sp (- 4))))))"

end
