(* ===== verification/Data_Ops.thy ===== *)
theory Data_Ops
  imports Control
begin

text \<open>
  The memory, constant, comparison, numeric and conversion instructions of wasm_interp_classic.c: the macros
  \<open>DEF_OP_*\<close> and the handlers that are written out.
\<close>

section \<open>Memory\<close>

definition load_op :: "nat \<Rightarrow> (byte list \<Rightarrow> ('h, unit) op) \<Rightarrow> ('h, unit) op" where
  "load_op n k = bind_op imm_u32 (\<lambda>flags. bind_op imm_u32 (\<lambda>offset. bind_op POP_I32 (\<lambda>ad.
     then_op (CHECK_MEMORY_OVERFLOW offset ad (of_nat n)) (bind_op (load_maddr n) k))))"

text \<open>\<open>opcode = *(frame_ip - 1)\<close>.\<close>

definition refetch_opcode :: "('h, unit) op" where
  "refetch_opcode = bind_op (var iv_frame_ip) (\<lambda>ip. bind_op (stream_at (ip - 1)) (\<lambda>bs.
     bind_op (from_res (read_byte bs)) (\<lambda>(b, _). set_var iv_opcode_update b)))"

definition push_int8_32 :: "byte list \<Rightarrow> ('h, unit) op" where "push_int8_32 bs = PUSH_I32 (sign_ext_8_32 (le_word bs))"
definition push_uint_32 :: "byte list \<Rightarrow> ('h, unit) op" where "push_uint_32 bs = PUSH_I32 (le_word bs)"
definition push_int16_32 :: "byte list \<Rightarrow> ('h, unit) op" where "push_int16_32 bs = PUSH_I32 (sign_ext_16_32 (le_word bs))"
definition push_int8_64 :: "byte list \<Rightarrow> ('h, unit) op" where "push_int8_64 bs = PUSH_I64 (sign_ext_8_64 (le_word bs))"
definition push_int16_64 :: "byte list \<Rightarrow> ('h, unit) op" where "push_int16_64 bs = PUSH_I64 (sign_ext_16_64 (le_word bs))"
definition push_int32_64 :: "byte list \<Rightarrow> ('h, unit) op" where "push_int32_64 bs = PUSH_I64 (sign_ext_32_64 (le_word bs))"
definition push_uint_64 :: "byte list \<Rightarrow> ('h, unit) op" where "push_uint_64 bs = PUSH_I64 (le_word bs)"

definition op_LOAD :: "u8 \<Rightarrow> ('h, unit) op" where
  "op_LOAD opcode =
     (if opcode \<in> {WASM_OP_I32_LOAD, WASM_OP_F32_LOAD} then load_op 4 push_uint_32
      else if opcode \<in> {WASM_OP_I64_LOAD, WASM_OP_F64_LOAD} then load_op 8 push_uint_64
      else if opcode = WASM_OP_I32_LOAD8_S then load_op 1 push_int8_32
      else if opcode = WASM_OP_I32_LOAD8_U then load_op 1 push_uint_32
      else if opcode = WASM_OP_I32_LOAD16_S then load_op 2 push_int16_32
      else if opcode = WASM_OP_I32_LOAD16_U then load_op 2 push_uint_32
      else if opcode = WASM_OP_I64_LOAD8_S then load_op 1 push_int8_64
      else if opcode = WASM_OP_I64_LOAD8_U then load_op 1 push_uint_64
      else if opcode = WASM_OP_I64_LOAD16_S then load_op 2 push_int16_64
      else if opcode = WASM_OP_I64_LOAD16_U then load_op 2 push_uint_64
      else if opcode = WASM_OP_I64_LOAD32_S then then_op refetch_opcode (load_op 4 push_int32_64)
      else load_op 4 push_uint_64)"

text \<open>The full-width stores take the value from the cells above the new top of the stack.\<close>

definition store_cells :: "nat \<Rightarrow> ('h, unit) op" where
  "store_cells n = bind_op imm_u32 (\<lambda>flags. bind_op imm_u32 (\<lambda>offset. then_op (move_sp (- (4 * of_nat n))) (bind_op POP_I32 (\<lambda>ad.
     then_op (CHECK_MEMORY_OVERFLOW offset ad (4 * of_nat n)) (bind_op (var iv_frame_sp) (\<lambda>sp.
     then_op (bind_op (get_cell (sp + 4)) (\<lambda>v. store_maddr 0 (le_bytes 4 v)))
       (if n = 2 then bind_op (get_cell (sp + 8)) (\<lambda>v. store_maddr 4 (le_bytes 4 v)) else ret_op ())))))))"

definition store_narrow :: "('h, 'a::len word) op \<Rightarrow> (u8 \<Rightarrow> nat) \<Rightarrow> ('h, unit) op" where
  "store_narrow pop width = then_op refetch_opcode (bind_op imm_u32 (\<lambda>flags. bind_op imm_u32 (\<lambda>offset. bind_op pop (\<lambda>sval.
     bind_op POP_I32 (\<lambda>ad. bind_op (var iv_opcode) (\<lambda>opcode. let n = width opcode in
     then_op (CHECK_MEMORY_OVERFLOW offset ad (of_nat n)) (store_maddr 0 (le_bytes n sval))))))))"

definition width_i32_store :: "u8 \<Rightarrow> nat" where
  "width_i32_store opcode = (if opcode = WASM_OP_I32_STORE8 then 1 else 2)"

definition width_i64_store :: "u8 \<Rightarrow> nat" where
  "width_i64_store opcode = (if opcode = WASM_OP_I64_STORE8 then 1 else if opcode = WASM_OP_I64_STORE16 then 2 else 4)"

definition op_STORE :: "u8 \<Rightarrow> ('h, unit) op" where
  "op_STORE opcode =
     (if opcode \<in> {WASM_OP_I32_STORE, WASM_OP_F32_STORE} then store_cells 1
      else if opcode \<in> {WASM_OP_I64_STORE, WASM_OP_F64_STORE} then store_cells 2
      else if opcode \<in> {WASM_OP_I32_STORE8, WASM_OP_I32_STORE16} then store_narrow POP_I32 width_i32_store
      else store_narrow POP_I64 width_i64_store)"

definition op_MEMORY_SIZE :: "('h, unit) op" where
  "op_MEMORY_SIZE = bind_op imm_u32 (\<lambda>reserved. bind_op default_memory (\<lambda>mm. PUSH_I32 (mm_cur_page_count mm)))"

definition op_MEMORY_GROW :: "'h host \<Rightarrow> ('h, unit) op" where
  "op_MEMORY_GROW ho =
     bind_op default_memory (\<lambda>mm0. bind_op imm_u32 (\<lambda>reserved. bind_op POP_I32 (\<lambda>delta.
     bind_op (var iv_module) (\<lambda>inst. bind_op (on_store (wasm_enlarge_memory (ho_allocs ho) (ho_junk ho) inst delta)) (\<lambda>ok.
     if \<not> ok then PUSH_I32 (- 1)
     else then_op (PUSH_I32 (mm_cur_page_count mm0)) (bind_op module_inst (\<lambda>mi.
       then_op (set_var iv_memory_update (mi_default_memory mi)) (bind_op default_memory (\<lambda>mm. bind_op (var iv_num_bytes_per_page) (\<lambda>npp.
       set_var iv_linear_mem_size_update (npp * mm_cur_page_count mm)))))))))))"

section \<open>Constants\<close>

definition take_bytes :: "nat \<Rightarrow> byte list \<Rightarrow> (byte list \<times> byte list) res" where
  "take_bytes n bs = (if length bs < n then Inl (UB ''read past the code'') else Inr (take n bs, drop n bs))"

definition op_F32_CONST :: "('h, unit) op" where
  "op_F32_CONST = bind_op (read_imm (take_bytes 4)) (\<lambda>bs. then_op (set_var iv_i_update 4) (PUSH_I32 (le_word bs)))"

definition op_F64_CONST :: "('h, unit) op" where
  "op_F64_CONST = bind_op (read_imm (take_bytes 8)) (\<lambda>bs. then_op (set_var iv_i_update 8) (PUSH_I64 (le_word bs)))"

section \<open>The macros of the numeric handlers\<close>

definition DEF_OP_CMP_I32 :: "(u32 \<Rightarrow> u32 \<Rightarrow> bool) \<Rightarrow> ('h, unit) op" where
  "DEF_OP_CMP_I32 c = bind_op POP_I32 (\<lambda>b. bind_op POP_I32 (\<lambda>a. PUSH_I32 (of_bool (c a b))))"

definition DEF_OP_CMP_I64 :: "(u64 \<Rightarrow> u64 \<Rightarrow> bool) \<Rightarrow> ('h, unit) op" where
  "DEF_OP_CMP_I64 c = bind_op POP_I64 (\<lambda>b. bind_op POP_I64 (\<lambda>a. PUSH_I32 (of_bool (c a b))))"

definition DEF_OP_NUMERIC :: "(u32 \<Rightarrow> u32 \<Rightarrow> u32) \<Rightarrow> ('h, unit) op" where
  "DEF_OP_NUMERIC g = then_op (move_sp (- 4)) (bind_op (var iv_frame_sp) (\<lambda>sp.
     bind_op (get_cell (sp - 4)) (\<lambda>a. bind_op (get_cell sp) (\<lambda>b. put_cell (sp - 4) (g a b)))))"

definition DEF_OP_NUMERIC_64 :: "(u64 \<Rightarrow> u64 \<Rightarrow> u64) \<Rightarrow> ('h, unit) op" where
  "DEF_OP_NUMERIC_64 g = then_op (move_sp (- 8)) (bind_op (var iv_frame_sp) (\<lambda>sp.
     bind_op (GET_I64_FROM_ADDR (sp - 8)) (\<lambda>a. bind_op (GET_I64_FROM_ADDR sp) (\<lambda>b. PUT_I64_TO_ADDR (sp - 8) (g a b)))))"

text \<open>A unary operation: \<open>DEF_OP_BIT_COUNT\<close>, \<open>DEF_OP_MATH\<close>, \<open>DEF_OP_CONVERT\<close> on one type.\<close>

definition unary_32 :: "(u32 \<Rightarrow> u32 res) \<Rightarrow> ('h, unit) op" where
  "unary_32 g = bind_op POP_I32 (\<lambda>a. bind_op (from_res (g a)) PUSH_I32)"

definition unary_64 :: "(u64 \<Rightarrow> u64 res) \<Rightarrow> ('h, unit) op" where
  "unary_64 g = bind_op POP_I64 (\<lambda>a. bind_op (from_res (g a)) PUSH_I64)"

definition convert_32_64 :: "(u32 \<Rightarrow> u64) \<Rightarrow> ('h, unit) op" where
  "convert_32_64 g = bind_op POP_I32 (\<lambda>a. PUSH_I64 (g a))"

definition convert_64_32 :: "(u64 \<Rightarrow> u32) \<Rightarrow> ('h, unit) op" where
  "convert_64_32 g = bind_op POP_I64 (\<lambda>a. PUSH_I32 (g a))"

text \<open>Two operands popped and a result or an exception: the divisions and the handlers on floats.\<close>

definition binary_32 :: "(u32 \<Rightarrow> u32 \<Rightarrow> string + u32) \<Rightarrow> ('h, unit) op" where
  "binary_32 g = bind_op POP_I32 (\<lambda>b. bind_op POP_I32 (\<lambda>a. case g a b of Inl msg \<Rightarrow> trap msg | Inr r \<Rightarrow> PUSH_I32 r))"

definition binary_64 :: "(u64 \<Rightarrow> u64 \<Rightarrow> string + u64) \<Rightarrow> ('h, unit) op" where
  "binary_64 g = bind_op POP_I64 (\<lambda>b. bind_op POP_I64 (\<lambda>a. case g a b of Inl msg \<Rightarrow> trap msg | Inr r \<Rightarrow> PUSH_I64 r))"

section \<open>Integers\<close>

text \<open>Division of C: the quotient is truncated, the remainder has the sign of the dividend.\<close>

definition c_quot :: "int \<Rightarrow> int \<Rightarrow> int" where "c_quot a b = sgn a * sgn b * (\<bar>a\<bar> div \<bar>b\<bar>)"
definition c_rem :: "int \<Rightarrow> int \<Rightarrow> int" where "c_rem a b = a - b * c_quot a b"

definition min_int :: "'a::len word" where "min_int = push_bit (LENGTH('a) - 1) 1"

definition op_DIV_S :: "'a::len word \<Rightarrow> 'a word \<Rightarrow> string + 'a word" where
  "op_DIV_S a b = (if a = min_int \<and> b = - 1 then Inl ''integer overflow''
     else if b = 0 then Inl ''integer divide by zero'' else Inr (word_of_int (c_quot (sint a) (sint b))))"

definition op_DIV_U :: "'a::len word \<Rightarrow> 'a word \<Rightarrow> string + 'a word" where
  "op_DIV_U a b = (if b = 0 then Inl ''integer divide by zero'' else Inr (a div b))"

definition op_REM_S :: "'a::len word \<Rightarrow> 'a word \<Rightarrow> string + 'a word" where
  "op_REM_S a b = (if a = min_int \<and> b = - 1 then Inr 0
     else if b = 0 then Inl ''integer divide by zero'' else Inr (word_of_int (c_rem (sint a) (sint b))))"

definition op_REM_U :: "'a::len word \<Rightarrow> 'a word \<Rightarrow> string + 'a word" where
  "op_REM_U a b = (if b = 0 then Inl ''integer divide by zero'' else Inr (a mod b))"

definition op_SHL :: "'a::len word \<Rightarrow> 'a word \<Rightarrow> 'a word" where "op_SHL a b = push_bit (unat b mod LENGTH('a)) a"
definition op_SHR_S :: "'a::len word \<Rightarrow> 'a word \<Rightarrow> 'a word" where "op_SHR_S a b = signed_drop_bit (unat b mod LENGTH('a)) a"
definition op_SHR_U :: "'a::len word \<Rightarrow> 'a word \<Rightarrow> 'a word" where "op_SHR_U a b = drop_bit (unat b mod LENGTH('a)) a"

definition slt :: "'a::len word \<Rightarrow> 'a word \<Rightarrow> bool" where "slt a b \<longleftrightarrow> sint a < sint b"
definition sle :: "'a::len word \<Rightarrow> 'a word \<Rightarrow> bool" where "sle a b \<longleftrightarrow> sint a \<le> sint b"

definition op_I32_CMP :: "u8 \<Rightarrow> ('h, unit) op" where
  "op_I32_CMP opcode =
     (if opcode = WASM_OP_I32_EQZ then unary_32 (\<lambda>a. Inr (of_bool (a = 0)))
      else DEF_OP_CMP_I32 (if opcode = WASM_OP_I32_EQ then (=) else if opcode = WASM_OP_I32_NE then (\<noteq>)
        else if opcode = WASM_OP_I32_LT_S then slt else if opcode = WASM_OP_I32_LT_U then (<)
        else if opcode = WASM_OP_I32_GT_S then (\<lambda>a b. slt b a) else if opcode = WASM_OP_I32_GT_U then (>)
        else if opcode = WASM_OP_I32_LE_S then sle else if opcode = WASM_OP_I32_LE_U then (\<le>)
        else if opcode = WASM_OP_I32_GE_S then (\<lambda>a b. sle b a) else (\<ge>)))"

definition op_I64_CMP :: "u8 \<Rightarrow> ('h, unit) op" where
  "op_I64_CMP opcode =
     (if opcode = WASM_OP_I64_EQZ then convert_64_32 (\<lambda>a. of_bool (a = 0))
      else DEF_OP_CMP_I64 (if opcode = WASM_OP_I64_EQ then (=) else if opcode = WASM_OP_I64_NE then (\<noteq>)
        else if opcode = WASM_OP_I64_LT_S then slt else if opcode = WASM_OP_I64_LT_U then (<)
        else if opcode = WASM_OP_I64_GT_S then (\<lambda>a b. slt b a) else if opcode = WASM_OP_I64_GT_U then (>)
        else if opcode = WASM_OP_I64_LE_S then sle else if opcode = WASM_OP_I64_LE_U then (\<le>)
        else if opcode = WASM_OP_I64_GE_S then (\<lambda>a b. sle b a) else (\<ge>)))"

definition op_I32_NUMERIC :: "u8 \<Rightarrow> ('h, unit) op" where
  "op_I32_NUMERIC opcode =
     (if opcode = WASM_OP_I32_CLZ then unary_32 clz32 else if opcode = WASM_OP_I32_CTZ then unary_32 ctz32
      else if opcode = WASM_OP_I32_POPCNT then unary_32 popcount32
      else if opcode = WASM_OP_I32_ADD then DEF_OP_NUMERIC (+) else if opcode = WASM_OP_I32_SUB then DEF_OP_NUMERIC (-)
      else if opcode = WASM_OP_I32_MUL then DEF_OP_NUMERIC (*)
      else if opcode = WASM_OP_I32_DIV_S then binary_32 op_DIV_S else if opcode = WASM_OP_I32_DIV_U then binary_32 op_DIV_U
      else if opcode = WASM_OP_I32_REM_S then binary_32 op_REM_S else if opcode = WASM_OP_I32_REM_U then binary_32 op_REM_U
      else if opcode = WASM_OP_I32_AND then DEF_OP_NUMERIC (AND) else if opcode = WASM_OP_I32_OR then DEF_OP_NUMERIC (OR)
      else if opcode = WASM_OP_I32_XOR then DEF_OP_NUMERIC (XOR)
      else if opcode = WASM_OP_I32_SHL then DEF_OP_NUMERIC op_SHL else if opcode = WASM_OP_I32_SHR_S then DEF_OP_NUMERIC op_SHR_S
      else if opcode = WASM_OP_I32_SHR_U then DEF_OP_NUMERIC op_SHR_U
      else if opcode = WASM_OP_I32_ROTL then binary_32 (\<lambda>a b. Inr (rotl32 a b))
      else binary_32 (\<lambda>a b. Inr (rotr32 a b)))"

definition op_I64_NUMERIC :: "u8 \<Rightarrow> ('h, unit) op" where
  "op_I64_NUMERIC opcode =
     (if opcode = WASM_OP_I64_CLZ then unary_64 (\<lambda>a. map_sum id ucast (clz64 a))
      else if opcode = WASM_OP_I64_CTZ then unary_64 (\<lambda>a. map_sum id ucast (ctz64 a))
      else if opcode = WASM_OP_I64_POPCNT then unary_64 (\<lambda>a. map_sum id ucast (popcount64 a))
      else if opcode = WASM_OP_I64_ADD then DEF_OP_NUMERIC_64 (+) else if opcode = WASM_OP_I64_SUB then DEF_OP_NUMERIC_64 (-)
      else if opcode = WASM_OP_I64_MUL then DEF_OP_NUMERIC_64 (*)
      else if opcode = WASM_OP_I64_DIV_S then binary_64 op_DIV_S else if opcode = WASM_OP_I64_DIV_U then binary_64 op_DIV_U
      else if opcode = WASM_OP_I64_REM_S then binary_64 op_REM_S else if opcode = WASM_OP_I64_REM_U then binary_64 op_REM_U
      else if opcode = WASM_OP_I64_AND then DEF_OP_NUMERIC_64 (AND) else if opcode = WASM_OP_I64_OR then DEF_OP_NUMERIC_64 (OR)
      else if opcode = WASM_OP_I64_XOR then DEF_OP_NUMERIC_64 (XOR)
      else if opcode = WASM_OP_I64_SHL then DEF_OP_NUMERIC_64 op_SHL else if opcode = WASM_OP_I64_SHR_S then DEF_OP_NUMERIC_64 op_SHR_S
      else if opcode = WASM_OP_I64_SHR_U then DEF_OP_NUMERIC_64 op_SHR_U
      else if opcode = WASM_OP_I64_ROTL then binary_64 (\<lambda>a b. Inr (rotl64 a b))
      else binary_64 (\<lambda>a b. Inr (rotr64 a b)))"

section \<open>Floats\<close>

definition fgt :: "flt \<Rightarrow> flt \<Rightarrow> bool" where "fgt a b = fless b a"
definition fge :: "flt \<Rightarrow> flt \<Rightarrow> bool" where "fge a b = fle b a"
definition fne :: "flt \<Rightarrow> flt \<Rightarrow> bool" where "fne a b \<longleftrightarrow> \<not> feq a b"

definition op_F32_CMP :: "u8 \<Rightarrow> ('h, unit) op" where
  "op_F32_CMP opcode = DEF_OP_CMP_I32 (\<lambda>a b.
     (if opcode = WASM_OP_F32_EQ then feq else if opcode = WASM_OP_F32_NE then fne else if opcode = WASM_OP_F32_LT then fless
      else if opcode = WASM_OP_F32_GT then fgt else if opcode = WASM_OP_F32_LE then fle else fge) (f32 a) (f32 b))"

definition op_F64_CMP :: "u8 \<Rightarrow> ('h, unit) op" where
  "op_F64_CMP opcode = DEF_OP_CMP_I64 (\<lambda>a b.
     (if opcode = WASM_OP_F64_EQ then feq else if opcode = WASM_OP_F64_NE then fne else if opcode = WASM_OP_F64_LT then fless
      else if opcode = WASM_OP_F64_GT then fgt else if opcode = WASM_OP_F64_LE then fle else fge) (f64 a) (f64 b))"

definition flip_sign :: "'a::len word \<Rightarrow> 'a word" where
  "flip_sign u = (if u AND min_int \<noteq> 0 then u AND NOT min_int else u OR min_int)"

definition copysign64 :: "u64 \<Rightarrow> u64 \<Rightarrow> u64" where
  "copysign64 a b = (if bit b 63 then c_neg (c_fabs a) else c_fabs a)"

definition copysign32 :: "nan_choice \<Rightarrow> u32 \<Rightarrow> u32 \<Rightarrow> u32" where
  "copysign32 nc a b = demote nc (if bit b 31 then c_neg (c_fabs (promote nc a)) else c_fabs (promote nc a))"

definition minmax32 :: "nan_choice \<Rightarrow> (u64 \<Rightarrow> u64 \<Rightarrow> u64) \<Rightarrow> u32 \<Rightarrow> u32 \<Rightarrow> u32" where
  "minmax32 nc g a b = (if isnan32 a then a else if isnan32 b then b else demote nc (g (promote nc a) (promote nc b)))"

definition minmax64 :: "(u64 \<Rightarrow> u64 \<Rightarrow> u64) \<Rightarrow> u64 \<Rightarrow> u64 \<Rightarrow> u64" where
  "minmax64 g a b = (if isnan64 a then a else if isnan64 b then b else g a b)"

definition op_F32_NUMERIC :: "nan_choice \<Rightarrow> u8 \<Rightarrow> ('h, unit) op" where
  "op_F32_NUMERIC nc opcode =
     (if opcode = WASM_OP_F32_ABS then unary_32 (\<lambda>a. Inr (lift32 nc c_fabs a))
      else if opcode = WASM_OP_F32_NEG then unary_32 (\<lambda>a. Inr (flip_sign a))
      else if opcode = WASM_OP_F32_CEIL then unary_32 (\<lambda>a. Inr (lift32 nc (c_ceil nc) a))
      else if opcode = WASM_OP_F32_FLOOR then unary_32 (\<lambda>a. Inr (lift32 nc (c_floor nc) a))
      else if opcode = WASM_OP_F32_TRUNC then unary_32 (\<lambda>a. Inr (lift32 nc (c_trunc nc) a))
      else if opcode = WASM_OP_F32_NEAREST then unary_32 (\<lambda>a. Inr (lift32 nc (c_rint nc) a))
      else if opcode = WASM_OP_F32_SQRT then unary_32 (\<lambda>a. Inr (lift32 nc (c_sqrt nc) a))
      else if opcode = WASM_OP_F32_ADD then DEF_OP_NUMERIC (op32 nc fadd) else if opcode = WASM_OP_F32_SUB then DEF_OP_NUMERIC (op32 nc fsub)
      else if opcode = WASM_OP_F32_MUL then DEF_OP_NUMERIC (op32 nc fmul) else if opcode = WASM_OP_F32_DIV then DEF_OP_NUMERIC (op32 nc fdiv)
      else if opcode = WASM_OP_F32_MIN then binary_32 (\<lambda>a b. Inr (minmax32 nc wa_fmin a b))
      else if opcode = WASM_OP_F32_MAX then binary_32 (\<lambda>a b. Inr (minmax32 nc wa_fmax a b))
      else binary_32 (\<lambda>a b. Inr (copysign32 nc a b)))"

definition op_F64_NUMERIC :: "nan_choice \<Rightarrow> u8 \<Rightarrow> ('h, unit) op" where
  "op_F64_NUMERIC nc opcode =
     (if opcode = WASM_OP_F64_ABS then unary_64 (\<lambda>a. Inr (c_fabs a))
      else if opcode = WASM_OP_F64_NEG then unary_64 (\<lambda>a. Inr (flip_sign a))
      else if opcode = WASM_OP_F64_CEIL then unary_64 (\<lambda>a. Inr (c_ceil nc a))
      else if opcode = WASM_OP_F64_FLOOR then unary_64 (\<lambda>a. Inr (c_floor nc a))
      else if opcode = WASM_OP_F64_TRUNC then unary_64 (\<lambda>a. Inr (c_trunc nc a))
      else if opcode = WASM_OP_F64_NEAREST then unary_64 (\<lambda>a. Inr (c_rint nc a))
      else if opcode = WASM_OP_F64_SQRT then unary_64 (\<lambda>a. Inr (c_sqrt nc a))
      else if opcode = WASM_OP_F64_ADD then DEF_OP_NUMERIC_64 (op64 nc fadd) else if opcode = WASM_OP_F64_SUB then DEF_OP_NUMERIC_64 (op64 nc fsub)
      else if opcode = WASM_OP_F64_MUL then DEF_OP_NUMERIC_64 (op64 nc fmul) else if opcode = WASM_OP_F64_DIV then DEF_OP_NUMERIC_64 (op64 nc fdiv)
      else if opcode = WASM_OP_F64_MIN then binary_64 (\<lambda>a b. Inr (minmax64 wa_fmin a b))
      else if opcode = WASM_OP_F64_MAX then binary_64 (\<lambda>a b. Inr (minmax64 wa_fmax a b))
      else binary_64 (\<lambda>a b. Inr (copysign64 a b)))"

section \<open>Conversions\<close>

text \<open>\<open>trunc_f32_to_int\<close> and \<open>trunc_f64_to_int\<close> get \<open>frame_sp\<close> by value: they read the operand below it and write the
  result over it, and the handlers move \<open>frame_sp\<close> when the sizes differ.\<close>

definition trunc_push :: "addr \<Rightarrow> flt \<Rightarrow> flt \<Rightarrow> flt \<Rightarrow> bool \<Rightarrow> bool \<Rightarrow> ('h, unit) op" where
  "trunc_push a v src_min src_max is_i32 is_sign =
     (if is_i32 then (case int_bounds is_sign of (lo, hi) \<Rightarrow> put_cell a (trunc_to v src_min src_max lo hi))
      else (case int_bounds is_sign of (lo, hi) \<Rightarrow> PUT_I64_TO_ADDR a (trunc_to v src_min src_max lo hi)))"

definition trunc_to_int :: "addr \<Rightarrow> flt \<Rightarrow> flt \<Rightarrow> flt \<Rightarrow> bool \<Rightarrow> bool \<Rightarrow> bool \<Rightarrow> ('h, unit) op" where
  "trunc_to_int a v src_min src_max saturating is_i32 is_sign =
     (case (if saturating then None else trunc_check v src_min src_max) of
        Some msg \<Rightarrow> trap msg | None \<Rightarrow> trunc_push a v src_min src_max is_i32 is_sign)"

definition trunc_f32_to_int :: "flt \<Rightarrow> flt \<Rightarrow> bool \<Rightarrow> bool \<Rightarrow> bool \<Rightarrow> ('h, unit) op" where
  "trunc_f32_to_int src_min src_max saturating is_i32 is_sign = bind_op (var iv_frame_sp) (\<lambda>sp. bind_op (get_cell (sp - 4)) (\<lambda>b.
     trunc_to_int (sp - 4) (f32 b) src_min src_max saturating is_i32 is_sign))"

definition trunc_f64_to_int :: "flt \<Rightarrow> flt \<Rightarrow> bool \<Rightarrow> bool \<Rightarrow> bool \<Rightarrow> ('h, unit) op" where
  "trunc_f64_to_int src_min src_max saturating is_i32 is_sign = bind_op (var iv_frame_sp) (\<lambda>sp. bind_op (GET_I64_FROM_ADDR (sp - 8)) (\<lambda>b.
     trunc_to_int (sp - 8) (f64 b) src_min src_max saturating is_i32 is_sign))"

text \<open>The eight conversions with the limits of the source; \<open>sat\<close> distinguishes the saturating forms.\<close>

definition trunc_i32_s_f32 :: "bool \<Rightarrow> ('h, unit) op" where
  "trunc_i32_s_f32 sat = trunc_f32_to_int (FFin True 2147483904) (FFin False 2147483648) sat True True"
definition trunc_i32_u_f32 :: "bool \<Rightarrow> ('h, unit) op" where
  "trunc_i32_u_f32 sat = trunc_f32_to_int (FFin True 1) (FFin False 4294967296) sat True False"
definition trunc_i32_s_f64 :: "bool \<Rightarrow> ('h, unit) op" where
  "trunc_i32_s_f64 sat = then_op (trunc_f64_to_int (FFin True 2147483649) (FFin False 2147483648) sat True True) (move_sp (- 4))"
definition trunc_i32_u_f64 :: "bool \<Rightarrow> ('h, unit) op" where
  "trunc_i32_u_f64 sat = then_op (trunc_f64_to_int (FFin True 1) (FFin False 4294967296) sat True False) (move_sp (- 4))"
definition trunc_i64_s_f32 :: "bool \<Rightarrow> ('h, unit) op" where
  "trunc_i64_s_f32 sat = then_op (trunc_f32_to_int (FFin True 9223373136366403584) (FFin False 9223372036854775808) sat False True) (move_sp 4)"
definition trunc_i64_u_f32 :: "bool \<Rightarrow> ('h, unit) op" where
  "trunc_i64_u_f32 sat = then_op (trunc_f32_to_int (FFin True 1) (FFin False 18446744073709551616) sat False False) (move_sp 4)"
definition trunc_i64_s_f64 :: "bool \<Rightarrow> ('h, unit) op" where
  "trunc_i64_s_f64 sat = trunc_f64_to_int (FFin True 9223372036854777856) (FFin False 9223372036854775808) sat False True"
definition trunc_i64_u_f64 :: "bool \<Rightarrow> ('h, unit) op" where
  "trunc_i64_u_f64 sat = trunc_f64_to_int (FFin True 1) (FFin False 18446744073709551616) sat False False"

definition flt_of_int :: "int \<Rightarrow> flt" where "flt_of_int i = of_signed False (of_int i)"

definition op_CONVERT :: "nan_choice \<Rightarrow> u8 \<Rightarrow> ('h, unit) op" where
  "op_CONVERT nc opcode =
     (if opcode = WASM_OP_I32_WRAP_I64 then convert_64_32 ucast
      else if opcode = WASM_OP_I32_TRUNC_S_F32 then trunc_i32_s_f32 False else if opcode = WASM_OP_I32_TRUNC_U_F32 then trunc_i32_u_f32 False
      else if opcode = WASM_OP_I32_TRUNC_S_F64 then trunc_i32_s_f64 False else if opcode = WASM_OP_I32_TRUNC_U_F64 then trunc_i32_u_f64 False
      else if opcode = WASM_OP_I64_EXTEND_S_I32 then convert_32_64 scast else if opcode = WASM_OP_I64_EXTEND_U_I32 then convert_32_64 ucast
      else if opcode = WASM_OP_I64_TRUNC_S_F32 then trunc_i64_s_f32 False else if opcode = WASM_OP_I64_TRUNC_U_F32 then trunc_i64_u_f32 False
      else if opcode = WASM_OP_I64_TRUNC_S_F64 then trunc_i64_s_f64 False else if opcode = WASM_OP_I64_TRUNC_U_F64 then trunc_i64_u_f64 False
      else if opcode = WASM_OP_F32_CONVERT_S_I32 then unary_32 (\<lambda>a. Inr (to_f32 0 (flt_of_int (sint a))))
      else if opcode = WASM_OP_F32_CONVERT_U_I32 then unary_32 (\<lambda>a. Inr (to_f32 0 (flt_of_int (uint a))))
      else if opcode = WASM_OP_F32_CONVERT_S_I64 then convert_64_32 (\<lambda>a. to_f32 0 (flt_of_int (sint a)))
      else if opcode = WASM_OP_F32_CONVERT_U_I64 then convert_64_32 (\<lambda>a. to_f32 0 (flt_of_int (uint a)))
      else if opcode = WASM_OP_F32_DEMOTE_F64 then convert_64_32 (demote nc)
      else if opcode = WASM_OP_F64_CONVERT_S_I32 then convert_32_64 (\<lambda>a. to_f64 0 (flt_of_int (sint a)))
      else if opcode = WASM_OP_F64_CONVERT_U_I32 then convert_32_64 (\<lambda>a. to_f64 0 (flt_of_int (uint a)))
      else if opcode = WASM_OP_F64_CONVERT_S_I64 then unary_64 (\<lambda>a. Inr (to_f64 0 (flt_of_int (sint a))))
      else if opcode = WASM_OP_F64_CONVERT_U_I64 then unary_64 (\<lambda>a. Inr (to_f64 0 (flt_of_int (uint a))))
      else convert_32_64 (promote nc))"

definition op_EXTEND :: "u8 \<Rightarrow> ('h, unit) op" where
  "op_EXTEND opcode =
     (if opcode = WASM_OP_I32_EXTEND8_S then unary_32 (\<lambda>a. Inr (scast (ucast a :: u8)))
      else if opcode = WASM_OP_I32_EXTEND16_S then unary_32 (\<lambda>a. Inr (scast (ucast a :: u16)))
      else if opcode = WASM_OP_I64_EXTEND8_S then unary_64 (\<lambda>a. Inr (scast (ucast a :: u8)))
      else if opcode = WASM_OP_I64_EXTEND16_S then unary_64 (\<lambda>a. Inr (scast (ucast a :: u16)))
      else unary_64 (\<lambda>a. Inr (scast (ucast a :: u32))))"

definition op_MISC :: "('h, unit) op" where
  "op_MISC = bind_op imm_u32 (\<lambda>opcode1. let opcode = ucast opcode1 :: u8 in then_op (set_var iv_opcode_update opcode)
     (if opcode = WASM_OP_I32_TRUNC_SAT_S_F32 then trunc_i32_s_f32 True else if opcode = WASM_OP_I32_TRUNC_SAT_U_F32 then trunc_i32_u_f32 True
      else if opcode = WASM_OP_I32_TRUNC_SAT_S_F64 then trunc_i32_s_f64 True else if opcode = WASM_OP_I32_TRUNC_SAT_U_F64 then trunc_i32_u_f64 True
      else if opcode = WASM_OP_I64_TRUNC_SAT_S_F32 then trunc_i64_s_f32 True else if opcode = WASM_OP_I64_TRUNC_SAT_U_F32 then trunc_i64_u_f32 True
      else if opcode = WASM_OP_I64_TRUNC_SAT_S_F64 then trunc_i64_s_f64 True else if opcode = WASM_OP_I64_TRUNC_SAT_U_F64 then trunc_i64_u_f64 True
      else trap ''unsupported opcode''))"

end
