(* ===== verification/Interp_Loop.thy ===== *)
theory Interp_Loop
  imports Data_Ops
begin

text \<open>
  The dispatch of the classic interpreter, the loop of \<open>wasm_interp_call_func_bytecode\<close> with its checkpoint branch,
  and its callers \<open>wasm_interp_call_wasm\<close> and \<open>wasm_interp_restore\<close>.
\<close>

section \<open>Dispatch\<close>

definition op_IMPDEP :: "'h host \<Rightarrow> ('h, unit) op" where
  "op_IMPDEP ho = bind_op (var iv_prev_frame) (\<lambda>prev. then_op (set_var iv_frame_update prev)
     (bind_op (get_frame prev) (\<lambda>fr. seq_ops [set_var iv_frame_ip_update (fr_ip fr), set_var iv_frame_sp_update (fr_sp fr),
       set_var iv_frame_csp_update (fr_csp fr), call_func_from_entry ho])))"

definition handle_control :: "'h host \<Rightarrow> u8 \<Rightarrow> ('h, unit) op" where
  "handle_control ho opcode =
     (if opcode = WASM_OP_UNREACHABLE then trap ''unreachable''
      else if opcode = WASM_OP_NOP then ret_op ()
      else if opcode = EXT_OP_BLOCK then then_op (block_type_index ty_ret_cell_num) handle_op_block
      else if opcode = WASM_OP_BLOCK then then_op block_type_byte handle_op_block
      else if opcode = EXT_OP_LOOP then then_op (block_type_index ty_param_cell_num) handle_op_loop
      else if opcode = WASM_OP_LOOP then then_op block_type_byte handle_op_loop
      else if opcode = EXT_OP_IF then then_op (block_type_index ty_ret_cell_num) handle_op_if
      else if opcode = WASM_OP_IF then then_op block_type_byte handle_op_if
      else if opcode = WASM_OP_ELSE then op_ELSE
      else if opcode = WASM_OP_END then op_END
      else if opcode = WASM_OP_BR then op_BR
      else if opcode = WASM_OP_BR_IF then op_BR_IF
      else if opcode = WASM_OP_BR_TABLE then op_BR_TABLE
      else if opcode = WASM_OP_RETURN then op_RETURN
      else if opcode = WASM_OP_CALL then op_CALL ho
      else if opcode = WASM_OP_CALL_INDIRECT then op_CALL_INDIRECT ho
      else if opcode = WASM_OP_IMPDEP then op_IMPDEP ho
      else trap ''unsupported opcode'')"

definition handle_variable :: "u8 \<Rightarrow> ('h, unit) op" where
  "handle_variable opcode =
     (if opcode = WASM_OP_DROP then move_sp (- 4)
      else if opcode = WASM_OP_DROP_64 then move_sp (- 8)
      else if opcode = WASM_OP_SELECT then op_SELECT
      else if opcode = WASM_OP_SELECT_64 then op_SELECT_64
      else if opcode = WASM_OP_GET_LOCAL then by_local_type get_local_32 get_local_64
      else if opcode = EXT_OP_GET_LOCAL_FAST then by_fast_local get_local_32 get_local_64
      else if opcode = WASM_OP_SET_LOCAL then by_local_type set_local_32 set_local_64
      else if opcode = EXT_OP_SET_LOCAL_FAST then by_fast_local set_local_32 set_local_64
      else if opcode = WASM_OP_TEE_LOCAL then by_local_type tee_local_32 tee_local_64
      else if opcode = EXT_OP_TEE_LOCAL_FAST then by_fast_local tee_local_32 tee_local_64
      else if opcode = WASM_OP_GET_GLOBAL then op_GET_GLOBAL
      else if opcode = WASM_OP_GET_GLOBAL_64 then op_GET_GLOBAL_64
      else if opcode = WASM_OP_SET_GLOBAL then op_SET_GLOBAL
      else if opcode = WASM_OP_SET_GLOBAL_AUX_STACK then op_SET_GLOBAL_AUX_STACK
      else op_SET_GLOBAL_64)"

definition variable_opcodes :: "u8 set" where
  "variable_opcodes = {WASM_OP_DROP, WASM_OP_DROP_64, WASM_OP_SELECT, WASM_OP_SELECT_64, WASM_OP_GET_LOCAL, EXT_OP_GET_LOCAL_FAST,
     WASM_OP_SET_LOCAL, EXT_OP_SET_LOCAL_FAST, WASM_OP_TEE_LOCAL, EXT_OP_TEE_LOCAL_FAST, WASM_OP_GET_GLOBAL, WASM_OP_GET_GLOBAL_64,
     WASM_OP_SET_GLOBAL, WASM_OP_SET_GLOBAL_AUX_STACK, WASM_OP_SET_GLOBAL_64}"

definition between :: "u8 \<Rightarrow> u8 \<Rightarrow> u8 \<Rightarrow> bool" where "between lo hi x \<longleftrightarrow> lo \<le> x \<and> x \<le> hi"

definition handle :: "'h host \<Rightarrow> u8 \<Rightarrow> ('h, unit) op" where
  "handle ho opcode =
     (if opcode \<in> variable_opcodes then handle_variable opcode
      else if between WASM_OP_I32_LOAD WASM_OP_I64_LOAD32_U opcode then op_LOAD opcode
      else if between WASM_OP_I32_STORE WASM_OP_I64_STORE32 opcode then op_STORE opcode
      else if opcode = WASM_OP_MEMORY_SIZE then op_MEMORY_SIZE
      else if opcode = WASM_OP_MEMORY_GROW then op_MEMORY_GROW ho
      else if opcode = WASM_OP_I32_CONST then bind_op imm_i32 PUSH_I32
      else if opcode = WASM_OP_I64_CONST then bind_op imm_i64 PUSH_I64
      else if opcode = WASM_OP_F32_CONST then op_F32_CONST
      else if opcode = WASM_OP_F64_CONST then op_F64_CONST
      else if between WASM_OP_I32_EQZ WASM_OP_I32_GE_U opcode then op_I32_CMP opcode
      else if between WASM_OP_I64_EQZ WASM_OP_I64_GE_U opcode then op_I64_CMP opcode
      else if between WASM_OP_F32_EQ WASM_OP_F32_GE opcode then op_F32_CMP opcode
      else if between WASM_OP_F64_EQ WASM_OP_F64_GE opcode then op_F64_CMP opcode
      else if between WASM_OP_I32_CLZ WASM_OP_I32_ROTR opcode then op_I32_NUMERIC opcode
      else if between WASM_OP_I64_CLZ WASM_OP_I64_ROTR opcode then op_I64_NUMERIC opcode
      else if between WASM_OP_F32_ABS WASM_OP_F32_COPYSIGN opcode then op_F32_NUMERIC (ho_nan ho) opcode
      else if between WASM_OP_F64_ABS WASM_OP_F64_COPYSIGN opcode then op_F64_NUMERIC (ho_nan ho) opcode
      else if between WASM_OP_I32_WRAP_I64 WASM_OP_F64_PROMOTE_F32 opcode then op_CONVERT (ho_nan ho) opcode
      else if between WASM_OP_I32_REINTERPRET_F32 WASM_OP_F64_REINTERPRET_I64 opcode then ret_op ()
      else if between WASM_OP_I32_EXTEND8_S WASM_OP_I64_EXTEND32_S opcode then op_EXTEND opcode
      else if opcode = WASM_OP_MISC_PREFIX then op_MISC
      else handle_control ho opcode)"

section \<open>The loop\<close>

text \<open>The end of the loop, the fetch, the checkpoint when the signal flag is set, and the switch. \<open>migr_flag\<close> tells
  whether the process was itself restored.\<close>

definition take_checkpoint :: "bool \<Rightarrow> ('h, unit) op" where
  "take_checkpoint migr_flag s = (case checkpoint migr_flag (st_rg s) (st_mem s) (vm_iv s) of
      Inl e \<Rightarrow> Inl (Crash e) | Inr im \<Rightarrow> Inl (Dumped im))"

definition fetch_opcode :: "('h, unit) op" where
  "fetch_opcode = bind_op imm_u8 (set_var iv_opcode_update)"

definition dispatch :: "'h host \<Rightarrow> ('h, unit) op" where
  "dispatch ho = bind_op (var iv_opcode) (handle ho)"

definition step :: "'h host \<Rightarrow> bool \<Rightarrow> bool \<Rightarrow> ('h, unit) op" where
  "step ho migr_flag sig_flag =
     bind_op (var iv_frame_ip) (\<lambda>ip. bind_op (var iv_frame_ip_end) (\<lambda>ip_end.
     if ip < ip_end then then_op fetch_opcode (if sig_flag then take_checkpoint migr_flag else dispatch ho)
     else halt))"

text \<open>The loop, for at most as many iterations as there are values of the signal flag; \<open>None\<close> when they are used up.\<close>

fun run :: "'h host \<Rightarrow> bool \<Rightarrow> bool list \<Rightarrow> 'h machine \<Rightarrow> 'h stop option" where
  "run ho migr_flag [] s = None"
| "run ho migr_flag (sig_flag # sigs) s = (case step ho migr_flag sig_flag s of Inl e \<Rightarrow> Some e | Inr (_, s') \<Rightarrow> run ho migr_flag sigs s')"

text \<open>The first iteration reads \<open>opcode_IMPDEP\<close>. \<open>v0\<close> are the locals that are not initialised.\<close>

definition entry_locals :: "addr \<Rightarrow> addr \<Rightarrow> addr \<Rightarrow> addr \<Rightarrow> interp_locals \<Rightarrow> mem \<Rightarrow> interp_locals res" where
  "entry_locals inst env func prev v0 m =
     bind_res (load as_WASMModuleInstance m inst) (\<lambda>mi. bind_res (load as_WASMModule m (mi_module mi)) (\<lambda>md.
     let init = (\<lambda>npp sz. v0\<lparr>iv_module := inst, iv_exec_env := env, iv_cur_func := func, iv_prev_frame := prev,
         iv_memory := mi_default_memory mi, iv_num_bytes_per_page := npp, iv_global_data := mi_global_data mi,
         iv_linear_mem_size := sz, iv_wasm_types := md_types md, iv_globals := mi_globals mi, iv_opcode_IMPDEP := WASM_OP_IMPDEP,
         iv_frame := 0, iv_frame_lp := 0, iv_frame_sp := 0, iv_frame_csp := 0, iv_opcode := WASM_OP_IMPDEP,
         iv_frame_size := 0, iv_all_cell_num := 0, iv_maddr := 0\<rparr>) in
     if mi_default_memory mi = 0 then Inr (init 0 0)
     else bind_res (load as_WASMMemoryInstance m (mi_default_memory mi)) (\<lambda>mm.
       Inr (init (mm_num_bytes_per_page mm) (mm_num_bytes_per_page mm * mm_cur_page_count mm)))))"

definition wasm_interp_call_func_bytecode ::
  "'h host \<Rightarrow> bool list \<Rightarrow> addr \<Rightarrow> addr \<Rightarrow> addr \<Rightarrow> addr \<Rightarrow> interp_locals \<Rightarrow> u32 list \<Rightarrow> 'h store \<Rightarrow> 'h stop option" where
  "wasm_interp_call_func_bytecode ho sigs inst env func prev v0 outs st =
     (case entry_locals inst env func prev v0 (st_mem st) of Inl e \<Rightarrow> Some (Crash e)
      | Inr v \<Rightarrow> (case sigs of [] \<Rightarrow> None
        | sig_flag # sigs' \<Rightarrow> (case (if sig_flag then take_checkpoint False else dispatch ho) (store.extend st (machine.fields v outs)) of
            Inl e \<Rightarrow> Some e | Inr (_, s) \<Rightarrow> run ho False sigs' s)))"

section \<open>Calling from native code\<close>

definition entry_frame :: "addr \<Rightarrow> nat \<Rightarrow> WASMInterpFrame \<Rightarrow> WASMInterpFrame" where
  "entry_frame f n fr = fr\<lparr>fr_function := 0, fr_ip := 0, fr_sp := frame_lp f, fr_cells := pad n 0 (fr_cells fr)\<rparr>"

text \<open>\<open>native_sp\<close> is the address of a local of the C function. The results are read below \<open>sp\<close> of the entry frame.\<close>

definition results_of :: "addr \<Rightarrow> WASMFunctionInstance \<Rightarrow> mem \<Rightarrow> u32 list res" where
  "results_of f fi m = bind_res (load as_WASMInterpFrame m f) (\<lambda>fr. let n = unat (fi_ret_cell_num fi); i = unat (fr_sp fr - frame_lp f) div 4 in
     if i < n \<or> length (fr_cells fr) < i then Inl (UB ''read past the frame'') else Inr (take n (drop (i - n) (fr_cells fr))))"

text \<open>Decimal digits, for the message of \<open>snprintf\<close>.\<close>

fun dec_digits :: "nat \<Rightarrow> string" where
  "dec_digits n = (if n < 10 then [char_of (48 + n)] else dec_digits (n div 10) @ [char_of (48 + n mod 10)])"

declare dec_digits.simps [simp del]

definition dec_int :: "int \<Rightarrow> string" where
  "dec_int i = (if i < 0 then ''-'' @ dec_digits (nat (- i)) else dec_digits (nat i))"

definition argc_message :: "u32 \<Rightarrow> u16 \<Rightarrow> string" where
  "argc_message argc n = take 127 (''invalid argument count '' @ dec_int (sint argc) @ '', expected '' @ dec_int (uint n))"

text \<open>\<open>Returned\<close> with the results or, after an exception, without; \<open>Running\<close> when the values of the signal flag are used up.\<close>

datatype 'h outcome = Returned "u32 list option" "'h store" | Stopped failure | Checkpointed "images \<times> stream" | Running

definition leave_wasm :: "addr \<Rightarrow> addr \<Rightarrow> addr \<Rightarrow> addr \<Rightarrow> WASMFunctionInstance \<Rightarrow> 'h store \<Rightarrow> 'h outcome" where
  "leave_wasm inst env f prev fi st =
     (case bind_res (wasm_get_exception (st_mem st) inst) (\<lambda>exc.
         bind_res (if exc then Inr None else bind_res (results_of f fi (st_mem st)) (\<lambda>r. Inr (Some r))) (\<lambda>r.
         bind_res (load as_WASMExecEnv (st_mem st) env) (\<lambda>ee.
         bind_res (FREE_FRAME env f (st_rg st, (st_mem st)(env := Some (O_WASMExecEnv (wasm_exec_env_set_cur_frame ee prev))))) (\<lambda>(rg, m).
         Inr (r, st\<lparr>st_rg := rg, st_mem := m\<rparr>)))))
      of Inl e \<Rightarrow> Stopped e | Inr (r, st') \<Rightarrow> Returned r st')"

definition run_function :: "'h host \<Rightarrow> bool list \<Rightarrow> addr \<Rightarrow> addr \<Rightarrow> addr \<Rightarrow> addr \<Rightarrow> interp_locals \<Rightarrow> u32 list \<Rightarrow> WASMFunctionInstance \<Rightarrow>
    'h store \<Rightarrow> 'h stop option" where
  "run_function ho sigs inst env func f v0 argv fi st =
     (if fi_is_import_func fi then
        (case wasm_interp_call_func_native ho (store.extend st (machine.fields
            (v0\<lparr>iv_module := inst, iv_exec_env := env, iv_cur_func := func, iv_prev_frame := f\<rparr>) argv)) of
           Inl e \<Rightarrow> Some e | Inr (_, s) \<Rightarrow> Some (Halt s))
      else wasm_interp_call_func_bytecode ho sigs inst env func f v0 argv st)"

definition enter_wasm :: "'h host \<Rightarrow> addr \<Rightarrow> WASMExecEnv \<Rightarrow> WASMFunctionInstance \<Rightarrow> 'h store \<Rightarrow> (addr \<times> 'h store) res" where
  "enter_wasm ho env ee fi st =
     (let n = (if 2 < fi_ret_cell_num fi then fi_ret_cell_num fi else 2) in
      bind_res (ALLOC_FRAME (ho_stale ho) env (wasm_interp_interp_frame_size (ucast n)) (ee_cur_frame ee) (st_rg st, st_mem st)) (\<lambda>(f, rg, m).
      if f = 0 then Inr (0, st\<lparr>st_rg := rg, st_mem := m\<rparr>)
      else bind_res (load as_WASMInterpFrame m f) (\<lambda>fr. bind_res (load as_WASMExecEnv m env) (\<lambda>ee'.
        Inr (f, st\<lparr>st_rg := rg, st_mem := m(f := Some (O_WASMInterpFrame (entry_frame f (unat n) fr)),
          env := Some (O_WASMExecEnv (wasm_exec_env_set_cur_frame ee' f)))\<rparr>)))))"

definition fail_call :: "addr \<Rightarrow> string \<Rightarrow> 'h store \<Rightarrow> 'h outcome" where
  "fail_call inst msg st = (case wasm_set_exception (st_mem st) inst (Some msg) of Inl e \<Rightarrow> Stopped e
     | Inr m \<Rightarrow> Returned None (st\<lparr>st_mem := m\<rparr>))"

definition wasm_interp_call_wasm ::
  "'h host \<Rightarrow> bool list \<Rightarrow> addr \<Rightarrow> addr \<Rightarrow> addr \<Rightarrow> addr \<Rightarrow> interp_locals \<Rightarrow> u32 list \<Rightarrow> 'h store \<Rightarrow> 'h outcome" where
  "wasm_interp_call_wasm ho sigs native_sp inst env func v0 argv st =
     (case (load as_WASMExecEnv (st_mem st) env, load as_WASMFunctionInstance (st_mem st) func) of
        (Inr ee, Inr fi) \<Rightarrow>
          if of_nat (length argv) \<noteq> (ucast (fi_param_cell_num fi) :: u32) then fail_call inst (argc_message (of_nat (length argv)) (fi_param_cell_num fi)) st
          else if native_sp < ee_native_stack_boundary ee then fail_call (ee_module_inst ee) ''native stack overflow'' st
          else (case enter_wasm ho env ee fi st of Inl e \<Rightarrow> Stopped e
            | Inr (f, st1) \<Rightarrow>
                if f = 0 then Returned None st1
                else (case run_function ho sigs inst env func f v0 argv fi st1 of
                    None \<Rightarrow> Running | Some (Crash e) \<Rightarrow> Stopped e | Some (Dumped im) \<Rightarrow> Checkpointed im
                  | Some (Halt s) \<Rightarrow> leave_wasm inst env f (ee_cur_frame ee) fi (store.truncate s)))
      | (Inl e, _) \<Rightarrow> Stopped e | (_, Inl e) \<Rightarrow> Stopped e)"

section \<open>Going on after a restore\<close>

text \<open>\<open>wasm_interp_restore\<close>: the \<open>MIGRATION\<close> branch, then the switch with the restored opcode, then the loop.\<close>

definition wasm_interp_restore ::
  "'h host \<Rightarrow> (Data_Type \<Rightarrow> nat) \<Rightarrow> 'h heap allocator \<Rightarrow> fresh_content \<Rightarrow> (addr \<Rightarrow> addr \<Rightarrow> mem \<Rightarrow> mem) \<Rightarrow> resolver \<Rightarrow>
     images \<times> stream \<Rightarrow> 'h heap load_st \<Rightarrow> interp_locals \<Rightarrow> 'h heap \<Rightarrow> bool list \<Rightarrow> 'h stop option" where
  "wasm_interp_restore ho ext mal junk init_wasi resolve im ld v0 hp sigs =
     (case resume ext mal junk (ho_stale ho) init_wasi resolve im ld v0 of Inl e \<Rightarrow> Some (Crash e)
      | Inr (st, v) \<Rightarrow>
          (case dispatch ho \<lparr>st_rg = rs_rg st, st_mem = rs_mem st, st_heap = hp, vm_iv = v, vm_outs = []\<rparr> of
             Inl e \<Rightarrow> Some e | Inr (_, s) \<Rightarrow> run ho True sigs s))"

end
