(* ===== verification/Machine_Laws.thy ===== *)
theory Machine_Laws
  imports Interp_Loop
begin

text \<open>
  Laws of the interpreter's macros: evaluation of the primitives on a state, and the accesses to linear memory.
\<close>

section \<open>Evaluation\<close>

named_theorems op_eval \<open>the primitives applied to a state\<close>

lemma bind_op_apply [op_eval]: "bind_op c f s = (case c s of Inl e \<Rightarrow> Inl e | Inr (x, s') \<Rightarrow> f x s')"
  by (simp add: bind_op_def)

lemma then_op_apply [op_eval]: "then_op c d s = (case c s of Inl e \<Rightarrow> Inl e | Inr (x, s') \<Rightarrow> d s')"
  by (simp add: then_op_def bind_op_def)

lemma prim_apply [op_eval]:
  "ret_op x s = Inr (x, s)" "halt s = Inl (Halt s)" "crash e s = Inl (Crash e)" "var sel s = Inr (sel (vm_iv s), s)"
  "set_var upd x s = Inr ((), s\<lparr>vm_iv := upd (\<lambda>_. x) (vm_iv s)\<rparr>)"
  by (simp_all add: ret_op_def halt_def crash_def var_def set_var_def)

lemma from_res_apply [op_eval]: "from_res (Inr x) s = Inr (x, s)" "from_res (Inl e) s = Inl (Crash e)"
  by (simp_all add: from_res_def)

lemma bind_then [simp]: "bind_op (then_op c d) f = then_op c (bind_op d f)" "then_op (then_op c d) e = then_op c (then_op d e)"
  "then_op (bind_op c g) d = bind_op c (\<lambda>x. then_op (g x) d)" "then_op (ret_op x) d = d"
  by (simp_all add: then_op_def)

lemma bind_op_Inr: "c s = Inr (x, s') \<Longrightarrow> bind_op c f s = f x s'"
  by (simp add: bind_op_def)

lemma then_op_Inr: "c s = Inr (x, s') \<Longrightarrow> then_op c d s = d s'"
  by (simp add: then_op_def bind_op_def)

section \<open>Words\<close>

lemma unat_up: "LENGTH('a) \<le> LENGTH('b) \<Longrightarrow> unat (ucast (w :: 'a::len word) :: 'b::len word) = unat w"
  using order_less_le_trans [OF unsigned_less [of w], of "2 ^ LENGTH('b) :: nat"]
  by (simp add: unsigned_ucast_eq take_bit_nat_eq_self power_increasing)

lemma unat_small: "n < 2 ^ LENGTH('a) \<Longrightarrow> unat (of_nat n :: 'a::len word) = n"
  by (simp add: unat_of_nat take_bit_nat_eq_self)

lemma unat_add_small: "unat x + unat y < 2 ^ LENGTH('a) \<Longrightarrow> unat (x + y) = unat x + unat y" for x y :: "'a::len word"
  using unat_add_lem [of x y] by simp

section \<open>Linear memory\<close>

text \<open>The memory instance and the contents of its block, whose length is the size the interpreter checks against.\<close>

definition linear_ok :: "'h machine \<Rightarrow> WASMMemoryInstance \<Rightarrow> byte list \<Rightarrow> bool" where
  "linear_ok s mm bs \<longleftrightarrow> load as_WASMMemoryInstance (st_mem s) (iv_memory (vm_iv s)) = Inr mm \<and>
     load as_Bytes (st_mem s) (mm_memory_data mm) = Inr bs \<and> length bs = unat (iv_linear_mem_size (vm_iv s))"

lemma unat_effective:
  assumes "n \<le> 8"
  shows "unat (ucast (off :: u32) + ucast (ad :: u32) + of_nat n :: u64) = unat off + unat ad + n"
    and "unat (ucast off + ucast ad :: u64) = unat off + unat ad"
proof -
  have b: "unat off < 2 ^ 32" "unat ad < 2 ^ 32" using unsigned_less [of off] unsigned_less [of ad] by simp_all
  have u: "unat (ucast off :: u64) = unat off" "unat (ucast ad :: u64) = unat ad" "unat (of_nat n :: u64) = n"
    using assms by (simp_all add: unat_up unat_small)
  show s: "unat (ucast off + ucast ad :: u64) = unat off + unat ad"
    using b u by (subst unat_add_small) simp_all
  show "unat (ucast off + ucast ad + of_nat n :: u64) = unat off + unat ad + n"
    using b u s assms by (subst unat_add_small) simp_all
qed

definition with_maddr :: "addr \<Rightarrow> 'h machine \<Rightarrow> 'h machine" where
  "with_maddr a s = s\<lparr>vm_iv := (vm_iv s)\<lparr>iv_maddr := a\<rparr>\<rparr>"

lemma check_memory:
  assumes "linear_ok s mm bs" "n \<le> 8"
  shows "CHECK_MEMORY_OVERFLOW off ad (of_nat n) s =
    (if unat off + unat ad + n \<le> length bs then Inr ((), with_maddr (mm_memory_data mm + (ucast off + ucast ad)) s)
     else trap ''out of bounds memory access'' s)"
proof -
  have c: "(ucast off + ucast ad + of_nat n \<le> (ucast (iv_linear_mem_size (vm_iv s)) :: u64)) \<longleftrightarrow> unat off + unat ad + n \<le> length bs"
    using assms by (simp add: word_le_nat_alt unat_effective unat_up linear_ok_def)
  show ?thesis
    using assms(1) by (simp add: CHECK_MEMORY_OVERFLOW_def Let_def c op_eval default_memory_def look_def linear_ok_def with_maddr_def)
qed

lemma linear_len: "linear_ok s mm bs \<Longrightarrow> length bs < 2 ^ 32"
  using unsigned_less [of "iv_linear_mem_size (vm_iv s)"] by (simp add: linear_ok_def)

lemma trap_stops: "then_op (trap msg) k = trap msg" "bind_op (trap msg) f = trap msg"
  by (auto simp: fun_eq_iff trap_def got_exception_def op_eval split: sum.split prod.split)

lemma trap_case: "(case trap msg s of Inl e \<Rightarrow> Inl e | Inr (x, s') \<Rightarrow> f x s') = trap msg s"
  by (auto simp: trap_def got_exception_def op_eval split: sum.split prod.split)

lemma load_checked:
  assumes "linear_ok s mm bs" "n \<le> 8"
  shows "then_op (CHECK_MEMORY_OVERFLOW off ad (of_nat n)) (bind_op (load_maddr n) k) s =
    (let i = unat off + unat ad in
     if i + n \<le> length bs then k (take n (drop i bs)) (with_maddr (mm_memory_data mm + (ucast off + ucast ad)) s)
     else trap ''out of bounds memory access'' s)"
proof -
  have "unat (ucast off + ucast ad :: u64) = unat off + unat ad" using unat_effective(2) [of 0] by simp
  then show ?thesis
    using assms(1)
    by (auto simp: then_op_apply check_memory [OF assms] load_maddr_def op_eval default_memory_def look_def linear_ok_def
        with_maddr_def read_bytes_def trap_case split: if_splits)
qed

end
