(* ===== verification/Operand_Stack.thy ===== *)
theory Operand_Stack
  imports Machine_Laws
begin

text \<open>
  The operand stack of the classic interpreter: the macros that push and pop cells of the current frame, and the
  handlers built from them, against a stack of values.
\<close>

section \<open>States with a stack\<close>

text \<open>\<open>b\<close> with the cells \<open>cs\<close> in its current frame and \<open>frame_sp\<close> at cell \<open>i\<close>.\<close>

definition stacked :: "'h machine \<Rightarrow> WASMInterpFrame \<Rightarrow> u32 list \<Rightarrow> nat \<Rightarrow> 'h machine" where
  "stacked b fr cs i = b\<lparr>
     st_mem := (st_mem b)(iv_frame (vm_iv b) := Some (O_WASMInterpFrame (fr\<lparr>fr_cells := cs\<rparr>))),
     vm_iv := (vm_iv b)\<lparr>iv_frame_sp := frame_lp (iv_frame (vm_iv b)) + of_nat (4 * i)\<rparr>\<rparr>"

text \<open>The frame of the state, its cells and the number of cells below \<open>frame_sp\<close>.\<close>

definition stack_at :: "'h machine \<Rightarrow> WASMInterpFrame \<Rightarrow> nat \<Rightarrow> bool" where
  "stack_at s fr i \<longleftrightarrow> load as_WASMInterpFrame (st_mem s) (iv_frame (vm_iv s)) = Inr fr \<and>
     iv_frame_sp (vm_iv s) = frame_lp (iv_frame (vm_iv s)) + of_nat (4 * i) \<and> length (fr_cells fr) < 2 ^ 32"

lemma load_frame_iff: "load as_WASMInterpFrame m a = Inr fr \<longleftrightarrow> m a = Some (O_WASMInterpFrame fr)"
  by (auto simp: load_def as_WASMInterpFrame_def split: option.splits obj.splits)

lemma stacked_self: "stack_at s fr i \<Longrightarrow> stacked s fr (fr_cells fr) i = s"
  by (simp add: stack_at_def stacked_def load_frame_iff fun_upd_idem)

lemma stacked_stacked [simp]: "stacked (stacked b fr cs i) fr ds j = stacked b fr ds j"
  by (simp add: stacked_def)

lemma stack_at_stacked: "length cs < 2 ^ 32 \<Longrightarrow> stack_at (stacked b fr cs i) (fr\<lparr>fr_cells := cs\<rparr>) i"
  by (simp add: stack_at_def stacked_def load_frame_iff)

section \<open>Cells\<close>

abbreviation cell_addr :: "'h machine \<Rightarrow> nat \<Rightarrow> addr" where
  "cell_addr b k \<equiv> frame_lp (iv_frame (vm_iv b)) + of_nat (4 * k)"

lemma cell_index_at:
  assumes "k < 2 ^ 32"
  shows "cell_index f fr (frame_lp f + of_nat (4 * k)) = (if k < length (fr_cells fr) then Some k else None)"
proof -
  have "unat (of_nat (4 * k) :: u64) = 4 * k" by (rule unat_small) (use assms in simp)
  then show ?thesis by (simp add: cell_index_def Let_def)
qed

lemma get_cell_stacked:
  assumes "k < length cs" "length cs < 2 ^ 32"
  shows "get_cell (cell_addr b k) (stacked b fr cs i) = Inr (cs ! k, stacked b fr cs i)"
proof -
  have "cell_index f (fr\<lparr>fr_cells := cs\<rparr>) (frame_lp f + of_nat (4 * k)) = Some k" for f
    using assms by (subst cell_index_at) simp_all
  then show ?thesis
    by (simp add: get_cell_def op_eval look_def read_cell_def stacked_def load_frame_iff)
qed

lemma put_cell_stacked:
  assumes "k < length cs" "length cs < 2 ^ 32"
  shows "put_cell (cell_addr b k) v (stacked b fr cs i) = Inr ((), stacked b fr (cs[k := v]) i)"
proof -
  have "cell_index f (fr\<lparr>fr_cells := cs\<rparr>) (frame_lp f + of_nat (4 * k)) = Some k" for f
    using assms by (subst cell_index_at) simp_all
  then show ?thesis
    by (simp add: put_cell_def op_eval change_def write_cell_def stacked_def load_frame_iff)
qed

section \<open>Pushing and popping\<close>

lemma cell_addr_arith:
  "x + of_nat (4 * Suc k) - 4 = (x + of_nat (4 * k) :: addr)" "x + of_nat (4 * k) + 4 = (x + of_nat (4 * Suc k) :: addr)"
  "x + of_nat (4 * (k + 2)) - 8 = (x + of_nat (4 * k) :: addr)" "x + of_nat (4 * k) + 8 = (x + of_nat (4 * (k + 2)) :: addr)"
  by (simp_all add: algebra_simps)

lemma var_stacked: "var sel (stacked b fr cs i) = Inr (sel (vm_iv (stacked b fr cs i)), stacked b fr cs i)"
  by (simp add: var_def)

lemma sp_stacked [simp]: "iv_frame_sp (vm_iv (stacked b fr cs i)) = cell_addr b i"
  by (simp add: stacked_def)

lemma set_sp_stacked: "set_var iv_frame_sp_update (cell_addr b j) (stacked b fr cs i) = Inr ((), stacked b fr cs j)"
  by (simp add: set_var_def stacked_def)

lemma move_sp_stacked:
  "move_sp (- 4) (stacked b fr cs (Suc i)) = Inr ((), stacked b fr cs i)"
  "move_sp (- 8) (stacked b fr cs (i + 2)) = Inr ((), stacked b fr cs i)"
  "move_sp 4 (stacked b fr cs i) = Inr ((), stacked b fr cs (Suc i))"
  by (simp_all only: move_sp_def bind_op_apply var_stacked sum.case prod.case sp_stacked add_uminus_conv_diff
      cell_addr_arith set_sp_stacked)

lemma POP_I32_stacked:
  assumes "i < length cs" "length cs < 2 ^ 32"
  shows "POP_I32 (stacked b fr cs (Suc i)) = Inr (cs ! i, stacked b fr cs i)"
  using assms by (simp only: POP_I32_def then_op_apply bind_op_apply move_sp_stacked var_stacked sum.case prod.case sp_stacked get_cell_stacked)

lemma PUSH_I32_stacked:
  assumes "i < length cs" "length cs < 2 ^ 32"
  shows "PUSH_I32 v (stacked b fr cs i) = Inr ((), stacked b fr (cs[i := v]) (Suc i))"
  using assms by (simp only: PUSH_I32_def then_op_apply bind_op_apply var_stacked sum.case prod.case sp_stacked put_cell_stacked
      cell_addr_arith set_sp_stacked)

lemma GET_I64_stacked:
  assumes "Suc k < length cs" "length cs < 2 ^ 32"
  shows "GET_I64_FROM_ADDR (cell_addr b k) (stacked b fr cs i) = Inr (word_cat (cs ! Suc k) (cs ! k), stacked b fr cs i)"
  using assms by (simp only: GET_I64_FROM_ADDR_def bind_op_apply sum.case prod.case get_cell_stacked Suc_lessD cell_addr_arith ret_op_def)

lemma PUT_I64_stacked:
  assumes "Suc k < length cs" "length cs < 2 ^ 32"
  shows "PUT_I64_TO_ADDR (cell_addr b k) v (stacked b fr cs i) =
    Inr ((), stacked b fr (cs[k := ucast v, Suc k := ucast (drop_bit 32 v)]) i)"
  using assms by (simp only: PUT_I64_TO_ADDR_def then_op_apply bind_op_apply sum.case prod.case put_cell_stacked Suc_lessD cell_addr_arith
      length_list_update)

lemma POP_I64_stacked:
  assumes "Suc i < length cs" "length cs < 2 ^ 32"
  shows "POP_I64 (stacked b fr cs (i + 2)) = Inr (word_cat (cs ! Suc i) (cs ! i), stacked b fr cs i)"
  using assms by (simp only: POP_I64_def then_op_apply bind_op_apply move_sp_stacked var_stacked sum.case prod.case sp_stacked GET_I64_stacked)

lemma PUSH_I64_stacked:
  assumes "Suc i < length cs" "length cs < 2 ^ 32"
  shows "PUSH_I64 v (stacked b fr cs i) = Inr ((), stacked b fr (cs[i := ucast v, Suc i := ucast (drop_bit 32 v)]) (i + 2))"
  using assms by (simp only: PUSH_I64_def then_op_apply bind_op_apply var_stacked sum.case prod.case sp_stacked PUT_I64_stacked
      cell_addr_arith set_sp_stacked)

section \<open>The list of operands\<close>

text \<open>A state whose current frame holds the cells \<open>ops\<close> below \<open>frame_sp\<close> and \<open>spare\<close> above it. The macros
  are exactly the operations of a stack on \<open>ops\<close>; a popped cell stays in memory.\<close>

definition onstack :: "'h machine \<Rightarrow> WASMInterpFrame \<Rightarrow> u32 list \<Rightarrow> u32 list \<Rightarrow> 'h machine" where
  "onstack b fr ops spare = stacked b fr (ops @ spare) (length ops)"

abbreviation fits :: "u32 list \<Rightarrow> u32 list \<Rightarrow> bool" where
  "fits ops spare \<equiv> length ops + length spare < 2 ^ 32"

named_theorems stack_eval \<open>the stack macros on a state with a stack\<close>

lemma push32 [stack_eval]:
  "fits ops (c # spare) \<Longrightarrow> PUSH_I32 v (onstack b fr ops (c # spare)) = Inr ((), onstack b fr (ops @ [v]) spare)"
  unfolding onstack_def by (subst PUSH_I32_stacked) (simp_all add: list_update_append)

lemma pop32 [stack_eval]:
  "fits ops (v # spare) \<Longrightarrow> POP_I32 (onstack b fr (ops @ [v]) spare) = Inr (v, onstack b fr ops (v # spare))"
  unfolding onstack_def length_append length_Cons list.size(3) add_Suc_right add_0_right
  by (subst POP_I32_stacked) (simp_all add: nth_append)

lemma push64 [stack_eval]:
  "fits ops (c # d # spare) \<Longrightarrow> PUSH_I64 v (onstack b fr ops (c # d # spare)) =
     Inr ((), onstack b fr (ops @ [ucast v, ucast (drop_bit 32 v)]) spare)"
  unfolding onstack_def by (subst PUSH_I64_stacked) (simp_all add: list_update_append)

lemma pop64 [stack_eval]:
  "fits ops (lo # hi # spare) \<Longrightarrow> POP_I64 (onstack b fr (ops @ [lo, hi]) spare) =
     Inr (word_cat hi lo, onstack b fr ops (lo # hi # spare))"
  using POP_I64_stacked [of "length ops" "ops @ lo # hi # spare" b fr]
  by (simp add: onstack_def nth_append)

lemma pop32_second [stack_eval]:
  "fits ops (x # y # spare) \<Longrightarrow> POP_I32 (onstack b fr (ops @ [x, y]) spare) = Inr (y, onstack b fr (ops @ [x]) (y # spare))"
  using pop32 [of "ops @ [x]" y spare b fr] by simp

lemma pop64_second [stack_eval]:
  "fits ops (x # x' # lo # hi # spare) \<Longrightarrow> POP_I64 (onstack b fr (ops @ [x, x', lo, hi]) spare) =
     Inr (word_cat hi lo, onstack b fr (ops @ [x, x']) (lo # hi # spare))"
  using pop64 [of "ops @ [x, x']" lo hi spare b fr] by simp

section \<open>The macros of the numeric handlers\<close>

lemma DEF_OP_CMP_I32_eval [stack_eval]:
  "fits ops (x # y # spare) \<Longrightarrow> DEF_OP_CMP_I32 c (onstack b fr (ops @ [x, y]) spare) =
     Inr ((), onstack b fr (ops @ [of_bool (c x y)]) (y # spare))"
  by (simp add: DEF_OP_CMP_I32_def bind_op_apply stack_eval)

lemma DEF_OP_CMP_I64_eval [stack_eval]:
  "fits ops (x # x' # y # y' # spare) \<Longrightarrow> DEF_OP_CMP_I64 c (onstack b fr (ops @ [x, x', y, y']) spare) =
     Inr ((), onstack b fr (ops @ [of_bool (c (word_cat x' x) (word_cat y' y))]) (x' # y # y' # spare))"
  by (simp add: DEF_OP_CMP_I64_def bind_op_apply stack_eval)

lemma DEF_OP_NUMERIC_eval [stack_eval]:
  assumes "fits ops (x # y # spare)"
  shows "DEF_OP_NUMERIC g (onstack b fr (ops @ [x, y]) spare) = Inr ((), onstack b fr (ops @ [g x y]) (y # spare))"
proof -
  let ?cs = "ops @ x # y # spare" and ?n = "length ops"
  have o: "onstack b fr (ops @ [x, y]) spare = stacked b fr ?cs (Suc (Suc ?n))" by (simp add: onstack_def)
  have a: "get_cell (cell_addr b ?n) (stacked b fr ?cs (Suc ?n)) = Inr (x, stacked b fr ?cs (Suc ?n))"
    "get_cell (cell_addr b (Suc ?n)) (stacked b fr ?cs (Suc ?n)) = Inr (y, stacked b fr ?cs (Suc ?n))"
    "put_cell (cell_addr b ?n) (g x y) (stacked b fr ?cs (Suc ?n)) = Inr ((), stacked b fr (ops @ g x y # y # spare) (Suc ?n))"
    using assms by (subst get_cell_stacked put_cell_stacked; simp add: nth_append list_update_append del: of_nat_mult of_nat_Suc)+
  show ?thesis
    unfolding o DEF_OP_NUMERIC_def then_op_apply bind_op_apply move_sp_stacked sum.case prod.case var_stacked sp_stacked cell_addr_arith a
    by (simp add: onstack_def)
qed

lemma DEF_OP_NUMERIC_64_eval [stack_eval]:
  assumes "fits ops (x # x' # y # y' # spare)"
  shows "DEF_OP_NUMERIC_64 g (onstack b fr (ops @ [x, x', y, y']) spare) =
    (let r = g (word_cat x' x) (word_cat y' y) in Inr ((), onstack b fr (ops @ [ucast r, ucast (drop_bit 32 r)]) (y # y' # spare)))"
proof -
  let ?cs = "ops @ x # x' # y # y' # spare" and ?n = "length ops" and ?r = "g (word_cat x' x) (word_cat y' y)"
  have o: "onstack b fr (ops @ [x, x', y, y']) spare = stacked b fr ?cs (?n + 2 + 2)" by (simp add: onstack_def)
  have a: "GET_I64_FROM_ADDR (cell_addr b ?n) (stacked b fr ?cs (?n + 2)) = Inr (word_cat x' x, stacked b fr ?cs (?n + 2))"
    "GET_I64_FROM_ADDR (cell_addr b (?n + 2)) (stacked b fr ?cs (?n + 2)) = Inr (word_cat y' y, stacked b fr ?cs (?n + 2))"
    "PUT_I64_TO_ADDR (cell_addr b ?n) ?r (stacked b fr ?cs (?n + 2)) =
      Inr ((), stacked b fr (ops @ ucast ?r # ucast (drop_bit 32 ?r) # y # y' # spare) (?n + 2))"
    using assms by (subst GET_I64_stacked PUT_I64_stacked; simp add: nth_append list_update_append del: of_nat_mult of_nat_Suc of_nat_add)+
  show ?thesis
    unfolding o DEF_OP_NUMERIC_64_def then_op_apply bind_op_apply move_sp_stacked sum.case prod.case var_stacked sp_stacked cell_addr_arith a
    by (simp add: onstack_def Let_def)
qed

section \<open>Exceptions\<close>

text \<open>The interpreter has returned with an exception in the instance.\<close>

fun raises :: "'h stop \<Rightarrow> bool" where
  "raises (Halt t) \<longleftrightarrow> wasm_get_exception (st_mem t) (iv_module (vm_iv t)) = Inr True"
| "raises _ \<longleftrightarrow> False"

definition inst_ok :: "'h machine \<Rightarrow> bool" where
  "inst_ok b \<longleftrightarrow> iv_module (vm_iv b) \<noteq> iv_frame (vm_iv b) \<and> (\<exists>mi. st_mem b (iv_module (vm_iv b)) = Some (O_WASMModuleInstance mi))"

lemma load_inst: "load as_WASMModuleInstance m a = Inr mi \<longleftrightarrow> m a = Some (O_WASMModuleInstance mi)"
  by (auto simp: load_def as_WASMModuleInstance_def split: option.splits obj.splits)

lemma exception_set: "exception_bytes (Some msg) old \<noteq> []" "hd (exception_bytes (Some msg) old) \<noteq> 0"
  by (simp_all add: exception_bytes_def Let_def)

lemma trap_raises:
  assumes "inst_ok b"
  obtains t where "trap msg (onstack b fr ops spare) = Inl t" "raises t"
proof -
  obtain mi where mi: "st_mem b (iv_module (vm_iv b)) = Some (O_WASMModuleInstance mi)" "iv_module (vm_iv b) \<noteq> iv_frame (vm_iv b)"
    using assms by (auto simp: inst_ok_def)
  have "\<exists>t. trap msg (onstack b fr ops spare) = Inl t \<and> raises t"
    using mi exception_set [of msg "mi_cur_exception mi"]
    by (auto simp: trap_def got_exception_def SYNC_ALL_def SYNC_ALL_TO_FRAME_def op_eval change_def wasm_set_exception_def
        wasm_get_exception_def onstack_def stacked_def load_frame_iff load_inst neq_Nil_conv split: list.split)
  then show thesis using that by blast
qed

end
