(* ===== verification/Validator.thy ===== *)
theory Validator
  imports Interp_Loop
begin

text \<open>
  The validator of the loader: \<open>wasm_loader_prepare_bytecode\<close> of src/core/iwasm/interpreter/wasm_loader.c for the classic
  interpreter. It runs over the code of a function with a stack of operand types and a stack of blocks, rejects code
  that is not well typed, computes the sizes of the two stacks of the frame, and rewrites opcodes in place.
\<close>

section \<open>The loader context\<close>

text \<open>\<open>BlockType\<close>: one value type, or a pointer to a function type. Positions in the code are offsets from
  \<open>func->code\<close>; \<open>else_addr\<close> and \<open>end_addr\<close> may be NULL.\<close>

datatype BlockType = Value_Type u8 | Type_Ptr addr

record BranchBlock =
  bl_label_type :: u8
  bl_block_type :: BlockType
  bl_start_addr :: nat
  bl_else_addr :: "nat option"
  bl_end_addr :: "nat option"
  bl_stack_cell_num :: u32
  bl_is_stack_polymorphic :: bool

text \<open>\<open>lc_refs\<close> and \<open>lc_blocks\<close> are the two buffers, \<open>lc_frame_ref\<close> and \<open>lc_frame_csp\<close> the indices of \<open>frame_ref\<close> and
  \<open>frame_csp\<close> in them.\<close>

record loader_ctx =
  lc_self :: addr
  lc_refs :: "u8 list"
  lc_frame_ref :: nat
  lc_frame_ref_bottom :: addr
  lc_frame_ref_size :: u32
  lc_stack_cell_num :: u32
  lc_max_stack_cell_num :: u32
  lc_blocks :: "BranchBlock list"
  lc_frame_csp :: nat
  lc_frame_csp_bottom :: addr
  lc_frame_csp_size :: u32
  lc_csp_num :: u32
  lc_max_csp_num :: u32

text \<open>What the validator works on: the registry and the heap, the context, the bytes from \<open>func->code\<close> on with the
  position \<open>p\<close>, and the flags it sets in function and module.\<close>

record 'h vstate =
  vs_rg :: registry
  vs_heap :: "'h heap"
  vs_ctx :: loader_ctx
  vs_code :: "byte list"
  vs_p :: nat
  vs_has_op_func_call :: bool
  vs_has_op_memory_grow :: bool
  vs_possible_memory_grow :: bool

text \<open>What it reads and does not change: the objects of the module, the module and the function.\<close>

record venv =
  ve_mem :: mem
  ve_module :: WASMModule
  ve_func :: WASMFunction

section \<open>Computations\<close>

text \<open>A computation crashes, or goes to \<open>fail\<close> with a message for \<open>set_error_buf\<close>.\<close>

datatype 'h vstop = VCrash failure | VFail string "'h vstate"

type_synonym ('h, 'a) vop = "'h vstate \<Rightarrow> 'h vstop + 'a \<times> 'h vstate"

definition v_ret :: "'a \<Rightarrow> ('h, 'a) vop" where "v_ret x s = Inr (x, s)"

definition v_bind :: "('h, 'a) vop \<Rightarrow> ('a \<Rightarrow> ('h, 'b) vop) \<Rightarrow> ('h, 'b) vop" where
  "v_bind c f s = (case c s of Inl e \<Rightarrow> Inl e | Inr (x, s') \<Rightarrow> f x s')"

definition v_then :: "('h, 'a) vop \<Rightarrow> ('h, 'b) vop \<Rightarrow> ('h, 'b) vop" where "v_then c d = v_bind c (\<lambda>_. d)"

definition set_error_buf :: "string \<Rightarrow> ('h, 'a) vop" where "set_error_buf msg s = Inl (VFail msg s)"

definition v_res :: "'a res \<Rightarrow> ('h, 'a) vop" where
  "v_res r s = (case r of Inl e \<Rightarrow> Inl (VCrash e) | Inr x \<Rightarrow> Inr (x, s))"

definition ctx :: "(loader_ctx \<Rightarrow> 'a) \<Rightarrow> ('h, 'a) vop" where "ctx sel s = Inr (sel (vs_ctx s), s)"

definition on_ctx :: "(loader_ctx \<Rightarrow> loader_ctx) \<Rightarrow> ('h, unit) vop" where
  "on_ctx g s = Inr ((), s\<lparr>vs_ctx := g (vs_ctx s)\<rparr>)"

fun v_each :: "('a \<Rightarrow> ('h, unit) vop) \<Rightarrow> 'a list \<Rightarrow> ('h, unit) vop" where
  "v_each f [] = v_ret ()"
| "v_each f (x # xs) = v_then (f x) (v_each f xs)"

section \<open>Value types\<close>

abbreviation VALUE_TYPE_ANY :: u8 where "VALUE_TYPE_ANY \<equiv> 0x42"

definition is_32bit_type :: "u8 \<Rightarrow> bool" where
  "is_32bit_type t \<longleftrightarrow> t = VALUE_TYPE_I32 \<or> t = VALUE_TYPE_F32"

definition is_64bit_type :: "u8 \<Rightarrow> bool" where
  "is_64bit_type t \<longleftrightarrow> t = VALUE_TYPE_I64 \<or> t = VALUE_TYPE_F64"

definition is_value_type :: "u8 \<Rightarrow> bool" where
  "is_value_type t \<longleftrightarrow> t = VALUE_TYPE_I32 \<or> t = VALUE_TYPE_I64 \<or> t = VALUE_TYPE_F32 \<or> t = VALUE_TYPE_F64"

definition is_byte_a_type :: "u8 \<Rightarrow> bool" where
  "is_byte_a_type t \<longleftrightarrow> is_value_type t \<or> t = VALUE_TYPE_VOID"

definition type2str :: "u8 \<Rightarrow> string" where
  "type2str t =
     (if 0x7B \<le> t \<and> t \<le> 0x7F then [''v128'', ''f64'', ''f32'', ''i64'', ''i32''] ! unat (t - 0x7B)
      else if t = 0x70 then ''funcref'' else if t = 0x6F then ''externref'' else ''unknown type'')"

section \<open>Memory of the loader\<close>

definition v_malloc :: "'h allocs \<Rightarrow> u32 \<Rightarrow> ('h, addr) vop" where
  "v_malloc al sz s = (case wasm_runtime_malloc (wasm_runtime_malloc_internal al) (vs_heap s) sz of (a, hp) \<Rightarrow> Inr (a, s\<lparr>vs_heap := hp\<rparr>))"

definition v_free :: "'h allocs \<Rightarrow> addr \<Rightarrow> ('h, unit) vop" where
  "v_free al p s = (case free_info (vs_rg s) p of Inl e \<Rightarrow> Inl (VCrash e)
     | Inr rg \<Rightarrow> Inr ((), s\<lparr>vs_rg := rg, vs_heap := wasm_runtime_free_internal al (vs_heap s) p\<rparr>))"

definition v_register :: "(registry \<Rightarrow> registry res) \<Rightarrow> ('h, unit) vop" where
  "v_register f s = (case f (vs_rg s) of Inl e \<Rightarrow> Inl (VCrash e) | Inr rg \<Rightarrow> Inr ((), s\<lparr>vs_rg := rg\<rparr>))"

text \<open>\<open>loader_malloc\<close> clears the block; the result is never NULL, an error goes to \<open>fail\<close>.\<close>

definition loader_malloc :: "'h allocs \<Rightarrow> u64 \<Rightarrow> ('h, addr) vop" where
  "loader_malloc al sz =
     (if 0xFFFFFFFF \<le> sz then set_error_buf ''allocate memory failed''
      else v_bind (v_malloc al (ucast sz)) (\<lambda>a. if a = 0 then set_error_buf ''allocate memory failed'' else v_ret a))"

definition memory_realloc :: "'h allocs \<Rightarrow> addr \<Rightarrow> u32 \<Rightarrow> u32 \<Rightarrow> ('h, addr) vop" where
  "memory_realloc al old size_old size_new =
     v_bind (loader_malloc al (ucast size_new)) (\<lambda>a.
     v_then (v_register (\<lambda>rg. alloc_info_buf rg a uint8T (ucast size_new)))
     (v_then (v_free al old) (v_ret a)))"

text \<open>A \<open>BranchBlock\<close> of zero bytes.\<close>

definition zero_block :: BranchBlock where
  "zero_block = \<lparr>bl_label_type = 0, bl_block_type = Type_Ptr 0, bl_start_addr = 0, bl_else_addr = None, bl_end_addr = None,
     bl_stack_cell_num = 0, bl_is_stack_polymorphic = False\<rparr>"

definition CHECK_CSP_PUSH :: "'h allocs \<Rightarrow> ('h, unit) vop" where
  "CHECK_CSP_PUSH al =
     v_bind (ctx id) (\<lambda>c.
     if lc_frame_csp c < length (lc_blocks c) then v_ret ()
     else v_bind (memory_realloc al (lc_frame_csp_bottom c) (lc_frame_csp_size c) (lc_frame_csp_size c + 8 * of_nat (c_size L_BranchBlock))) (\<lambda>a.
       on_ctx (\<lambda>c. c\<lparr>lc_frame_csp_bottom := a, lc_frame_csp_size := lc_frame_csp_size c + 8 * of_nat (c_size L_BranchBlock),
         lc_blocks := lc_blocks c @ replicate 8 zero_block, lc_frame_csp := unat (lc_csp_num c)\<rparr>)))"

definition check_stack_push :: "'h allocs \<Rightarrow> ('h, unit) vop" where
  "check_stack_push al =
     v_bind (ctx id) (\<lambda>c.
     if lc_frame_ref c < length (lc_refs c) then v_ret ()
     else v_bind (memory_realloc al (lc_frame_ref_bottom c) (lc_frame_ref_size c) (lc_frame_ref_size c + 16)) (\<lambda>a.
       on_ctx (\<lambda>c. c\<lparr>lc_frame_ref_bottom := a, lc_frame_ref_size := lc_frame_ref_size c + 16,
         lc_refs := lc_refs c @ replicate 16 0, lc_frame_ref := unat (lc_stack_cell_num c)\<rparr>)))"

section \<open>The stack of types\<close>

text \<open>The type at an index of the buffer.\<close>

definition ref_at :: "int \<Rightarrow> ('h, u8) vop" where
  "ref_at i = v_bind (ctx lc_refs) (\<lambda>rs. if 0 \<le> i \<and> nat i < length rs then v_ret (rs ! nat i) else v_res (Inl (UB ''read past the object'')))"

text \<open>The block at \<open>frame_csp - k\<close>.\<close>

definition block_at :: "nat \<Rightarrow> ('h, BranchBlock) vop" where
  "block_at k = v_bind (ctx id) (\<lambda>c. if k \<le> lc_frame_csp c \<and> lc_frame_csp c - k < length (lc_blocks c)
     then v_ret (lc_blocks c ! (lc_frame_csp c - k)) else v_res (Inl (UB ''read past the block stack'')))"

definition on_block :: "nat \<Rightarrow> (BranchBlock \<Rightarrow> BranchBlock) \<Rightarrow> ('h, unit) vop" where
  "on_block k g = v_bind (block_at k) (\<lambda>b. on_ctx (\<lambda>c. c\<lparr>lc_blocks := (lc_blocks c)[lc_frame_csp c - k := g b]\<rparr>))"

text \<open>\<open>frame_ref\<close> is an index and \<open>stack_cell_num\<close> the number of cells of the current block.\<close>

definition check_stack_top_values :: "int \<Rightarrow> int \<Rightarrow> u8 \<Rightarrow> ('h, unit) vop" where
  "check_stack_top_values frame_ref stack_cell_num type =
     (if is_32bit_type type \<and> stack_cell_num < 1 \<or> is_64bit_type type \<and> stack_cell_num < 2
      then set_error_buf ''type mismatch: expect data but stack was empty''
      else v_bind (if is_32bit_type type then v_bind (ref_at (frame_ref - 1)) (\<lambda>t. v_ret (t \<noteq> type))
          else if is_64bit_type type then v_bind (ref_at (frame_ref - 2)) (\<lambda>t.
            if t \<noteq> type then v_ret True else v_bind (ref_at (frame_ref - 1)) (\<lambda>t'. v_ret (t' \<noteq> type)))
          else v_ret False) (\<lambda>bad.
        if bad then set_error_buf (''type mismatch: expect '' @ type2str type @ '' but got other'') else v_ret ()))"

definition available_cells :: "BranchBlock \<Rightarrow> ('h, int) vop" where
  "available_cells b = v_bind (ctx lc_stack_cell_num) (\<lambda>n. v_ret (sint (n - bl_stack_cell_num b)))"

definition check_stack_pop :: "u8 \<Rightarrow> ('h, unit) vop" where
  "check_stack_pop type =
     v_bind (block_at 1) (\<lambda>b. v_bind (available_cells b) (\<lambda>n. v_bind (ctx lc_frame_ref) (\<lambda>r.
     v_bind (if 0 < n then v_bind (ref_at (int r - 1)) (\<lambda>t. v_ret (t = VALUE_TYPE_ANY)) else v_ret False) (\<lambda>anyt.
     if anyt then v_ret () else check_stack_top_values (int r) n type))))"

definition push_cell :: "'h allocs \<Rightarrow> u8 \<Rightarrow> ('h, unit) vop" where
  "push_cell al type = v_then (check_stack_push al) (v_bind (ctx id) (\<lambda>c.
     if lc_frame_ref c < length (lc_refs c)
     then on_ctx (\<lambda>c. c\<lparr>lc_refs := (lc_refs c)[lc_frame_ref c := type], lc_frame_ref := lc_frame_ref c + 1,
       lc_stack_cell_num := lc_stack_cell_num c + 1\<rparr>)
     else v_res (Inl (UB ''write past the object''))))"

definition wasm_loader_push_frame_ref :: "'h allocs \<Rightarrow> u8 \<Rightarrow> ('h, unit) vop" where
  "wasm_loader_push_frame_ref al type =
     (if type = VALUE_TYPE_VOID then v_ret ()
      else v_then (push_cell al type)
        (v_then (if is_32bit_type type \<or> type = VALUE_TYPE_ANY then v_ret () else push_cell al type)
        (on_ctx (\<lambda>c. if lc_max_stack_cell_num c < lc_stack_cell_num c
           then c\<lparr>lc_max_stack_cell_num := lc_stack_cell_num c\<rparr> else c))))"

definition drop_cells :: "nat \<Rightarrow> ('h, unit) vop" where
  "drop_cells k = v_bind (ctx lc_frame_ref) (\<lambda>r. if r < k then v_res (Inl (UB ''pointer before the object''))
     else on_ctx (\<lambda>c. c\<lparr>lc_frame_ref := lc_frame_ref c - k, lc_stack_cell_num := lc_stack_cell_num c - of_nat k\<rparr>))"

definition wasm_loader_pop_frame_ref :: "u8 \<Rightarrow> ('h, unit) vop" where
  "wasm_loader_pop_frame_ref type =
     v_bind (block_at 1) (\<lambda>b. v_bind (available_cells b) (\<lambda>n.
     if n \<le> 0 \<and> bl_is_stack_polymorphic b then v_ret ()
     else if type = VALUE_TYPE_VOID then v_ret ()
     else v_then (check_stack_pop type) (v_then (drop_cells 1)
       (if is_32bit_type type then v_ret ()
        else v_bind (ctx lc_frame_ref) (\<lambda>r. v_bind (ref_at (int r)) (\<lambda>t.
          if t = VALUE_TYPE_ANY then v_ret () else drop_cells 1))))))"

fun pop_times :: "nat \<Rightarrow> u8 \<Rightarrow> ('h, unit) vop" where
  "pop_times 0 t = v_ret ()"
| "pop_times (Suc k) t = v_then (wasm_loader_pop_frame_ref t) (pop_times k t)"

definition wasm_loader_push_pop_frame_ref :: "'h allocs \<Rightarrow> nat \<Rightarrow> u8 \<Rightarrow> u8 \<Rightarrow> ('h, unit) vop" where
  "wasm_loader_push_pop_frame_ref al pop_cnt type_push type_pop =
     v_then (pop_times pop_cnt type_pop) (wasm_loader_push_frame_ref al type_push)"

section \<open>The stack of blocks\<close>

definition wasm_loader_push_frame_csp :: "'h allocs \<Rightarrow> u8 \<Rightarrow> BlockType \<Rightarrow> nat \<Rightarrow> ('h, unit) vop" where
  "wasm_loader_push_frame_csp al label_type block_type start_addr =
     v_then (CHECK_CSP_PUSH al)
     (v_then (v_bind (ctx lc_stack_cell_num) (\<lambda>n. on_block 0 (\<lambda>_. zero_block\<lparr>bl_label_type := label_type, bl_block_type := block_type,
        bl_start_addr := start_addr, bl_stack_cell_num := n\<rparr>)))
     (on_ctx (\<lambda>c. let n = lc_csp_num c + 1 in
        c\<lparr>lc_frame_csp := lc_frame_csp c + 1, lc_csp_num := n, lc_max_csp_num := (if lc_max_csp_num c < n then n else lc_max_csp_num c)\<rparr>)))"

definition wasm_loader_pop_frame_csp :: "('h, unit) vop" where
  "wasm_loader_pop_frame_csp = v_bind (ctx id) (\<lambda>c.
     if lc_csp_num c < 1 then set_error_buf ''type mismatch: expect data but block stack was empty''
     else if lc_frame_csp c = 0 then v_res (Inl (UB ''pointer before the object''))
     else on_ctx (\<lambda>c. c\<lparr>lc_frame_csp := lc_frame_csp c - 1, lc_csp_num := lc_csp_num c - 1\<rparr>))"

text \<open>The arrays \<open>types\<close> of a function type: parameters, then results.\<close>

definition type_slice :: "nat \<Rightarrow> nat \<Rightarrow> WASMType \<Rightarrow> u8 list res" where
  "type_slice from n ty = (if length (ty_types ty) < from + n then Inl (UB ''read past the object'') else Inr (take n (drop from (ty_types ty))))"

definition param_types_of :: "WASMType \<Rightarrow> u8 list res" where
  "param_types_of ty = type_slice 0 (unat (ty_param_count ty)) ty"

definition result_types_of :: "WASMType \<Rightarrow> u8 list res" where
  "result_types_of ty = type_slice (unat (ty_param_count ty)) (unat (ty_result_count ty)) ty"

definition v_type :: "venv \<Rightarrow> addr \<Rightarrow> ('h, WASMType) vop" where
  "v_type ve a = v_res (if a = 0 then Inl (UB ''null pointer'') else load as_WASMType (ve_mem ve) a)"

definition block_type_get_param_types :: "venv \<Rightarrow> BlockType \<Rightarrow> ('h, u8 list) vop" where
  "block_type_get_param_types ve bt = (case bt of Value_Type t \<Rightarrow> v_ret [] | Type_Ptr a \<Rightarrow> v_bind (v_type ve a) (\<lambda>ty. v_res (param_types_of ty)))"

definition block_type_get_result_types :: "venv \<Rightarrow> BlockType \<Rightarrow> ('h, u8 list) vop" where
  "block_type_get_result_types ve bt = (case bt of
      Value_Type t \<Rightarrow> v_ret (if t = VALUE_TYPE_VOID then [] else [t])
    | Type_Ptr a \<Rightarrow> v_bind (v_type ve a) (\<lambda>ty. v_res (result_types_of ty)))"

definition wasm_get_cell_num :: "u8 list \<Rightarrow> u32" where
  "wasm_get_cell_num types = foldl (\<lambda>n t. n + ucast (wasm_value_type_cell_num t)) 0 types"

text \<open>The values on top of the stack against types, from the last: \<open>frame_ref\<close> and \<open>available_stack_cell\<close> go down.\<close>

fun check_top :: "int \<Rightarrow> int \<Rightarrow> u8 list \<Rightarrow> ('h, unit) vop" where
  "check_top r n [] = v_ret ()"
| "check_top r n (t # ts) = v_then (check_stack_top_values r n t)
     (check_top (r - uint (wasm_value_type_cell_num t)) (n - uint (wasm_value_type_cell_num t)) ts)"

definition wasm_loader_check_br :: "'h allocs \<Rightarrow> venv \<Rightarrow> u32 \<Rightarrow> ('h, unit) vop" where
  "wasm_loader_check_br al ve depth =
     v_bind (ctx lc_csp_num) (\<lambda>csp_num.
     if csp_num < depth + 1 then set_error_buf ''unknown label, unexpected end of section or function''
     else v_bind (block_at 1) (\<lambda>cur_block. v_bind (block_at (unat (depth + 1))) (\<lambda>target_block.
       v_bind (if bl_label_type target_block = LABEL_TYPE_LOOP then block_type_get_param_types ve (bl_block_type target_block)
           else block_type_get_result_types ve (bl_block_type target_block)) (\<lambda>types.
       if bl_is_stack_polymorphic cur_block
       then v_then (v_each wasm_loader_pop_frame_ref (rev types)) (v_each (wasm_loader_push_frame_ref al) types)
       else v_bind (available_cells cur_block) (\<lambda>n. v_bind (ctx lc_frame_ref) (\<lambda>r. check_top (int r) n (rev types)))))))"

definition check_block_stack :: "'h allocs \<Rightarrow> venv \<Rightarrow> BranchBlock \<Rightarrow> ('h, unit) vop" where
  "check_block_stack al ve block =
     v_bind (available_cells block) (\<lambda>n. v_bind (block_type_get_result_types ve (bl_block_type block)) (\<lambda>types.
     if bl_is_stack_polymorphic block
     then v_then (v_each wasm_loader_pop_frame_ref (rev types))
       (v_then (v_bind (ctx lc_stack_cell_num) (\<lambda>k. if k \<noteq> bl_stack_cell_num block
           then set_error_buf ''type mismatch: stack size does not match block type'' else v_ret ()))
         (v_each (wasm_loader_push_frame_ref al) types))
     else if n \<noteq> sint (wasm_get_cell_num types) then set_error_buf ''type mismatch: stack size does not match block type''
     else v_bind (ctx lc_frame_ref) (\<lambda>r. check_top (int r) n (rev types))))"

definition RESET_STACK :: "('h, unit) vop" where
  "RESET_STACK = v_bind (block_at 1) (\<lambda>b. on_ctx (\<lambda>c. c\<lparr>lc_stack_cell_num := bl_stack_cell_num b, lc_frame_ref := unat (bl_stack_cell_num b)\<rparr>))"

definition SET_CUR_BLOCK_STACK_POLYMORPHIC_STATE :: "bool \<Rightarrow> ('h, unit) vop" where
  "SET_CUR_BLOCK_STACK_POLYMORPHIC_STATE flag = on_block 1 (bl_is_stack_polymorphic_update (\<lambda>_. flag))"

section \<open>The code\<close>

definition pos :: "('h, nat) vop" where "pos s = Inr (vs_p s, s)"
definition set_pos :: "nat \<Rightarrow> ('h, unit) vop" where "set_pos p s = Inr ((), s\<lparr>vs_p := p\<rparr>)"

definition code_end :: "venv \<Rightarrow> nat" where "code_end ve = unat (fn_code_size (ve_func ve))"

text \<open>\<open>*p++\<close>, without a check of the end.\<close>

definition read_uint8 :: "('h, u8) vop" where
  "read_uint8 s = (if vs_p s < length (vs_code s) then Inr (vs_code s ! vs_p s, s\<lparr>vs_p := vs_p s + 1\<rparr>)
     else Inl (VCrash (UB ''read past the code'')))"

definition CHECK_BUF :: "venv \<Rightarrow> nat \<Rightarrow> ('h, unit) vop" where
  "CHECK_BUF ve n = v_bind pos (\<lambda>p. if code_end ve < p + n then set_error_buf ''unexpected end of section or function'' else v_ret ())"

text \<open>\<open>read_leb\<close> sees the bytes up to the end of the function.\<close>

definition v_leb :: "venv \<Rightarrow> nat \<Rightarrow> bool \<Rightarrow> ('h, u64) vop" where
  "v_leb ve maxbits sign s = (let bs = drop (vs_p s) (take (code_end ve) (vs_code s)) in
     case wl_read_leb bs maxbits sign of Inl e \<Rightarrow> Inl (VFail e s)
     | Inr (r, rest) \<Rightarrow> Inr (r, s\<lparr>vs_p := vs_p s + (length bs - length rest)\<rparr>))"

definition v_leb_uint32 :: "venv \<Rightarrow> ('h, u32) vop" where
  "v_leb_uint32 ve = v_bind (v_leb ve 32 False) (\<lambda>r. v_ret (ucast r))"

definition poke :: "nat \<Rightarrow> byte \<Rightarrow> ('h, unit) vop" where
  "poke i b s = (if i < length (vs_code s) then Inr ((), s\<lparr>vs_code := (vs_code s)[i := b]\<rparr>)
     else Inl (VCrash (UB ''write past the code'')))"

text \<open>The pointer \<open>frame_csp - depth - 1\<close>, as an index.\<close>

definition check_branch_block :: "'h allocs \<Rightarrow> venv \<Rightarrow> ('h, int) vop" where
  "check_branch_block al ve = v_bind (v_leb_uint32 ve) (\<lambda>depth. v_then (wasm_loader_check_br al ve depth)
     (v_bind (ctx lc_frame_csp) (\<lambda>i. v_ret (int i - uint depth - 1))))"

definition block_index_at :: "int \<Rightarrow> ('h, BranchBlock) vop" where
  "block_index_at i = v_bind (ctx lc_blocks) (\<lambda>bs. if 0 \<le> i \<and> nat i < length bs then v_ret (bs ! nat i) else v_res (Inl (UB ''read past the block stack'')))"

section \<open>Control instructions\<close>

definition pop_types :: "u8 list \<Rightarrow> ('h, unit) vop" where
  "pop_types ts = v_each wasm_loader_pop_frame_ref (rev ts)"

definition push_types :: "'h allocs \<Rightarrow> u8 list \<Rightarrow> ('h, unit) vop" where
  "push_types al = v_each (wasm_loader_push_frame_ref al)"

definition v_types :: "venv \<Rightarrow> u32 \<Rightarrow> ('h, addr) vop" where
  "v_types ve i = v_res (bind_res (load as_Ptrs (ve_mem ve) (md_types (ve_module ve))) (\<lambda>ps. elem_of ps (unat i)))"

text \<open>The block type: one byte, or the index of a type, for which the opcode is replaced.\<close>

definition read_block_type :: "venv \<Rightarrow> u8 \<Rightarrow> ('h, BlockType) vop" where
  "read_block_type ve opcode = v_bind read_uint8 (\<lambda>value_type.
     if is_byte_a_type value_type then v_ret (Value_Type value_type)
     else v_bind pos (\<lambda>p. v_then (set_pos (p - 1)) (v_bind (v_leb_uint32 ve) (\<lambda>type_index.
       if md_type_count (ve_module ve) \<le> type_index then set_error_buf ''unknown type''
       else v_bind (v_types ve type_index) (\<lambda>a. v_bind pos (\<lambda>p'.
         v_then (poke (p' - 2) (EXT_OP_BLOCK + (opcode - WASM_OP_BLOCK))) (v_ret (Type_Ptr a))))))))"

definition handle_op_block_and_loop :: "'h allocs \<Rightarrow> venv \<Rightarrow> u8 \<Rightarrow> ('h, unit) vop" where
  "handle_op_block_and_loop al ve opcode =
     v_bind (read_block_type ve opcode) (\<lambda>bt. v_bind (block_type_get_param_types ve bt) (\<lambda>ps.
     v_then (pop_types ps) (v_bind pos (\<lambda>p.
     v_then (wasm_loader_push_frame_csp al (LABEL_TYPE_BLOCK + (opcode - WASM_OP_BLOCK)) bt p) (push_types al ps)))))"

definition v_ELSE :: "'h allocs \<Rightarrow> venv \<Rightarrow> ('h, unit) vop" where
  "v_ELSE al ve = v_bind (block_at 1) (\<lambda>b. v_bind (ctx lc_csp_num) (\<lambda>n.
     if n < 2 \<or> bl_label_type b \<noteq> LABEL_TYPE_IF then set_error_buf ''opcode else found without matched opcode if''
     else v_then (check_block_stack al ve b) (v_bind pos (\<lambda>p.
       v_then (on_block 1 (bl_else_addr_update (\<lambda>_. Some (p - 1)))) (v_then RESET_STACK
       (v_then (SET_CUR_BLOCK_STACK_POLYMORPHIC_STATE False)
       (v_bind (block_type_get_param_types ve (bl_block_type b)) (push_types al))))))))"

text \<open>Without an else branch the results must be the parameters.\<close>

definition check_if_without_else :: "venv \<Rightarrow> BranchBlock \<Rightarrow> ('h, unit) vop" where
  "check_if_without_else ve b =
     (if bl_label_type b = LABEL_TYPE_IF \<and> bl_else_addr b = None then
        v_bind (block_type_get_param_types ve (bl_block_type b)) (\<lambda>ps. v_bind (block_type_get_result_types ve (bl_block_type b)) (\<lambda>rs.
        if ps \<noteq> rs then set_error_buf ''type mismatch: else branch missing'' else v_ret ()))
      else v_ret ())"

definition v_END :: "'h allocs \<Rightarrow> venv \<Rightarrow> ('h, unit) vop" where
  "v_END al ve = v_bind (block_at 1) (\<lambda>b.
     v_then (check_block_stack al ve b) (v_then (v_bind (block_at 1) (check_if_without_else ve))
     (v_then wasm_loader_pop_frame_csp (v_bind (ctx lc_csp_num) (\<lambda>n.
     if 0 < n then v_bind pos (\<lambda>p. v_then (on_block 0 (bl_end_addr_update (\<lambda>_. Some (p - 1))))
       (SET_CUR_BLOCK_STACK_POLYMORPHIC_STATE False))
     else set_pos (code_end ve))))))"

definition unreachable_rest :: "('h, unit) vop" where
  "unreachable_rest = v_then RESET_STACK (SET_CUR_BLOCK_STACK_POLYMORPHIC_STATE True)"

definition v_BR :: "'h allocs \<Rightarrow> venv \<Rightarrow> ('h, unit) vop" where
  "v_BR al ve = v_then (check_branch_block al ve) unreachable_rest"

definition v_BR_IF :: "'h allocs \<Rightarrow> venv \<Rightarrow> ('h, unit) vop" where
  "v_BR_IF al ve = v_then (wasm_loader_pop_frame_ref VALUE_TYPE_I32) (v_then (check_branch_block al ve) (v_ret ()))"

definition br_target_types :: "'h allocs \<Rightarrow> venv \<Rightarrow> ('h, u8 list) vop" where
  "br_target_types al ve = v_bind (check_branch_block al ve) (\<lambda>i. v_bind (block_index_at i) (\<lambda>b.
     if bl_label_type b \<noteq> LABEL_TYPE_LOOP then block_type_get_result_types ve (bl_block_type b) else v_ret []))"

fun br_table_rest :: "'h allocs \<Rightarrow> venv \<Rightarrow> u8 list \<Rightarrow> nat \<Rightarrow> ('h, unit) vop" where
  "br_table_rest al ve ret_types 0 = v_ret ()"
| "br_table_rest al ve ret_types (Suc k) = v_bind (br_target_types al ve) (\<lambda>ts.
     if ts \<noteq> ret_types then set_error_buf ''type mismatch: br_table targets must all use same result type''
     else br_table_rest al ve ret_types k)"

definition v_BR_TABLE :: "'h allocs \<Rightarrow> venv \<Rightarrow> ('h, unit) vop" where
  "v_BR_TABLE al ve = v_bind (v_leb_uint32 ve) (\<lambda>count. v_then (wasm_loader_pop_frame_ref VALUE_TYPE_I32)
     (v_bind (br_target_types al ve) (\<lambda>ts. v_then (br_table_rest al ve ts (unat count)) unreachable_rest)))"

definition v_RETURN :: "venv \<Rightarrow> ('h, unit) vop" where
  "v_RETURN ve = v_bind (v_type ve (fn_func_type (ve_func ve))) (\<lambda>ty. v_bind (v_res (result_types_of ty)) (\<lambda>rs.
     v_then (pop_types rs) unreachable_rest))"

section \<open>Calls\<close>

definition check_function_index :: "venv \<Rightarrow> u32 \<Rightarrow> ('h, unit) vop" where
  "check_function_index ve i = (if md_import_function_count (ve_module ve) + md_function_count (ve_module ve) \<le> i
     then set_error_buf (''unknown function '' @ dec_int (sint i)) else v_ret ())"

definition check_table_index :: "venv \<Rightarrow> u32 \<Rightarrow> ('h, unit) vop" where
  "check_table_index ve i = (if i \<noteq> 0 then set_error_buf ''zero byte expected''
     else if md_import_table_count (ve_module ve) + md_table_count (ve_module ve) \<le> i
     then set_error_buf (''unknown table '' @ dec_int (sint i)) else v_ret ())"

definition callee_type :: "venv \<Rightarrow> u32 \<Rightarrow> WASMType res" where
  "callee_type ve i = (let m = ve_mem ve; md = ve_module ve in
     bind_res (if i < md_import_function_count md
       then bind_res (load as_WASMImport m (md_import_functions md + ucast i * of_nat (c_size L_WASMImport))) (\<lambda>im. Inr (imf_func_type im))
       else bind_res (load as_Ptrs m (md_functions md)) (\<lambda>ps. bind_res (elem_of ps (unat (i - md_import_function_count md))) (\<lambda>a.
         bind_res (load as_WASMFunction m a) (\<lambda>fn. Inr (fn_func_type fn))))) (load as_WASMType m))"

definition call_types :: "'h allocs \<Rightarrow> WASMType \<Rightarrow> ('h, unit) vop" where
  "call_types al ty = v_bind (v_res (param_types_of ty)) (\<lambda>ps. v_then (pop_types ps)
     (v_bind (v_res (result_types_of ty)) (\<lambda>rs. v_then (push_types al rs) (\<lambda>s. Inr ((), s\<lparr>vs_has_op_func_call := True\<rparr>)))))"

definition v_CALL :: "'h allocs \<Rightarrow> venv \<Rightarrow> ('h, unit) vop" where
  "v_CALL al ve = v_bind (v_leb_uint32 ve) (\<lambda>func_idx. v_then (check_function_index ve func_idx)
     (v_bind (v_res (callee_type ve func_idx)) (call_types al)))"

definition v_CALL_INDIRECT :: "'h allocs \<Rightarrow> venv \<Rightarrow> ('h, unit) vop" where
  "v_CALL_INDIRECT al ve = v_bind (v_leb_uint32 ve) (\<lambda>type_idx. v_then (CHECK_BUF ve 1) (v_bind read_uint8 (\<lambda>table_idx.
     v_then (check_table_index ve (ucast table_idx)) (v_then (wasm_loader_pop_frame_ref VALUE_TYPE_I32)
     (if md_type_count (ve_module ve) \<le> type_idx then set_error_buf ''unknown type''
      else v_bind (v_types ve type_idx) (\<lambda>a. v_bind (v_type ve a) (call_types al)))))))"

section \<open>Parametric and variable instructions\<close>

definition v_DROP :: "('h, unit) vop" where
  "v_DROP = v_bind (block_at 1) (\<lambda>b. v_bind (available_cells b) (\<lambda>n.
     if n \<le> 0 \<and> \<not> bl_is_stack_polymorphic b then set_error_buf ''type mismatch, opcode drop was found but stack was empty''
     else if 0 < n then v_bind (ctx lc_frame_ref) (\<lambda>r. v_bind (ref_at (int r - 1)) (\<lambda>t.
       if t = VALUE_TYPE_I32 \<or> t = VALUE_TYPE_F32 then drop_cells 1
       else if t = VALUE_TYPE_I64 \<or> t = VALUE_TYPE_F64
       then v_then (drop_cells 2) (v_bind pos (\<lambda>p. poke (p - 1) WASM_OP_DROP_64))
       else set_error_buf ''type mismatch''))
     else v_ret ()))"

definition v_SELECT :: "'h allocs \<Rightarrow> ('h, unit) vop" where
  "v_SELECT al = v_then (wasm_loader_pop_frame_ref VALUE_TYPE_I32)
     (v_bind (block_at 1) (\<lambda>b. v_bind (available_cells b) (\<lambda>n.
     if n \<le> 0 \<and> \<not> bl_is_stack_polymorphic b
     then set_error_buf ''type mismatch or invalid result arity, opcode select was found but stack was empty''
     else if 0 < n then v_bind (ctx lc_frame_ref) (\<lambda>r. v_bind (ref_at (int r - 1)) (\<lambda>t.
       v_then (if t = VALUE_TYPE_I32 \<or> t = VALUE_TYPE_F32 then v_ret ()
         else if t = VALUE_TYPE_I64 \<or> t = VALUE_TYPE_F64 then v_bind pos (\<lambda>p. poke (p - 1) WASM_OP_SELECT_64)
         else set_error_buf ''type mismatch'')
       (wasm_loader_push_pop_frame_ref al 2 t t)))
     else wasm_loader_push_frame_ref al VALUE_TYPE_ANY)))"

definition local_type_of :: "venv \<Rightarrow> u32 \<Rightarrow> u8 res" where
  "local_type_of ve i = bind_res (load as_WASMType (ve_mem ve) (fn_func_type (ve_func ve))) (\<lambda>ty.
     if i < ucast (ty_param_count ty) then elem_of (ty_types ty) (unat i)
     else elem_of (fn_tail (ve_func ve)) (unat (i - ucast (ty_param_count ty))))"

definition local_offset_of :: "venv \<Rightarrow> u32 \<Rightarrow> u16 res" where
  "local_offset_of ve i = bind_res (load as_Bytes (ve_mem ve) (fn_local_offsets (ve_func ve))) (\<lambda>bs.
     let e = take 2 (drop (2 * unat i) bs) in if length e < 2 then Inl (UB ''read past the object'') else Inr (le_word e))"

definition v_local :: "venv \<Rightarrow> ('h, u8 \<times> u16) vop" where
  "v_local ve = v_bind (v_leb_uint32 ve) (\<lambda>local_idx. v_bind (v_type ve (fn_func_type (ve_func ve))) (\<lambda>ty.
     if ucast (ty_param_count ty) + fn_local_count (ve_func ve) \<le> local_idx then set_error_buf ''unknown local''
     else v_bind (v_res (local_type_of ve local_idx)) (\<lambda>t. v_bind (v_res (local_offset_of ve local_idx)) (\<lambda>off. v_ret (t, off)))))"

text \<open>The short form of a local instruction: opcode and offset, filled up with \<open>nop\<close>. \<open>p_org\<close> is its first byte.\<close>

definition fast_local :: "nat \<Rightarrow> u8 \<Rightarrow> u8 \<Rightarrow> u16 \<Rightarrow> ('h, unit) vop" where
  "fast_local p_org opcode local_type local_offset =
     (if local_offset < 0x80
      then v_then (poke p_org opcode)
        (v_then (poke (p_org + 1) (if is_32bit_type local_type then ucast local_offset else ucast (local_offset OR 0x80)))
        (v_bind pos (\<lambda>p. v_each (\<lambda>i. poke i WASM_OP_NOP) [p_org + 2..<p])))
      else v_ret ())"

definition v_LOCAL :: "'h allocs \<Rightarrow> venv \<Rightarrow> u8 \<Rightarrow> ('h, unit) vop" where
  "v_LOCAL al ve opcode = v_bind pos (\<lambda>p. v_bind (v_local ve) (\<lambda>(t, off).
     if opcode = WASM_OP_GET_LOCAL then v_then (wasm_loader_push_frame_ref al t) (fast_local (p - 1) EXT_OP_GET_LOCAL_FAST t off)
     else if opcode = WASM_OP_SET_LOCAL then v_then (wasm_loader_pop_frame_ref t) (fast_local (p - 1) EXT_OP_SET_LOCAL_FAST t off)
     else v_then (wasm_loader_pop_frame_ref t) (v_then (wasm_loader_push_frame_ref al t) (fast_local (p - 1) EXT_OP_TEE_LOCAL_FAST t off))))"

definition global_at :: "venv \<Rightarrow> u32 \<Rightarrow> (u8 \<times> bool) res" where
  "global_at ve i = (let m = ve_mem ve; md = ve_module ve; k = md_import_global_count md in
     if i < k then bind_res (load as_WASMImport m (md_import_globals md + ucast i * of_nat (c_size L_WASMImport))) (\<lambda>im.
       Inr (img_type im, img_is_mutable im))
     else bind_res (load as_WASMGlobal m (md_globals md + ucast (i - k) * of_nat (c_size L_WASMGlobal))) (\<lambda>g.
       Inr (gl_type g, gl_is_mutable g)))"

definition v_global :: "venv \<Rightarrow> ('h, u32 \<times> u8 \<times> bool) vop" where
  "v_global ve = v_bind (v_leb_uint32 ve) (\<lambda>i.
     if md_import_global_count (ve_module ve) + md_global_count (ve_module ve) \<le> i then set_error_buf ''unknown global''
     else v_bind (v_res (global_at ve i)) (\<lambda>(t, mut). v_ret (i, t, mut)))"

definition v_GET_GLOBAL :: "'h allocs \<Rightarrow> venv \<Rightarrow> ('h, unit) vop" where
  "v_GET_GLOBAL al ve = v_bind pos (\<lambda>p. v_bind (v_global ve) (\<lambda>(i, t, mut). v_then (wasm_loader_push_frame_ref al t)
     (if t = VALUE_TYPE_I64 \<or> t = VALUE_TYPE_F64 then poke (p - 1) WASM_OP_GET_GLOBAL_64 else v_ret ())))"

definition v_SET_GLOBAL :: "venv \<Rightarrow> ('h, unit) vop" where
  "v_SET_GLOBAL ve = v_bind pos (\<lambda>p. v_bind (v_global ve) (\<lambda>(i, t, mut).
     if \<not> mut then set_error_buf ''global is immutable''
     else v_then (wasm_loader_pop_frame_ref t)
       (if t = VALUE_TYPE_I64 \<or> t = VALUE_TYPE_F64 then poke (p - 1) WASM_OP_SET_GLOBAL_64
        else if 0 < md_aux_stack_size (ve_module ve) \<and> i = md_aux_stack_top_global_index (ve_module ve)
        then poke (p - 1) WASM_OP_SET_GLOBAL_AUX_STACK else v_ret ())))"

section \<open>Memory instructions and constants\<close>

definition check_memory :: "venv \<Rightarrow> ('h, unit) vop" where
  "check_memory ve = (if md_memory_count (ve_module ve) = 0 \<and> md_import_memory_count (ve_module ve) = 0
     then set_error_buf ''unknown memory'' else v_ret ())"

definition mem_access_aligns :: "u32 list" where
  "mem_access_aligns = [2, 3, 2, 3, 0, 0, 1, 1, 0, 0, 1, 1, 2, 2, 2, 3, 2, 3, 0, 1, 0, 1, 2]"

definition check_memory_access_align :: "u8 \<Rightarrow> u32 \<Rightarrow> ('h, unit) vop" where
  "check_memory_access_align opcode align = (if mem_access_aligns ! unat (opcode - WASM_OP_I32_LOAD) < align
     then set_error_buf ''alignment must not be larger than natural'' else v_ret ())"

text \<open>The types a load or store pops and pushes, in the order of the pops.\<close>

definition access_types :: "u8 \<Rightarrow> u8 list \<times> u8 list" where
  "access_types opcode =
     (if opcode \<in> {WASM_OP_I32_LOAD, WASM_OP_I32_LOAD8_S, WASM_OP_I32_LOAD8_U, WASM_OP_I32_LOAD16_S, WASM_OP_I32_LOAD16_U}
      then ([VALUE_TYPE_I32], [VALUE_TYPE_I32])
      else if opcode \<in> {WASM_OP_I64_LOAD, WASM_OP_I64_LOAD8_S, WASM_OP_I64_LOAD8_U, WASM_OP_I64_LOAD16_S, WASM_OP_I64_LOAD16_U,
        WASM_OP_I64_LOAD32_S, WASM_OP_I64_LOAD32_U} then ([VALUE_TYPE_I32], [VALUE_TYPE_I64])
      else if opcode = WASM_OP_F32_LOAD then ([VALUE_TYPE_I32], [VALUE_TYPE_F32])
      else if opcode = WASM_OP_F64_LOAD then ([VALUE_TYPE_I32], [VALUE_TYPE_F64])
      else if opcode \<in> {WASM_OP_I32_STORE, WASM_OP_I32_STORE8, WASM_OP_I32_STORE16} then ([VALUE_TYPE_I32, VALUE_TYPE_I32], [])
      else if opcode \<in> {WASM_OP_I64_STORE, WASM_OP_I64_STORE8, WASM_OP_I64_STORE16, WASM_OP_I64_STORE32}
      then ([VALUE_TYPE_I64, VALUE_TYPE_I32], [])
      else if opcode = WASM_OP_F32_STORE then ([VALUE_TYPE_F32, VALUE_TYPE_I32], [])
      else ([VALUE_TYPE_F64, VALUE_TYPE_I32], []))"

definition v_ACCESS :: "'h allocs \<Rightarrow> venv \<Rightarrow> u8 \<Rightarrow> ('h, unit) vop" where
  "v_ACCESS al ve opcode = v_then (check_memory ve) (v_bind (v_leb_uint32 ve) (\<lambda>align. v_bind (v_leb_uint32 ve) (\<lambda>mem_offset.
     v_then (check_memory_access_align opcode align) (case access_types opcode of (pops, pushes) \<Rightarrow>
     v_then (v_each wasm_loader_pop_frame_ref pops) (push_types al pushes)))))"

definition zero_byte :: "('h, unit) vop" where
  "zero_byte = v_bind read_uint8 (\<lambda>b. if b \<noteq> 0 then set_error_buf ''zero byte expected'' else v_ret ())"

definition v_MEMORY_SIZE :: "'h allocs \<Rightarrow> venv \<Rightarrow> ('h, unit) vop" where
  "v_MEMORY_SIZE al ve = v_then (check_memory ve) (v_then zero_byte (v_then (wasm_loader_push_frame_ref al VALUE_TYPE_I32)
     (\<lambda>s. Inr ((), s\<lparr>vs_possible_memory_grow := True\<rparr>))))"

definition v_MEMORY_GROW :: "'h allocs \<Rightarrow> venv \<Rightarrow> ('h, unit) vop" where
  "v_MEMORY_GROW al ve = v_then (check_memory ve) (v_then zero_byte (v_then (wasm_loader_push_pop_frame_ref al 1 VALUE_TYPE_I32 VALUE_TYPE_I32)
     (\<lambda>s. Inr ((), s\<lparr>vs_has_op_memory_grow := True, vs_possible_memory_grow := True\<rparr>))))"

definition v_CONST :: "'h allocs \<Rightarrow> venv \<Rightarrow> u8 \<Rightarrow> ('h, unit) vop" where
  "v_CONST al ve opcode =
     (if opcode = WASM_OP_I32_CONST then v_then (v_leb ve 32 True) (wasm_loader_push_frame_ref al VALUE_TYPE_I32)
      else if opcode = WASM_OP_I64_CONST then v_then (v_leb ve 64 True) (wasm_loader_push_frame_ref al VALUE_TYPE_I64)
      else if opcode = WASM_OP_F32_CONST then v_bind pos (\<lambda>p. v_then (set_pos (p + 4)) (wasm_loader_push_frame_ref al VALUE_TYPE_F32))
      else v_bind pos (\<lambda>p. v_then (set_pos (p + 8)) (wasm_loader_push_frame_ref al VALUE_TYPE_F64)))"

section \<open>Numeric instructions\<close>

text \<open>The operands popped (how many, of which type) and the type pushed, for the instructions without immediates.\<close>

definition compare_types :: "u8 \<Rightarrow> nat \<times> u8 \<times> u8" where
  "compare_types opcode =
     (if opcode = WASM_OP_I32_EQZ then (1, VALUE_TYPE_I32, VALUE_TYPE_I32)
      else if opcode \<le> WASM_OP_I32_GE_U then (2, VALUE_TYPE_I32, VALUE_TYPE_I32)
      else if opcode = WASM_OP_I64_EQZ then (1, VALUE_TYPE_I64, VALUE_TYPE_I32)
      else if opcode \<le> WASM_OP_I64_GE_U then (2, VALUE_TYPE_I64, VALUE_TYPE_I32)
      else if opcode \<le> WASM_OP_F32_GE then (2, VALUE_TYPE_F32, VALUE_TYPE_I32)
      else (2, VALUE_TYPE_F64, VALUE_TYPE_I32))"

definition arith_types :: "u8 \<Rightarrow> nat \<times> u8 \<times> u8" where
  "arith_types opcode =
     (if opcode \<le> WASM_OP_I32_POPCNT then (1, VALUE_TYPE_I32, VALUE_TYPE_I32)
      else if opcode \<le> WASM_OP_I32_ROTR then (2, VALUE_TYPE_I32, VALUE_TYPE_I32)
      else if opcode \<le> WASM_OP_I64_POPCNT then (1, VALUE_TYPE_I64, VALUE_TYPE_I64)
      else if opcode \<le> WASM_OP_I64_ROTR then (2, VALUE_TYPE_I64, VALUE_TYPE_I64)
      else if opcode \<le> WASM_OP_F32_SQRT then (1, VALUE_TYPE_F32, VALUE_TYPE_F32)
      else if opcode \<le> WASM_OP_F32_COPYSIGN then (2, VALUE_TYPE_F32, VALUE_TYPE_F32)
      else if opcode \<le> WASM_OP_F64_SQRT then (1, VALUE_TYPE_F64, VALUE_TYPE_F64)
      else (2, VALUE_TYPE_F64, VALUE_TYPE_F64))"

definition convert_types :: "u8 \<Rightarrow> nat \<times> u8 \<times> u8" where
  "convert_types opcode = (1,
     if opcode = WASM_OP_I32_WRAP_I64 then (VALUE_TYPE_I64, VALUE_TYPE_I32)
     else if opcode \<in> {WASM_OP_I32_TRUNC_S_F32, WASM_OP_I32_TRUNC_U_F32} then (VALUE_TYPE_F32, VALUE_TYPE_I32)
     else if opcode \<in> {WASM_OP_I32_TRUNC_S_F64, WASM_OP_I32_TRUNC_U_F64} then (VALUE_TYPE_F64, VALUE_TYPE_I32)
     else if opcode \<in> {WASM_OP_I64_EXTEND_S_I32, WASM_OP_I64_EXTEND_U_I32} then (VALUE_TYPE_I32, VALUE_TYPE_I64)
     else if opcode \<in> {WASM_OP_I64_TRUNC_S_F32, WASM_OP_I64_TRUNC_U_F32} then (VALUE_TYPE_F32, VALUE_TYPE_I64)
     else if opcode \<in> {WASM_OP_I64_TRUNC_S_F64, WASM_OP_I64_TRUNC_U_F64} then (VALUE_TYPE_F64, VALUE_TYPE_I64)
     else if opcode \<in> {WASM_OP_F32_CONVERT_S_I32, WASM_OP_F32_CONVERT_U_I32} then (VALUE_TYPE_I32, VALUE_TYPE_F32)
     else if opcode \<in> {WASM_OP_F32_CONVERT_S_I64, WASM_OP_F32_CONVERT_U_I64} then (VALUE_TYPE_I64, VALUE_TYPE_F32)
     else if opcode = WASM_OP_F32_DEMOTE_F64 then (VALUE_TYPE_F64, VALUE_TYPE_F32)
     else if opcode \<in> {WASM_OP_F64_CONVERT_S_I32, WASM_OP_F64_CONVERT_U_I32} then (VALUE_TYPE_I32, VALUE_TYPE_F64)
     else if opcode \<in> {WASM_OP_F64_CONVERT_S_I64, WASM_OP_F64_CONVERT_U_I64} then (VALUE_TYPE_I64, VALUE_TYPE_F64)
     else if opcode = WASM_OP_F64_PROMOTE_F32 then (VALUE_TYPE_F32, VALUE_TYPE_F64)
     else if opcode = WASM_OP_I32_REINTERPRET_F32 then (VALUE_TYPE_F32, VALUE_TYPE_I32)
     else if opcode = WASM_OP_I64_REINTERPRET_F64 then (VALUE_TYPE_F64, VALUE_TYPE_I64)
     else if opcode = WASM_OP_F32_REINTERPRET_I32 then (VALUE_TYPE_I32, VALUE_TYPE_F32)
     else if opcode = WASM_OP_F64_REINTERPRET_I64 then (VALUE_TYPE_I64, VALUE_TYPE_F64)
     else if opcode \<in> {WASM_OP_I32_EXTEND8_S, WASM_OP_I32_EXTEND16_S} then (VALUE_TYPE_I32, VALUE_TYPE_I32)
     else (VALUE_TYPE_I64, VALUE_TYPE_I64))"

definition numeric_types :: "u8 \<Rightarrow> nat \<times> u8 \<times> u8" where
  "numeric_types opcode = (if opcode \<le> WASM_OP_F64_GE then compare_types opcode
     else if opcode \<le> WASM_OP_F64_COPYSIGN then arith_types opcode else convert_types opcode)"

definition v_NUMERIC :: "'h allocs \<Rightarrow> u8 \<Rightarrow> ('h, unit) vop" where
  "v_NUMERIC al opcode = (case numeric_types opcode of (k, pop, push) \<Rightarrow> wasm_loader_push_pop_frame_ref al k push pop)"

text \<open>\<open>%02x\<close>.\<close>

definition hex_digit :: "nat \<Rightarrow> char" where "hex_digit d = ''0123456789abcdef'' ! (d mod 16)"
fun hex_digits :: "nat \<Rightarrow> string" where "hex_digits n = (if n < 16 then [hex_digit n] else hex_digits (n div 16) @ [hex_digit n])"
declare hex_digits.simps [simp del]
definition hex2 :: "nat \<Rightarrow> string" where "hex2 n = (if n < 16 then ''0'' @ hex_digits n else hex_digits n)"

definition misc_types :: "u32 \<Rightarrow> (u8 \<times> u8) option" where
  "misc_types opcode1 =
     (if opcode1 \<le> 1 then Some (VALUE_TYPE_F32, VALUE_TYPE_I32) else if opcode1 \<le> 3 then Some (VALUE_TYPE_F64, VALUE_TYPE_I32)
      else if opcode1 \<le> 5 then Some (VALUE_TYPE_F32, VALUE_TYPE_I64) else if opcode1 \<le> 7 then Some (VALUE_TYPE_F64, VALUE_TYPE_I64)
      else None)"

definition v_MISC :: "'h allocs \<Rightarrow> venv \<Rightarrow> ('h, unit) vop" where
  "v_MISC al ve = v_bind (v_leb_uint32 ve) (\<lambda>opcode1. case misc_types opcode1 of
      Some (pop, push) \<Rightarrow> wasm_loader_push_pop_frame_ref al 1 push pop
    | None \<Rightarrow> set_error_buf (''unsupported opcode fc '' @ hex2 (unat opcode1)))"

section \<open>The loop\<close>

definition v_control :: "'h allocs \<Rightarrow> venv \<Rightarrow> u8 \<Rightarrow> ('h, unit) vop" where
  "v_control al ve opcode =
     (if opcode = WASM_OP_UNREACHABLE then unreachable_rest
      else if opcode = WASM_OP_NOP then v_ret ()
      else if opcode = WASM_OP_IF then v_then (wasm_loader_pop_frame_ref VALUE_TYPE_I32) (handle_op_block_and_loop al ve opcode)
      else if opcode = WASM_OP_BLOCK \<or> opcode = WASM_OP_LOOP then handle_op_block_and_loop al ve opcode
      else if opcode = WASM_OP_ELSE then v_ELSE al ve
      else if opcode = WASM_OP_END then v_END al ve
      else if opcode = WASM_OP_BR then v_BR al ve
      else if opcode = WASM_OP_BR_IF then v_BR_IF al ve
      else if opcode = WASM_OP_BR_TABLE then v_BR_TABLE al ve
      else if opcode = WASM_OP_RETURN then v_RETURN ve
      else if opcode = WASM_OP_CALL then v_CALL al ve
      else if opcode = WASM_OP_CALL_INDIRECT then v_CALL_INDIRECT al ve
      else set_error_buf (''unsupported opcode '' @ hex2 (unat opcode)))"

definition v_opcode :: "'h allocs \<Rightarrow> venv \<Rightarrow> u8 \<Rightarrow> ('h, unit) vop" where
  "v_opcode al ve opcode =
     (if opcode = WASM_OP_DROP \<or> opcode = WASM_OP_DROP_64 then v_DROP
      else if opcode = WASM_OP_SELECT \<or> opcode = WASM_OP_SELECT_64 then v_SELECT al
      else if opcode = WASM_OP_GET_LOCAL \<or> opcode = WASM_OP_SET_LOCAL \<or> opcode = WASM_OP_TEE_LOCAL then v_LOCAL al ve opcode
      else if opcode = WASM_OP_GET_GLOBAL then v_GET_GLOBAL al ve
      else if opcode = WASM_OP_SET_GLOBAL then v_SET_GLOBAL ve
      else if between WASM_OP_I32_LOAD WASM_OP_I64_STORE32 opcode then v_ACCESS al ve opcode
      else if opcode = WASM_OP_MEMORY_SIZE then v_MEMORY_SIZE al ve
      else if opcode = WASM_OP_MEMORY_GROW then v_MEMORY_GROW al ve
      else if between WASM_OP_I32_CONST WASM_OP_F64_CONST opcode then v_CONST al ve opcode
      else if between WASM_OP_I32_EQZ WASM_OP_I64_EXTEND32_S opcode then v_NUMERIC al opcode
      else if opcode = WASM_OP_MISC_PREFIX then v_MISC al ve
      else v_control al ve opcode)"

text \<open>The \<open>while\<close> loop; every iteration reads at least a byte, so as many iterations as there are bytes are enough.\<close>

fun v_loop :: "'h allocs \<Rightarrow> venv \<Rightarrow> nat \<Rightarrow> ('h, unit) vop" where
  "v_loop al ve k = v_bind pos (\<lambda>p. if p < code_end ve
     then (case k of 0 \<Rightarrow> v_res (Inl Diverge) | Suc k' \<Rightarrow> v_then (v_bind read_uint8 (v_opcode al ve)) (v_loop al ve k'))
     else v_ret ())"

declare v_loop.simps [simp del]

section \<open>The whole function\<close>

definition wasm_loader_ctx_destroy :: "'h allocs \<Rightarrow> ('h, unit) vop" where
  "wasm_loader_ctx_destroy al = v_bind (ctx id) (\<lambda>c.
     v_then (if lc_frame_ref_bottom c \<noteq> 0 then v_free al (lc_frame_ref_bottom c) else v_ret ())
     (v_then (if lc_frame_csp_bottom c \<noteq> 0 then v_free al (lc_frame_csp_bottom c) else v_ret ()) (v_free al (lc_self c))))"

definition empty_ctx :: "addr \<Rightarrow> loader_ctx" where
  "empty_ctx a = \<lparr>lc_self = a, lc_refs = [], lc_frame_ref = 0, lc_frame_ref_bottom = 0, lc_frame_ref_size = 32, lc_stack_cell_num = 0,
     lc_max_stack_cell_num = 0, lc_blocks = [], lc_frame_csp = 0, lc_frame_csp_bottom = 0,
     lc_frame_csp_size = 0, lc_csp_num = 0, lc_max_csp_num = 0\<rparr>"

definition alloc_blocks :: "(Data_Type \<Rightarrow> nat) \<Rightarrow> registry \<Rightarrow> addr \<Rightarrow> registry res" where
  "alloc_blocks ext rg b = alloc_infos ext rg b BranchBlockT 8"

text \<open>Whether there is a context.\<close>

definition wasm_loader_ctx_init :: "(Data_Type \<Rightarrow> nat) \<Rightarrow> 'h allocs \<Rightarrow> ('h, bool) vop" where
  "wasm_loader_ctx_init ext al =
     v_bind (v_malloc al (of_nat (c_size L_WASMLoaderContext))) (\<lambda>a.
     if a = 0 then v_ret False
     else v_then (v_register (\<lambda>rg. alloc_info rg a WASMLoaderContextT)) (v_then (on_ctx (\<lambda>_. empty_ctx a))
       (v_bind (v_malloc al 32) (\<lambda>r.
       if r = 0 then v_then (wasm_loader_ctx_destroy al) (v_ret False)
       else v_then (v_register (\<lambda>rg. alloc_info_buf rg r uint8T 32))
         (v_then (on_ctx (\<lambda>c. c\<lparr>lc_frame_ref_bottom := r, lc_refs := replicate 32 0,
            lc_frame_csp_size := 8 * of_nat (c_size L_BranchBlock)\<rparr>))
         (v_bind (v_malloc al (8 * of_nat (c_size L_BranchBlock))) (\<lambda>b.
         if b = 0 then v_then (wasm_loader_ctx_destroy al) (v_ret False)
         else v_then (v_register (\<lambda>rg. alloc_blocks ext rg b))
           (v_then (on_ctx (\<lambda>c. c\<lparr>lc_frame_csp_bottom := b, lc_blocks := replicate 8 zero_block\<rparr>)) (v_ret True)))))))))"

definition v_body :: "'h allocs \<Rightarrow> venv \<Rightarrow> ('h, unit) vop" where
  "v_body al ve =
     v_then (wasm_loader_push_frame_csp al LABEL_TYPE_FUNCTION (Type_Ptr (fn_func_type (ve_func ve))) 0)
     (v_then (v_loop al ve (code_end ve)) (v_bind (ctx lc_csp_num) (\<lambda>n.
     if 0 < n then set_error_buf ''function body must end with END opcode'' else v_ret ())))"

text \<open>The outcome is an error or the function with the sizes of its stacks.\<close>

definition wasm_loader_prepare_bytecode ::
  "(Data_Type \<Rightarrow> nat) \<Rightarrow> 'h allocs \<Rightarrow> venv \<Rightarrow> 'h vstate \<Rightarrow> ((string + WASMFunction) \<times> 'h vstate) res" where
  "wasm_loader_prepare_bytecode ext al ve s =
     (let leave = (\<lambda>r s'. case wasm_loader_ctx_destroy al s' of Inr (_, t) \<Rightarrow> Inr (r, t)
          | Inl (VCrash e) \<Rightarrow> Inl e | Inl (VFail msg t) \<Rightarrow> Inr (Inl msg, t)) in
      case wasm_loader_ctx_init ext al s of
        Inl (VCrash e) \<Rightarrow> Inl e | Inl (VFail msg t) \<Rightarrow> Inr (Inl msg, t)
      | Inr (ok, s1) \<Rightarrow>
          if \<not> ok then Inr (Inl ''allocate memory failed'', s1)
          else case v_body al ve s1 of
              Inl (VCrash e) \<Rightarrow> Inl e
            | Inl (VFail msg s2) \<Rightarrow> leave (Inl msg) s2
            | Inr (_, s2) \<Rightarrow> leave (Inr ((ve_func ve)\<lparr>fn_max_stack_cell_num := lc_max_stack_cell_num (vs_ctx s2),
                fn_max_block_num := lc_max_csp_num (vs_ctx s2),
                fn_has_op_func_call := fn_has_op_func_call (ve_func ve) \<or> vs_has_op_func_call s2,
                fn_has_op_memory_grow := fn_has_op_memory_grow (ve_func ve) \<or> vs_has_op_memory_grow s2\<rparr>)) s2)"

end
