(* ===== verification/Numeric_Effect.thy ===== *)
theory Numeric_Effect
  imports Operand_Stack Validator
begin

text \<open>
  Validator and interpreter agree on the numeric instructions: whatever operands and result the validator gives an
  opcode, the handler of the interpreter takes exactly these cells from the operand stack and leaves exactly the
  cells of the result, or it raises an exception.
\<close>

section \<open>The effect of a handler on the operand stack\<close>

abbreviation width :: "u8 \<Rightarrow> nat" where
  "width t \<equiv> unat (wasm_value_type_cell_num t)"

text \<open>The outcome of a handler: an exception, or the operands \<open>ops\<close> with \<open>r\<close> cells more in a frame of the same size
  and nothing else changed.\<close>

definition leaves :: "'h machine \<Rightarrow> WASMInterpFrame \<Rightarrow> u32 list \<Rightarrow> nat \<Rightarrow> nat \<Rightarrow> 'h stop + unit \<times> 'h machine \<Rightarrow> bool" where
  "leaves b fr ops N r out \<longleftrightarrow> (case out of Inl e \<Rightarrow> raises e
     | Inr (_, s) \<Rightarrow> \<exists>res spare. s = onstack b fr (ops @ res) spare \<and> length res = r \<and> r + length spare = N)"

lemma leaves_Inr: "length res = r \<Longrightarrow> r + length spare = N \<Longrightarrow> leaves b fr ops N r (Inr (x, onstack b fr (ops @ res) spare))"
  unfolding leaves_def by auto

lemma leaves_trap: "inst_ok b \<Longrightarrow> leaves b fr ops N r (trap msg (onstack b fr ops' spare))"
  by (rule trap_raises [where msg = msg and fr = fr and ops = ops' and spare = spare and b = b and 'b = unit]) (simp_all add: leaves_def)

text \<open>\<open>n\<close> cells of operands are replaced by \<open>r\<close> cells.\<close>

definition effect :: "('h, unit) op \<Rightarrow> nat \<Rightarrow> nat \<Rightarrow> bool" where
  "effect c n r \<longleftrightarrow> (\<forall>b fr ops args spare. inst_ok b \<longrightarrow> fits ops (args @ spare) \<longrightarrow> length args = n \<longrightarrow> r \<le> n + length spare \<longrightarrow>
     leaves b fr ops (n + length spare) r (c (onstack b fr (ops @ args) spare)))"

lemma effect_if: "(b \<Longrightarrow> effect c n r) \<Longrightarrow> (\<not> b \<Longrightarrow> effect d n r) \<Longrightarrow> effect (if b then c else d) n r"
  by simp

lemma lists_of:
  "length xs = 1 \<Longrightarrow> \<exists>a. xs = [a]" "length xs = 2 \<Longrightarrow> \<exists>a b. xs = [a, b]" "length xs = 4 \<Longrightarrow> \<exists>a b c d. xs = [a, b, c, d]"
  by (auto simp: length_Suc_conv eval_nat_numeral)

lemma effect_1:
  assumes "\<And>b fr ops x spare. inst_ok b \<Longrightarrow> fits ops (x # spare) \<Longrightarrow> r \<le> Suc (length spare) \<Longrightarrow>
    leaves b fr ops (Suc (length spare)) r (c (onstack b fr (ops @ [x]) spare))"
  shows "effect c 1 r"
  unfolding effect_def using assms by (auto simp: length_Suc_conv)

lemma effect_2:
  assumes "\<And>b fr ops x y spare. inst_ok b \<Longrightarrow> fits ops (x # y # spare) \<Longrightarrow> r \<le> Suc (Suc (length spare)) \<Longrightarrow>
    leaves b fr ops (Suc (Suc (length spare))) r (c (onstack b fr (ops @ [x, y]) spare))"
  shows "effect c 2 r"
  unfolding effect_def using assms by (auto dest!: lists_of(2))

lemma effect_4:
  assumes "\<And>b fr ops x x' y y' spare. inst_ok b \<Longrightarrow> fits ops (x # x' # y # y' # spare) \<Longrightarrow>
    leaves b fr ops (4 + length spare) r (c (onstack b fr (ops @ [x, x', y, y']) spare))"
  shows "effect c 4 r"
  unfolding effect_def using assms by (auto dest!: lists_of(3))

section \<open>The macros\<close>

lemma effect_unary_32:
  assumes "\<And>a. \<exists>r. g a = Inr r"
  shows "effect (unary_32 g) 1 1"
proof (rule effect_1)
  fix b :: "'a machine" and fr ops x and spare :: "u32 list" assume "fits ops (x # spare)"
  moreover obtain r where "g x = Inr r" using assms by blast
  ultimately show "leaves b fr ops (Suc (length spare)) 1 (unary_32 g (onstack b fr (ops @ [x]) spare))"
    by (simp add: unary_32_def op_eval stack_eval leaves_Inr)
qed

lemma effect_unary_64:
  assumes "\<And>a. \<exists>r. g a = Inr r"
  shows "effect (unary_64 g) 2 2"
proof (rule effect_2)
  fix b :: "'a machine" and fr ops x y and spare :: "u32 list" assume "fits ops (x # y # spare)"
  moreover obtain r where "g (word_cat y x) = Inr r" using assms by blast
  ultimately show "leaves b fr ops (Suc (Suc (length spare))) 2 (unary_64 g (onstack b fr (ops @ [x, y]) spare))"
    by (simp add: unary_64_def op_eval stack_eval leaves_Inr)
qed

lemma effect_compare: "effect (DEF_OP_CMP_I32 c) 2 1" "effect (DEF_OP_CMP_I64 d) 4 1"
  by (rule effect_2 effect_4, simp add: stack_eval leaves_Inr)+

lemma effect_numeric: "effect (DEF_OP_NUMERIC g) 2 1" "effect (DEF_OP_NUMERIC_64 h) 4 2"
  by (rule effect_2 effect_4, simp add: stack_eval leaves_Inr Let_def)+

lemma effect_binary: "effect (binary_32 g) 2 1" "effect (binary_64 h) 4 2"
  by (rule effect_2 effect_4, simp add: binary_32_def binary_64_def op_eval stack_eval leaves_Inr leaves_trap split: sum.split)+

lemma effect_64_32: "effect (convert_64_32 g) 2 1"
  by (rule effect_2) (simp add: convert_64_32_def op_eval stack_eval leaves_Inr)

lemma effect_32_64: "effect (convert_32_64 g) 1 2"
proof (rule effect_1)
  fix b :: "'a machine" and fr ops x and spare :: "u32 list" assume "fits ops (x # spare)" "2 \<le> Suc (length spare)"
  moreover then obtain c sp where "spare = c # sp" by (cases spare) auto
  ultimately show "leaves b fr ops (Suc (length spare)) 2 (convert_32_64 g (onstack b fr (ops @ [x]) spare))"
    by (simp add: convert_32_64_def op_eval stack_eval leaves_Inr)
qed

section \<open>Truncations\<close>

text \<open>They read the operand below \<open>frame_sp\<close>, write over it and move \<open>frame_sp\<close> when the widths differ.\<close>

definition trunc_word :: "flt \<Rightarrow> flt \<Rightarrow> flt \<Rightarrow> bool \<Rightarrow> 'a::len word" where
  "trunc_word v src_min src_max sign = (case int_bounds sign of (lo, hi) \<Rightarrow> trunc_to v src_min src_max lo hi)"

lemma trunc_to_i32:
  assumes "fits ops (x # rest)"
  shows "trunc_to_int (cell_addr b (length ops)) v src_min src_max sat True sign (stacked b fr (ops @ x # rest) i) =
    (case (if sat then None else trunc_check v src_min src_max) of Some msg \<Rightarrow> trap msg (stacked b fr (ops @ x # rest) i)
     | None \<Rightarrow> Inr ((), stacked b fr (ops @ trunc_word v src_min src_max sign # rest) i))"
  using assms put_cell_stacked [of "length ops" "ops @ x # rest" b _ fr i]
  by (auto simp: trunc_to_int_def trunc_push_def trunc_word_def case_prod_beta list_update_append simp del: of_nat_mult split: option.split)

lemma trunc_to_i64:
  assumes "fits ops (x # y # rest)"
  shows "trunc_to_int (cell_addr b (length ops)) v src_min src_max sat False sign (stacked b fr (ops @ x # y # rest) i) =
    (case (if sat then None else trunc_check v src_min src_max) of Some msg \<Rightarrow> trap msg (stacked b fr (ops @ x # y # rest) i)
     | None \<Rightarrow> let w = trunc_word v src_min src_max sign :: u64 in Inr ((), stacked b fr (ops @ ucast w # ucast (drop_bit 32 w) # rest) i))"
  using assms PUT_I64_stacked [of "length ops" "ops @ x # y # rest" b _ fr i]
  by (auto simp: trunc_to_int_def trunc_push_def trunc_word_def case_prod_beta list_update_append Let_def simp del: of_nat_mult split: option.split)

lemma trunc_f32_eval:
  assumes "fits ops (x # spare)"
  shows "trunc_f32_to_int src_min src_max sat is_i32 sign (onstack b fr (ops @ [x]) spare) =
    trunc_to_int (cell_addr b (length ops)) (f32 x) src_min src_max sat is_i32 sign (stacked b fr (ops @ x # spare) (Suc (length ops)))"
proof -
  have g: "get_cell (cell_addr b (length ops)) (stacked b fr (ops @ x # spare) (Suc (length ops))) =
    Inr (x, stacked b fr (ops @ x # spare) (Suc (length ops)))"
    using assms by (subst get_cell_stacked) (simp_all add: nth_append)
  have o: "onstack b fr (ops @ [x]) spare = stacked b fr (ops @ x # spare) (Suc (length ops))" by (simp add: onstack_def)
  show ?thesis
    unfolding o trunc_f32_to_int_def bind_op_apply var_stacked sum.case prod.case sp_stacked cell_addr_arith g ..
qed

lemma trunc_f64_eval:
  assumes "fits ops (x # y # spare)"
  shows "trunc_f64_to_int src_min src_max sat is_i32 sign (onstack b fr (ops @ [x, y]) spare) =
    trunc_to_int (cell_addr b (length ops)) (f64 (word_cat y x)) src_min src_max sat is_i32 sign (stacked b fr (ops @ x # y # spare) (length ops + 2))"
proof -
  have g: "GET_I64_FROM_ADDR (cell_addr b (length ops)) (stacked b fr (ops @ x # y # spare) (length ops + 2)) =
    Inr (word_cat y x, stacked b fr (ops @ x # y # spare) (length ops + 2))"
    using assms by (subst GET_I64_stacked) (simp_all add: nth_append)
  have o: "onstack b fr (ops @ [x, y]) spare = stacked b fr (ops @ x # y # spare) (length ops + 2)" by (simp add: onstack_def)
  show ?thesis
    unfolding o trunc_f64_to_int_def bind_op_apply var_stacked sum.case prod.case sp_stacked cell_addr_arith g ..
qed

lemma stacked_onstack: "cs = ops @ spare \<Longrightarrow> i = length ops \<Longrightarrow> stacked b fr cs i = onstack b fr ops spare"
  by (simp add: onstack_def)

lemma stacked_trap: "inst_ok b \<Longrightarrow> i \<le> length cs \<Longrightarrow> leaves b fr ops N r (trap msg (stacked b fr cs i))"
  using leaves_trap [of b fr ops N r msg "take i cs" "drop i cs"] by (simp add: onstack_def)

lemma stacked_leaves:
  "leaves b fr ops (Suc (length rest)) (Suc 0) (Inr ((), stacked b fr (ops @ x # rest) (Suc (length ops))))"
  "leaves b fr ops (Suc (Suc (length rest))) 2 (Inr ((), stacked b fr (ops @ x # y # rest) (Suc (Suc (length ops)))))"
  using leaves_Inr [of "[x]" "Suc 0" rest "Suc (length rest)" b fr ops] leaves_Inr [of "[x, y]" 2 rest "Suc (Suc (length rest))" b fr ops]
  by (simp_all add: onstack_def)

lemmas trunc_evals = trunc_f32_eval trunc_f64_eval trunc_to_i32 trunc_to_i64 stacked_trap stacked_leaves Let_def then_op_apply trap_case
  move_sp_stacked

lemma trunc_f32_i32: "effect (trunc_f32_to_int src_min src_max sat True sign) 1 1"
  by (rule effect_1) (simp add: trunc_evals del: of_nat_mult split: option.split)

lemma trunc_f64_i64: "effect (trunc_f64_to_int src_min src_max sat False sign) 2 2"
  by (rule effect_2) (simp add: trunc_evals del: of_nat_mult split: option.split)

lemma trunc_f64_i32: "effect (then_op (trunc_f64_to_int src_min src_max sat True sign) (move_sp (- 4))) 2 1"
  by (rule effect_2) (use stacked_leaves(1) [where rest = "_ # _"] in \<open>auto simp: trunc_evals simp del: of_nat_mult split: option.split\<close>)

lemma trunc_f32_i64: "effect (then_op (trunc_f32_to_int src_min src_max sat False sign) (move_sp 4)) 1 2"
proof (rule effect_1)
  fix b :: "'a machine" and fr ops x and spare :: "u32 list" assume "inst_ok b" "fits ops (x # spare)" "2 \<le> Suc (length spare)"
  moreover then obtain c sp where "spare = c # sp" by (cases spare) auto
  ultimately show "leaves b fr ops (Suc (length spare)) 2
      (then_op (trunc_f32_to_int src_min src_max sat False sign) (move_sp 4) (onstack b fr (ops @ [x]) spare))"
    by (simp add: trunc_evals del: of_nat_mult split: option.split)
qed

section \<open>The handlers\<close>

lemma counts_return: "\<exists>n. clz32 u = Inr n" "\<exists>n. ctz32 u = Inr n" "\<exists>n. popcount32 u = Inr n"
  "\<exists>n. map_sum id ucast (clz64 v) = Inr n" "\<exists>n. map_sum id ucast (ctz64 v) = Inr n" "\<exists>n. map_sum id ucast (popcount64 v) = Inr n"
proof -
  have t: "t AND 0x80000000 = 0 \<longleftrightarrow> \<not> bit t 31" "t AND 1 = 0 \<longleftrightarrow> \<not> bit t 0" for t :: u32
    using test_bit_mask [of t 31] test_bit_mask [of t 0] by simp_all
  have t': "t AND 0x8000000000000000 = 0 \<longleftrightarrow> \<not> bit t 63" "t AND 1 = 0 \<longleftrightarrow> \<not> bit t 0" for t :: u64
    using test_bit_mask [of t 63] test_bit_mask [of t 0] by simp_all
  show "\<exists>n. clz32 u = Inr n" using clz_spec [of u] unfolding clz32_def t by (cases "u = 0") auto
  show "\<exists>n. ctz32 u = Inr n" using ctz_spec [of u] unfolding ctz32_def t by (cases "u = 0") auto
  show "\<exists>n. popcount32 u = Inr n" by (simp add: popcount32_def popcount_loop count_of_def)
  show "\<exists>n. map_sum id ucast (clz64 v) = Inr n" using clz_spec [of v] unfolding clz64_def t' by (cases "v = 0") auto
  show "\<exists>n. map_sum id ucast (ctz64 v) = Inr n" using ctz_spec [of v] unfolding ctz64_def t' by (cases "v = 0") auto
  show "\<exists>n. map_sum id ucast (popcount64 v) = Inr n" by (simp add: popcount64_def popcount_loop count_of_def)
qed

lemmas effects = effect_if effect_unary_32 effect_unary_64 effect_compare effect_numeric effect_binary effect_64_32 effect_32_64
  trunc_f32_i32 trunc_f64_i64 trunc_f64_i32 trunc_f32_i64 counts_return exI

lemma effect_CMP:
  "effect (op_I32_CMP opcode) (if opcode = WASM_OP_I32_EQZ then 1 else 2) 1"
  "effect (op_I64_CMP opcode) (if opcode = WASM_OP_I64_EQZ then 2 else 4) 1"
  "effect (op_F32_CMP opcode) 2 1" "effect (op_F64_CMP opcode) 4 1"
  unfolding op_I32_CMP_def op_I64_CMP_def op_F32_CMP_def op_F64_CMP_def
  by (simp_all add: effect_unary_32 effect_64_32 effect_compare del: One_nat_def)

lemma effect_I32_NUMERIC: "effect (op_I32_NUMERIC opcode) (if opcode \<in> {WASM_OP_I32_CLZ, WASM_OP_I32_CTZ, WASM_OP_I32_POPCNT} then 1 else 2) 1"
  unfolding op_I32_NUMERIC_def by (simp add: effect_unary_32 effect_numeric effect_binary counts_return del: One_nat_def)

lemma effect_I64_NUMERIC: "effect (op_I64_NUMERIC opcode) (if opcode \<in> {WASM_OP_I64_CLZ, WASM_OP_I64_CTZ, WASM_OP_I64_POPCNT} then 2 else 4) 2"
  unfolding op_I64_NUMERIC_def by (simp add: effect_unary_64 effect_numeric effect_binary counts_return)

lemma effect_F32_NUMERIC: "effect (op_F32_NUMERIC nc opcode) (if opcode \<in> {WASM_OP_F32_ABS, WASM_OP_F32_NEG, WASM_OP_F32_CEIL, WASM_OP_F32_FLOOR,
    WASM_OP_F32_TRUNC, WASM_OP_F32_NEAREST, WASM_OP_F32_SQRT} then 1 else 2) 1"
  unfolding op_F32_NUMERIC_def by (simp add: effect_unary_32 effect_numeric effect_binary del: One_nat_def)

lemma effect_F64_NUMERIC: "effect (op_F64_NUMERIC nc opcode) (if opcode \<in> {WASM_OP_F64_ABS, WASM_OP_F64_NEG, WASM_OP_F64_CEIL, WASM_OP_F64_FLOOR,
    WASM_OP_F64_TRUNC, WASM_OP_F64_NEAREST, WASM_OP_F64_SQRT} then 2 else 4) 2"
  unfolding op_F64_NUMERIC_def by (simp add: effect_unary_64 effect_numeric effect_binary)

lemma effect_EXTEND: "effect (op_EXTEND opcode) (if opcode \<in> {WASM_OP_I32_EXTEND8_S, WASM_OP_I32_EXTEND16_S} then 1 else 2)
    (if opcode \<in> {WASM_OP_I32_EXTEND8_S, WASM_OP_I32_EXTEND16_S} then 1 else 2)"
  unfolding op_EXTEND_def by (simp add: effect_unary_32 effect_unary_64 del: One_nat_def)

lemma trunc_handlers:
  "effect (trunc_i32_s_f32 sat) 1 1" "effect (trunc_i32_u_f32 sat) 1 1" "effect (trunc_i32_s_f64 sat) 2 1" "effect (trunc_i32_u_f64 sat) 2 1"
  "effect (trunc_i64_s_f32 sat) 1 2" "effect (trunc_i64_u_f32 sat) 1 2" "effect (trunc_i64_s_f64 sat) 2 2" "effect (trunc_i64_u_f64 sat) 2 2"
  unfolding trunc_i32_s_f32_def trunc_i32_u_f32_def trunc_i32_s_f64_def trunc_i32_u_f64_def trunc_i64_s_f32_def trunc_i64_u_f32_def
    trunc_i64_s_f64_def trunc_i64_u_f64_def
  by (rule trunc_f32_i32 trunc_f64_i64 trunc_f64_i32 trunc_f32_i64)+

lemma effect_nop: "effect (ret_op ()) n n"
  unfolding effect_def by (auto simp: ret_op_def intro: leaves_Inr)

text \<open>All of them, with the cells of the types of the validator.\<close>

lemma width_simps: "width VALUE_TYPE_I32 = 1" "width VALUE_TYPE_I64 = 2" "width VALUE_TYPE_F32 = 1" "width VALUE_TYPE_F64 = 2"
  by (simp_all add: wasm_value_type_cell_num_def)

lemma between_enum:
  assumes "between lo hi x"
  shows "x \<in> set (map of_nat [unat lo..<Suc (unat hi)])"
proof -
  have "x = of_nat (unat x)" "unat x \<in> set [unat lo..<Suc (unat hi)]" using assms by (auto simp: between_def word_le_nat_alt)
  then show ?thesis by (metis imageI list.set_map)
qed

lemma effect_CONVERT:
  assumes "between WASM_OP_I32_WRAP_I64 WASM_OP_F64_PROMOTE_F32 opcode"
  shows "case convert_types opcode of (k, t, u) \<Rightarrow> effect (op_CONVERT nc opcode) (k * width t) (width u)"
proof -
  have "opcode \<in> set (map of_nat [167..<188])" using between_enum [OF assms] by simp
  then have "opcode \<in> {167, 168, 169, 170, 171, 172, 173, 174, 175, 176, 177, 178, 179, 180, 181, 182, 183, 184, 185, 186, 187}"
    by (simp add: upt_rec)
  then show ?thesis
    by (elim insertE emptyE)
      (simp_all add: op_CONVERT_def convert_types_def width_simps trunc_handlers effect_64_32 effect_32_64 effect_unary_32 effect_unary_64 del: One_nat_def)
qed

text \<open>The ranges of the dispatch.\<close>

lemma word_numeral: "(x = numeral k) \<longleftrightarrow> unat x = unat (numeral k :: u8)" for x :: u8
  by (rule word_unat_eq_iff)

lemma handle_ranges:
  "between 0x45 0x4f opcode \<Longrightarrow> handle ho opcode = op_I32_CMP opcode"
  "between 0x50 0x5a opcode \<Longrightarrow> handle ho opcode = op_I64_CMP opcode"
  "between 0x5b 0x60 opcode \<Longrightarrow> handle ho opcode = op_F32_CMP opcode"
  "between 0x61 0x66 opcode \<Longrightarrow> handle ho opcode = op_F64_CMP opcode"
  "between 0x67 0x78 opcode \<Longrightarrow> handle ho opcode = op_I32_NUMERIC opcode"
  "between 0x79 0x8a opcode \<Longrightarrow> handle ho opcode = op_I64_NUMERIC opcode"
  "between 0x8b 0x98 opcode \<Longrightarrow> handle ho opcode = op_F32_NUMERIC (ho_nan ho) opcode"
  "between 0x99 0xa6 opcode \<Longrightarrow> handle ho opcode = op_F64_NUMERIC (ho_nan ho) opcode"
  "between 0xa7 0xbb opcode \<Longrightarrow> handle ho opcode = op_CONVERT (ho_nan ho) opcode"
  "between 0xbc 0xbf opcode \<Longrightarrow> handle ho opcode = ret_op ()"
  "between 0xc0 0xc4 opcode \<Longrightarrow> handle ho opcode = op_EXTEND opcode"
  by (simp_all add: handle_def between_def variable_opcodes_def word_le_nat_alt word_numeral)

lemma between_split: "between lo hi x \<Longrightarrow> unat m' = Suc (unat m) \<Longrightarrow> between lo m x \<or> between m' hi x"
  by (auto simp: between_def word_le_nat_alt)

lemma opcode_ranges:
  assumes "between 0x45 0xc4 opcode"
  shows "between 0x45 0x4f opcode \<or> between 0x50 0x5a opcode \<or> between 0x5b 0x60 opcode \<or> between 0x61 0x66 opcode \<or> between 0x67 0x78 opcode \<or> between 0x79 0x8a opcode \<or> between 0x8b 0x98 opcode \<or> between 0x99 0xa6 opcode \<or> between 0xa7 0xbb opcode \<or> between 0xbc 0xbf opcode \<or> between 0xc0 0xc4 opcode"
  using assms between_split [of "0x45" "0xc4" opcode "0x50" "0x4f"] between_split [of "0x50" "0xc4" opcode "0x5b" "0x5a"] between_split [of "0x5b" "0xc4" opcode "0x61" "0x60"] between_split [of "0x61" "0xc4" opcode "0x67" "0x66"] between_split [of "0x67" "0xc4" opcode "0x79" "0x78"] between_split [of "0x79" "0xc4" opcode "0x8b" "0x8a"] between_split [of "0x8b" "0xc4" opcode "0x99" "0x98"] between_split [of "0x99" "0xc4" opcode "0xa7" "0xa6"] between_split [of "0xa7" "0xc4" opcode "0xbc" "0xbb"] between_split [of "0xbc" "0xc4" opcode "0xc0" "0xbf"]
  by simp blast

lemma numeric_ranges:
  "0x45 \<le> lo \<Longrightarrow> hi \<le> 0x66 \<Longrightarrow> between lo hi opcode \<Longrightarrow> numeric_types opcode = compare_types opcode"
  "0x67 \<le> lo \<Longrightarrow> hi \<le> 0xa6 \<Longrightarrow> between lo hi opcode \<Longrightarrow> numeric_types opcode = arith_types opcode"
  "0xa7 \<le> lo \<Longrightarrow> hi \<le> 0xc4 \<Longrightarrow> between lo hi opcode \<Longrightarrow> numeric_types opcode = convert_types opcode"
  by (simp_all add: numeric_types_def between_def word_le_nat_alt)

lemma shapes:
  "between 0x45 0x4f opcode \<Longrightarrow> numeric_types opcode = (if opcode = WASM_OP_I32_EQZ then 1 else 2, VALUE_TYPE_I32, VALUE_TYPE_I32)"
  "between 0x50 0x5a opcode \<Longrightarrow> numeric_types opcode = (if opcode = WASM_OP_I64_EQZ then 1 else 2, VALUE_TYPE_I64, VALUE_TYPE_I32)"
  "between 0x5b 0x60 opcode \<Longrightarrow> numeric_types opcode = (2, VALUE_TYPE_F32, VALUE_TYPE_I32)"
  "between 0x61 0x66 opcode \<Longrightarrow> numeric_types opcode = (2, VALUE_TYPE_F64, VALUE_TYPE_I32)"
  "between 0x67 0x78 opcode \<Longrightarrow> numeric_types opcode = (if opcode \<in> {WASM_OP_I32_CLZ, WASM_OP_I32_CTZ, WASM_OP_I32_POPCNT} then 1 else 2, VALUE_TYPE_I32, VALUE_TYPE_I32)"
  "between 0x79 0x8a opcode \<Longrightarrow> numeric_types opcode = (if opcode \<in> {WASM_OP_I64_CLZ, WASM_OP_I64_CTZ, WASM_OP_I64_POPCNT} then 1 else 2, VALUE_TYPE_I64, VALUE_TYPE_I64)"
  "between 0x8b 0x98 opcode \<Longrightarrow> numeric_types opcode = (if opcode \<in> {WASM_OP_F32_ABS, WASM_OP_F32_NEG, WASM_OP_F32_CEIL, WASM_OP_F32_FLOOR, WASM_OP_F32_TRUNC,
      WASM_OP_F32_NEAREST, WASM_OP_F32_SQRT} then 1 else 2, VALUE_TYPE_F32, VALUE_TYPE_F32)"
  "between 0x99 0xa6 opcode \<Longrightarrow> numeric_types opcode = (if opcode \<in> {WASM_OP_F64_ABS, WASM_OP_F64_NEG, WASM_OP_F64_CEIL, WASM_OP_F64_FLOOR, WASM_OP_F64_TRUNC,
      WASM_OP_F64_NEAREST, WASM_OP_F64_SQRT} then 1 else 2, VALUE_TYPE_F64, VALUE_TYPE_F64)"
  by (simp_all add: numeric_types_def compare_types_def arith_types_def between_def word_le_nat_alt word_numeral)

lemma reinterpret_extend_effect:
  assumes "between 0xbc 0xbf opcode \<or> between 0xc0 0xc4 opcode"
  shows "case numeric_types opcode of (k, t, u) \<Rightarrow> effect (handle ho opcode) (k * width t) (width u)"
  using assms
proof
  assume r: "between 0xbc 0xbf opcode"
  then have "opcode \<in> {188, 189, 190, 191}" using between_enum [OF r] by (simp add: upt_rec)
  then show ?thesis using handle_ranges(10) [OF r, of ho] numeric_ranges(3) [OF _ _ r]
    by (elim insertE emptyE) (simp_all add: convert_types_def width_simps effect_nop)
next
  assume r: "between 0xc0 0xc4 opcode"
  then have "opcode \<in> {192, 193, 194, 195, 196}" using between_enum [OF r] by (simp add: upt_rec)
  then show ?thesis using handle_ranges(11) [OF r, of ho] numeric_ranges(3) [OF _ _ r] effect_EXTEND [of opcode]
    by (elim insertE emptyE) (simp_all add: convert_types_def width_simps)
qed

lemma numeric_effect:
  assumes "between 0x45 0xc4 opcode"
  shows "case numeric_types opcode of (k, t, u) \<Rightarrow> effect (handle ho opcode) (k * width t) (width u)"
proof -
  have t: "(if b then 1 else 2) * (1 :: nat) = (if b then 1 else 2)" "(if b then 1 else 2) * (2 :: nat) = (if b then 2 else 4)" "2 * (2 :: nat) = 4" for b
    by simp_all
  note e = effect_CMP [of opcode] effect_I32_NUMERIC [of opcode] effect_I64_NUMERIC [of opcode] effect_F32_NUMERIC [of "ho_nan ho" opcode]
    effect_F64_NUMERIC [of "ho_nan ho" opcode]
  from opcode_ranges [OF assms] show ?thesis
  proof (elim disjE)
    assume r: "between 0xa7 0xbb opcode"
    then show ?thesis using effect_CONVERT [of opcode "ho_nan ho"] handle_ranges(9) [OF r, of ho] numeric_ranges(3) [OF _ _ r] by simp
  next
    assume "between 0xbc 0xbf opcode"
    then show ?thesis by (intro reinterpret_extend_effect disjI1)
  next
    assume "between 0xc0 0xc4 opcode"
    then show ?thesis by (intro reinterpret_extend_effect disjI2)
  qed (simp_all only: handle_ranges shapes prod.case width_simps t e mult_1_right)
qed

end
