(* ===== verification/Interp_Properties.thy ===== *)
theory Interp_Properties
  imports Numeric_Effect Resume_Properties
begin

text \<open>
  What the handlers of the classic interpreter promise: the typing of the numeric instructions, the safety of the
  accesses to linear memory, branches, and the places where the interpreter departs from the validator.
\<close>

section \<open>A state\<close>

text \<open>An instance at 0x9000 with a linear memory of 16 bytes at 0xB000, and a frame at 0xC000 with four cells and two blocks.\<close>

definition vm_memory :: WASMMemoryInstance where
  "vm_memory = \<lparr>mm_module_type = 0, mm_is_shared = False, mm_num_bytes_per_page = 16, mm_cur_page_count = 1, mm_max_page_count = 4,
     mm_heap_data = 0, mm_heap_data_end = 0, mm_heap_handle = 0, mm_memory_data_end = 0xB010, mm_memory_data = 0xB000\<rparr>"

definition vm_bytes :: "byte list" where
  "vm_bytes = [0, 1, 2, 3, 4, 5, 6, 7, 8, 9, 10, 11, 12, 13, 14, 15]"

definition vm_state :: "unit machine" where
  "vm_state = \<lparr>st_rg = sample_rg,
     st_mem = (\<lambda>_. None)(0x9000 := Some (O_WASMModuleInstance (blank_inst\<lparr>mi_default_memory := 0xA000\<rparr>)),
       0xA000 := Some (O_WASMMemoryInstance vm_memory), 0xB000 := Some (O_Bytes vm_bytes), 0xC000 := Some (O_WASMInterpFrame blank_frame)),
     st_heap = \<lparr>memory_mode = MEMORY_MODE_POOL, global_pool_size = 0x10000, malloc_func = 0, realloc_func = 0, free_func = 0, hp_state = ()\<rparr>,
     vm_iv = blank_locals\<lparr>iv_module := 0x9000, iv_memory := 0xA000, iv_linear_mem_size := 16, iv_frame := 0xC000, iv_depth := 1\<rparr>,
     vm_outs = []\<rparr>"

definition vm_nan :: nan_choice where
  "vm_nan = \<lparr>nan32 = (\<lambda>_ _. 0x7fc00000), nan64 = (\<lambda>_ _. 0x7ff8000000000000), nan_demote = (\<lambda>_. 0x7fc00000), nan_promote = (\<lambda>_. 0x7ff8000000000000)\<rparr>"

definition no_allocs :: "unit allocs" where
  "no_allocs = \<lparr>pool_create = (\<lambda>_ _ h. (0, h)), pool_malloc = (\<lambda>h _. (0, h)), pool_realloc = (\<lambda>h _ _. (0, h)), pool_free = (\<lambda>h _. h),
     call_malloc = (\<lambda>_ h _. (0, h)), call_realloc = (\<lambda>_ h _ _. (0, h)), call_free = (\<lambda>_ h _. h), heap_migrate = (\<lambda>_ _ _ h. (False, h))\<rparr>"

definition vm_host :: "unit host" where
  "vm_host = \<lparr>ho_allocs = no_allocs, ho_junk = (\<lambda>_ n. replicate n 0), ho_stale = blank_stale, ho_nan = vm_nan, ho_cstr = (\<lambda>_ _. []),
     ho_invoke = (\<lambda>_ _ st. Inr ((True, 0, 0), st))\<rparr>"

lemma vm_inst_ok: "inst_ok vm_state"
  by (simp add: inst_ok_def vm_state_def)

section \<open>Numeric instructions\<close>

text \<open>C6: the validator and the interpreter agree on every numeric instruction. The validator pops \<open>k\<close> operands of type
  \<open>t\<close> and pushes a result of type \<open>u\<close>; the handler, on a stack that holds cells for these operands and has room for the
  result, replaces exactly these cells by exactly the cells of the result and changes nothing else, or it raises an
  exception. It never gets stuck.\<close>

theorem numeric_handlers_typed:
  assumes "between WASM_OP_I32_EQZ WASM_OP_I64_EXTEND32_S opcode" "numeric_types opcode = (k, t, u)"
    and "inst_ok b" "length ops + length args + length spare < 2 ^ 32" "length args = k * width t" "width u \<le> length args + length spare"
  shows "case handle ho opcode (onstack b fr (ops @ args) spare) of
      Inl e \<Rightarrow> raises e
    | Inr (_, s) \<Rightarrow> \<exists>res spare'. s = onstack b fr (ops @ res) spare' \<and> length res = width u \<and>
        width u + length spare' = length args + length spare"
proof -
  have "effect (handle ho opcode) (k * width t) (width u)" using numeric_effect [OF assms(1), of ho] assms(2) by simp
  moreover have "fits ops (args @ spare)" using assms(4) by simp
  ultimately have "leaves b fr ops (k * width t + length spare) (width u) (handle ho opcode (onstack b fr (ops @ args) spare))"
    using assms(3,5,6) unfolding effect_def by simp
  then show ?thesis unfolding leaves_def assms(5) .
qed

theorem numeric_handlers_typed_witness:
  "case handle vm_host WASM_OP_I64_EXTEND_U_I32 (onstack vm_state blank_frame ([] @ [7]) [0, 0]) of
      Inl e \<Rightarrow> raises e
    | Inr (_, s) \<Rightarrow> \<exists>res spare'. s = onstack vm_state blank_frame ([] @ res) spare' \<and> length res = 2 \<and>
        2 + length spare' = length [7 :: u32] + length [0 :: u32, 0]"
proof -
  have "numeric_types WASM_OP_I64_EXTEND_U_I32 = (1, VALUE_TYPE_I32, VALUE_TYPE_I64)" by (simp add: numeric_types_def convert_types_def)
  from numeric_handlers_typed [OF _ this vm_inst_ok, where ops = "[]" and args = "[7]" and spare = "[0, 0]" and ho = vm_host and fr = blank_frame] show ?thesis
    unfolding width_simps by (simp add: between_def)
qed

section \<open>Linear memory\<close>

lemma store_checked:
  assumes "linear_ok s mm bs" "length xs \<le> 8"
  shows "then_op (CHECK_MEMORY_OVERFLOW off ad (of_nat (length xs))) (store_maddr 0 xs) s =
    (let i = unat off + unat ad in
     if i + length xs \<le> length bs then Inr ((), (with_maddr (mm_memory_data mm + (ucast off + ucast ad)) s)
       \<lparr>st_mem := (st_mem s)(mm_memory_data mm := Some (O_Bytes (take i bs @ xs @ drop (i + length xs) bs)))\<rparr>)
     else trap ''out of bounds memory access'' s)"
proof -
  have "unat (ucast off + ucast ad :: u64) = unat off + unat ad" using unat_effective(2) [of 0] by simp
  then show ?thesis
    using assms(1)
    by (auto simp: then_op_apply check_memory [OF assms] store_maddr_def op_eval default_memory_def look_def change_def linear_ok_def
        with_maddr_def write_bytes_def Let_def trap_case split: if_splits)
qed


lemma vm_linear: "linear_ok vm_state vm_memory vm_bytes"
  by (simp add: linear_ok_def vm_state_def vm_memory_def vm_bytes_def load_def as_WASMMemoryInstance_def as_Bytes_def)


section \<open>Branches\<close>

lemma word_copy_stacked:
  assumes "d \<le> k \<or> k + n \<le> d" "k + n \<le> length cs" "d + n \<le> length cs" "length cs < 2 ^ 32"
  shows "word_copy (cell_addr b d) (cell_addr b k) n (stacked b fr cs i) =
    Inr ((), stacked b fr (take d cs @ take n (drop k cs) @ drop (d + n) cs) i)"
  using assms
proof (induction n arbitrary: d k cs)
  case (Suc n)
  let ?cs = "cs[d := cs ! k]"
  have "take n (drop (Suc k) ?cs) = take n (drop (Suc k) cs)"
    using Suc.prems(1) by (auto simp: drop_update_cancel list_eq_iff_nth_eq nth_list_update)
  moreover have "take (Suc d) ?cs = take d cs @ [cs ! k]" using Suc.prems by (simp add: take_Suc_conv_app_nth)
  moreover have "take (Suc n) (drop k cs) = cs ! k # take n (drop (Suc k) cs)" using Suc.prems by (simp add: Cons_nth_drop_Suc [symmetric])
  ultimately have e: "take (Suc d) ?cs @ take n (drop (Suc k) ?cs) @ drop (Suc d + n) ?cs = take d cs @ take (Suc n) (drop k cs) @ drop (d + Suc n) cs"
    by simp
  have "word_copy (cell_addr b (Suc d)) (cell_addr b (Suc k)) n (stacked b fr ?cs i) =
      Inr ((), stacked b fr (take (Suc d) ?cs @ take n (drop (Suc k) ?cs) @ drop (Suc d + n) ?cs) i)"
    by (rule Suc.IH) (use Suc.prems in auto)
  then have "word_copy (cell_addr b d + 4) (cell_addr b k + 4) n (stacked b fr ?cs i) =
      Inr ((), stacked b fr (take d cs @ take (Suc n) (drop k cs) @ drop (d + Suc n) cs) i)"
    unfolding cell_addr_arith e .
  then show ?case
    using Suc.prems by (simp add: then_op_apply bind_op_apply get_cell_stacked put_cell_stacked del: of_nat_mult of_nat_Suc)
qed (simp add: ret_op_def)

text \<open>The address of block \<open>j\<close> of a frame, and the registers after a branch.\<close>

abbreviation block_addr :: "WASMInterpFrame \<Rightarrow> nat \<Rightarrow> addr" where
  "block_addr fr j \<equiv> fr_csp_bottom fr + of_nat (sizeof_WASMBranchBlock * j)"

definition with_csp :: "addr \<Rightarrow> 'h machine \<Rightarrow> 'h machine" where
  "with_csp csp b = b\<lparr>vm_iv := (vm_iv b)\<lparr>iv_frame_csp := csp\<rparr>\<rparr>"

definition with_ip :: "addr \<Rightarrow> 'h machine \<Rightarrow> 'h machine" where
  "with_ip ip b = b\<lparr>vm_iv := (vm_iv b)\<lparr>iv_frame_ip := ip\<rparr>\<rparr>"

lemma branch_block_size: "sizeof_WASMBranchBlock = 32"
  by code_simp

lemma block_index_at:
  assumes "j < length (fr_blocks fr)" "length (fr_blocks fr) < 2 ^ 32"
  shows "block_index fr (block_addr fr j) = Some j"
proof -
  have "unat (of_nat (sizeof_WASMBranchBlock * j) :: u64) = sizeof_WASMBranchBlock * j"
    by (rule unat_small) (use assms in \<open>simp add: branch_block_size\<close>)
  moreover have "0 < sizeof_WASMBranchBlock" by (simp add: branch_block_size)
  ultimately show ?thesis using assms(1) by (simp add: block_index_def Let_def)
qed

lemma regs_stacked:
  "set_var iv_frame_csp_update x (stacked b fr cs i) = Inr ((), stacked (with_csp x b) fr cs i)"
  "set_var iv_frame_ip_update x (stacked b fr cs i) = Inr ((), stacked (with_ip x b) fr cs i)"
  "iv_frame_csp (vm_iv (stacked b fr cs i)) = iv_frame_csp (vm_iv b)" "iv_frame_ip (vm_iv (stacked b fr cs i)) = iv_frame_ip (vm_iv b)"
  "iv_frame (vm_iv (with_csp x b)) = iv_frame (vm_iv b)" "iv_frame (vm_iv (with_ip x b)) = iv_frame (vm_iv b)"
  by (simp_all add: set_var_def stacked_def with_csp_def with_ip_def)

lemma get_block_stacked:
  assumes "j < length (fr_blocks fr)" "length (fr_blocks fr) < 2 ^ 32"
  shows "get_block (block_addr fr j) (stacked b fr cs i) = Inr (fr_blocks fr ! j, stacked b fr cs i)"
proof -
  have "block_index (fr\<lparr>fr_cells := cs\<rparr>) (block_addr fr j) = Some j"
    using block_index_at [OF assms] by (simp add: block_index_def)
  then show ?thesis by (simp add: get_block_def op_eval look_def read_block_def stacked_def load_frame_iff)
qed

lemma POP_CSP_N_onstack:
  assumes "iv_frame_csp (vm_iv b) = block_addr fr (Suc j + unat n)" "j < length (fr_blocks fr)" "length (fr_blocks fr) < 2 ^ 32"
    and "fr_blocks fr ! j = bl" "bb_frame_sp bl = cell_addr b d" "bb_cell_num bl = of_nat (length res)"
    and "d \<le> length ops \<or> length ops + length res \<le> d" "d + length res \<le> length ops + length res + length spare"
    and "length ops + length res + length spare < 2 ^ 32" "cs = ops @ res @ spare"
  shows "POP_CSP_N n (onstack b fr (ops @ res) spare) =
    Inr ((), stacked (with_ip (bb_target_addr bl) (with_csp (block_addr fr (Suc j)) b)) fr (take d cs @ res @ drop (d + length res) cs) (d + length res))"
proof -
  let ?k = "length ops" and ?n = "length res"
  have c: "block_addr fr (Suc j + unat n) - ucast n * of_nat sizeof_WASMBranchBlock = block_addr fr (Suc j)"
    "block_addr fr (Suc j) - of_nat sizeof_WASMBranchBlock = block_addr fr j"
    by (simp_all add: algebra_simps)
  have n: "unat (bb_cell_num bl) = ?n" using assms(6,9) by (simp add: unat_small)
  have m: "4 * ucast (bb_cell_num bl) = (of_nat (4 * ?n) :: addr)" using n by (metis of_nat_mult of_nat_numeral of_nat_unat)
  have a: "cell_addr b (?k + ?n) - of_nat (4 * ?n) = cell_addr b ?k" "cell_addr b d + of_nat (4 * ?n) = cell_addr b (d + ?n)"
    by (simp_all add: algebra_simps)
  let ?b = "with_ip (bb_target_addr bl) (with_csp (block_addr fr (Suc j)) b)"
  have b: "cell_addr b x = cell_addr ?b x" for x by (simp add: regs_stacked)
  have w: "word_copy (cell_addr b d) (cell_addr b ?k) ?n (stacked ?b fr cs (?k + ?n)) =
      Inr ((), stacked ?b fr (take d cs @ res @ drop (d + ?n) cs) (?k + ?n))"
    unfolding b by (subst word_copy_stacked) (use assms(7-10) in auto)
  have s: "set_var iv_frame_sp_update (cell_addr b (d + ?n)) (stacked ?b fr ds i) = Inr ((), stacked ?b fr ds (d + ?n))" for ds i
    unfolding b by (rule set_sp_stacked)
  have o: "onstack b fr (ops @ res) spare = stacked b fr cs (?k + ?n)" by (simp add: onstack_def assms(10))
  show ?thesis
    unfolding o POP_CSP_N_def Let_def then_op_apply bind_op_apply var_stacked sum.case prod.case regs_stacked assms(1) c
      get_block_stacked [OF assms(2,3)] assms(4,5) sp_stacked n m a w s ..
qed


definition vm_block :: WASMBranchBlock where
  "vm_block = \<lparr>bb_begin_addr = 0x7000, bb_target_addr = 0x7010, bb_frame_sp = frame_lp 0xC000 + 4, bb_cell_num = 1\<rparr>"


section \<open>Division\<close>

lemma sint_range: "- (2 ^ (LENGTH('a) - 1)) \<le> sint (a :: 'a::len word)" "sint a < 2 ^ (LENGTH('a) - 1)"
  using sint_greater_eq [of a] sint_less [of a] by simp_all

lemma sint_zero: "sint (b :: 'a::len word) = 0 \<longleftrightarrow> b = 0"
  by (metis signed_0 signed_word_eqI)

lemma sint_of_range:
  assumes "- (2 ^ (LENGTH('a::len) - 1)) \<le> x" "x < 2 ^ (LENGTH('a) - 1)"
  shows "sint (word_of_int x :: 'a word) = x"
  using assms by (simp add: signed_of_int signed_take_bit_int_eq_self)

lemma sint_min_int: "sint (min_int :: 'a::len word) = - (2 ^ (LENGTH('a) - 1))"
proof -
  have "(min_int :: 'a word) = word_of_int (- (2 ^ (LENGTH('a) - 1)))"
  proof -
    have "(2 :: 'a word) ^ LENGTH('a) = 0" by simp
    moreover have "(2 :: 'a word) ^ LENGTH('a) = 2 ^ (LENGTH('a) - 1) + 2 ^ (LENGTH('a) - 1)"
      using power_Suc [of "2 :: 'a word" "LENGTH('a) - 1"] by simp
    ultimately have "(2 :: 'a word) ^ (LENGTH('a) - 1) = - (2 ^ (LENGTH('a) - 1))" by (metis eq_neg_iff_add_eq_0)
    then show ?thesis by (simp add: min_int_def push_bit_eq_mult)
  qed
  moreover have "sint (word_of_int (- (2 ^ (LENGTH('a) - 1))) :: 'a word) = - (2 ^ (LENGTH('a) - 1))"
    by (rule sint_of_range) simp_all
  ultimately show ?thesis by metis
qed

lemma c_quot_bounds:
  assumes "b \<noteq> 0"
  shows "\<bar>c_quot a b\<bar> = \<bar>a\<bar> div \<bar>b\<bar>" "\<bar>c_rem a b\<bar> < \<bar>b\<bar>" "c_rem a b = 0 \<or> sgn (c_rem a b) = sgn a"
proof -
  have r: "c_rem a b = sgn a * (\<bar>a\<bar> mod \<bar>b\<bar>)"
  proof -
    have "b * c_quot a b = sgn a * (\<bar>b\<bar> * (\<bar>a\<bar> div \<bar>b\<bar>))" by (simp add: c_quot_def abs_sgn)
    moreover have "a = sgn a * \<bar>a\<bar>" by (simp add: sgn_mult_abs)
    moreover have "\<bar>a\<bar> = \<bar>b\<bar> * (\<bar>a\<bar> div \<bar>b\<bar>) + \<bar>a\<bar> mod \<bar>b\<bar>" by simp
    ultimately show ?thesis unfolding c_rem_def by (metis add_diff_cancel_left' distrib_left)
  qed
  have m: "0 \<le> \<bar>a\<bar> mod \<bar>b\<bar>" "\<bar>a\<bar> mod \<bar>b\<bar> < \<bar>b\<bar>" using assms by simp_all
  show "\<bar>c_quot a b\<bar> = \<bar>a\<bar> div \<bar>b\<bar>"
    using assms by (cases "a = 0") (simp_all add: c_quot_def abs_mult pos_imp_zdiv_nonneg_iff abs_of_nonneg)
  show "\<bar>c_rem a b\<bar> < \<bar>b\<bar>" using m assms unfolding r by (cases "a = 0") (simp_all add: abs_mult)
  show "c_rem a b = 0 \<or> sgn (c_rem a b) = sgn a"
    using m by (cases "a = 0 \<or> \<bar>a\<bar> mod \<bar>b\<bar> = 0") (auto simp: r sgn_mult)
qed

lemma quot_range:
  assumes "b \<noteq> 0" "\<not> (a = min_int \<and> b = - 1)"
  shows "sint (word_of_int (c_quot (sint a) (sint b)) :: 'a::len word) = c_quot (sint (a :: 'a word)) (sint (b :: 'a word))"
proof (rule sint_of_range)
  let ?m = "2 ^ (LENGTH('a) - 1) :: int"
  have b: "sint b \<noteq> 0" using assms(1) by (simp add: sint_zero)
  have q: "\<bar>c_quot (sint a) (sint b)\<bar> = \<bar>sint a\<bar> div \<bar>sint b\<bar>" by (rule c_quot_bounds(1) [OF b])
  have le: "\<bar>sint a\<bar> div \<bar>sint b\<bar> \<le> \<bar>sint a\<bar>" using div_by_1 zdiv_mono2 [of "\<bar>sint a\<bar>" 1 "\<bar>sint b\<bar>"] b by simp
  then show "- ?m \<le> c_quot (sint a) (sint b)" using q sint_range [of a] by linarith
  show "c_quot (sint a) (sint b) < ?m"
  proof (rule ccontr)
    assume n: "\<not> c_quot (sint a) (sint b) < ?m"
    then have a: "sint a = - ?m" using q le sint_range [of a] by linarith
    moreover have "0 < ?m" by simp
    ultimately have "\<bar>sint a\<bar> = ?m" by linarith
    then have "\<bar>sint a\<bar> div \<bar>sint b\<bar> = \<bar>sint a\<bar>" using n q le by linarith
    moreover have "\<bar>sint a\<bar> div \<bar>sint b\<bar> < \<bar>sint a\<bar>" if "1 < \<bar>sint b\<bar>" using int_div_less_self [of "\<bar>sint a\<bar>"] that a by simp
    ultimately have "\<bar>sint b\<bar> = 1" using b by linarith
    moreover have "sint b \<noteq> 1"
    proof
      assume "sint b = 1"
      then have "c_quot (sint a) (sint b) = - ?m" using a by (simp add: c_quot_def)
      moreover have "0 < ?m" by simp
      ultimately show False using n by linarith
    qed
    ultimately have "sint b = - 1" by linarith
    then have "sint b = sint (- 1 :: 'a word)" by simp
    then have "b = - 1" by (simp only: signed_word_eqI)
    moreover have "a = min_int" using a sint_min_int by (metis signed_word_eqI)
    ultimately show False using assms(2) by simp
  qed
qed

lemma rem_range:
  assumes "b \<noteq> 0"
  shows "sint (word_of_int (c_rem (sint a) (sint b)) :: 'a::len word) = c_rem (sint (a :: 'a word)) (sint (b :: 'a word))"
proof (rule sint_of_range)
  have "\<bar>c_rem (sint a) (sint b)\<bar> < \<bar>sint b\<bar>" using assms by (intro c_quot_bounds(2)) (simp add: sint_zero)
  then show "- (2 ^ (LENGTH('a) - 1)) \<le> c_rem (sint a) (sint b)" "c_rem (sint a) (sint b) < 2 ^ (LENGTH('a) - 1)"
    using sint_range [of b] by linarith+
qed

text \<open>C16: the signed divisions are exact at every width. A quotient is the truncated quotient of the two integers, and it is refused
  exactly when the divisor is zero or when the quotient does not fit; a remainder has the sign of the dividend, and
  the most negative number by -1 gives 0, where C itself would be undefined.\<close>

theorem signed_division_exact:
  "(case op_DIV_S a b of
      Inl msg \<Rightarrow> if b = 0 then msg = ''integer divide by zero''
        else msg = ''integer overflow'' \<and> c_quot (sint a) (sint b) = 2 ^ (LENGTH('a::len) - 1)
    | Inr q \<Rightarrow> b \<noteq> 0 \<and> sint (q :: 'a word) = c_quot (sint a) (sint b)) \<and>
   (case op_REM_S a b of
      Inl msg \<Rightarrow> b = 0 \<and> msg = ''integer divide by zero''
    | Inr r \<Rightarrow> b \<noteq> 0 \<and> sint a = sint b * c_quot (sint a) (sint b) + sint r \<and> \<bar>sint r\<bar> < \<bar>sint b\<bar> \<and> (r = 0 \<or> sgn (sint r) = sgn (sint a)))"
proof
  have o: "c_quot (sint (min_int :: 'a word)) (sint (- 1 :: 'a word)) = 2 ^ (LENGTH('a) - 1)" by (simp add: sint_min_int c_quot_def)
  then show "case op_DIV_S a b of
      Inl msg \<Rightarrow> if b = 0 then msg = ''integer divide by zero''
        else msg = ''integer overflow'' \<and> c_quot (sint a) (sint b) = 2 ^ (LENGTH('a) - 1)
    | Inr q \<Rightarrow> b \<noteq> 0 \<and> sint (q :: 'a word) = c_quot (sint a) (sint b)"
    using quot_range [of b a] by (auto simp: op_DIV_S_def)
  have "sint a = sint b * c_quot (sint a) (sint b) + c_rem (sint a) (sint b)" by (simp add: c_rem_def)
  moreover have "c_rem (sint (min_int :: 'a word)) (sint (- 1 :: 'a word)) = 0" using o by (simp add: c_rem_def sint_min_int)
  ultimately show "case op_REM_S a b of
      Inl msg \<Rightarrow> b = 0 \<and> msg = ''integer divide by zero''
    | Inr r \<Rightarrow> b \<noteq> 0 \<and> sint a = sint b * c_quot (sint a) (sint b) + sint r \<and> \<bar>sint r\<bar> < \<bar>sint b\<bar> \<and> (r = 0 \<or> sgn (sint r) = sgn (sint a))"
    using rem_range [of b a] c_quot_bounds(2,3) [of "sint b" "sint a"]
    by (auto simp: op_REM_S_def sint_zero simp flip: sint_zero [of "word_of_int x" for x])
qed

section \<open>Signals\<close>

text \<open>\<open>k\<close> iterations of the loop with no signal.\<close>

fun iterations :: "'h host \<Rightarrow> bool \<Rightarrow> nat \<Rightarrow> 'h machine \<Rightarrow> 'h stop + 'h machine" where
  "iterations ho migr_flag 0 s = Inr s"
| "iterations ho migr_flag (Suc k) s = (case step ho migr_flag False s of Inl e \<Rightarrow> Inl e | Inr (_, t) \<Rightarrow> iterations ho migr_flag k t)"


section \<open>Frames\<close>

lemma lp_offset: "offsetof_WASMInterpFrame_lp = 72"
  by code_simp

lemma and_not_mask: "x AND NOT (mask k) = push_bit k (drop_bit k x)" for x :: "'a::len word"
  by (rule bit_word_eqI) (auto simp: bit_simps)

lemma align_4: "unat n + 3 < 2 ^ 32 \<Longrightarrow> unat (align_uint n 4) = 4 * ((unat n + 3) div 4)"
proof -
  assume a: "unat n + 3 < 2 ^ 32"
  have m: "(3 :: u32) = mask 2" by (simp add: mask_eq_exp_minus_1)
  have "(n + 3) AND NOT 3 = push_bit 2 (drop_bit 2 (n + 3))"
    unfolding m by (rule and_not_mask)
  moreover have "unat (n + 3) = unat n + 3" using a by (subst unat_add_lem [THEN iffD1]) simp_all
  moreover have "unat (push_bit 2 (drop_bit 2 y)) = 4 * (unat y div 4)" for y :: u32
    using unsigned_less [of y, where 'a = nat] unfolding unsigned_push_bit_eq unsigned_drop_bit_eq by (simp add: take_bit_eq_mod push_bit_eq_mult drop_bit_eq_div mult.commute)
  ultimately show ?thesis unfolding align_uint_def Let_def by simp
qed

lemma frame_size_eq:
  assumes "72 + 5 * unat n + 3 < 2 ^ 32"
  shows "unat (wasm_interp_interp_frame_size n) = 4 * ((72 + 5 * unat n + 3) div 4)"
proof -
  have "unat (n * 5) = unat n * 5" using assms by (subst unat_mult_lem [THEN iffD1]) simp_all
  then have "unat (72 + n * 5) = 72 + unat n * 5" using assms by (subst unat_add_lem [THEN iffD1]) simp_all
  then show ?thesis using assms unfolding wasm_interp_interp_frame_size_def lp_offset by (simp add: align_4 mult.commute)
qed

text \<open>C17: a frame fits. When five bytes for each cell stay below 2 GB, a frame that \<open>wasm_exec_env_alloc_wasm_frame\<close>
  hands out is the old top of the stack, has room for its header and all its cells, and ends below the end of the stack.\<close>

theorem frame_in_bounds:
  assumes "5 * unat n < 2 ^ 31 - 76" "unat (ee_top ee) + 2 ^ 32 < 2 ^ 64"
    and "wasm_exec_env_alloc_wasm_frame ee (wasm_interp_interp_frame_size n) = (f, ee')" "f \<noteq> 0"
  shows "f = ee_top ee \<and> unat f + offsetof_WASMInterpFrame_lp + 4 * unat n \<le> unat (ee_top ee') \<and> unat (ee_top ee') \<le> unat (ee_top_boundary ee)"
proof -
  let ?sz = "wasm_interp_interp_frame_size n"
  have sz: "unat ?sz = 4 * ((72 + 5 * unat n + 3) div 4)" using assms(1) by (intro frame_size_eq) simp
  then have lt: "unat ?sz < 2 ^ 31" "72 + 4 * unat n \<le> unat ?sz" using assms(1) by simp_all
  have d: "unat (?sz * 2) = unat ?sz * 2" using lt by (subst unat_mult_lem [THEN iffD1]) simp_all
  have u: "unat (ucast (?sz * 2) :: u64) = unat ?sz * 2" "unat (ucast ?sz :: u64) = unat ?sz"
    using d lt unsigned_less [of ?sz] by (simp_all add: unsigned_ucast_eq take_bit_nat_eq_self)
  have t: "unat (ee_top ee + ucast (?sz * 2)) = unat (ee_top ee) + unat ?sz * 2" "unat (ee_top ee + ucast ?sz) = unat (ee_top ee) + unat ?sz"
    using u lt assms(2) by (subst unat_add_lem [THEN iffD1]; simp)+
  have "\<not> ee_top_boundary ee < ee_top ee + ucast (?sz * 2)" "f = ee_top ee" "ee_top ee' = ee_top ee + ucast ?sz"
    using assms(3,4) by (auto simp: wasm_exec_env_alloc_wasm_frame_def split: if_splits)
  then show ?thesis using t lt(2) by (simp add: lp_offset word_less_nat_alt)
qed

theorem frame_in_bounds_witness:
  "wasm_exec_env_alloc_wasm_frame (blank_env 0x9000 0xA000) (wasm_interp_interp_frame_size 4) = (0x9000, blank_env 0x905C 0xA000) \<and>
   unat (0x9000 :: addr) + offsetof_WASMInterpFrame_lp + 4 * unat (4 :: u32) \<le> unat (0x905C :: addr)"
proof -
  have a: "wasm_exec_env_alloc_wasm_frame (blank_env 0x9000 0xA000) (wasm_interp_interp_frame_size 4) = (0x9000, blank_env 0x905C 0xA000)"
    unfolding wasm_exec_env_alloc_wasm_frame_def wasm_interp_interp_frame_size_def lp_offset align_uint_def by (simp add: blank_env_def)
  then show ?thesis using frame_in_bounds [OF _ _ a] by (simp add: blank_env_def)
qed


end
