(* ===== verification/Validator_Logic.thy ===== *)
theory Validator_Logic
  imports Validator Machine_Laws "HOL-Library.Multiset"
begin

text \<open>
  Triples for the computations of the validator, the registry during its allocations, and the invariant of its two
  stacks.
\<close>

section \<open>Triples\<close>

text \<open>The faults the code has: a branch whose depth is \<open>0xFFFFFFFF\<close> looks at a block that is not on the stack, and an
  instruction that ends the code without its immediate byte is read past its end.\<close>

definition known_fault :: "failure \<Rightarrow> bool" where
  "known_fault e \<longleftrightarrow> e = UB ''read past the block stack'' \<or> e = UB ''null pointer'' \<or> e = UB ''read past the code''"

text \<open>From a state with \<open>P\<close>, a computation goes on with \<open>Q\<close>, fails with \<open>F\<close>, or has such a fault.\<close>

definition triple :: "('h vstate \<Rightarrow> bool) \<Rightarrow> ('h vstate \<Rightarrow> bool) \<Rightarrow> ('h, 'a) vop \<Rightarrow> ('a \<Rightarrow> 'h vstate \<Rightarrow> bool) \<Rightarrow> bool" where
  "triple F P c Q \<longleftrightarrow> (\<forall>s. P s \<longrightarrow> (case c s of Inl (VCrash e) \<Rightarrow> known_fault e | Inl (VFail _ s') \<Rightarrow> F s' | Inr (x, s') \<Rightarrow> Q x s'))"

lemma tripleI: "(\<And>s. P s \<Longrightarrow> (case c s of Inl (VCrash e) \<Rightarrow> known_fault e | Inl (VFail _ s') \<Rightarrow> F s' | Inr (x, s') \<Rightarrow> Q x s')) \<Longrightarrow> triple F P c Q"
  by (simp add: triple_def)

lemma tripleD: "triple F P c Q \<Longrightarrow> P s \<Longrightarrow> (case c s of Inl (VCrash e) \<Rightarrow> known_fault e | Inl (VFail _ s') \<Rightarrow> F s' | Inr (x, s') \<Rightarrow> Q x s')"
  by (simp add: triple_def)

lemma triple_bind: "triple F P c Q \<Longrightarrow> (\<And>x. triple F (Q x) (f x) R) \<Longrightarrow> triple F P (v_bind c f) R"
  by (fastforce simp: triple_def v_bind_def split: sum.split vstop.split prod.split)

lemma triple_then: "triple F P c (\<lambda>_. Q) \<Longrightarrow> triple F Q d R \<Longrightarrow> triple F P (v_then c d) R"
  unfolding v_then_def by (rule triple_bind)

lemma triple_ret: "(\<And>s. P s \<Longrightarrow> Q x s) \<Longrightarrow> triple F P (v_ret x) Q"
  by (simp add: triple_def v_ret_def)

lemma triple_error: "(\<And>s. P s \<Longrightarrow> F s) \<Longrightarrow> triple F P (set_error_buf msg) Q"
  by (simp add: triple_def set_error_buf_def)

lemma triple_weaken: "triple F P c Q \<Longrightarrow> (\<And>s. P' s \<Longrightarrow> P s) \<Longrightarrow> (\<And>x s. Q x s \<Longrightarrow> Q' x s) \<Longrightarrow> triple F P' c Q'"
  by (fastforce simp: triple_def split: sum.split vstop.split prod.split)

lemma triple_pre: "triple F P c Q \<Longrightarrow> (\<And>s. P' s \<Longrightarrow> P s) \<Longrightarrow> triple F P' c Q"
  by (erule triple_weaken) auto

lemma triple_if: "(b \<Longrightarrow> triple F P c Q) \<Longrightarrow> (\<not> b \<Longrightarrow> triple F P d Q) \<Longrightarrow> triple F P (if b then c else d) Q"
  by simp

lemma triple_case: "(\<And>s0. P s0 \<Longrightarrow> triple F (\<lambda>s. s = s0) c Q) \<Longrightarrow> triple F P c Q"
  by (simp add: triple_def)

lemma triple_conj: "triple F P c Q \<Longrightarrow> triple F P c Q' \<Longrightarrow> triple F P c (\<lambda>x s. Q x s \<and> Q' x s)"
  by (fastforce simp: triple_def split: sum.splits vstop.splits prod.splits)

lemma triple_each: "(\<And>x. x \<in> set xs \<Longrightarrow> triple F P (f x) (\<lambda>_. P)) \<Longrightarrow> triple F P (v_each f xs) (\<lambda>_. P)"
  by (induction xs) (auto intro!: triple_ret intro: triple_then)

lemma triple_ctx: "(\<And>s. P s \<Longrightarrow> Q (sel (vs_ctx s)) s) \<Longrightarrow> triple F P (ctx sel) Q"
  by (simp add: triple_def ctx_def)

lemma triple_get: "(\<And>x. triple F (\<lambda>s. P s \<and> sel (vs_ctx s) = x) (f x) R) \<Longrightarrow> triple F P (v_bind (ctx sel) f) R"
  by (simp add: triple_def v_bind_def ctx_def)

lemma triple_on_ctx: "(\<And>s. P s \<Longrightarrow> Q () (s\<lparr>vs_ctx := g (vs_ctx s)\<rparr>)) \<Longrightarrow> triple F P (on_ctx g) Q"
  by (simp add: triple_def on_ctx_def)

lemma triple_res: "(\<And>s. P s \<Longrightarrow> \<exists>x. r = Inr x \<and> Q x s) \<Longrightarrow> triple F P (v_res r) Q"
  by (fastforce simp: triple_def v_res_def)

section \<open>Allocations\<close>

text \<open>The addresses the registry lists.\<close>

definition raws :: "registry \<Rightarrow> addr multiset" where
  "raws rg = mset (map (p_raw \<circ> hd) (filter (\<lambda>c. c \<noteq> []) (root_info rg)))"

lemma remove_raw_raws:
  assumes "a \<in># mset (map (p_raw \<circ> hd) (filter (\<lambda>c. c \<noteq> []) cs))"
  shows "\<exists>l. remove_raw a cs = Some l \<and> mset (map (p_raw \<circ> hd) (filter (\<lambda>c. c \<noteq> []) l)) =
    mset (map (p_raw \<circ> hd) (filter (\<lambda>c. c \<noteq> []) cs)) - {#a#}"
  using assms
proof (induction cs)
  case (Cons c cs)
  show ?case
  proof (cases "c \<noteq> [] \<and> p_raw (hd c) = a")
    case False
    then have "a \<in># mset (map (p_raw \<circ> hd) (filter (\<lambda>c. c \<noteq> []) cs))" using Cons.prems by (cases "c = []") auto
    then show ?thesis using Cons.IH False by auto
  qed simp
qed simp

lemma free_info_raws:
  assumes "a \<in># raws rg"
  shows "\<exists>rg'. free_info rg a = Inr rg' \<and> raws rg' = raws rg - {#a#}"
  using remove_raw_raws [OF assms [unfolded raws_def]] by (auto simp: free_info_def raws_def)

lemma register_raws:
  "a \<noteq> 0 \<Longrightarrow> \<exists>rg'. alloc_info_buf rg a t sz = Inr rg' \<and> raws rg' = add_mset a (raws rg)"
  "a \<noteq> 0 \<Longrightarrow> \<exists>rg'. alloc_blocks ext rg a = Inr rg' \<and> raws rg' = add_mset a (raws rg)"
  "a \<noteq> 0 \<Longrightarrow> \<exists>rg'. alloc_info rg a t = Inr rg' \<and> raws rg' = add_mset a (raws rg)"
  by (simp_all add: alloc_info_buf_def alloc_blocks_def alloc_infos_def alloc_info_def raws_def mk_node_def set_WASMModule_def Let_def)

text \<open>No block is larger than half of the 32-bit sizes.\<close>

definition bounded_alloc :: "'h allocs \<Rightarrow> bool" where
  "bounded_alloc al \<longleftrightarrow> (\<forall>hp sz. 2 ^ 31 \<le> unat sz \<longrightarrow> fst (wasm_runtime_malloc_internal al hp sz) = 0)"

text \<open>The state with another registry and heap.\<close>

definition same_but_heap :: "'h vstate \<Rightarrow> 'h vstate \<Rightarrow> bool" where
  "same_but_heap s s' \<longleftrightarrow> s' = s\<lparr>vs_rg := vs_rg s', vs_heap := vs_heap s'\<rparr>"

lemma vs_self [simp]: "s\<lparr>vs_rg := vs_rg s\<rparr> = s" "s\<lparr>vs_heap := vs_heap s\<rparr> = s"
  "s\<lparr>vs_rg := vs_rg s, vs_heap := hp\<rparr> = s\<lparr>vs_heap := hp\<rparr>" "s\<lparr>vs_rg := rg, vs_heap := vs_heap s\<rparr> = s\<lparr>vs_rg := rg\<rparr>"
  by (cases s; simp)+

lemma ucast_down: "ucast (ucast (k :: u32) :: u64) = k"
  by (rule bit_word_eqI) (simp add: bit_ucast_iff)

lemma malloc_triple:
  assumes "bounded_alloc al"
  shows "triple F (\<lambda>s. s = s0) (v_malloc al sz) (\<lambda>a s. same_but_heap s0 s \<and> vs_rg s = vs_rg s0 \<and> (a \<noteq> 0 \<longrightarrow> unat sz < 2 ^ 31))"
proof -
  have "unat sz < 2 ^ 31" if "fst (wasm_runtime_malloc_internal al hp (if sz = 0 then 1 else sz)) \<noteq> 0" for hp
    using assms that unfolding bounded_alloc_def by (cases "sz = 0") (auto simp: not_le [symmetric])
  then have "a \<noteq> 0 \<longrightarrow> unat sz < 2 ^ 31"
    if "wasm_runtime_malloc (wasm_runtime_malloc_internal al) (vs_heap s0) sz = (a, hp)" for a hp
    using that by (metis fst_conv wasm_runtime_malloc_def)
  then show ?thesis
    by (cases "wasm_runtime_malloc (wasm_runtime_malloc_internal al) (vs_heap s0) sz")
      (simp add: triple_def v_malloc_def same_but_heap_def)
qed

lemma same_but_heap_upd:
  assumes "same_but_heap s0 s"
  shows "same_but_heap s0 (s\<lparr>vs_rg := rg\<rparr>)" "same_but_heap s0 (s\<lparr>vs_rg := rg, vs_heap := hp\<rparr>)"
  using assms by (cases s0; cases s; simp add: same_but_heap_def)+

lemma same_but_heapD: "same_but_heap s0 s \<Longrightarrow> vs_ctx s = vs_ctx s0 \<and> vs_code s = vs_code s0 \<and> vs_p s = vs_p s0"
  by (cases s0; cases s) (simp add: same_but_heap_def)

lemma register_triple:
  assumes "\<And>rg. \<exists>rg'. f rg = Inr rg' \<and> raws rg' = add_mset a (raws rg)"
  shows "triple F (\<lambda>s. same_but_heap s0 s \<and> raws (vs_rg s) = Y \<and> Z) (v_register f) (\<lambda>_ s. same_but_heap s0 s \<and> raws (vs_rg s) = add_mset a Y \<and> Z)"
proof (rule tripleI)
  fix s :: "'a vstate" assume s: "same_but_heap s0 s \<and> raws (vs_rg s) = Y \<and> Z"
  obtain rg where "f (vs_rg s) = Inr rg" "raws rg = add_mset a (raws (vs_rg s))" using assms by blast
  then show "case v_register f s of Inl (VCrash e) \<Rightarrow> known_fault e | Inl (VFail _ s') \<Rightarrow> F s'
      | Inr (x, s') \<Rightarrow> same_but_heap s0 s' \<and> raws (vs_rg s') = add_mset a Y \<and> Z"
    using s by (simp add: v_register_def same_but_heap_upd)
qed

lemma free_triple:
  "triple F (\<lambda>s. same_but_heap s0 s \<and> raws (vs_rg s) = add_mset a Y \<and> Z) (v_free al a) (\<lambda>_ s. same_but_heap s0 s \<and> raws (vs_rg s) = Y \<and> Z)"
proof (rule tripleI)
  fix s :: "'a vstate" assume s: "same_but_heap s0 s \<and> raws (vs_rg s) = add_mset a Y \<and> Z"
  then obtain rg where "free_info (vs_rg s) a = Inr rg" "raws rg = Y" using free_info_raws [of a "vs_rg s"] by auto
  then show "case v_free al a s of Inl (VCrash e) \<Rightarrow> known_fault e | Inl (VFail _ s') \<Rightarrow> F s'
      | Inr (x, s') \<Rightarrow> same_but_heap s0 s' \<and> raws (vs_rg s') = Y \<and> Z"
    using s by (simp add: v_free_def same_but_heap_upd)
qed

lemma realloc_triple:
  assumes "bounded_alloc al" "raws (vs_rg s0) = add_mset old X" "\<And>hp. F (s0\<lparr>vs_heap := hp\<rparr>)"
  shows "triple F (\<lambda>s. s = s0) (memory_realloc al old n k)
    (\<lambda>a s. same_but_heap s0 s \<and> raws (vs_rg s) = add_mset a X \<and> a \<noteq> 0 \<and> unat k < 2 ^ 31)"
proof -
  have f: "F s" if "s = s0\<lparr>vs_heap := vs_heap s\<rparr>" for s
    by (subst that) (rule assms(3))
  have l: "triple F (\<lambda>s. s = s0) (loader_malloc al (ucast k))
    (\<lambda>a s. same_but_heap s0 s \<and> raws (vs_rg s) = add_mset old X \<and> a \<noteq> 0 \<and> unat k < 2 ^ 31)"
    unfolding loader_malloc_def
    by (intro triple_if triple_error triple_bind [OF malloc_triple [OF assms(1)]] triple_ret)
      (use assms(2) assms(3) [of "vs_heap s0"] in \<open>auto simp: same_but_heap_def ucast_down intro: f\<close>)
  have r: "triple F (\<lambda>s. same_but_heap s0 s \<and> raws (vs_rg s) = add_mset old X \<and> a \<noteq> 0 \<and> unat k < 2 ^ 31)
      (v_register (\<lambda>rg. alloc_info_buf rg a uint8T (ucast k)))
      (\<lambda>_ s. same_but_heap s0 s \<and> raws (vs_rg s) = add_mset old (add_mset a X) \<and> a \<noteq> 0 \<and> unat k < 2 ^ 31)" for a
  proof (cases "a = 0")
    case False
    show ?thesis by (rule triple_weaken [OF register_triple [OF register_raws(1) [OF False]]]) (auto simp: add_mset_commute)
  qed (simp add: triple_def)
  show ?thesis unfolding memory_realloc_def
    by (intro triple_bind [OF l] triple_then [OF r] triple_then [OF free_triple] triple_ret)
qed

section \<open>The invariant\<close>

text \<open>Types of values, and the function types of a well-formed module.\<close>

definition types_ok :: "WASMType \<Rightarrow> bool" where
  "types_ok ty \<longleftrightarrow> length (ty_types ty) = unat (ty_param_count ty) + unat (ty_result_count ty) \<and> (\<forall>t\<in>set (ty_types ty). is_value_type t)"

fun bt_ok :: "venv \<Rightarrow> BlockType \<Rightarrow> bool" where
  "bt_ok ve (Value_Type t) \<longleftrightarrow> is_byte_a_type t"
| "bt_ok ve (Type_Ptr a) \<longleftrightarrow> a \<noteq> 0 \<and> (\<exists>ty. load as_WASMType (ve_mem ve) a = Inr ty \<and> types_ok ty)"

text \<open>The two stacks, the top first.\<close>

definition stk :: "loader_ctx \<Rightarrow> u8 list" where "stk c = rev (take (lc_frame_ref c) (lc_refs c))"
definition blks :: "loader_ctx \<Rightarrow> BranchBlock list" where "blks c = rev (take (lc_frame_csp c) (lc_blocks c))"

definition refs_ok :: "loader_ctx \<Rightarrow> bool" where
  "refs_ok c \<longleftrightarrow> lc_frame_ref c = unat (lc_stack_cell_num c) \<and> lc_frame_ref c \<le> length (lc_refs c) \<and>
     length (lc_refs c) = unat (lc_frame_ref_size c) \<and> length (lc_refs c) < 2 ^ 31"

definition csp_ok :: "loader_ctx \<Rightarrow> bool" where
  "csp_ok c \<longleftrightarrow> lc_frame_csp c = unat (lc_csp_num c) \<and> lc_frame_csp c \<le> length (lc_blocks c) \<and>
     56 * length (lc_blocks c) = unat (lc_frame_csp_size c) \<and> 56 * length (lc_blocks c) < 2 ^ 31 \<and> lc_csp_num c \<le> lc_max_csp_num c"

definition owned :: "addr multiset \<Rightarrow> 'h vstate \<Rightarrow> bool" where
  "owned base s \<longleftrightarrow> (let c = vs_ctx s in raws (vs_rg s) = base + {#lc_self c, lc_frame_ref_bottom c, lc_frame_csp_bottom c#} \<and>
     lc_frame_ref_bottom c \<noteq> 0 \<and> lc_frame_csp_bottom c \<noteq> 0)"

text \<open>A slot of the block buffer has never been used, or it holds the type of a block.\<close>

definition slots_ok :: "venv \<Rightarrow> loader_ctx \<Rightarrow> bool" where
  "slots_ok ve c \<longleftrightarrow> (\<forall>b\<in>set (lc_blocks c). bl_block_type b = Type_Ptr 0 \<or> bt_ok ve (bl_block_type b)) \<and>
     (\<forall>b\<in>set (blks c). bt_ok ve (bl_block_type b))"

text \<open>A value of 64 bits has two cells.\<close>

fun paired :: "u8 list \<Rightarrow> bool" where
  "paired [] \<longleftrightarrow> True"
| "paired [t] \<longleftrightarrow> is_32bit_type t \<or> t = VALUE_TYPE_ANY"
| "paired (t # t' # ts) \<longleftrightarrow> (if is_32bit_type t \<or> t = VALUE_TYPE_ANY then paired (t' # ts) else is_64bit_type t \<and> t' = t \<and> paired ts)"

text \<open>The values of each block lie above those of the blocks around it.\<close>

fun segs :: "u8 list \<Rightarrow> BranchBlock list \<Rightarrow> bool" where
  "segs ts [] \<longleftrightarrow> True"
| "segs ts (b # bs) \<longleftrightarrow> (let h = unat (bl_stack_cell_num b) in
     h \<le> length ts \<and> paired (take (length ts - h) ts) \<and> segs (drop (length ts - h) ts) bs)"

definition sound :: "venv \<Rightarrow> addr multiset \<Rightarrow> nat \<Rightarrow> 'h vstate \<Rightarrow> bool" where
  "sound ve base L s \<longleftrightarrow> refs_ok (vs_ctx s) \<and> csp_ok (vs_ctx s) \<and> slots_ok ve (vs_ctx s) \<and> owned base s \<and> length (vs_code s) = L"

text \<open>\<open>snap\<close>: position, blocks and types are known; \<open>good\<close>: the types fit the blocks.\<close>

definition snap :: "venv \<Rightarrow> addr multiset \<Rightarrow> nat \<Rightarrow> nat \<Rightarrow> BranchBlock list \<Rightarrow> u8 list \<Rightarrow> 'h vstate \<Rightarrow> bool" where
  "snap ve base L p bs ts s \<longleftrightarrow> sound ve base L s \<and> vs_p s = p \<and> blks (vs_ctx s) = bs \<and> stk (vs_ctx s) = ts"

definition maxed :: "'h vstate \<Rightarrow> bool" where
  "maxed s \<longleftrightarrow> lc_stack_cell_num (vs_ctx s) \<le> lc_max_stack_cell_num (vs_ctx s)"

definition good :: "venv \<Rightarrow> addr multiset \<Rightarrow> nat \<Rightarrow> nat \<Rightarrow> BranchBlock list \<Rightarrow> 'h vstate \<Rightarrow> bool" where
  "good ve base L p bs s \<longleftrightarrow> maxed s \<and> (\<exists>ts. snap ve base L p bs ts s \<and> segs ts bs)"

lemmas inv_defs = snap_def sound_def refs_ok_def csp_ok_def slots_ok_def owned_def stk_def blks_def maxed_def

lemma good_owned: "good ve base L p bs s \<Longrightarrow> owned base s" "snap ve base L p bs ts s \<Longrightarrow> owned base s"
  by (auto simp: good_def snap_def sound_def)

section \<open>Pushing\<close>

lemma add16: "unat (x :: u32) < 2 ^ 31 \<Longrightarrow> unat (x + 16) = unat x + 16"
  by (subst unat_add_small) simp_all

lemma check_stack_push_triple:
  assumes "bounded_alloc al"
  shows "triple (owned base) (snap ve base L p bs ts) (check_stack_push al)
    (\<lambda>_ s. snap ve base L p bs ts s \<and> lc_frame_ref (vs_ctx s) < length (lc_refs (vs_ctx s)))"
proof (rule triple_case)
  fix s0 :: "'a vstate" assume s0: "snap ve base L p bs ts s0"
  let ?c = "vs_ctx s0"
  have o: "owned base (s0\<lparr>vs_heap := hp\<rparr>)" for hp using s0 by (simp add: inv_defs)
  have r: "raws (vs_rg s0) = add_mset (lc_frame_ref_bottom ?c) (base + {#lc_self ?c, lc_frame_csp_bottom ?c#})"
    using s0 by (simp add: inv_defs Let_def)
  show "triple (owned base) (\<lambda>s. s = s0) (check_stack_push al)
    (\<lambda>_ s. snap ve base L p bs ts s \<and> lc_frame_ref (vs_ctx s) < length (lc_refs (vs_ctx s)))"
  proof (cases "lc_frame_ref ?c < length (lc_refs ?c)")
    case True
    then show ?thesis using s0 by (simp add: triple_def check_stack_push_def v_bind_def ctx_def v_ret_def)
  next
    case False
    have "triple (owned base) (\<lambda>s. s = s0)
      (v_bind (memory_realloc al (lc_frame_ref_bottom ?c) (lc_frame_ref_size ?c) (lc_frame_ref_size ?c + 16)) (\<lambda>a.
        on_ctx (\<lambda>c. c\<lparr>lc_frame_ref_bottom := a, lc_frame_ref_size := lc_frame_ref_size c + 16,
          lc_refs := lc_refs c @ replicate 16 0, lc_frame_ref := unat (lc_stack_cell_num c)\<rparr>)))
      (\<lambda>_ s. snap ve base L p bs ts s \<and> lc_frame_ref (vs_ctx s) < length (lc_refs (vs_ctx s)))"
      by (intro triple_bind [OF realloc_triple [where F = "owned base", OF assms r o]] triple_on_ctx)
        (use s0 False in \<open>auto simp: inv_defs Let_def add16 dest!: same_but_heapD\<close>)
    then show ?thesis using False by (simp add: triple_def check_stack_push_def v_bind_def ctx_def)
  qed
qed

lemma add1: "unat (x :: u32) < 2 ^ 31 \<Longrightarrow> unat (x + 1) = unat x + 1"
  by (subst unat_add_small) simp_all

lemma push_cell_triple:
  assumes "bounded_alloc al"
  shows "triple (owned base) (snap ve base L p bs ts) (push_cell al t) (\<lambda>_. snap ve base L p bs (t # ts))"
  unfolding push_cell_def
  by (intro triple_then [OF check_stack_push_triple [OF assms]] triple_get triple_if triple_on_ctx triple_res)
    (auto simp: inv_defs Let_def add1 take_Suc_conv_app_nth)

end
