(* ===== verification/Validator_Stack.thy ===== *)
theory Validator_Stack
  imports Validator_Logic
begin

text \<open>
  The stack of types of the validator: what a push and a pop do to it, and that they keep the invariant.
\<close>

section \<open>Pushing a value\<close>

definition cells :: "u8 \<Rightarrow> u8 list" where
  "cells t = (if t = VALUE_TYPE_VOID then [] else if is_32bit_type t \<or> t = VALUE_TYPE_ANY then [t] else [t, t])"

lemma push_triple:
  assumes "bounded_alloc al"
  shows "triple (owned base) (\<lambda>s. snap ve base L p bs ts s \<and> maxed s) (wasm_loader_push_frame_ref al t)
    (\<lambda>_ s. snap ve base L p bs (cells t @ ts) s \<and> maxed s)"
proof -
  have m: "triple (owned base) (snap ve base L p bs us) (on_ctx (\<lambda>c. if lc_max_stack_cell_num c < lc_stack_cell_num c
      then c\<lparr>lc_max_stack_cell_num := lc_stack_cell_num c\<rparr> else c)) (\<lambda>_ s. snap ve base L p bs us s \<and> maxed s)" for us
    by (rule triple_on_ctx) (auto simp: inv_defs Let_def)
  show ?thesis
  proof (cases "t = VALUE_TYPE_VOID")
    case True
    then show ?thesis by (simp add: wasm_loader_push_frame_ref_def cells_def triple_def v_ret_def)
  next
    case False
    have r: "triple (owned base) (snap ve base L p bs (t # ts)) (if is_32bit_type t \<or> t = VALUE_TYPE_ANY then v_ret () else push_cell al t)
      (\<lambda>_. snap ve base L p bs (cells t @ ts))"
    proof (rule triple_if)
      assume "is_32bit_type t \<or> t = VALUE_TYPE_ANY"
      then have "cells t @ ts = t # ts" using False by (simp add: cells_def)
      then show "triple (owned base) (snap ve base L p bs (t # ts)) (v_ret ()) (\<lambda>_. snap ve base L p bs (cells t @ ts))"
        by (intro triple_ret) simp
    next
      assume "\<not> (is_32bit_type t \<or> t = VALUE_TYPE_ANY)"
      then have "cells t @ ts = t # t # ts" using False by (simp add: cells_def)
      then show "triple (owned base) (snap ve base L p bs (t # ts)) (push_cell al t) (\<lambda>_. snap ve base L p bs (cells t @ ts))"
        using push_cell_triple [OF assms] by metis
    qed
    have f: "triple (owned base) (\<lambda>s. snap ve base L p bs ts s \<and> maxed s) (push_cell al t) (\<lambda>_. snap ve base L p bs (t # ts))"
      by (rule triple_pre [OF push_cell_triple [OF assms]]) simp
    show ?thesis
      unfolding wasm_loader_push_frame_ref_def if_not_P [OF False] by (rule triple_then [OF f triple_then [OF r m]])
  qed
qed

section \<open>The types of the blocks\<close>

lemma value_types: "is_value_type t \<longleftrightarrow> is_32bit_type t \<or> is_64bit_type t" "\<not> (is_32bit_type t \<and> is_64bit_type t)"
  "is_32bit_type t \<Longrightarrow> t \<noteq> VALUE_TYPE_VOID \<and> t \<noteq> VALUE_TYPE_ANY" "is_64bit_type t \<Longrightarrow> t \<noteq> VALUE_TYPE_VOID \<and> t \<noteq> VALUE_TYPE_ANY"
  by (auto simp: is_value_type_def is_32bit_type_def is_64bit_type_def)

lemma paired_Cons1 [simp]: "is_32bit_type t \<or> t = VALUE_TYPE_ANY \<Longrightarrow> paired (t # ts) \<longleftrightarrow> paired ts"
  by (cases ts) auto

lemma paired_cells: "is_value_type t \<or> t = VALUE_TYPE_ANY \<or> t = VALUE_TYPE_VOID \<Longrightarrow> paired ts \<Longrightarrow> paired (cells t @ ts)"
  by (auto simp: cells_def value_types)

lemma segs_append:
  assumes "\<And>us. paired us \<Longrightarrow> paired (xs @ us)" "segs ts bs"
  shows "segs (xs @ ts) bs"
proof (cases bs)
  case (Cons b bs')
  let ?h = "unat (bl_stack_cell_num b)"
  have h: "?h \<le> length ts" "paired (take (length ts - ?h) ts)" "segs (drop (length ts - ?h) ts) bs'"
    using assms(2) Cons by (simp_all add: Let_def)
  have n: "length (xs @ ts) - ?h = length xs + (length ts - ?h)" using h(1) by simp
  have "take (length (xs @ ts) - ?h) (xs @ ts) = xs @ take (length ts - ?h) ts"
    "drop (length (xs @ ts) - ?h) (xs @ ts) = drop (length ts - ?h) ts"
    unfolding n by simp_all
  then show ?thesis using h assms(1) Cons by (simp add: Let_def)
qed simp

lemma segs_push:
  assumes "is_value_type t \<or> t = VALUE_TYPE_ANY \<or> t = VALUE_TYPE_VOID" "segs ts bs"
  shows "segs (cells t @ ts) bs"
  by (rule segs_append [OF paired_cells [OF assms(1)] assms(2)])

lemma good_push:
  assumes "bounded_alloc al" "is_value_type t \<or> t = VALUE_TYPE_ANY \<or> t = VALUE_TYPE_VOID"
  shows "triple (owned base) (good ve base L p bs) (wasm_loader_push_frame_ref al t) (\<lambda>_. good ve base L p bs)"
proof (rule tripleI)
  fix s :: "'a vstate" assume "good ve base L p bs s"
  then obtain ts where s: "snap ve base L p bs ts s" "maxed s" "segs ts bs" by (auto simp: good_def)
  with tripleD [OF push_triple [OF assms(1)], of ve base L p bs ts s t] segs_push [OF assms(2) s(3)]
  show "case wasm_loader_push_frame_ref al t s of Inl (VCrash e) \<Rightarrow> known_fault e | Inl (VFail _ s') \<Rightarrow> owned base s'
      | Inr (x, s') \<Rightarrow> good ve base L p bs s'"
    by (auto simp: good_def split: sum.splits vstop.splits)
qed

section \<open>Reading the stacks\<close>

lemma snap_ref:
  assumes "snap ve base L p bs ts s"
  shows "lc_frame_ref (vs_ctx s) = length ts" "unat (lc_stack_cell_num (vs_ctx s)) = length ts" "length ts < 2 ^ 31"
    "lc_frame_csp (vs_ctx s) = length bs" "unat (lc_csp_num (vs_ctx s)) = length bs" "56 * length bs < 2 ^ 31"
    "i < length ts \<Longrightarrow> lc_refs (vs_ctx s) ! (length ts - Suc i) = ts ! i" "length ts \<le> length (lc_refs (vs_ctx s))"
  using assms by (auto simp: inv_defs rev_nth)

lemma ref_at_top:
  assumes "snap ve base L p bs ts s" "i < length ts"
  shows "ref_at (int (length ts) - 1 - int i) s = Inr (ts ! i, s)"
proof -
  have i: "nat (int (length ts) - 1 - int i) = length ts - Suc i" "0 \<le> int (length ts) - 1 - int i" using assms(2) by auto
  show ?thesis
    using assms(2) snap_ref(7) [OF assms(1), of i] snap_ref(8) [OF assms(1)]
    by (auto simp: ref_at_def v_bind_def ctx_def v_ret_def i simp del: int_ops)
qed

lemma block_at_top:
  assumes "snap ve base L p bs ts s" "i < length bs"
  shows "block_at (Suc i) s = Inr (bs ! i, s)"
proof -
  have "lc_blocks (vs_ctx s) ! (length bs - Suc i) = bs ! i" "length bs \<le> length (lc_blocks (vs_ctx s))"
    using assms by (auto simp: inv_defs rev_nth)
  then show ?thesis
    using assms(2) snap_ref(4) [OF assms(1)] by (auto simp: block_at_def v_bind_def ctx_def v_ret_def)
qed

lemma sint_diff:
  assumes "unat (y :: u32) \<le> unat x" "unat x < 2 ^ 31"
  shows "sint (x - y) = int (unat x) - int (unat y)"
proof -
  have u: "unat (x - y) = unat x - unat y" using assms(1) by (simp add: unat_sub word_le_nat_alt)
  have "unat (x - y) < 2 ^ 31" using u assms by linarith
  then have "int (unat (x - y)) < int (2 ^ 31)" by (simp only: of_nat_less_iff)
  then have "uint (x - y) < 2 ^ 31" by (simp only: uint_nat of_nat_power of_nat_numeral)
  moreover have "- (2 ^ 31) \<le> uint (x - y)" by (rule order_trans [of _ 0]) simp_all
  ultimately have "sint (x - y) = uint (x - y)"
    by (simp add: sint_uint signed_take_bit_int_eq_self)
  then show ?thesis using u assms(1) unfolding uint_nat by simp
qed

lemma available_cells_eval:
  assumes "snap ve base L p bs ts s" "unat (bl_stack_cell_num b) \<le> length ts"
  shows "available_cells b s = Inr (int (length ts) - int (unat (bl_stack_cell_num b)), s)"
  using sint_diff [of "bl_stack_cell_num b" "lc_stack_cell_num (vs_ctx s)"] snap_ref [OF assms(1)] assms(2)
  by (simp add: available_cells_def v_bind_def ctx_def v_ret_def)

text \<open>The state after \<open>k\<close> cells are gone; they stay in the buffer.\<close>

definition dropped :: "nat \<Rightarrow> 'h vstate \<Rightarrow> 'h vstate" where
  "dropped k s = s\<lparr>vs_ctx := (vs_ctx s)\<lparr>lc_frame_ref := lc_frame_ref (vs_ctx s) - k, lc_stack_cell_num := lc_stack_cell_num (vs_ctx s) - of_nat k\<rparr>\<rparr>"

lemma unat_sub_of_nat: "k \<le> unat x \<Longrightarrow> unat (x - of_nat k) = unat x - k" for x :: u32
proof -
  assume k: "k \<le> unat x"
  moreover have "unat x < 2 ^ 32" using unsigned_less [of x] by simp
  ultimately have "unat (of_nat k :: u32) = k" by (intro unat_small) simp
  then show "unat (x - of_nat k) = unat x - k" using k by (simp add: unat_sub word_le_nat_alt)
qed

lemma dropped_dropped: "dropped j (dropped k s) = dropped (k + j) s"
  by (cases s) (simp add: dropped_def algebra_simps)

lemma drop_cells_eval:
  assumes "snap ve base L p bs ts s" "k \<le> length ts"
  shows "drop_cells k s = Inr ((), dropped k s)" "snap ve base L p bs (drop k ts) (dropped k s)" "maxed s \<Longrightarrow> maxed (dropped k s)"
    "1 \<le> k \<Longrightarrow> ref_at (int (lc_frame_ref (vs_ctx (dropped k s)))) (dropped k s) = Inr (ts ! (k - 1), dropped k s)"
proof -
  note r = snap_ref [OF assms(1)]
  have u: "unat (lc_stack_cell_num (vs_ctx s) - of_nat k) = length ts - k" using r assms(2) by (simp add: unat_sub_of_nat)
  show "drop_cells k s = Inr ((), dropped k s)"
    using assms(2) r by (simp add: drop_cells_def v_bind_def ctx_def on_ctx_def dropped_def)
  have t: "rev (take (length ts - k) (lc_refs (vs_ctx s))) = drop k ts"
    using assms by (auto simp: inv_defs rev_take add.commute)
  show "snap ve base L p bs (drop k ts) (dropped k s)"
    using assms(1) u t r(1,2,8) by (auto simp: inv_defs dropped_def Let_def)
  show "maxed s \<Longrightarrow> maxed (dropped k s)"
    using u r by (auto simp: maxed_def dropped_def word_le_nat_alt)
  show "1 \<le> k \<Longrightarrow> ref_at (int (lc_frame_ref (vs_ctx (dropped k s)))) (dropped k s) = Inr (ts ! (k - 1), dropped k s)"
    using assms(2) r(1,8) r(7) [of "k - 1"] nat_diff_distrib [of "int k" "int (length ts)"] by (auto simp: ref_at_def v_bind_def ctx_def v_ret_def dropped_def)
qed

section \<open>Popping\<close>

lemma check_top_values_eval:
  assumes "snap ve base L p bs ts s" "is_value_type t" "n \<le> int (length ts) - int j"
  shows "case check_stack_top_values (int (length ts) - int j) n t s of
      Inr (_, s') \<Rightarrow> s' = s \<and> int (length (cells t)) \<le> n \<and> take (length (cells t)) (drop j ts) = cells t
    | Inl (VFail _ s') \<Rightarrow> s' = s | Inl (VCrash e) \<Rightarrow> False"
proof -
  have one: "ref_at (int (length ts) - int j - 1) s = Inr (ts ! j, s)" if "1 \<le> n"
    using ref_at_top [OF assms(1), of j] that assms(3) by (simp add: algebra_simps)
  have two: "ref_at (int (length ts) - int j - 2) s = Inr (ts ! Suc j, s)" if "2 \<le> n"
    using ref_at_top [OF assms(1), of "Suc j"] that assms(3) by (simp add: algebra_simps)
  have l1: "1 \<le> n \<Longrightarrow> drop j ts = ts ! j # drop (Suc j) ts" using assms(3) by (simp add: Cons_nth_drop_Suc)
  have l2: "2 \<le> n \<Longrightarrow> drop j ts = ts ! j # ts ! Suc j # drop (Suc (Suc j)) ts" using assms(3) by (simp add: Cons_nth_drop_Suc)
  consider "is_32bit_type t" "\<not> is_64bit_type t" | "is_64bit_type t" "\<not> is_32bit_type t" using assms(2) value_types by blast
  then show ?thesis
  proof cases
    case 1
    then show ?thesis
      using one l1 value_types(3) [of t]
      by (auto simp: check_stack_top_values_def v_bind_def v_ret_def set_error_buf_def cells_def)
  next
    case 2
    then show ?thesis
      using one two l2 value_types(4) [of t]
      by (auto simp: check_stack_top_values_def v_bind_def v_ret_def set_error_buf_def cells_def)
  qed
qed

lemma segs_drop:
  assumes "segs ts (b # bs)" "k \<le> length ts - unat (bl_stack_cell_num b)"
    "paired (drop k (take (length ts - unat (bl_stack_cell_num b)) ts))"
  shows "segs (drop k ts) (b # bs)"
proof -
  let ?h = "unat (bl_stack_cell_num b)"
  have "length (drop k ts) - ?h = length ts - ?h - k" by simp
  then show ?thesis using assms by (auto simp: Let_def drop_take)
qed

text \<open>What a pop removes: nothing in the polymorphic state of an empty block, otherwise a value of unknown type or the
  cells of the type.\<close>

lemma v_bind_Inr: "c s = Inr (x, s') \<Longrightarrow> v_bind c f s = f x s'"
  by (simp add: v_bind_def)

lemma v_then_Inr: "c s = Inr (x, s') \<Longrightarrow> v_then c d s = d s'"
  by (simp add: v_then_def v_bind_def)

lemma v_then_fail: "c s = Inl e \<Longrightarrow> v_then c d s = Inl e"
  by (simp add: v_then_def v_bind_def)

text \<open>The check before a pop passes on a value of unknown type, and otherwise compares the cells.\<close>

lemma check_stack_pop_eval:
  assumes s: "snap ve base L p (b # bs) ts s" "unat (bl_stack_cell_num b) \<le> length ts" "is_value_type t"
  shows "case check_stack_pop t s of
      Inr (_, s') \<Rightarrow> s' = s \<and> (\<exists>us. (us = [VALUE_TYPE_ANY] \<or> us = cells t) \<and> take (length us) ts = us \<and> length us \<le> length ts - unat (bl_stack_cell_num b))
    | Inl (VFail _ s') \<Rightarrow> s' = s | Inl (VCrash e) \<Rightarrow> False"
proof -
  define n where "n = int (length ts) - int (unat (bl_stack_cell_num b))"
  have b1: "block_at 1 s = Inr (b, s)" using block_at_top [OF s(1), of 0] by simp
  have av: "available_cells b s = Inr (n, s)" unfolding n_def by (rule available_cells_eval [OF s(1,2)])
  have fr: "ctx lc_frame_ref s = Inr (length ts, s)" using snap_ref(1) [OF s(1)] by (simp add: ctx_def)
  have c: "check_stack_pop t s = v_bind (if 0 < n then v_bind (ref_at (int (length ts) - 1)) (\<lambda>t. v_ret (t = VALUE_TYPE_ANY)) else v_ret False)
     (\<lambda>anyt. if anyt then v_ret () else check_stack_top_values (int (length ts)) n t) s"
    by (simp only: check_stack_pop_def v_bind_def b1 av fr sum.case prod.case)
  have t: "case check_stack_top_values (int (length ts)) n t s of
      Inr (_, s') \<Rightarrow> s' = s \<and> int (length (cells t)) \<le> n \<and> take (length (cells t)) ts = cells t
    | Inl (VFail _ s') \<Rightarrow> s' = s | Inl (VCrash e) \<Rightarrow> False"
  proof -
    have "n \<le> int (length ts) - int 0" by (simp add: n_def)
    from check_top_values_eval [OF s(1,3) this] show ?thesis unfolding drop_0 int_ops(1) diff_zero .
  qed
  show ?thesis
  proof (cases "0 < n \<and> hd ts = VALUE_TYPE_ANY")
    case True
    then have "0 < length ts" unfolding n_def by linarith
    then have ts: "0 < length ts" "ts ! 0 = VALUE_TYPE_ANY" using True by (auto simp: hd_conv_nth)
    then have "ref_at (int (length ts) - 1) s = Inr (VALUE_TYPE_ANY, s)" using ref_at_top [OF s(1), of 0] by simp
    then have "check_stack_pop t s = Inr ((), s)" using True unfolding c by (simp add: v_bind_def v_ret_def)
    moreover have "take (length [VALUE_TYPE_ANY]) ts = [VALUE_TYPE_ANY]" using ts by (cases ts) auto
    moreover have "length [VALUE_TYPE_ANY] \<le> length ts - unat (bl_stack_cell_num b)"
      using True unfolding n_def list.size by linarith
    ultimately show ?thesis by auto
  next
    case False
    have "check_stack_pop t s = check_stack_top_values (int (length ts)) n t s"
    proof (cases "0 < n")
      case True
      then have "0 < length ts" unfolding n_def by linarith
      then have "0 < length ts" "ts ! 0 \<noteq> VALUE_TYPE_ANY" using True False by (auto simp: hd_conv_nth)
      then show ?thesis using True ref_at_top [OF s(1), of 0] unfolding c by (simp add: v_bind_def v_ret_def)
    qed (simp add: c v_bind_def v_ret_def)
    moreover have "int (length (cells t)) \<le> n \<Longrightarrow> length (cells t) \<le> length ts - unat (bl_stack_cell_num b)"
      unfolding n_def by linarith
    ultimately show ?thesis using t by (auto split: sum.splits vstop.splits)
  qed
qed

lemma paired_drop1: "paired (VALUE_TYPE_ANY # us) \<Longrightarrow> paired us"
  by simp

lemma paired_drop_cells: "is_value_type t \<Longrightarrow> paired (cells t @ us) \<Longrightarrow> paired us"
  by (auto simp: cells_def value_types split: if_splits)

lemma paired_tail:
  assumes "take (length us) ts = us" "us = [VALUE_TYPE_ANY] \<or> us = cells t" "is_value_type t" "length us \<le> n" "paired (take n ts)"
  shows "paired (drop (length us) (take n ts))"
proof -
  have "take n ts = us @ drop (length us) (take n ts)"
    using assms(1,4) by (metis append_take_drop_id min.absorb1 take_take)
  then show ?thesis using assms paired_drop1 paired_drop_cells by (metis append_Cons append_Nil)
qed

lemma pop_eval:
  assumes s: "snap ve base L p (b # bs) ts s" "segs ts (b # bs)" "is_value_type t"
  shows "case wasm_loader_pop_frame_ref t s of
      Inr (_, s') \<Rightarrow> s' = s \<and> bl_is_stack_polymorphic b \<and> length ts = unat (bl_stack_cell_num b) \<or>
        (\<exists>us. s' = dropped (length us) s \<and> (us = [VALUE_TYPE_ANY] \<or> us = cells t) \<and> take (length us) ts = us \<and>
          length us \<le> length ts - unat (bl_stack_cell_num b))
    | Inl (VFail _ s') \<Rightarrow> s' = s | Inl (VCrash e) \<Rightarrow> False"
proof -
  let ?h = "unat (bl_stack_cell_num b)"
  have h: "?h \<le> length ts" using s(2) by (simp add: Let_def)
  have b1: "block_at 1 s = Inr (b, s)" using block_at_top [OF s(1), of 0] by simp
  define n where "n = int (length ts) - int ?h"
  have av: "available_cells b s = Inr (n, s)" unfolding n_def by (rule available_cells_eval [OF s(1) h])
  have t: "t \<noteq> VALUE_TYPE_VOID" "length (cells t) = (if is_32bit_type t then 1 else 2)" using s(3) value_types by (auto simp: cells_def)
  have c: "wasm_loader_pop_frame_ref t s = (if n \<le> 0 \<and> bl_is_stack_polymorphic b then Inr ((), s)
     else v_then (check_stack_pop t) (v_then (drop_cells 1) (if is_32bit_type t then v_ret ()
        else v_bind (ctx lc_frame_ref) (\<lambda>r. v_bind (ref_at (int r)) (\<lambda>t.
          if t = VALUE_TYPE_ANY then v_ret () else drop_cells 1)))) s)"
    using t(1) by (simp only: wasm_loader_pop_frame_ref_def v_bind_def b1 av sum.case prod.case if_False) (simp add: v_ret_def)
  show ?thesis
  proof (cases "n \<le> 0 \<and> bl_is_stack_polymorphic b")
    case True
    then have "length ts = ?h" using h unfolding n_def by linarith
    then show ?thesis using True unfolding c by simp
  next
    case False
    note ev = check_stack_pop_eval [OF s(1) h s(3)]
    show ?thesis
    proof (cases "check_stack_pop t s")
      case (Inl e)
      then show ?thesis using ev unfolding c if_not_P [OF False] v_then_fail [where c = "check_stack_pop t", OF Inl] by (simp split: vstop.splits)
    next
      case (Inr x)
      then obtain us where x: "x = ((), s)" and us: "us = [VALUE_TYPE_ANY] \<or> us = cells t" "take (length us) ts = us" "length us \<le> length ts - ?h"
        using ev by (cases x) auto
      have one: "1 \<le> length us" "length us \<le> length ts" using us t by (auto split: if_splits)
      note d = drop_cells_eval [OF s(1), of 1, OF order_trans [OF one]]
      have hd: "ts ! 0 = us ! 0" using us(2) one(1) by (metis less_eq_Suc_le nth_take One_nat_def)
      have k: "wasm_loader_pop_frame_ref t s = (if is_32bit_type t then Inr ((), dropped 1 s)
        else if ts ! 0 = VALUE_TYPE_ANY then Inr ((), dropped 1 s) else drop_cells 1 (dropped 1 s))"
        unfolding c if_not_P [OF False]
        using Inr x d(1,4) by (simp add: v_then_def v_bind_def v_ret_def ctx_def)
      have "wasm_loader_pop_frame_ref t s = Inr ((), dropped (length us) s)"
      proof (cases "us = [VALUE_TYPE_ANY]")
        case True
        then show ?thesis using hd unfolding k by simp
      next
        case False
        then have u: "us = cells t" using us(1) by simp
        show ?thesis
        proof (cases "is_32bit_type t")
          case True
          then show ?thesis using u t unfolding k by simp
        next
          case False
          have "length us = 2" "ts ! 0 \<noteq> VALUE_TYPE_ANY" using u t False hd s(3) value_types by (auto simp: cells_def)
          then show ?thesis
            using False one(2) drop_cells_eval(1) [OF d(2), of 1] unfolding k by (simp add: dropped_dropped numeral_2_eq_2)
        qed
      qed
      then show ?thesis using us by auto
    qed
  qed
qed

lemma good_pop:
  assumes "is_value_type t"
  shows "triple (owned base) (good ve base L p (b # bs)) (wasm_loader_pop_frame_ref t) (\<lambda>_. good ve base L p (b # bs))"
proof (rule tripleI)
  fix s :: "'a vstate" assume g: "good ve base L p (b # bs) s"
  then obtain ts where s: "snap ve base L p (b # bs) ts s" "maxed s" "segs ts (b # bs)" by (auto simp: good_def)
  have d: "good ve base L p (b # bs) (dropped (length us) s)"
    if us: "us = [VALUE_TYPE_ANY] \<or> us = cells t" "take (length us) ts = us" "length us \<le> length ts - unat (bl_stack_cell_num b)" for us
  proof -
    have "segs (drop (length us) ts) (b # bs)"
      by (rule segs_drop [OF s(3) us(3) paired_tail [OF us(2,1) assms us(3)]]) (use s(3) in \<open>simp add: Let_def\<close>)
    then show ?thesis
      using drop_cells_eval(2,3) [OF s(1), of "length us"] s(2) us(3) unfolding good_def by (metis diff_le_self order_trans)
  qed
  show "case wasm_loader_pop_frame_ref t s of Inl (VCrash e) \<Rightarrow> known_fault e | Inl (VFail _ s') \<Rightarrow> owned base s'
      | Inr (x, s') \<Rightarrow> good ve base L p (b # bs) s'"
    using pop_eval [OF s(1,3) assms] g d good_owned(1) [OF g] by (auto split: sum.splits vstop.splits)
qed

lemma good_pops:
  assumes "\<And>t. t \<in> set ts \<Longrightarrow> is_value_type t"
  shows "triple (owned base) (good ve base L p (b # bs)) (pop_types ts) (\<lambda>_. good ve base L p (b # bs))"
    "triple (owned base) (good ve base L p (b # bs)) (v_each wasm_loader_pop_frame_ref ts) (\<lambda>_. good ve base L p (b # bs))"
  unfolding pop_types_def by (intro triple_each good_pop; simp add: assms)+

lemma good_pushes:
  assumes "bounded_alloc al" "\<And>t. t \<in> set ts \<Longrightarrow> is_value_type t"
  shows "triple (owned base) (good ve base L p bs) (push_types al ts) (\<lambda>_. good ve base L p bs)"
  unfolding push_types_def by (intro triple_each good_push [OF assms(1)]) (simp add: assms(2))

lemma good_pop_times:
  assumes "is_value_type t"
  shows "triple (owned base) (good ve base L p (b # bs)) (pop_times k t) (\<lambda>_. good ve base L p (b # bs))"
  by (induction k) (auto intro: triple_ret triple_then [OF good_pop [OF assms]])

lemma good_push_pop:
  assumes "bounded_alloc al" "is_value_type t" "is_value_type u"
  shows "triple (owned base) (good ve base L p (b # bs)) (wasm_loader_push_pop_frame_ref al k t u) (\<lambda>_. good ve base L p (b # bs))"
  unfolding wasm_loader_push_pop_frame_ref_def
  by (rule triple_then [OF good_pop_times [OF assms(3)] good_push]) (use assms in auto)

end
