(* ===== verification/Validator_Blocks.thy ===== *)
theory Validator_Blocks
  imports Validator_Stack
begin

text \<open>
  The stack of blocks of the validator and its checks of branches and block ends, on a well-formed module: they keep
  the invariant of the two stacks.
\<close>

section \<open>The types of a module\<close>

text \<open>A module whose types, functions, globals and locals are there and have value types.\<close>

definition module_ok :: "venv \<Rightarrow> bool" where
  "module_ok ve \<longleftrightarrow>
     bt_ok ve (Type_Ptr (fn_func_type (ve_func ve))) \<and>
     (\<forall>i. i < md_type_count (ve_module ve) \<longrightarrow>
        (\<exists>ps. load as_Ptrs (ve_mem ve) (md_types (ve_module ve)) = Inr ps \<and> unat i < length ps \<and> bt_ok ve (Type_Ptr (ps ! unat i)))) \<and>
     (\<forall>i. i < md_import_function_count (ve_module ve) + md_function_count (ve_module ve) \<longrightarrow> (\<exists>ty. callee_type ve i = Inr ty \<and> types_ok ty)) \<and>
     (\<forall>i. i < md_import_global_count (ve_module ve) + md_global_count (ve_module ve) \<longrightarrow> (\<exists>t m. global_at ve i = Inr (t, m) \<and> is_value_type t)) \<and>
     (\<forall>i ty. load as_WASMType (ve_mem ve) (fn_func_type (ve_func ve)) = Inr ty \<longrightarrow> i < ucast (ty_param_count ty) + fn_local_count (ve_func ve) \<longrightarrow>
        (\<exists>t off. local_type_of ve i = Inr t \<and> is_value_type t \<and> local_offset_of ve i = Inr off))"

lemma types_okD:
  assumes "types_ok ty"
  shows "\<exists>ps. param_types_of ty = Inr ps \<and> (\<forall>t\<in>set ps. is_value_type t)"
    "\<exists>rs. result_types_of ty = Inr rs \<and> (\<forall>t\<in>set rs. is_value_type t)"
  using assms by (auto simp: types_ok_def param_types_of_def result_types_of_def type_slice_def dest!: in_set_takeD in_set_dropD)

lemma block_types_triple:
  assumes "bt_ok ve bt"
  shows "triple F P (block_type_get_param_types ve bt) (\<lambda>ts s. P s \<and> (\<forall>t\<in>set ts. is_value_type t))"
    "triple F P (block_type_get_result_types ve bt) (\<lambda>ts s. P s \<and> (\<forall>t\<in>set ts. is_value_type t))"
proof -
  show "triple F P (block_type_get_param_types ve bt) (\<lambda>ts s. P s \<and> (\<forall>t\<in>set ts. is_value_type t))"
  proof (cases bt)
    case (Type_Ptr a)
    with assms obtain ty where ty: "a \<noteq> 0" "load as_WASMType (ve_mem ve) a = Inr ty" "types_ok ty" by auto
    obtain ps where "param_types_of ty = Inr ps" "\<forall>t\<in>set ps. is_value_type t" using types_okD(1) [OF ty(3)] by blast
    then show ?thesis using Type_Ptr ty(1,2) by (simp add: block_type_get_param_types_def triple_def v_bind_def v_type_def v_res_def)
  qed (simp add: block_type_get_param_types_def triple_def v_ret_def)
  show "triple F P (block_type_get_result_types ve bt) (\<lambda>ts s. P s \<and> (\<forall>t\<in>set ts. is_value_type t))"
  proof (cases bt)
    case (Type_Ptr a)
    with assms obtain ty where ty: "a \<noteq> 0" "load as_WASMType (ve_mem ve) a = Inr ty" "types_ok ty" by auto
    obtain ps where "result_types_of ty = Inr ps" "\<forall>t\<in>set ps. is_value_type t" using types_okD(2) [OF ty(3)] by blast
    then show ?thesis using Type_Ptr ty(1,2) by (simp add: block_type_get_result_types_def triple_def v_bind_def v_type_def v_res_def)
  qed (use assms in \<open>auto simp: block_type_get_result_types_def triple_def v_ret_def is_byte_a_type_def\<close>)
qed

section \<open>Blocks and positions\<close>

lemma triple_block:
  assumes "triple F (good ve base L p (b # bs)) (f b) R"
  shows "triple F (good ve base L p (b # bs)) (v_bind (block_at 1) f) R"
proof (rule tripleI)
  fix s :: "'a vstate" assume g: "good ve base L p (b # bs) s"
  then obtain ts where "snap ve base L p (b # bs) ts s" by (auto simp: good_def)
  then have "block_at 1 s = Inr (b, s)" using block_at_top [of ve base L p "b # bs" ts s 0] by simp
  then show "case v_bind (block_at 1) f s of Inl (VCrash e) \<Rightarrow> known_fault e | Inl (VFail _ s') \<Rightarrow> F s' | Inr (x, s') \<Rightarrow> R x s'"
    using tripleD [OF assms g] by (simp add: v_bind_def)
qed

lemma triple_pos:
  assumes "triple F (good ve base L p bs) (f p) R"
  shows "triple F (good ve base L p bs) (v_bind pos f) R"
proof (rule tripleI)
  fix s :: "'a vstate" assume g: "good ve base L p bs s"
  then have "pos s = Inr (p, s)" by (auto simp: good_def snap_def pos_def)
  then show "case v_bind pos f s of Inl (VCrash e) \<Rightarrow> known_fault e | Inl (VFail _ s') \<Rightarrow> F s' | Inr (x, s') \<Rightarrow> R x s'"
    using tripleD [OF assms g] by (simp add: v_bind_def)
qed

lemma triple_set_pos: "triple F (good ve base L p bs) (set_pos q) (\<lambda>_. good ve base L q bs)"
  by (auto simp: triple_def set_pos_def good_def inv_defs)

lemma triple_read:
  assumes "\<And>x. p < L \<Longrightarrow> triple F (good ve base L (p + 1) bs) (f x) R"
  shows "triple F (good ve base L p bs) (v_bind read_uint8 f) R"
proof -
  have "triple F (good ve base L p bs) read_uint8 (\<lambda>_ s. good ve base L (p + 1) bs s \<and> p < L)"
    by (auto simp: triple_def read_uint8_def good_def inv_defs known_fault_def)
  then show ?thesis by (rule triple_bind) (use assms in \<open>auto simp: triple_def\<close>)
qed

lemma triple_poke: "i < L \<Longrightarrow> triple F (good ve base L p bs) (poke i x) (\<lambda>_. good ve base L p bs)"
  by (auto simp: triple_def poke_def good_def inv_defs)

lemma wl_leb_loop_shrinks: "wl_leb_loop m r sh k bs = Inr (x, y, z, rest) \<Longrightarrow> length rest < length bs"
  by (induction m r sh k bs rule: wl_leb_loop.induct)
    (subst (asm) (2) wl_leb_loop.simps, fastforce simp: Let_def split: if_splits list.splits)

lemma wl_read_leb_shrinks: "wl_read_leb bs m sg = Inr (r, rest) \<Longrightarrow> length rest < length bs"
  by (auto simp: wl_read_leb_def split: sum.splits prod.splits if_splits dest!: wl_leb_loop_shrinks)

lemma triple_leb:
  assumes "code_end ve \<le> L" "\<And>r q. p < q \<Longrightarrow> q \<le> code_end ve \<Longrightarrow> triple (owned base) (good ve base L q bs) (f r) R"
  shows "triple (owned base) (good ve base L p bs) (v_bind (v_leb ve m sg) f) R"
proof (rule tripleI)
  fix s :: "'a vstate" assume g: "good ve base L p bs s"
  then have p: "vs_p s = p" "length (vs_code s) = L" by (auto simp: good_def inv_defs)
  define xs where "xs = drop p (take (code_end ve) (vs_code s))"
  have l: "length xs = code_end ve - p" using assms(1) p by (simp add: xs_def)
  show "case v_bind (v_leb ve m sg) f s of Inl (VCrash e) \<Rightarrow> known_fault e | Inl (VFail _ s') \<Rightarrow> owned base s' | Inr (x, s') \<Rightarrow> R x s'"
  proof (cases "wl_read_leb xs m sg")
    case (Inl e)
    then show ?thesis using good_owned(1) [OF g] p by (simp add: v_bind_def v_leb_def Let_def xs_def)
  next
    case (Inr y)
    then obtain r rest where y: "wl_read_leb xs m sg = Inr (r, rest)" by (cases y) auto
    let ?q = "p + (length xs - length rest)"
    have q: "p < ?q" "?q \<le> code_end ve" using wl_read_leb_shrinks [OF y] l by auto
    have "good ve base L ?q bs (s\<lparr>vs_p := ?q\<rparr>)" using g by (auto simp: good_def inv_defs)
    from tripleD [OF assms(2) [OF q, of r] this] show ?thesis
      using y p by (simp add: v_bind_def v_leb_def Let_def xs_def)
  qed
qed

lemma triple_leb32:
  assumes "code_end ve \<le> L" "\<And>r q. p < q \<Longrightarrow> q \<le> code_end ve \<Longrightarrow> triple (owned base) (good ve base L q bs) (f r) R"
  shows "triple (owned base) (good ve base L p bs) (v_bind (v_leb_uint32 ve) f) R"
proof -
  have "v_bind (v_leb_uint32 ve) f = v_bind (v_leb ve 32 False) (\<lambda>r. f (ucast r))"
    by (auto simp: fun_eq_iff v_leb_uint32_def v_bind_def v_ret_def split: sum.split)
  then show ?thesis using triple_leb [OF assms(1)] assms(2) by metis
qed

section \<open>Changing the blocks\<close>

lemma blks_update:
  assumes "lc_frame_csp c = Suc k" "k < length (lc_blocks c)"
  shows "blks (c\<lparr>lc_blocks := (lc_blocks c)[k := x]\<rparr>) = x # tl (blks c)"
  using assms by (simp add: blks_def take_Suc_conv_app_nth take_update_cancel)

lemma segs_same: "bl_stack_cell_num b' = bl_stack_cell_num b \<Longrightarrow> segs ts (b' # bs) \<longleftrightarrow> segs ts (b # bs)"
  by simp

lemma good_on_block:
  assumes "\<And>x. bl_block_type (g x) = bl_block_type x" "\<And>x. bl_stack_cell_num (g x) = bl_stack_cell_num x"
  shows "triple F (good ve base L p (b # bs)) (on_block 1 g) (\<lambda>_. good ve base L p (g b # bs))"
  unfolding on_block_def
proof (intro triple_block triple_on_ctx)
  fix s :: "'a vstate" assume "good ve base L p (b # bs) s"
  then obtain ts where s: "snap ve base L p (b # bs) ts s" "maxed s" "segs ts (b # bs)" by (auto simp: good_def)
  let ?c = "vs_ctx s" let ?k = "lc_frame_csp ?c - 1"
  have k: "lc_frame_csp ?c = Suc ?k" "?k < length (lc_blocks ?c)" "blks ?c = b # bs"
    using s(1) snap_ref(4) [OF s(1)] by (auto simp: inv_defs)
  have u: "blks (?c\<lparr>lc_blocks := (lc_blocks ?c)[?k := g b]\<rparr>) = g b # bs" using blks_update [OF k(1,2)] k(3) by simp
  have "bt_ok ve (bl_block_type x)" if "x \<in> set (b # bs)" for x using s(1) k(3) that by (auto simp: snap_def sound_def slots_ok_def)
  then have sl: "slots_ok ve (?c\<lparr>lc_blocks := (lc_blocks ?c)[?k := g b]\<rparr>)"
    using s(1) u assms(1) by (auto simp: slots_ok_def snap_def sound_def dest!: set_update_subset_insert [THEN subsetD])
  have "snap ve base L p (g b # bs) ts (s\<lparr>vs_ctx := ?c\<lparr>lc_blocks := (lc_blocks ?c)[?k := g b]\<rparr>\<rparr>)"
    using s(1) u sl by (auto simp: snap_def sound_def refs_ok_def csp_ok_def owned_def stk_def Let_def)
  then show "good ve base L p (g b # bs) (s\<lparr>vs_ctx := ?c\<lparr>lc_blocks := (lc_blocks ?c)[lc_frame_csp ?c - 1 := g b]\<rparr>\<rparr>)"
    using s(2,3) assms(2) by (auto simp: good_def maxed_def)
qed

lemma good_RESET_STACK: "triple F (good ve base L p (b # bs)) RESET_STACK (\<lambda>_. good ve base L p (b # bs))"
  unfolding RESET_STACK_def
proof (intro triple_block triple_on_ctx)
  fix s :: "'a vstate" assume "good ve base L p (b # bs) s"
  then obtain ts where s: "snap ve base L p (b # bs) ts s" "maxed s" "segs ts (b # bs)" by (auto simp: good_def)
  let ?h = "unat (bl_stack_cell_num b)"
  have h: "?h \<le> length ts" "segs (drop (length ts - ?h) ts) bs" using s(3) by (auto simp: Let_def)
  have r: "rev (take ?h (lc_refs (vs_ctx s))) = drop (length ts - ?h) ts"
    using s(1) h(1) by (auto simp: inv_defs rev_take add.commute)
  have "snap ve base L p (b # bs) (drop (length ts - ?h) ts)
      (s\<lparr>vs_ctx := (vs_ctx s)\<lparr>lc_stack_cell_num := bl_stack_cell_num b, lc_frame_ref := ?h\<rparr>\<rparr>)"
    using s(1) h(1) r snap_ref(8) [OF s(1)] by (auto simp: inv_defs Let_def)
  moreover have "segs (drop (length ts - ?h) ts) (b # bs)" using h by simp
  moreover have "bl_stack_cell_num b \<le> lc_max_stack_cell_num (vs_ctx s)"
    using s(2) h(1) snap_ref(2) [OF s(1)] unfolding maxed_def word_le_nat_alt by linarith
  ultimately show "good ve base L p (b # bs) (s\<lparr>vs_ctx := (vs_ctx s)\<lparr>lc_stack_cell_num := bl_stack_cell_num b, lc_frame_ref := ?h\<rparr>\<rparr>)"
    unfolding good_def maxed_def by auto
qed

lemma add448: "unat (x :: u32) < 2 ^ 31 \<Longrightarrow> unat (x + 448) = unat x + 448"
  by (subst unat_add_small) simp_all

lemma sizeof_BranchBlock: "8 * of_nat (c_size L_BranchBlock) = (448 :: u32)"
  by (simp add: layout_defs align_up_def c_offset_def)

lemma good_CHECK_CSP_PUSH:
  assumes "bounded_alloc al"
  shows "triple (owned base) (good ve base L p bs) (CHECK_CSP_PUSH al)
    (\<lambda>_ s. good ve base L p bs s \<and> lc_frame_csp (vs_ctx s) < length (lc_blocks (vs_ctx s)))"
proof (rule triple_case)
  fix s0 :: "'a vstate" assume "good ve base L p bs s0"
  then obtain ts where s0: "snap ve base L p bs ts s0" "maxed s0" "segs ts bs" by (auto simp: good_def)
  let ?c = "vs_ctx s0"
  let ?Q = "\<lambda>s. good ve base L p bs s \<and> lc_frame_csp (vs_ctx s) < length (lc_blocks (vs_ctx s))"
  have o: "owned base (s0\<lparr>vs_heap := hp\<rparr>)" for hp using s0(1) by (simp add: inv_defs)
  have r: "raws (vs_rg s0) = add_mset (lc_frame_csp_bottom ?c) (base + {#lc_self ?c, lc_frame_ref_bottom ?c#})"
    using s0(1) by (simp add: inv_defs Let_def)
  show "triple (owned base) (\<lambda>s. s = s0) (CHECK_CSP_PUSH al) (\<lambda>_. ?Q)"
  proof (cases "lc_frame_csp ?c < length (lc_blocks ?c)")
    case True
    then show ?thesis using s0 by (auto simp: triple_def CHECK_CSP_PUSH_def v_bind_def ctx_def v_ret_def good_def)
  next
    case False
    have u: "snap ve base L p bs ts (s\<lparr>vs_ctx := ?c\<lparr>lc_frame_csp_bottom := a, lc_frame_csp_size := lc_frame_csp_size ?c + 448,
        lc_blocks := lc_blocks ?c @ replicate 8 zero_block, lc_frame_csp := unat (lc_csp_num ?c)\<rparr>\<rparr>)"
      if "same_but_heap s0 s" "raws (vs_rg s) = add_mset a (base + {#lc_self ?c, lc_frame_ref_bottom ?c#})" "a \<noteq> 0"
        "unat (lc_frame_csp_size ?c + 448) < 2 ^ 31" for a s
      using s0(1) False that same_but_heapD [OF that(1)]
      by (auto simp: inv_defs Let_def add448 zero_block_def)
    have "triple (owned base) (\<lambda>s. s = s0)
      (v_bind (memory_realloc al (lc_frame_csp_bottom ?c) (lc_frame_csp_size ?c) (lc_frame_csp_size ?c + 448)) (\<lambda>a.
        on_ctx (\<lambda>c. c\<lparr>lc_frame_csp_bottom := a, lc_frame_csp_size := lc_frame_csp_size c + 448,
          lc_blocks := lc_blocks c @ replicate 8 zero_block, lc_frame_csp := unat (lc_csp_num c)\<rparr>))) (\<lambda>_. ?Q)"
    proof (intro triple_bind [OF realloc_triple [where F = "owned base", OF assms r o]] triple_on_ctx)
      fix a and s :: "'a vstate"
      assume a: "same_but_heap s0 s \<and> raws (vs_rg s) = add_mset a (base + {#lc_self ?c, lc_frame_ref_bottom ?c#}) \<and> a \<noteq> 0 \<and>
        unat (lc_frame_csp_size ?c + 448) < 2 ^ 31"
      then have e: "vs_ctx s = ?c" using same_but_heapD [of s0 s] by simp
      have "lc_frame_csp ?c = unat (lc_csp_num ?c)" "lc_frame_csp ?c \<le> length (lc_blocks ?c)" using s0(1) by (auto simp: inv_defs)
      then show "?Q (s\<lparr>vs_ctx := (vs_ctx s)\<lparr>lc_frame_csp_bottom := a, lc_frame_csp_size := lc_frame_csp_size (vs_ctx s) + 448,
          lc_blocks := lc_blocks (vs_ctx s) @ replicate 8 zero_block, lc_frame_csp := unat (lc_csp_num (vs_ctx s))\<rparr>\<rparr>)"
        using u [of s a] a s0(2,3) unfolding e good_def maxed_def by auto
    qed
    then show ?thesis using False by (simp add: triple_def CHECK_CSP_PUSH_def v_bind_def ctx_def sizeof_BranchBlock)
  qed
qed

lemma add1_u32: "unat (x :: u32) < 2 ^ 31 \<Longrightarrow> unat (x + 1) = unat x + 1"
  by (subst unat_add_small) simp_all

definition new_block :: "u8 \<Rightarrow> BlockType \<Rightarrow> nat \<Rightarrow> u32 \<Rightarrow> BranchBlock" where
  "new_block lt bt p n = zero_block\<lparr>bl_label_type := lt, bl_block_type := bt, bl_start_addr := p, bl_stack_cell_num := n\<rparr>"

lemma good_enter_block:
  assumes "bt_ok ve bt"
  shows "triple (owned base) (\<lambda>s. good ve base L p bs s \<and> lc_frame_csp (vs_ctx s) < length (lc_blocks (vs_ctx s)))
     (v_then (v_bind (ctx lc_stack_cell_num) (\<lambda>n. on_block 0 (\<lambda>_. zero_block\<lparr>bl_label_type := lt, bl_block_type := bt,
        bl_start_addr := q, bl_stack_cell_num := n\<rparr>)))
     (on_ctx (\<lambda>c. let n = lc_csp_num c + 1 in
        c\<lparr>lc_frame_csp := lc_frame_csp c + 1, lc_csp_num := n, lc_max_csp_num := (if lc_max_csp_num c < n then n else lc_max_csp_num c)\<rparr>)))
     (\<lambda>_ s. \<exists>n. good ve base L p (new_block lt bt q n # bs) s)" (is "triple _ _ ?op _")
proof (rule tripleI)
  fix s :: "'a vstate" assume "good ve base L p bs s \<and> lc_frame_csp (vs_ctx s) < length (lc_blocks (vs_ctx s))"
  then obtain ts where s: "snap ve base L p bs ts s" "maxed s" "segs ts bs" and l: "lc_frame_csp (vs_ctx s) < length (lc_blocks (vs_ctx s))"
    by (auto simp: good_def)
  let ?c = "vs_ctx s" let ?n = "lc_csp_num ?c + 1" let ?b = "new_block lt bt q (lc_stack_cell_num ?c)"
  let ?d = "?c\<lparr>lc_blocks := (lc_blocks ?c)[lc_frame_csp ?c := ?b], lc_frame_csp := lc_frame_csp ?c + 1, lc_csp_num := ?n,
    lc_max_csp_num := (if lc_max_csp_num ?c < ?n then ?n else lc_max_csp_num ?c)\<rparr>"
  have ev: "?op s = Inr ((), s\<lparr>vs_ctx := ?d\<rparr>)"
    using l by (simp add: v_then_def v_bind_def ctx_def on_block_def block_at_def v_ret_def on_ctx_def Let_def new_block_def)
  have k: "lc_frame_csp ?c = unat (lc_csp_num ?c)" "56 * length (lc_blocks ?c) < 2 ^ 31" "blks ?c = bs" "slots_ok ve ?c"
    using s(1) by (auto simp: snap_def sound_def csp_ok_def)
  have n: "unat ?n = Suc (lc_frame_csp ?c)" using l k by (simp add: add1_u32)
  have b: "blks ?d = ?b # bs" using l k(3) by (simp add: blks_def take_Suc_conv_app_nth take_update_cancel)
  have "bl_block_type x = Type_Ptr 0 \<or> bt_ok ve (bl_block_type x)" if "x \<in> set (lc_blocks ?d)" for x
    using that k(4) assms set_update_subset_insert [of "lc_blocks ?c" "lc_frame_csp ?c" ?b] by (auto simp: slots_ok_def new_block_def)
  moreover have "bt_ok ve (bl_block_type x)" if "x \<in> set (blks ?d)" for x
    using that k(3,4) assms unfolding b by (auto simp: slots_ok_def new_block_def)
  ultimately have sl: "slots_ok ve ?d" unfolding slots_ok_def by blast
  have "snap ve base L p (?b # bs) ts (s\<lparr>vs_ctx := ?d\<rparr>)"
    using s(1) b sl n l k(1,2) unfolding snap_def sound_def
    by (auto simp: refs_ok_def csp_ok_def owned_def stk_def Let_def)
  moreover have "segs ts (?b # bs)" using s(3) snap_ref(2) [OF s(1)] by (simp add: new_block_def)
  ultimately have "good ve base L p (?b # bs) (s\<lparr>vs_ctx := ?d\<rparr>)" using s(2) unfolding good_def maxed_def by auto
  then show "case ?op s of Inl (VCrash e) \<Rightarrow> known_fault e | Inl (VFail _ s') \<Rightarrow> owned base s'
      | Inr (x, s') \<Rightarrow> \<exists>n. good ve base L p (new_block lt bt q n # bs) s'"
    unfolding ev by auto
qed

lemma good_push_csp:
  assumes "bounded_alloc al" "bt_ok ve bt"
  shows "triple (owned base) (good ve base L p bs) (wasm_loader_push_frame_csp al lt bt q)
    (\<lambda>_ s. \<exists>n. good ve base L p (new_block lt bt q n # bs) s)"
  unfolding wasm_loader_push_frame_csp_def
  by (rule triple_then [OF good_CHECK_CSP_PUSH [OF assms(1)] good_enter_block [OF assms(2)]])

lemma paired_append: "paired us \<Longrightarrow> paired vs \<Longrightarrow> paired (us @ vs)"
  by (induction us rule: paired.induct) (auto split: if_splits)

lemma segs_leave: "segs ts (b # bs) \<Longrightarrow> segs ts bs"
proof -
  assume s: "segs ts (b # bs)"
  let ?k = "length ts - unat (bl_stack_cell_num b)"
  have "segs (take ?k ts @ drop ?k ts) bs"
    by (rule segs_append) (use s in \<open>auto simp: Let_def intro: paired_append\<close>)
  then show "segs ts bs" by simp
qed

lemma good_pop_csp:
  "triple (owned base) (good ve base L p (b # bs)) wasm_loader_pop_frame_csp (\<lambda>_. good ve base L p bs)"
proof (rule tripleI)
  fix s :: "'a vstate" assume "good ve base L p (b # bs) s"
  then obtain ts where s: "snap ve base L p (b # bs) ts s" "maxed s" "segs ts (b # bs)" by (auto simp: good_def)
  let ?c = "vs_ctx s" let ?d = "?c\<lparr>lc_frame_csp := lc_frame_csp ?c - 1, lc_csp_num := lc_csp_num ?c - 1\<rparr>"
  have k: "lc_frame_csp ?c = Suc (length bs)" "unat (lc_csp_num ?c) = Suc (length bs)" using snap_ref(4,5) [OF s(1)] by auto
  have u: "unat (lc_csp_num ?c - 1) = length bs" using unat_sub_of_nat [of 1 "lc_csp_num ?c"] k(2) by simp
  have "take (Suc (length bs)) (lc_blocks ?c) = rev bs @ [b]" using s(1) k(1) by (simp add: snap_def blks_def rev_swap)
  from arg_cong [OF this, of "take (length bs)"] have b: "blks ?d = bs" using k(1) by (simp add: blks_def min_def)
  have m: "lc_csp_num ?c - 1 \<le> lc_max_csp_num ?c"
    using s(1) u k(2) unfolding snap_def sound_def csp_ok_def word_le_nat_alt by linarith
  have "slots_ok ve ?d" using s(1) b unfolding snap_def sound_def slots_ok_def by simp
  then have "snap ve base L p bs ts (s\<lparr>vs_ctx := ?d\<rparr>)"
    using s(1) b u k m unfolding snap_def sound_def by (auto simp: refs_ok_def csp_ok_def owned_def stk_def Let_def)
  then have "good ve base L p bs (s\<lparr>vs_ctx := ?d\<rparr>)" using s(2) segs_leave [OF s(3)] unfolding good_def maxed_def by auto
  moreover have "wasm_loader_pop_frame_csp s = Inr ((), s\<lparr>vs_ctx := ?d\<rparr>)"
    using k by (simp add: wasm_loader_pop_frame_csp_def v_bind_def ctx_def on_ctx_def word_less_nat_alt)
  ultimately show "case wasm_loader_pop_frame_csp s of Inl (VCrash e) \<Rightarrow> known_fault e | Inl (VFail _ s') \<Rightarrow> owned base s'
      | Inr (x, s') \<Rightarrow> good ve base L p bs s'" by simp
qed

section \<open>Branches and the end of a block\<close>

lemma triple_known: "triple F (\<lambda>s. P s \<and> A) c Q \<longleftrightarrow> (A \<longrightarrow> triple F P c Q)"
  by (auto simp: triple_def)

lemma triple_Ex: "(\<And>x. triple F (P x) c Q) \<Longrightarrow> triple F (\<lambda>s. \<exists>x. P x s) c Q"
  by (auto simp: triple_def)

lemma triple_slot:
  "triple F (good ve base L p bs) (block_at k) (\<lambda>b s. good ve base L p bs s \<and> (bl_block_type b = Type_Ptr 0 \<or> bt_ok ve (bl_block_type b)))"
proof (rule tripleI)
  fix s :: "'a vstate" assume g: "good ve base L p bs s"
  then have "\<forall>b\<in>set (lc_blocks (vs_ctx s)). bl_block_type b = Type_Ptr 0 \<or> bt_ok ve (bl_block_type b)"
    by (auto simp: good_def snap_def sound_def slots_ok_def)
  then show "case block_at k s of Inl (VCrash e) \<Rightarrow> known_fault e | Inl (VFail _ s') \<Rightarrow> F s'
      | Inr (b, s') \<Rightarrow> good ve base L p bs s' \<and> (bl_block_type b = Type_Ptr 0 \<or> bt_ok ve (bl_block_type b))"
    using g by (auto simp: block_at_def v_bind_def ctx_def v_ret_def v_res_def known_fault_def)
qed

lemma slot_types_triple:
  assumes "bt = Type_Ptr 0 \<or> bt_ok ve bt"
  shows "triple F P (block_type_get_param_types ve bt) (\<lambda>ts s. P s \<and> (\<forall>t\<in>set ts. is_value_type t))"
    "triple F P (block_type_get_result_types ve bt) (\<lambda>ts s. P s \<and> (\<forall>t\<in>set ts. is_value_type t))"
proof -
  have n: "triple F P (block_type_get_param_types ve (Type_Ptr 0)) Q" "triple F P (block_type_get_result_types ve (Type_Ptr 0)) Q" for Q
    by (simp_all add: triple_def block_type_get_param_types_def block_type_get_result_types_def v_bind_def v_type_def v_res_def known_fault_def)
  show "triple F P (block_type_get_param_types ve bt) (\<lambda>ts s. P s \<and> (\<forall>t\<in>set ts. is_value_type t))"
    "triple F P (block_type_get_result_types ve bt) (\<lambda>ts s. P s \<and> (\<forall>t\<in>set ts. is_value_type t))"
    using assms n block_types_triple by (cases "bt = Type_Ptr 0"; blast)+
qed

lemma cell_num_cells: "is_value_type t \<Longrightarrow> uint (wasm_value_type_cell_num t) = int (length (cells t))"
  by (auto simp: wasm_value_type_cell_num_def cells_def is_value_type_def is_32bit_type_def)

lemma check_top_eval:
  assumes "snap ve base L p bs ts s" "\<forall>t\<in>set us. is_value_type t" "n \<le> int (length ts) - int j"
  shows "case check_top (int (length ts) - int j) n us s of Inr (_, s') \<Rightarrow> s' = s | Inl (VFail _ s') \<Rightarrow> s' = s | Inl (VCrash e) \<Rightarrow> False"
  using assms(2,3)
proof (induction us arbitrary: j n)
  case (Cons t us)
  let ?k = "length (cells t)"
  have t: "is_value_type t" "\<forall>t\<in>set us. is_value_type t" using Cons.prems(1) by auto
  note ev = check_top_values_eval [OF assms(1) t(1) Cons.prems(2)]
  show ?case
  proof (cases "check_stack_top_values (int (length ts) - int j) n t s")
    case (Inl e)
    then show ?thesis using ev by (cases e) (simp_all add: v_then_def v_bind_def)
  next
    case (Inr x)
    then have x: "x = ((), s)" "int ?k \<le> n" using ev by (cases x; simp)+
    have "n - int ?k \<le> int (length ts) - int (j + ?k)" using Cons.prems(2) by simp
    from Cons.IH [OF t(2) this] show ?thesis
      using Inr x by (simp add: v_then_def v_bind_def cell_num_cells [OF t(1)] algebra_simps)
  qed
qed (simp add: v_ret_def)

lemma good_check_top:
  assumes "\<forall>t\<in>set us. is_value_type t" "good ve base L p (b # bs) s"
  shows "case v_bind (available_cells b) (\<lambda>n. v_bind (ctx lc_frame_ref) (\<lambda>r. check_top (int r) n us)) s of
      Inr (_, s') \<Rightarrow> s' = s | Inl (VFail _ s') \<Rightarrow> s' = s | Inl (VCrash e) \<Rightarrow> False"
proof -
  obtain ts where s: "snap ve base L p (b # bs) ts s" "segs ts (b # bs)" using assms(2) by (auto simp: good_def)
  then have h: "unat (bl_stack_cell_num b) \<le> length ts" by (simp add: Let_def)
  have "int (length ts) - int (unat (bl_stack_cell_num b)) \<le> int (length ts) - int 0" by simp
  from check_top_eval [OF s(1) assms(1) this] show ?thesis
    using available_cells_eval [OF s(1) h] snap_ref(1) [OF s(1)] by (simp add: v_bind_def ctx_def)
qed

lemma triple_same:
  assumes "\<And>s. P s \<Longrightarrow> good ve base L p bs s"
    "\<And>s. P s \<Longrightarrow> case c s of Inr (_, s') \<Rightarrow> s' = s | Inl (VFail _ s') \<Rightarrow> s' = s | Inl (VCrash e) \<Rightarrow> False"
  shows "triple (owned base) P c (\<lambda>_. good ve base L p bs)"
  unfolding triple_def
proof (intro allI impI)
  fix s :: "'a vstate" assume "P s"
  note g = assms(1) [OF this] and r = assms(2) [OF this]
  show "case c s of Inl (VCrash e) \<Rightarrow> known_fault e | Inl (VFail _ s') \<Rightarrow> owned base s' | Inr (x, s') \<Rightarrow> good ve base L p bs s'"
    using r g good_owned(1) [OF g] by (auto split: sum.splits vstop.splits)
qed

lemma same_good:
  "(\<And>s. good ve base L p bs s \<Longrightarrow> case c s of Inr (_, s') \<Rightarrow> s' = s | Inl (VFail _ s') \<Rightarrow> s' = s | Inl (VCrash e) \<Rightarrow> False) \<Longrightarrow>
    triple (owned base) (good ve base L p bs) c (\<lambda>_. good ve base L p bs)"
  by (rule triple_same)

lemma good_repush:
  assumes "bounded_alloc al" "\<forall>t\<in>set ts. is_value_type t"
  shows "triple (owned base) (good ve base L p (b # bs))
    (v_then (v_each wasm_loader_pop_frame_ref (rev ts)) (v_each (wasm_loader_push_frame_ref al) ts)) (\<lambda>_. good ve base L p (b # bs))"
  using assms by (intro triple_then [OF good_pops(2)] good_pushes [unfolded push_types_def]) auto

lemma good_check_br:
  assumes "bounded_alloc al"
  shows "triple (owned base) (good ve base L p (b # bs)) (wasm_loader_check_br al ve depth) (\<lambda>_. good ve base L p (b # bs))"
proof -
  have t: "triple (owned base) (\<lambda>s. good ve base L p (b # bs) s \<and> (\<forall>t\<in>set ts. is_value_type t))
      (if bl_is_stack_polymorphic b
       then v_then (v_each wasm_loader_pop_frame_ref (rev ts)) (v_each (wasm_loader_push_frame_ref al) ts)
       else v_bind (available_cells b) (\<lambda>n. v_bind (ctx lc_frame_ref) (\<lambda>r. check_top (int r) n (rev ts))))
      (\<lambda>_. good ve base L p (b # bs))" for ts
    unfolding triple_known
    by (intro impI triple_if good_repush [OF assms] same_good good_check_top [where ve = ve and base = base and L = L and p = p and bs = bs]) simp_all
  have u: "triple (owned base) (\<lambda>s. good ve base L p (b # bs) s \<and> (bl_block_type tb = Type_Ptr 0 \<or> bt_ok ve (bl_block_type tb)))
      (if bl_label_type tb = LABEL_TYPE_LOOP then block_type_get_param_types ve (bl_block_type tb)
           else block_type_get_result_types ve (bl_block_type tb))
      (\<lambda>ts s. good ve base L p (b # bs) s \<and> (\<forall>t\<in>set ts. is_value_type t))" for tb
    unfolding triple_known by (intro impI triple_if slot_types_triple)
  have e: "triple (owned base) (\<lambda>s. good ve base L p (b # bs) s \<and> lc_csp_num (vs_ctx s) = n) c R"
    if "triple (owned base) (good ve base L p (b # bs)) c R" for n c and R :: "unit \<Rightarrow> 'a vstate \<Rightarrow> bool"
    by (rule triple_pre [OF that]) simp
  show ?thesis
    unfolding wasm_loader_check_br_def
    by (intro triple_get e triple_if triple_error good_owned(1) triple_block triple_bind [OF triple_slot] triple_bind [OF u] t)
qed

text \<open>Later in the code.\<close>

definition past :: "venv \<Rightarrow> addr multiset \<Rightarrow> nat \<Rightarrow> nat \<Rightarrow> BranchBlock list \<Rightarrow> 'h vstate \<Rightarrow> bool" where
  "past ve base L p bs s \<longleftrightarrow> (\<exists>q\<ge>p. good ve base L q bs s)"

lemma past_refl: "good ve base L p bs s \<Longrightarrow> past ve base L p bs s"
  by (auto simp: past_def)

lemma triple_past: "(\<And>q. p \<le> q \<Longrightarrow> triple F (good ve base L q bs) c R) \<Longrightarrow> triple F (past ve base L p bs) c R"
  by (auto simp: triple_def past_def)

lemma triple_past_post: "triple F P c (\<lambda>_. good ve base L q bs) \<Longrightarrow> p \<le> q \<Longrightarrow> triple F P c (\<lambda>_. past ve base L p bs)"
  by (erule triple_weaken) (auto simp: past_def)

lemma good_check_branch_block:
  assumes "bounded_alloc al" "code_end ve \<le> L"
  shows "triple (owned base) (good ve base L p (b # bs)) (check_branch_block al ve) (\<lambda>_. past ve base L p (b # bs))"
  unfolding check_branch_block_def
proof (intro triple_leb32 [OF assms(2)] triple_then [OF good_check_br [OF assms(1)]] triple_get triple_ret)
  fix q i r and s :: "'a vstate" assume "p < q" "good ve base L q (b # bs) s \<and> lc_frame_csp (vs_ctx s) = i"
  then show "past ve base L p (b # bs) s" by (auto simp: past_def intro: exI [of _ q])
qed

lemma good_check_block_stack:
  assumes "bounded_alloc al" "bt_ok ve (bl_block_type b)"
  shows "triple (owned base) (good ve base L p (b # bs)) (check_block_stack al ve b) (\<lambda>_. good ve base L p (b # bs))"
proof (cases "bl_is_stack_polymorphic b")
  case True
  have a: "triple (owned base) (good ve base L p (b # bs)) (available_cells b) (\<lambda>_. good ve base L p (b # bs))"
    by (intro same_good) (simp add: available_cells_def v_bind_def ctx_def v_ret_def)
  have e: "triple (owned base) (good ve base L p (b # bs)) (v_bind (ctx lc_stack_cell_num) (\<lambda>k. if k \<noteq> bl_stack_cell_num b
      then set_error_buf msg else v_ret ())) (\<lambda>_. good ve base L p (b # bs))" for msg
    by (intro same_good) (simp add: v_bind_def ctx_def v_ret_def set_error_buf_def)
  have r: "triple (owned base) (\<lambda>s. good ve base L p (b # bs) s \<and> (\<forall>t\<in>set ts. is_value_type t))
      (v_then (v_each wasm_loader_pop_frame_ref (rev ts)) (v_then (v_bind (ctx lc_stack_cell_num) (\<lambda>k. if k \<noteq> bl_stack_cell_num b
        then set_error_buf msg else v_ret ())) (v_each (wasm_loader_push_frame_ref al) ts))) (\<lambda>_. good ve base L p (b # bs))" for ts msg
    unfolding triple_known
    by (intro impI triple_then [OF good_pops(2)] triple_then [OF e] good_pushes [OF assms(1), unfolded push_types_def]) auto
  show ?thesis unfolding check_block_stack_def if_P [OF True]
    by (intro triple_bind [OF a] triple_bind [OF block_types_triple(2) [OF assms(2)]] r)
next
  case False
  have k: "(case (if n \<noteq> sint (wasm_get_cell_num ts) then set_error_buf msg
       else v_bind (ctx lc_frame_ref) (\<lambda>r. check_top (int r) n (rev ts))) s of Inr (_, s') \<Rightarrow> s' = s | Inl (VFail _ s') \<Rightarrow> s' = s | Inl (VCrash e) \<Rightarrow> False)"
    if "good ve base L p (b # bs) s" "available_cells b s = Inr (n, s)" "\<forall>t\<in>set ts. is_value_type t" for n ts msg and s :: "'a vstate"
    using good_check_top [of "rev ts" ve base L p b bs s] that
    by (cases "n = sint (wasm_get_cell_num ts)") (auto simp: v_bind_def set_error_buf_def simp del: sint_0)
  have a: "triple (owned base) (good ve base L p (b # bs)) (available_cells b) (\<lambda>n s. good ve base L p (b # bs) s \<and> available_cells b s = Inr (n, s))"
    by (simp add: triple_def available_cells_def v_bind_def ctx_def v_ret_def)
  show ?thesis unfolding check_block_stack_def if_not_P [OF False]
    by (intro triple_bind [OF a] triple_bind [OF block_types_triple(2) [OF assms(2)]] triple_same k) auto
qed

end
