(* ===== verification/Validator_Safety.thy ===== *)
theory Validator_Safety
  imports Validator_Blocks
begin

text \<open>
  The validator on a well-formed module: every opcode keeps the invariant of its two stacks, the only faults are those of
  \<open>known_fault\<close>, the loop ends, and all that was allocated is released.
\<close>

section \<open>Control instructions\<close>

text \<open>After an instruction: later in the code, inside a block unless the code is at its end.\<close>

definition went :: "venv \<Rightarrow> addr multiset \<Rightarrow> nat \<Rightarrow> nat \<Rightarrow> 'h vstate \<Rightarrow> bool" where
  "went ve base L p s \<longleftrightarrow> (\<exists>q bs. p \<le> q \<and> good ve base L q bs s \<and> (bs \<noteq> [] \<or> code_end ve \<le> q))"

lemma triple_went: "triple F P c (\<lambda>_. good ve base L q (b # bs)) \<Longrightarrow> p \<le> q \<Longrightarrow> triple F P c (\<lambda>_. went ve base L p)"
  by (erule triple_weaken) (auto simp: went_def)

lemma triple_bt:
  assumes "bt_ok ve (bl_block_type b) \<Longrightarrow> triple F (good ve base L p (b # bs)) c R"
  shows "triple F (good ve base L p (b # bs)) c R"
proof (rule tripleI)
  fix s :: "'a vstate" assume g: "good ve base L p (b # bs) s"
  then have "bt_ok ve (bl_block_type b)" by (auto simp: good_def snap_def sound_def slots_ok_def)
  from tripleD [OF assms [OF this] g] show "case c s of Inl (VCrash e) \<Rightarrow> known_fault e | Inl (VFail _ s') \<Rightarrow> F s' | Inr (x, s') \<Rightarrow> R x s'" .
qed

lemma good_polymorphic:
  "triple F (good ve base L p (b # bs)) (SET_CUR_BLOCK_STACK_POLYMORPHIC_STATE f)
    (\<lambda>_. good ve base L p (b\<lparr>bl_is_stack_polymorphic := f\<rparr> # bs))"
  unfolding SET_CUR_BLOCK_STACK_POLYMORPHIC_STATE_def by (rule triple_weaken [OF good_on_block]) simp_all

lemma good_unreachable_rest:
  "triple F (good ve base L p (b # bs)) unreachable_rest (\<lambda>_. good ve base L p (b\<lparr>bl_is_stack_polymorphic := True\<rparr> # bs))"
  unfolding unreachable_rest_def by (rule triple_then [OF good_RESET_STACK good_polymorphic])

text \<open>The module is well formed, the code has its size, and no allocation is larger than \<open>bounded_alloc\<close> allows.\<close>

definition setting :: "'h allocs \<Rightarrow> venv \<Rightarrow> nat \<Rightarrow> bool" where
  "setting al ve L \<longleftrightarrow> bounded_alloc al \<and> code_end ve \<le> L \<and> module_ok ve"

lemma settingD: "setting al ve L \<Longrightarrow> bounded_alloc al" "setting al ve L \<Longrightarrow> code_end ve \<le> L" "setting al ve L \<Longrightarrow> module_ok ve"
  by (simp_all add: setting_def)

lemma types_at:
  assumes "module_ok ve" "i < md_type_count (ve_module ve)"
  shows "triple F P (v_types ve i) (\<lambda>a s. P s \<and> bt_ok ve (Type_Ptr a))"
proof -
  obtain ps where "load as_Ptrs (ve_mem ve) (md_types (ve_module ve)) = Inr ps" "unat i < length ps" "bt_ok ve (Type_Ptr (ps ! unat i))"
    using assms unfolding module_ok_def by blast
  then show ?thesis by (simp add: triple_def v_types_def v_res_def elem_of_def)
qed

lemma good_read_block_type:
  assumes "setting al ve L"
  shows "triple (owned base) (good ve base L p (b # bs)) (read_block_type ve opcode) (\<lambda>bt s. past ve base L p (b # bs) s \<and> bt_ok ve bt)"
proof -
  note code = settingD(2) [OF assms]
  have byte: "triple (owned base) (good ve base L (p + 1) (b # bs)) (v_ret (Value_Type x)) (\<lambda>bt s. past ve base L p (b # bs) s \<and> bt_ok ve bt)"
    if "is_byte_a_type x" for x
    using that by (intro triple_ret) (auto simp: past_def intro: exI [of _ "p + 1"])
  have put: "triple (owned base) (\<lambda>s. good ve base L q (b # bs) s \<and> bt_ok ve (Type_Ptr a))
     (v_bind pos (\<lambda>p'. v_then (poke (p' - 2) (EXT_OP_BLOCK + (opcode - WASM_OP_BLOCK))) (v_ret (Type_Ptr a))))
     (\<lambda>bt s. past ve base L p (b # bs) s \<and> bt_ok ve bt)" if "p < q" "q \<le> code_end ve" for q a
    unfolding triple_known
    by (intro impI triple_pos triple_then [OF triple_poke] triple_ret) (use that code in \<open>auto simp: past_def intro: exI [of _ q]\<close>)
  have index: "triple (owned base) (good ve base L (p + 1) (b # bs))
     (v_bind pos (\<lambda>p. v_then (set_pos (p - 1)) (v_bind (v_leb_uint32 ve) (\<lambda>type_index.
       if md_type_count (ve_module ve) \<le> type_index then set_error_buf ''unknown type''
       else v_bind (v_types ve type_index) (\<lambda>a. v_bind pos (\<lambda>p'.
         v_then (poke (p' - 2) (EXT_OP_BLOCK + (opcode - WASM_OP_BLOCK))) (v_ret (Type_Ptr a))))))))
     (\<lambda>bt s. past ve base L p (b # bs) s \<and> bt_ok ve bt)"
    by (intro triple_pos triple_then [OF triple_set_pos] triple_leb32 [OF code] triple_if triple_error good_owned(1)
      triple_bind [OF types_at [OF settingD(3) [OF assms]]] put) auto
  show ?thesis unfolding read_block_type_def
    by (intro triple_read triple_if byte index)
qed

lemma went_block:
  assumes "setting al ve L"
  shows "triple (owned base) (good ve base L p (b # bs)) (handle_op_block_and_loop al ve opcode) (\<lambda>_. went ve base L p)"
proof -
  note al = settingD(1) [OF assms]
  have rest: "triple (owned base) (\<lambda>s. good ve base L q (b # bs) s \<and> (\<forall>t\<in>set ps. is_value_type t))
     (v_then (pop_types ps) (v_bind pos (\<lambda>p. v_then (wasm_loader_push_frame_csp al lt bt p) (push_types al ps)))) (\<lambda>_. went ve base L p)"
    if "p \<le> q" "bt_ok ve bt" for q ps lt bt
    unfolding triple_known
    by (intro impI triple_then [OF good_pops(1)] triple_pos triple_then [OF good_push_csp [OF al]] triple_Ex triple_went [OF good_pushes [OF al]])
      (use that in auto)
  have "triple (owned base) (\<lambda>s. past ve base L p (b # bs) s \<and> bt_ok ve bt)
     (v_bind (block_type_get_param_types ve bt) (\<lambda>ps. v_then (pop_types ps) (v_bind pos (\<lambda>p.
       v_then (wasm_loader_push_frame_csp al lt bt p) (push_types al ps))))) (\<lambda>_. went ve base L p)" for bt lt
    unfolding triple_known by (intro impI triple_past triple_bind [OF block_types_triple(1)] rest)
  then show ?thesis unfolding handle_op_block_and_loop_def by (intro triple_bind [OF good_read_block_type [OF assms]])
qed

lemma went_ELSE:
  assumes "setting al ve L"
  shows "triple (owned base) (good ve base L p (b # bs)) (v_ELSE al ve) (\<lambda>_. went ve base L p)"
proof (rule triple_bt)
  assume bt: "bt_ok ve (bl_block_type b)"
  note al = settingD(1) [OF assms]
  have params: "triple (owned base) (good ve base L p (b' # bs)) (v_bind (block_type_get_param_types ve (bl_block_type b)) (push_types al))
    (\<lambda>_. went ve base L p)" for b'
  proof (intro triple_bind [OF block_types_triple(1) [OF bt]])
    fix ts
    show "triple (owned base) (\<lambda>s. good ve base L p (b' # bs) s \<and> (\<forall>t\<in>set ts. is_value_type t)) (push_types al ts) (\<lambda>_. went ve base L p)"
      unfolding triple_known by (intro impI triple_went [OF good_pushes [OF al]]) auto
  qed
  have num: "triple (owned base) (\<lambda>s. good ve base L p (b # bs) s \<and> lc_csp_num (vs_ctx s) = n) c R"
    if "triple (owned base) (good ve base L p (b # bs)) c R" for n c and R :: "unit \<Rightarrow> 'a vstate \<Rightarrow> bool"
    by (rule triple_pre [OF that]) simp
  show "triple (owned base) (good ve base L p (b # bs)) (v_ELSE al ve) (\<lambda>_. went ve base L p)"
    unfolding v_ELSE_def
    by (intro triple_block triple_get num triple_if triple_error good_owned(1) triple_then [OF good_check_block_stack [OF al bt]] triple_pos
      triple_then [OF good_on_block] triple_then [OF good_RESET_STACK] triple_then [OF good_polymorphic] params) simp_all
qed

lemma good_if_without_else:
  assumes "bt_ok ve (bl_block_type b)"
  shows "triple (owned base) (good ve base L p bs) (check_if_without_else ve b) (\<lambda>_. good ve base L p bs)"
  unfolding check_if_without_else_def
  by (intro triple_if triple_bind [OF block_types_triple(1) [OF assms]] triple_bind [OF block_types_triple(2) [OF assms]] triple_error triple_ret)
    (auto dest: good_owned(1))

text \<open>The block that ends stays in its slot, where its end is noted.\<close>

lemma good_left_slot:
  assumes "\<And>x. bl_block_type (g x) = bl_block_type x"
  shows "triple F (good ve base L p bs) (on_block 0 g) (\<lambda>_. good ve base L p bs)"
  unfolding on_block_def
proof (rule tripleI)
  fix s :: "'a vstate" assume "good ve base L p bs s"
  then obtain ts where s: "snap ve base L p bs ts s" "maxed s" "segs ts bs" by (auto simp: good_def)
  let ?c = "vs_ctx s" let ?k = "lc_frame_csp ?c" let ?d = "?c\<lparr>lc_blocks := (lc_blocks ?c)[?k := g (lc_blocks ?c ! ?k)]\<rparr>"
  show "case v_bind (block_at 0) (\<lambda>b. on_ctx (\<lambda>c. c\<lparr>lc_blocks := (lc_blocks c)[lc_frame_csp c - 0 := g b]\<rparr>)) s of
      Inl (VCrash e) \<Rightarrow> known_fault e | Inl (VFail _ s') \<Rightarrow> F s' | Inr (x, s') \<Rightarrow> good ve base L p bs s'"
  proof (cases "?k < length (lc_blocks ?c)")
    case True
    have b: "blks ?d = blks ?c" by (simp add: blks_def take_update_cancel)
    have "bl_block_type x = Type_Ptr 0 \<or> bt_ok ve (bl_block_type x)" if "x \<in> set (lc_blocks ?d)" for x
    proof -
      have "x = g (lc_blocks ?c ! ?k) \<or> x \<in> set (lc_blocks ?c)"
        using that set_update_subset_insert [of "lc_blocks ?c" ?k "g (lc_blocks ?c ! ?k)"] by auto
      then have "bl_block_type x \<in> bl_block_type ` set (lc_blocks ?c)" using assms nth_mem [OF True] by auto
      then show ?thesis using s(1) by (auto simp: snap_def sound_def slots_ok_def)
    qed
    then have "slots_ok ve ?d" using s(1) b by (auto simp: snap_def sound_def slots_ok_def)
    then have "snap ve base L p bs ts (s\<lparr>vs_ctx := ?d\<rparr>)"
      using s(1) b by (auto simp: snap_def sound_def refs_ok_def csp_ok_def owned_def stk_def Let_def)
    then show ?thesis
      using True s(2,3) by (auto simp: v_bind_def block_at_def ctx_def v_ret_def on_ctx_def good_def maxed_def)
  qed (simp add: v_bind_def block_at_def ctx_def v_res_def known_fault_def)
qed

lemma good_csp_num: "good ve base L p bs s \<Longrightarrow> 0 < lc_csp_num (vs_ctx s) \<longleftrightarrow> bs \<noteq> []"
proof -
  assume "good ve base L p bs s"
  then obtain ts where "snap ve base L p bs ts s" by (auto simp: good_def)
  from snap_ref(5) [OF this] show ?thesis by (auto simp: word_less_nat_alt)
qed

lemma triple_when: "triple F P c Q \<Longrightarrow> (\<And>s. P s \<and> A s \<Longrightarrow> x) \<Longrightarrow> triple F (\<lambda>s. P s \<and> A s) (if x then c else d) Q"
  by (cases x) (auto simp: triple_def)

lemma triple_unless: "triple F P d Q \<Longrightarrow> (\<And>s. P s \<and> A s \<Longrightarrow> \<not> x) \<Longrightarrow> triple F (\<lambda>s. P s \<and> A s) (if x then c else d) Q"
  by (cases x) (auto simp: triple_def)

lemma went_END:
  assumes "setting al ve L" "p \<le> code_end ve"
  shows "triple (owned base) (good ve base L p (b # bs)) (v_END al ve) (\<lambda>_. went ve base L p)"
proof (rule triple_bt)
  assume bt: "bt_ok ve (bl_block_type b)"
  note al = settingD(1) [OF assms(1)]
  have num: "triple (owned base) (good ve base L p bs) (v_bind (ctx lc_csp_num) (\<lambda>n.
     if 0 < n then v_bind pos (\<lambda>p. v_then (on_block 0 (bl_end_addr_update (\<lambda>_. Some (p - 1))))
       (SET_CUR_BLOCK_STACK_POLYMORPHIC_STATE False))
     else set_pos (code_end ve))) (\<lambda>_. went ve base L p)"
  proof (cases bs)
    case (Cons b' bs')
    have "triple (owned base) (good ve base L p bs) (v_bind pos (\<lambda>p. v_then (on_block 0 (bl_end_addr_update (\<lambda>_. Some (p - 1))))
       (SET_CUR_BLOCK_STACK_POLYMORPHIC_STATE False))) (\<lambda>_. went ve base L p)"
      unfolding Cons by (intro triple_pos triple_then [OF good_left_slot] triple_went [OF good_polymorphic]) simp_all
    then show ?thesis using Cons by (intro triple_get triple_when) (auto simp: good_csp_num)
  next
    case Nil
    have "triple (owned base) (good ve base L p []) (set_pos (code_end ve)) (\<lambda>_. went ve base L p)"
      by (rule triple_weaken [OF triple_set_pos]) (use assms(2) in \<open>auto simp: went_def\<close>)
    then show ?thesis using Nil by (intro triple_get triple_unless) (auto simp: good_csp_num)
  qed
  have els: "triple (owned base) (good ve base L p (b # bs)) (v_bind (block_at 1) (check_if_without_else ve)) (\<lambda>_. good ve base L p (b # bs))"
    by (rule triple_block) (rule good_if_without_else [OF bt])
  show "triple (owned base) (good ve base L p (b # bs)) (v_END al ve) (\<lambda>_. went ve base L p)"
    unfolding v_END_def
    by (intro triple_block triple_then [OF good_check_block_stack [OF al bt]] triple_then [OF els] triple_then [OF good_pop_csp] num)
qed

lemma went_past: "triple F (past ve base L p (b # bs)) (v_ret ()) (\<lambda>_. went ve base L p)"
  by (rule triple_ret) (auto simp: past_def went_def)

lemma went_rest: "p \<le> q \<Longrightarrow> triple F (good ve base L q (b # bs)) unreachable_rest (\<lambda>_. went ve base L p)"
  by (rule triple_went [OF good_unreachable_rest])

lemma went_BR:
  assumes "setting al ve L"
  shows "triple (owned base) (good ve base L p (b # bs)) (v_BR al ve) (\<lambda>_. went ve base L p)"
  unfolding v_BR_def by (intro triple_then [OF good_check_branch_block [OF settingD(1,2) [OF assms]]] triple_past went_rest)

lemma value_I32 [simp]: "is_value_type VALUE_TYPE_I32" "is_value_type VALUE_TYPE_I64" "is_value_type VALUE_TYPE_F32" "is_value_type VALUE_TYPE_F64"
  by (simp_all add: is_value_type_def)

lemma went_BR_IF:
  assumes "setting al ve L"
  shows "triple (owned base) (good ve base L p (b # bs)) (v_BR_IF al ve) (\<lambda>_. went ve base L p)"
  unfolding v_BR_IF_def
  by (intro triple_then [OF good_pop] triple_then [OF good_check_branch_block [OF settingD(1,2) [OF assms]]] went_past) simp

lemma past_br_target:
  assumes "setting al ve L"
  shows "triple (owned base) (past ve base L p (b # bs)) (br_target_types al ve) (\<lambda>_. past ve base L p (b # bs))"
proof (rule triple_past)
  fix q assume q: "p \<le> q"
  have slot: "triple (owned base) (past ve base L q (b # bs)) (block_index_at i)
    (\<lambda>x s. past ve base L p (b # bs) s \<and> (bl_block_type x = Type_Ptr 0 \<or> bt_ok ve (bl_block_type x)))" for i
  proof (rule triple_past)
    fix r assume "q \<le> r"
    show "triple (owned base) (good ve base L r (b # bs)) (block_index_at i)
      (\<lambda>x s. past ve base L p (b # bs) s \<and> (bl_block_type x = Type_Ptr 0 \<or> bt_ok ve (bl_block_type x)))"
    proof (rule tripleI)
      fix s assume g: "good ve base L r (b # bs) s"
      then have "\<forall>b\<in>set (lc_blocks (vs_ctx s)). bl_block_type b = Type_Ptr 0 \<or> bt_ok ve (bl_block_type b)"
        by (auto simp: good_def snap_def sound_def slots_ok_def)
      moreover have "past ve base L p (b # bs) s" using g q \<open>q \<le> r\<close> by (auto simp: past_def intro: exI [of _ r])
      ultimately show "case block_index_at i s of Inl (VCrash e) \<Rightarrow> known_fault e | Inl (VFail _ s') \<Rightarrow> owned base s'
          | Inr (x, s') \<Rightarrow> past ve base L p (b # bs) s' \<and> (bl_block_type x = Type_Ptr 0 \<or> bt_ok ve (bl_block_type x))"
        by (auto simp: block_index_at_def v_bind_def ctx_def v_ret_def v_res_def known_fault_def)
    qed
  qed
  have types: "triple (owned base) (\<lambda>s. past ve base L p (b # bs) s \<and> (bl_block_type x = Type_Ptr 0 \<or> bt_ok ve (bl_block_type x)))
    (if bl_label_type x \<noteq> LABEL_TYPE_LOOP then block_type_get_result_types ve (bl_block_type x) else v_ret []) (\<lambda>_. past ve base L p (b # bs))" for x
    unfolding triple_known by (intro impI triple_if triple_ret triple_weaken [OF slot_types_triple(2) [where P = "past ve base L p (b # bs)"]]) auto
  show "triple (owned base) (good ve base L q (b # bs)) (br_target_types al ve) (\<lambda>_. past ve base L p (b # bs))"
    unfolding br_target_types_def
    by (intro triple_bind [OF good_check_branch_block [OF settingD(1,2) [OF assms]]] triple_bind [OF slot] types)
qed

lemma past_owned: "past ve base L p bs s \<Longrightarrow> owned base s"
  by (auto simp: past_def dest: good_owned(1))

lemma past_br_table_rest:
  assumes "setting al ve L"
  shows "triple (owned base) (past ve base L p (b # bs)) (br_table_rest al ve ts k) (\<lambda>_. past ve base L p (b # bs))"
proof (induction k)
  case (Suc k)
  show ?case unfolding br_table_rest.simps
    by (intro triple_bind [OF past_br_target [OF assms]] triple_if triple_error past_owned Suc.IH)
qed (auto intro: triple_ret)

lemma went_BR_TABLE:
  assumes "setting al ve L"
  shows "triple (owned base) (good ve base L p (b # bs)) (v_BR_TABLE al ve) (\<lambda>_. went ve base L p)"
proof -
  have pop: "triple (owned base) (good ve base L q (b # bs)) (wasm_loader_pop_frame_ref VALUE_TYPE_I32) (\<lambda>_. past ve base L p (b # bs))" if "p < q" for q
    by (rule triple_past_post [OF good_pop]) (use that in simp_all)
  show ?thesis unfolding v_BR_TABLE_def
    by (intro triple_leb32 [OF settingD(2) [OF assms]] triple_then [OF pop] triple_bind [OF past_br_target [OF assms]]
      triple_then [OF past_br_table_rest [OF assms]] triple_past went_rest)
qed

lemma triple_types:
  assumes "types_ok ty"
  shows "triple F P (v_res (param_types_of ty)) (\<lambda>ts s. P s \<and> (\<forall>t\<in>set ts. is_value_type t))"
    "triple F P (v_res (result_types_of ty)) (\<lambda>ts s. P s \<and> (\<forall>t\<in>set ts. is_value_type t))"
  using types_okD [OF assms] by (auto simp: triple_def v_res_def)

lemma triple_func_type:
  assumes "module_ok ve"
  shows "triple F P (v_type ve (fn_func_type (ve_func ve))) (\<lambda>ty s. P s \<and> types_ok ty \<and> load as_WASMType (ve_mem ve) (fn_func_type (ve_func ve)) = Inr ty)"
  using assms by (auto simp: module_ok_def triple_def v_type_def v_res_def)

lemma went_RETURN:
  assumes "setting al ve L"
  shows "triple (owned base) (good ve base L p (b # bs)) (v_RETURN ve) (\<lambda>_. went ve base L p)"
proof -
  have rest: "triple (owned base) (\<lambda>s. good ve base L p (b # bs) s \<and> (\<forall>t\<in>set ts. is_value_type t)) (v_then (pop_types ts) unreachable_rest)
    (\<lambda>_. went ve base L p)" for ts
    unfolding triple_known by (intro impI triple_then [OF good_pops(1)] went_rest) auto
  have "triple (owned base) (\<lambda>s. good ve base L p (b # bs) s \<and> types_ok ty \<and> A) (v_bind (v_res (result_types_of ty)) (\<lambda>rs. v_then (pop_types rs) unreachable_rest))
    (\<lambda>_. went ve base L p)" for ty A
    unfolding triple_known by (intro impI triple_bind [OF triple_types(2)] rest) simp
  then show ?thesis unfolding v_RETURN_def by (intro triple_bind [OF triple_func_type [OF settingD(3) [OF assms]]])
qed

section \<open>Calls, variables and memory\<close>

lemma went_flags: "triple F (good ve base L q (b # bs)) (\<lambda>s. Inr ((), s\<lparr>vs_has_op_func_call := x\<rparr>)) (\<lambda>_. good ve base L q (b # bs))"
  "triple F (good ve base L q (b # bs)) (\<lambda>s. Inr ((), s\<lparr>vs_possible_memory_grow := x\<rparr>)) (\<lambda>_. good ve base L q (b # bs))"
  "triple F (good ve base L q (b # bs)) (\<lambda>s. Inr ((), s\<lparr>vs_has_op_memory_grow := x, vs_possible_memory_grow := y\<rparr>)) (\<lambda>_. good ve base L q (b # bs))"
  by (simp_all add: triple_def good_def snap_def sound_def owned_def maxed_def)

lemma good_call_types:
  assumes "bounded_alloc al" "types_ok ty"
  shows "triple (owned base) (good ve base L q (b # bs)) (call_types al ty) (\<lambda>_. good ve base L q (b # bs))"
proof -
  have r: "triple (owned base) (\<lambda>s. good ve base L q (b # bs) s \<and> (\<forall>t\<in>set rs. is_value_type t))
     (v_then (push_types al rs) (\<lambda>s. Inr ((), s\<lparr>vs_has_op_func_call := True\<rparr>))) (\<lambda>_. good ve base L q (b # bs))" for rs
    unfolding triple_known by (intro impI triple_then [OF good_pushes [OF assms(1)]] went_flags) auto
  have p: "triple (owned base) (\<lambda>s. good ve base L q (b # bs) s \<and> (\<forall>t\<in>set ps. is_value_type t))
     (v_then (pop_types ps) (v_bind (v_res (result_types_of ty)) (\<lambda>rs. v_then (push_types al rs) (\<lambda>s. Inr ((), s\<lparr>vs_has_op_func_call := True\<rparr>)))))
     (\<lambda>_. good ve base L q (b # bs))" for ps
    unfolding triple_known by (intro impI triple_then [OF good_pops(1)] triple_bind [OF triple_types(2) [OF assms(2)]] r) auto
  show ?thesis unfolding call_types_def by (intro triple_bind [OF triple_types(1) [OF assms(2)]] p)
qed

lemma went_CALL:
  assumes "setting al ve L"
  shows "triple (owned base) (good ve base L p (b # bs)) (v_CALL al ve) (\<lambda>_. went ve base L p)"
proof -
  have "triple (owned base) (good ve base L q (b # bs)) (v_then (check_function_index ve i) (v_bind (v_res (callee_type ve i)) (call_types al)))
    (\<lambda>_. went ve base L p)" if q: "p < q" for q i
  proof (cases "md_import_function_count (ve_module ve) + md_function_count (ve_module ve) \<le> i")
    case False
    then obtain ty where "callee_type ve i = Inr ty" "types_ok ty" using settingD(3) [OF assms] unfolding module_ok_def not_le by blast
    then show ?thesis
      using triple_went [OF good_call_types [OF settingD(1) [OF assms], where ve = ve and base = base and L = L and q = q and b = b and bs = bs], where p = p] False q
      by (simp add: check_function_index_def triple_def v_then_def v_bind_def v_ret_def v_res_def)
  next
    case True
    then show ?thesis
      using good_owned(1) [of ve base L q "b # bs"] by (auto simp: check_function_index_def triple_def v_then_def v_bind_def set_error_buf_def)
  qed
  then show ?thesis unfolding v_CALL_def by (intro triple_leb32 [OF settingD(2) [OF assms]])
qed

lemma same_CHECK_BUF: "triple (owned base) (good ve base L p bs) (CHECK_BUF ve n) (\<lambda>_. good ve base L p bs)"
  by (intro same_good) (simp add: CHECK_BUF_def v_bind_def pos_def v_ret_def set_error_buf_def)

lemma same_check_table_index: "triple (owned base) (good ve base L p bs) (check_table_index ve i) (\<lambda>_. good ve base L p bs)"
  by (intro same_good) (simp add: check_table_index_def v_ret_def set_error_buf_def)

lemma went_CALL_INDIRECT:
  assumes "setting al ve L"
  shows "triple (owned base) (good ve base L p (b # bs)) (v_CALL_INDIRECT al ve) (\<lambda>_. went ve base L p)"
proof -
  have t: "triple (owned base) (\<lambda>s. good ve base L q (b # bs) s \<and> bt_ok ve (Type_Ptr a)) (v_bind (v_type ve a) (call_types al)) (\<lambda>_. went ve base L p)"
    if "p \<le> q" for q a
    unfolding triple_known
  proof
    assume "bt_ok ve (Type_Ptr a)"
    then obtain ty where ty: "a \<noteq> 0" "load as_WASMType (ve_mem ve) a = Inr ty" "types_ok ty" by auto
    show "triple (owned base) (good ve base L q (b # bs)) (v_bind (v_type ve a) (call_types al)) (\<lambda>_. went ve base L p)"
      using triple_went [OF good_call_types [OF settingD(1) [OF assms] ty(3), where ve = ve and base = base and L = L and q = q and b = b and bs = bs], where p = p] that ty(1,2)
      by (simp add: triple_def v_type_def v_bind_def v_res_def)
  qed
  show ?thesis unfolding v_CALL_INDIRECT_def
    by (intro triple_leb32 [OF settingD(2) [OF assms]] triple_then [OF same_CHECK_BUF] triple_read triple_then [OF same_check_table_index]
      triple_then [OF good_pop] triple_if triple_error good_owned(1) triple_bind [OF types_at [OF settingD(3) [OF assms]]] t) auto
qed

lemma good_drop_cells:
  assumes "good ve base L p (b # bs) s" "snap ve base L p (b # bs) ts s" "segs ts (b # bs)" "us = cells t" "is_value_type t"
    "take (length us) ts = us" "length us \<le> length ts - unat (bl_stack_cell_num b)"
  shows "drop_cells (length us) s = Inr ((), dropped (length us) s)" "good ve base L p (b # bs) (dropped (length us) s)"
proof -
  have l: "length us \<le> length ts" using assms(7) by simp
  show "drop_cells (length us) s = Inr ((), dropped (length us) s)" by (rule drop_cells_eval(1) [OF assms(2) l])
  have "segs (drop (length us) ts) (b # bs)"
    by (rule segs_drop [OF assms(3,7) paired_tail [OF assms(6) _ assms(5,7)]]) (use assms(3,4) in \<open>simp_all add: Let_def\<close>)
  then show "good ve base L p (b # bs) (dropped (length us) s)"
    using drop_cells_eval(2,3) [OF assms(2) l] assms(1) by (auto simp: good_def)
qed

text \<open>The top of the stack inside the current block.\<close>

lemma good_top:
  assumes g: "good ve base L p (b # bs) s" and n: "available_cells b s = Inr (n, s)" "0 < n"
  obtains r t where "ctx lc_frame_ref s = Inr (r, s)" "ref_at (int r - 1) s = Inr (t, s)" "is_value_type t \<or> t = VALUE_TYPE_ANY"
    "is_value_type t \<Longrightarrow> drop_cells (length (cells t)) s = Inr ((), dropped (length (cells t)) s) \<and> good ve base L p (b # bs) (dropped (length (cells t)) s)"
proof -
  obtain ts where s: "snap ve base L p (b # bs) ts s" "segs ts (b # bs)" using g by (auto simp: good_def)
  let ?h = "unat (bl_stack_cell_num b)" let ?us = "take (length ts - ?h) ts"
  have h: "?h \<le> length ts" "paired ?us" using s(2) by (simp_all add: Let_def)
  have "n = int (length ts) - int ?h" using n(1) available_cells_eval [OF s(1) h(1)] by simp
  then have pos: "0 < length ts - ?h" using n(2) by linarith
  then obtain t vs where us: "?us = t # vs" by (cases ?us) auto
  have t0: "ts ! 0 = t" using us pos by (cases ts) (auto split: if_splits simp: take_Cons')
  have t: "is_value_type t \<or> t = VALUE_TYPE_ANY"
    using h(2) unfolding us by (cases vs) (auto simp: value_types split: if_splits)
  have c: "take (length (cells t)) ts = cells t \<and> length (cells t) \<le> length ts - ?h" if v: "is_value_type t"
  proof (cases "is_32bit_type t")
    case True
    then have "cells t = [t]" using value_types(3) [of t] by (auto simp: cells_def)
    then show ?thesis using t0 pos by (cases ts) auto
  next
    case False
    then have "is_64bit_type t" "t \<noteq> VALUE_TYPE_ANY" "t \<noteq> VALUE_TYPE_VOID" using v value_types by blast+
    then obtain ws where ws: "vs = t # ws" "cells t = [t, t]" using h(2) False unfolding us by (cases vs) (auto simp: cells_def)
    then have u: "?us = t # t # ws" using us by simp
    then have "2 \<le> length ?us" by simp
    then have l2: "2 \<le> length ts - ?h" by simp
    then have "take 2 ts = take 2 ?us" by (simp add: min_absorb1)
    then show ?thesis using u ws l2 by (simp add: numeral_2_eq_2)
  qed
  show thesis
  proof (rule that [of "length ts" t])
    show "ctx lc_frame_ref s = Inr (length ts, s)" using snap_ref(1) [OF s(1)] by (simp add: ctx_def)
    show "ref_at (int (length ts) - 1) s = Inr (t, s)" using ref_at_top [OF s(1), of 0] t0 pos by (cases ts) auto
    show "drop_cells (length (cells t)) s = Inr ((), dropped (length (cells t)) s) \<and> good ve base L p (b # bs) (dropped (length (cells t)) s)"
      if "is_value_type t" using good_drop_cells [OF g s refl that] c [OF that] by blast
  qed (rule t)
qed

text \<open>The value on top has type \<open>t\<close> and may be dropped.\<close>

definition topped :: "venv \<Rightarrow> addr multiset \<Rightarrow> nat \<Rightarrow> nat \<Rightarrow> BranchBlock \<Rightarrow> BranchBlock list \<Rightarrow> u8 \<Rightarrow> 'h vstate \<Rightarrow> bool" where
  "topped ve base L p b bs t s \<longleftrightarrow> good ve base L p (b # bs) s \<and> (is_value_type t \<or> t = VALUE_TYPE_ANY) \<and> (is_value_type t \<longrightarrow>
     drop_cells (length (cells t)) s = Inr ((), dropped (length (cells t)) s) \<and> good ve base L p (b # bs) (dropped (length (cells t)) s))"

lemma triple_top:
  assumes "triple F (good ve base L p (b # bs)) e R" "triple F (good ve base L p (b # bs)) d R"
    "\<And>t. triple F (topped ve base L p b bs t) (g t) R"
  shows "triple F (good ve base L p (b # bs)) (v_bind (available_cells b) (\<lambda>n. if n \<le> 0 \<and> \<not> bl_is_stack_polymorphic b then e
    else if 0 < n then v_bind (ctx lc_frame_ref) (\<lambda>r. v_bind (ref_at (int r - 1)) g) else d)) R" (is "triple F ?G ?op R")
proof (rule tripleI)
  fix s assume g: "?G s"
  obtain n where n: "available_cells b s = Inr (n, s)" by (simp add: available_cells_def v_bind_def ctx_def v_ret_def)
  show "case ?op s of Inl (VCrash e) \<Rightarrow> known_fault e | Inl (VFail _ s') \<Rightarrow> F s' | Inr (x, s') \<Rightarrow> R x s'"
  proof (cases "0 < n")
    case True
    from good_top [OF g n True] obtain r t where rt: "ctx lc_frame_ref s = Inr (r, s)" "ref_at (int r - 1) s = Inr (t, s)"
      "is_value_type t \<or> t = VALUE_TYPE_ANY" "is_value_type t \<longrightarrow> drop_cells (length (cells t)) s = Inr ((), dropped (length (cells t)) s) \<and>
        good ve base L p (b # bs) (dropped (length (cells t)) s)" by metis
    have op: "?op s = g t s" using n True rt(1,2) by (simp add: v_bind_def)
    show ?thesis unfolding op by (rule tripleD [OF assms(3)]) (use g rt in \<open>simp add: topped_def\<close>)
  next
    case False
    have op: "?op s = (if \<not> bl_is_stack_polymorphic b then e s else d s)" using n False by (simp add: v_bind_def)
    show ?thesis unfolding op using tripleD [OF assms(1) g] tripleD [OF assms(2) g] by simp
  qed
qed

lemma cells_length: "is_value_type t \<Longrightarrow> length (cells t) = (if t = VALUE_TYPE_I32 \<or> t = VALUE_TYPE_F32 then 1 else 2)"
  "is_value_type t \<Longrightarrow> \<not> (t = VALUE_TYPE_I32 \<or> t = VALUE_TYPE_F32) \<Longrightarrow> t = VALUE_TYPE_I64 \<or> t = VALUE_TYPE_F64"
  by (auto simp: cells_def is_value_type_def is_32bit_type_def)

lemma went_DROP:
  assumes "0 < p" "p \<le> L"
  shows "triple (owned base) (good ve base L p (b # bs)) v_DROP (\<lambda>_. went ve base L p)"
proof -
  have d: "triple (owned base) (topped ve base L p b bs t)
     (drop_cells (length (cells t))) (\<lambda>_. good ve base L p (b # bs))" if "is_value_type t" for t
    using that by (auto simp: triple_def topped_def)
  have k: "triple (owned base) (good ve base L p (b # bs)) (v_bind pos (\<lambda>p. poke (p - 1) x)) (\<lambda>_. went ve base L p)" for x
    by (intro triple_pos triple_went [OF triple_poke]) (use assms in auto)
  have t: "triple (owned base) (topped ve base L p b bs t)
     (if t = VALUE_TYPE_I32 \<or> t = VALUE_TYPE_F32 then drop_cells 1
       else if t = VALUE_TYPE_I64 \<or> t = VALUE_TYPE_F64
       then v_then (drop_cells 2) (v_bind pos (\<lambda>p. poke (p - 1) WASM_OP_DROP_64))
       else set_error_buf ''type mismatch'') (\<lambda>_. went ve base L p)" for t
  proof (intro triple_if)
    assume a: "t = VALUE_TYPE_I32 \<or> t = VALUE_TYPE_F32"
    then have "is_value_type t" "length (cells t) = 1" by (auto simp: cells_length)
    with triple_went [OF d, of t p] show "triple (owned base) (topped ve base L p b bs t)
      (drop_cells 1) (\<lambda>_. went ve base L p)" by simp
  next
    assume a: "\<not> (t = VALUE_TYPE_I32 \<or> t = VALUE_TYPE_F32)" "t = VALUE_TYPE_I64 \<or> t = VALUE_TYPE_F64"
    then have v: "is_value_type t" "length (cells t) = 2" by (auto simp: cells_length)
    show "triple (owned base) (topped ve base L p b bs t)
      (v_then (drop_cells 2) (v_bind pos (\<lambda>p. poke (p - 1) WASM_OP_DROP_64))) (\<lambda>_. went ve base L p)"
      using triple_then [OF d [OF v(1)] k] v(2) by simp
  qed (auto intro!: triple_error dest: good_owned(1) simp: topped_def)
  show ?thesis unfolding v_DROP_def
    by (intro triple_block triple_top t triple_error good_owned(1) triple_ret) (auto simp: went_def)
qed

lemma went_SELECT:
  assumes "setting al ve L" "0 < p" "p \<le> L"
  shows "triple (owned base) (good ve base L p (b # bs)) (v_SELECT al) (\<lambda>_. went ve base L p)"
proof -
  note al = settingD(1) [OF assms(1)]
  have push: "triple (owned base) (good ve base L p (b # bs)) (wasm_loader_push_pop_frame_ref al 2 t t) (\<lambda>_. went ve base L p)"
    if "is_value_type t" for t
    by (rule triple_went [OF good_push_pop [OF al that that]]) simp
  have poke: "triple (owned base) (good ve base L p (b # bs)) (v_bind pos (\<lambda>p. poke (p - 1) x)) (\<lambda>_. good ve base L p (b # bs))" for x
    by (intro triple_pos triple_poke) (use assms in auto)
  have t: "triple (owned base) (topped ve base L p b bs t) (v_then (if t = VALUE_TYPE_I32 \<or> t = VALUE_TYPE_F32 then v_ret ()
         else if t = VALUE_TYPE_I64 \<or> t = VALUE_TYPE_F64 then v_bind pos (\<lambda>p. poke (p - 1) WASM_OP_SELECT_64)
         else set_error_buf ''type mismatch'') (wasm_loader_push_pop_frame_ref al 2 t t)) (\<lambda>_. went ve base L p)" for t
  proof (cases "is_value_type t")
    case True
    have c: "triple (owned base) (good ve base L p (b # bs)) (if t = VALUE_TYPE_I32 \<or> t = VALUE_TYPE_F32 then v_ret ()
         else if t = VALUE_TYPE_I64 \<or> t = VALUE_TYPE_F64 then v_bind pos (\<lambda>p. poke (p - 1) WASM_OP_SELECT_64)
         else set_error_buf ''type mismatch'') (\<lambda>_. good ve base L p (b # bs))"
      by (intro triple_if triple_ret poke triple_error good_owned(1))
    show ?thesis by (rule triple_pre [OF triple_then [OF c push [OF True]]]) (simp add: topped_def)
  next
    case False
    then have "\<not> (t = VALUE_TYPE_I32 \<or> t = VALUE_TYPE_F32)" "\<not> (t = VALUE_TYPE_I64 \<or> t = VALUE_TYPE_F64)" by auto
    then show ?thesis by (auto simp: triple_def v_then_def v_bind_def set_error_buf_def topped_def dest: good_owned(1))
  qed
  show ?thesis unfolding v_SELECT_def
    by (intro triple_then [OF good_pop] triple_block triple_top t triple_error good_owned(1) triple_went [OF good_push [OF al]]) auto
qed

lemma good_fast_local:
  assumes "q + 1 < p" "p \<le> L"
  shows "triple F (good ve base L p (b # bs)) (fast_local q opcode t off) (\<lambda>_. good ve base L p (b # bs))"
  unfolding fast_local_def
  by (intro triple_if triple_then [OF triple_poke] triple_pos triple_each triple_poke triple_ret) (use assms in auto)

lemma good_local_type:
  assumes "module_ok ve" "good ve base L q bs s"
  shows "case v_bind (v_type ve (fn_func_type (ve_func ve))) (\<lambda>ty.
     if ucast (ty_param_count ty) + fn_local_count (ve_func ve) \<le> i then set_error_buf ''unknown local''
     else v_bind (v_res (local_type_of ve i)) (\<lambda>t. v_bind (v_res (local_offset_of ve i)) (\<lambda>off. v_ret (t, off)))) s of
      Inl (VCrash e) \<Rightarrow> known_fault e | Inl (VFail _ s') \<Rightarrow> owned base s' | Inr (x, s') \<Rightarrow> is_value_type (fst x) \<and> s' = s"
proof -
  obtain ty where ty: "fn_func_type (ve_func ve) \<noteq> 0" "load as_WASMType (ve_mem ve) (fn_func_type (ve_func ve)) = Inr ty"
    using assms(1) by (auto simp: module_ok_def)
  then have v: "v_type ve (fn_func_type (ve_func ve)) s = Inr (ty, s)" by (simp add: v_type_def v_res_def)
  show ?thesis
  proof (cases "ucast (ty_param_count ty) + fn_local_count (ve_func ve) \<le> i")
    case True
    then show ?thesis using v good_owned(1) [OF assms(2)] by (simp add: v_bind_def set_error_buf_def)
  next
    case False
    then obtain t off where "local_type_of ve i = Inr t" "is_value_type t" "local_offset_of ve i = Inr off"
      using assms(1) ty(2) unfolding module_ok_def not_le by blast
    then show ?thesis using v False by (auto simp: v_bind_def v_res_def v_ret_def)
  qed
qed

lemma good_local:
  assumes "module_ok ve" "code_end ve \<le> L"
  shows "triple (owned base) (good ve base L p bs) (v_local ve)
     (\<lambda>x s. is_value_type (fst x) \<and> (\<exists>q. p < q \<and> q \<le> code_end ve \<and> good ve base L q bs s))"
  unfolding v_local_def
proof (rule triple_leb32 [OF assms(2)], rule tripleI)
  fix i q s assume q: "p < q" "q \<le> code_end ve" and g: "good ve base L q bs s"
  show "case v_bind (v_type ve (fn_func_type (ve_func ve))) (\<lambda>ty.
     if ucast (ty_param_count ty) + fn_local_count (ve_func ve) \<le> i then set_error_buf ''unknown local''
     else v_bind (v_res (local_type_of ve i)) (\<lambda>t. v_bind (v_res (local_offset_of ve i)) (\<lambda>off. v_ret (t, off)))) s of
      Inl (VCrash e) \<Rightarrow> known_fault e | Inl (VFail _ s') \<Rightarrow> owned base s'
      | Inr (x, s') \<Rightarrow> is_value_type (fst x) \<and> (\<exists>q. p < q \<and> q \<le> code_end ve \<and> good ve base L q bs s')"
    using good_local_type [OF assms(1) g, of i] q g by (auto split: sum.splits vstop.splits)
qed

lemma triple_local:
  "(\<And>q. A \<Longrightarrow> p < q \<Longrightarrow> q \<le> code_end ve \<Longrightarrow> triple F (good ve base L q bs) c R) \<Longrightarrow>
    triple F (\<lambda>s. A \<and> (\<exists>q. p < q \<and> q \<le> code_end ve \<and> good ve base L q bs s)) c R"
  unfolding triple_def by blast

lemma went_LOCAL:
  assumes "setting al ve L" "0 < p"
  shows "triple (owned base) (good ve base L p (b # bs)) (v_LOCAL al ve opcode) (\<lambda>_. went ve base L p)"
proof -
  note al = settingD(1) [OF assms(1)] and code = settingD(2) [OF assms(1)]
  have op: "triple (owned base) (good ve base L q (b # bs))
     (if opcode = WASM_OP_GET_LOCAL then v_then (wasm_loader_push_frame_ref al t) (fast_local (p - 1) EXT_OP_GET_LOCAL_FAST t off)
     else if opcode = WASM_OP_SET_LOCAL then v_then (wasm_loader_pop_frame_ref t) (fast_local (p - 1) EXT_OP_SET_LOCAL_FAST t off)
     else v_then (wasm_loader_pop_frame_ref t) (v_then (wasm_loader_push_frame_ref al t) (fast_local (p - 1) EXT_OP_TEE_LOCAL_FAST t off)))
     (\<lambda>_. went ve base L p)" if "is_value_type t" "p < q" "q \<le> code_end ve" for q t off
    by (intro triple_if triple_then [OF good_push [OF al]] triple_then [OF good_pop] triple_went [OF good_fast_local]) (use that assms(2) code in auto)
  show ?thesis unfolding v_LOCAL_def
  proof (intro triple_pos triple_bind [OF good_local [OF settingD(3) [OF assms(1)] code]] triple_local)
    fix x :: "u8 \<times> u16" and q assume "is_value_type (fst x)" "p < q" "q \<le> code_end ve"
    from op [OF this, of "snd x"] show "triple (owned base) (good ve base L q (b # bs)) (case x of (t, off) \<Rightarrow>
     if opcode = WASM_OP_GET_LOCAL then v_then (wasm_loader_push_frame_ref al t) (fast_local (p - 1) EXT_OP_GET_LOCAL_FAST t off)
     else if opcode = WASM_OP_SET_LOCAL then v_then (wasm_loader_pop_frame_ref t) (fast_local (p - 1) EXT_OP_SET_LOCAL_FAST t off)
     else v_then (wasm_loader_pop_frame_ref t) (v_then (wasm_loader_push_frame_ref al t) (fast_local (p - 1) EXT_OP_TEE_LOCAL_FAST t off)))
     (\<lambda>_. went ve base L p)" unfolding case_prod_beta .
  qed
qed

lemma good_global:
  assumes "module_ok ve" "code_end ve \<le> L"
  shows "triple (owned base) (good ve base L p bs) (v_global ve)
     (\<lambda>x s. is_value_type (fst (snd x)) \<and> (\<exists>q. p < q \<and> q \<le> code_end ve \<and> good ve base L q bs s))"
  unfolding v_global_def
proof (rule triple_leb32 [OF assms(2)], rule triple_if)
  fix i q assume q: "p < q" "q \<le> code_end ve"
  show "triple (owned base) (good ve base L q bs) (set_error_buf ''unknown global'')
     (\<lambda>x s. is_value_type (fst (snd x)) \<and> (\<exists>q. p < q \<and> q \<le> code_end ve \<and> good ve base L q bs s))"
    by (intro triple_error good_owned(1))
  assume "\<not> md_import_global_count (ve_module ve) + md_global_count (ve_module ve) \<le> i"
  then obtain t m where "global_at ve i = Inr (t, m)" "is_value_type t" using assms(1) unfolding module_ok_def not_le by blast
  then show "triple (owned base) (good ve base L q bs) (v_bind (v_res (global_at ve i)) (\<lambda>(t, mut). v_ret (i, t, mut)))
     (\<lambda>x s. is_value_type (fst (snd x)) \<and> (\<exists>q. p < q \<and> q \<le> code_end ve \<and> good ve base L q bs s))"
    using q by (auto simp: triple_def v_bind_def v_res_def v_ret_def)
qed

lemma went_GET_GLOBAL:
  assumes "setting al ve L" "0 < p"
  shows "triple (owned base) (good ve base L p (b # bs)) (v_GET_GLOBAL al ve) (\<lambda>_. went ve base L p)"
  unfolding v_GET_GLOBAL_def case_prod_beta
  by (intro triple_pos triple_bind [OF good_global [OF settingD(3,2) [OF assms(1)]]] triple_local triple_then [OF good_push [OF settingD(1) [OF assms(1)]]]
      triple_if triple_went [OF triple_poke] triple_went [OF triple_ret])
    (use assms(2) settingD(2) [OF assms(1)] in auto)

lemma went_SET_GLOBAL:
  assumes "setting al ve L" "0 < p"
  shows "triple (owned base) (good ve base L p (b # bs)) (v_SET_GLOBAL ve) (\<lambda>_. went ve base L p)"
  unfolding v_SET_GLOBAL_def case_prod_beta
  by (intro triple_pos triple_bind [OF good_global [OF settingD(3,2) [OF assms(1)]]] triple_local triple_then [OF good_pop]
      triple_if triple_error good_owned(1) triple_went [OF triple_poke] triple_went [OF triple_ret])
    (use assms(2) settingD(2) [OF assms(1)] in auto)

lemma same_check_memory: "triple (owned base) (good ve base L p bs) (Validator.check_memory ve) (\<lambda>_. good ve base L p bs)"
  by (intro same_good) (simp add: Validator.check_memory_def v_ret_def set_error_buf_def)

lemma same_check_align: "triple (owned base) (good ve base L p bs) (check_memory_access_align opcode a) (\<lambda>_. good ve base L p bs)"
  by (intro same_good) (simp add: check_memory_access_align_def v_ret_def set_error_buf_def)

lemma access_value_types: "\<forall>t\<in>set (fst (access_types opcode)). is_value_type t" "\<forall>t\<in>set (snd (access_types opcode)). is_value_type t"
  by (simp_all add: access_types_def)

lemma went_ACCESS:
  assumes "setting al ve L"
  shows "triple (owned base) (good ve base L p (b # bs)) (v_ACCESS al ve opcode) (\<lambda>_. went ve base L p)"
  unfolding v_ACCESS_def case_prod_beta
  by (intro triple_then [OF same_check_memory] triple_leb32 [OF settingD(2) [OF assms]] triple_then [OF same_check_align]
      triple_then [OF good_pops(2)] triple_went [OF good_pushes [OF settingD(1) [OF assms]]])
    (use access_value_types in auto)

lemma good_zero_byte:
  "triple (owned base) (good ve base L p bs) zero_byte (\<lambda>_. good ve base L (p + 1) bs)"
  unfolding zero_byte_def by (intro triple_read triple_if triple_error good_owned(1) triple_ret)

lemma went_MEMORY:
  assumes "setting al ve L"
  shows "triple (owned base) (good ve base L p (b # bs)) (v_MEMORY_SIZE al ve) (\<lambda>_. went ve base L p)"
    "triple (owned base) (good ve base L p (b # bs)) (v_MEMORY_GROW al ve) (\<lambda>_. went ve base L p)"
  unfolding v_MEMORY_SIZE_def v_MEMORY_GROW_def
  by (intro triple_then [OF same_check_memory] triple_then [OF good_zero_byte] triple_then [OF good_push [OF settingD(1) [OF assms]]]
      triple_then [OF good_push_pop [OF settingD(1) [OF assms]]] triple_went [OF went_flags(2)] triple_went [OF went_flags(3)]; simp)+

lemma triple_leb_then:
  assumes "code_end ve \<le> L" "\<And>q. p < q \<Longrightarrow> q \<le> code_end ve \<Longrightarrow> triple (owned base) (good ve base L q bs) d R"
  shows "triple (owned base) (good ve base L p bs) (v_then (v_leb ve m sg) d) R"
  unfolding v_then_def by (rule triple_leb [OF assms])

lemma went_CONST:
  assumes "setting al ve L"
  shows "triple (owned base) (good ve base L p (b # bs)) (v_CONST al ve opcode) (\<lambda>_. went ve base L p)"
  unfolding v_CONST_def
  by (intro triple_if triple_leb_then [OF settingD(2) [OF assms]] triple_pos triple_then [OF triple_set_pos]
      triple_went [OF good_push [OF settingD(1) [OF assms]]]) auto

lemma numeric_value_types:
  assumes "numeric_types opcode = (k, t, u)"
  shows "is_value_type t \<and> is_value_type u"
proof -
  have "is_value_type (fst (snd (compare_types opcode))) \<and> is_value_type (snd (snd (compare_types opcode)))"
    "is_value_type (fst (snd (arith_types opcode))) \<and> is_value_type (snd (snd (arith_types opcode)))"
    "is_value_type (fst (snd (convert_types opcode))) \<and> is_value_type (snd (snd (convert_types opcode)))"
    by (simp_all add: compare_types_def arith_types_def convert_types_def)
  then have "is_value_type (fst (snd (numeric_types opcode))) \<and> is_value_type (snd (snd (numeric_types opcode)))"
    by (simp add: numeric_types_def)
  then show ?thesis using assms by simp
qed

lemma went_NUMERIC:
  assumes "setting al ve L"
  shows "triple (owned base) (good ve base L p (b # bs)) (v_NUMERIC al opcode) (\<lambda>_. went ve base L p)"
proof (cases "numeric_types opcode")
  case (fields k t u)
  then show ?thesis
    using triple_went [OF good_push_pop [OF settingD(1) [OF assms]], of u t] numeric_value_types [OF fields] by (simp add: v_NUMERIC_def)
qed

lemma went_MISC:
  assumes "setting al ve L"
  shows "triple (owned base) (good ve base L p (b # bs)) (v_MISC al ve) (\<lambda>_. went ve base L p)"
proof -
  have "triple (owned base) (good ve base L q (b # bs)) (case misc_types i of Some (pop, push) \<Rightarrow> wasm_loader_push_pop_frame_ref al 1 push pop
    | None \<Rightarrow> set_error_buf (''unsupported opcode fc '' @ hex2 (unat i))) (\<lambda>_. went ve base L p)" if "p < q" for q i
  proof (cases "misc_types i")
    case (Some x)
    then have "is_value_type (fst x) \<and> is_value_type (snd x)" by (auto simp: misc_types_def split: if_splits)
    with triple_went [OF good_push_pop [OF settingD(1) [OF assms]], of "snd x" "fst x"] Some that show ?thesis by (cases x) simp
  qed (auto intro: triple_error good_owned(1))
  then show ?thesis unfolding v_MISC_def by (intro triple_leb32 [OF settingD(2) [OF assms]])
qed

section \<open>The loop\<close>

lemma went_nop: "triple F (good ve base L p (b # bs)) (v_ret ()) (\<lambda>_. went ve base L p)"
  by (rule triple_went [OF triple_ret]) auto

lemma good_control:
  assumes "setting al ve L" "p \<le> code_end ve"
  shows "triple (owned base) (good ve base L p (b # bs)) (v_control al ve opcode) (\<lambda>_. went ve base L p)"
  unfolding v_control_def
  by (intro triple_if went_rest went_nop triple_then [OF good_pop] went_block went_ELSE went_END went_BR went_BR_IF
      went_BR_TABLE went_RETURN [OF assms(1)] went_CALL went_CALL_INDIRECT triple_error good_owned(1) assms order_refl) simp_all

lemma good_opcode:
  assumes "setting al ve L" "0 < p" "p \<le> code_end ve"
  shows "triple (owned base) (good ve base L p (b # bs)) (v_opcode al ve opcode) (\<lambda>_. went ve base L p)"
proof -
  have "p \<le> L" using assms settingD(2) [OF assms(1)] by simp
  then show ?thesis
    unfolding v_opcode_def
    by (intro triple_if went_DROP went_SELECT went_LOCAL went_GET_GLOBAL went_SET_GLOBAL [OF assms(1)] went_ACCESS went_MEMORY went_CONST went_NUMERIC
        went_MISC good_control assms)
qed

definition finished :: "venv \<Rightarrow> addr multiset \<Rightarrow> nat \<Rightarrow> 'h vstate \<Rightarrow> bool" where
  "finished ve base L s \<longleftrightarrow> (\<exists>q bs. good ve base L q bs s \<and> code_end ve \<le> q)"

lemma loop_finishes:
  assumes "setting al ve L"
  shows "code_end ve - p \<le> k \<Longrightarrow> triple (owned base) (went ve base L p) (v_loop al ve k) (\<lambda>_. finished ve base L)"
proof (induction k arbitrary: p)
  case 0
  show ?case
    by (subst v_loop.simps) (use 0 in \<open>auto simp: triple_def went_def finished_def v_bind_def pos_def v_ret_def good_def snap_def\<close>)
next
  case (Suc k)
  have step: "triple (owned base) (good ve base L q (b # bs)) (v_then (v_bind read_uint8 (v_opcode al ve)) (v_loop al ve k)) (\<lambda>_. finished ve base L)"
    if q: "p \<le> q" "q < code_end ve" for q b bs
  proof (rule triple_then)
    show "triple (owned base) (good ve base L q (b # bs)) (v_bind read_uint8 (v_opcode al ve)) (\<lambda>_. went ve base L (q + 1))"
      by (intro triple_read good_opcode assms) (use q in auto)
    show "triple (owned base) (went ve base L (q + 1)) (v_loop al ve k) (\<lambda>_. finished ve base L)"
      using Suc.prems q by (intro Suc.IH) simp
  qed
  show ?case
  proof (rule tripleI)
    fix s :: "'a vstate" assume "went ve base L p s"
    then obtain q bs where g: "p \<le> q" "good ve base L q bs s" "bs \<noteq> [] \<or> code_end ve \<le> q" by (auto simp: went_def)
    then have p: "vs_p s = q" by (auto simp: good_def snap_def)
    show "case v_loop al ve (Suc k) s of Inl (VCrash e) \<Rightarrow> known_fault e | Inl (VFail _ s') \<Rightarrow> owned base s' | Inr (x, s') \<Rightarrow> finished ve base L s'"
    proof (cases "q < code_end ve")
      case True
      with g obtain b bs' where "bs = b # bs'" by (cases bs) auto
      with tripleD [OF step [OF g(1) True]] g(2) True p show ?thesis by (subst v_loop.simps) (simp add: v_bind_def pos_def)
    next
      case False
      then show ?thesis using g p by (subst v_loop.simps) (auto simp: v_bind_def pos_def v_ret_def finished_def)
    qed
  qed
qed

section \<open>The whole function\<close>

text \<open>What the context holds, while it is being made too.\<close>

definition holding :: "addr multiset \<Rightarrow> 'h vstate \<Rightarrow> bool" where
  "holding base s \<longleftrightarrow> (let c = vs_ctx s in raws (vs_rg s) = base + {#lc_self c#} +
     (if lc_frame_ref_bottom c \<noteq> 0 then {#lc_frame_ref_bottom c#} else {#}) + (if lc_frame_csp_bottom c \<noteq> 0 then {#lc_frame_csp_bottom c#} else {#}))"

definition released :: "addr multiset \<Rightarrow> 'h vstate \<Rightarrow> bool" where "released base s \<longleftrightarrow> raws (vs_rg s) = base"

lemma owned_holding: "owned base s \<Longrightarrow> holding base s"
  by (simp add: owned_def holding_def Let_def add_mset_commute)

lemma ctx_destroy_triple: "triple F (holding base) (wasm_loader_ctx_destroy al) (\<lambda>_. released base)"
proof (rule tripleI)
  fix s :: "'a vstate" assume s: "holding base s"
  let ?c = "vs_ctx s"
  let ?opt = "\<lambda>a. if a \<noteq> 0 then v_free al a else v_ret ()"
  have opt: "triple F (\<lambda>t. same_but_heap s t \<and> raws (vs_rg t) = (if a \<noteq> 0 then {#a#} else {#}) + Y \<and> True) (?opt a) (\<lambda>_ t. same_but_heap s t \<and> raws (vs_rg t) = Y \<and> True)" for a Y
    using free_triple [of F s a Y True al] by (cases "a = 0") (auto intro: triple_ret)
  let ?pre = "\<lambda>t. same_but_heap s t \<and> raws (vs_rg t) = (if lc_frame_ref_bottom ?c \<noteq> 0 then {#lc_frame_ref_bottom ?c#} else {#}) +
      ((if lc_frame_csp_bottom ?c \<noteq> 0 then {#lc_frame_csp_bottom ?c#} else {#}) + add_mset (lc_self ?c) base) \<and> True"
  let ?op = "v_then (?opt (lc_frame_ref_bottom ?c)) (v_then (?opt (lc_frame_csp_bottom ?c)) (v_free al (lc_self ?c)))"
  have d: "wasm_loader_ctx_destroy al s = ?op s" by (simp add: wasm_loader_ctx_destroy_def v_bind_def ctx_def)
  have "triple F ?pre ?op (\<lambda>_ t. same_but_heap s t \<and> raws (vs_rg t) = base \<and> True)"
    by (intro triple_then [OF opt] free_triple)
  then have "triple F ?pre ?op (\<lambda>_. released base)" by (rule triple_weaken) (simp_all add: released_def)
  moreover have "?pre s" using s by (simp add: holding_def Let_def same_but_heap_def ac_simps)
  ultimately show "case wasm_loader_ctx_destroy al s of Inl (VCrash e) \<Rightarrow> known_fault e | Inl (VFail _ s') \<Rightarrow> F s' | Inr (x, s') \<Rightarrow> released base s'"
    unfolding d by (rule tripleD)
qed

text \<open>The states of the initialisation: what is registered and the context.\<close>

definition making :: "addr multiset \<Rightarrow> nat \<Rightarrow> loader_ctx \<Rightarrow> 'h vstate \<Rightarrow> bool" where
  "making X L c s \<longleftrightarrow> raws (vs_rg s) = X \<and> vs_ctx s = c \<and> vs_p s = 0 \<and> length (vs_code s) = L"

lemma making_malloc: "triple F (making X L c) (v_malloc al sz) (\<lambda>_. making X L c)"
  by (auto simp: triple_def making_def v_malloc_def split: prod.split)

lemma making_register:
  assumes "\<And>rg. \<exists>rg'. f rg = Inr rg' \<and> raws rg' = add_mset a (raws rg)"
  shows "triple F (making X L c) (v_register f) (\<lambda>_. making (add_mset a X) L c)"
proof (rule tripleI)
  fix s :: "'a vstate" assume "making X L c s"
  moreover obtain rg where "f (vs_rg s) = Inr rg" "raws rg = add_mset a (raws (vs_rg s))" using assms by blast
  ultimately show "case v_register f s of Inl (VCrash e) \<Rightarrow> known_fault e | Inl (VFail _ s') \<Rightarrow> F s' | Inr (x, s') \<Rightarrow> making (add_mset a X) L c s'"
    by (simp add: v_register_def making_def)
qed

lemma making_ctx: "triple F (making X L c) (on_ctx f) (\<lambda>_. making X L (f c))"
  by (simp add: triple_def making_def on_ctx_def)

definition first_ctx :: "addr \<Rightarrow> addr \<Rightarrow> addr \<Rightarrow> loader_ctx" where
  "first_ctx a r b = (empty_ctx a)\<lparr>lc_frame_ref_bottom := r, lc_refs := replicate 32 0, lc_frame_csp_size := 8 * of_nat (c_size L_BranchBlock),
     lc_frame_csp_bottom := b, lc_blocks := replicate 8 zero_block\<rparr>"

lemma block_size: "c_size L_BranchBlock = 56" by code_simp

lemma first_good:
  assumes "r \<noteq> 0" "b \<noteq> 0" "making (add_mset b (add_mset r (add_mset a base))) L (first_ctx a r b) s"
  shows "good ve base L 0 [] s"
  using assms unfolding good_def
  by (auto simp: making_def first_ctx_def empty_ctx_def inv_defs Let_def block_size zero_block_def add_mset_commute intro!: exI [of _ "[]"])

lemma making_destroy:
  assumes "X = base + {#lc_self c#} + (if lc_frame_ref_bottom c \<noteq> 0 then {#lc_frame_ref_bottom c#} else {#}) +
    (if lc_frame_csp_bottom c \<noteq> 0 then {#lc_frame_csp_bottom c#} else {#})"
  shows "triple F (making X L c) (v_then (wasm_loader_ctx_destroy al) (v_ret False)) (\<lambda>ok s. if ok then good ve base L 0 [] s else released base s)"
proof (rule triple_then)
  show "triple F (making X L c) (wasm_loader_ctx_destroy al) (\<lambda>_. released base)" 
    by (rule triple_pre [OF ctx_destroy_triple]) (simp add: making_def holding_def Let_def assms)
qed (rule triple_ret, simp)

lemma ctx_init_triple:
  "triple F (making base L c) (wasm_loader_ctx_init ext al) (\<lambda>ok s. if ok then good ve base L 0 [] s else released base s)"
  unfolding wasm_loader_ctx_init_def
  by (intro triple_bind [OF making_malloc] triple_if triple_then [OF making_register [OF register_raws(1)]]
      triple_then [OF making_register [OF register_raws(2)]] triple_then [OF making_register [OF register_raws(3)]] triple_then [OF making_ctx]
      making_destroy triple_ret)
    (auto simp: making_def released_def empty_ctx_def add_mset_commute intro: first_good [unfolded first_ctx_def])

lemma body_triple:
  assumes "setting al ve L"
  shows "triple (owned base) (good ve base L 0 []) (v_body al ve) (\<lambda>_. owned base)"
  unfolding v_body_def
proof (intro triple_then triple_bind triple_if)
  have bt: "bt_ok ve (Type_Ptr (fn_func_type (ve_func ve)))" using settingD(3) [OF assms] by (simp add: module_ok_def)
  show "triple (owned base) (good ve base L 0 []) (wasm_loader_push_frame_csp al LABEL_TYPE_FUNCTION (Type_Ptr (fn_func_type (ve_func ve))) 0)
     (\<lambda>_. went ve base L 0)"
    by (rule triple_weaken [OF good_push_csp [OF settingD(1) [OF assms] bt]]) (auto simp: went_def)
  show "triple (owned base) (went ve base L 0) (v_loop al ve (code_end ve)) (\<lambda>_. finished ve base L)" by (rule loop_finishes [OF assms]) simp
  show "triple (owned base) (finished ve base L) (ctx lc_csp_num) (\<lambda>_. owned base)"
    by (rule triple_ctx) (auto simp: finished_def good_owned(1))
qed (auto intro: triple_error triple_ret)

lemma prepare_bytecode_outcome:
  assumes "setting al ve (length (vs_code s))" "vs_p s = 0"
  shows "case wasm_loader_prepare_bytecode ext al ve s of Inl e \<Rightarrow> known_fault e | Inr (_, t) \<Rightarrow> raws (vs_rg t) = raws (vs_rg s)"
proof -
  let ?base = "raws (vs_rg s)" let ?L = "length (vs_code s)"
  have m: "making ?base ?L (vs_ctx s) s" using assms(2) by (simp add: making_def)
  note init = tripleD [OF ctx_init_triple [of "\<lambda>_. False" ?base ?L "vs_ctx s" ext al ve] m]
  have leave: "case (case wasm_loader_ctx_destroy al s' of Inr (_, t) \<Rightarrow> Inr (r, t) | Inl (VCrash e) \<Rightarrow> Inl e | Inl (VFail msg t) \<Rightarrow> Inr (Inl msg, t)) of
      Inl e \<Rightarrow> known_fault e | Inr (_, t) \<Rightarrow> raws (vs_rg t) = ?base" if "owned ?base s'" for r :: "string + WASMFunction" and s'
    using tripleD [OF ctx_destroy_triple [of "\<lambda>_. False"] owned_holding [OF that], of al]
    by (auto simp: released_def split: sum.splits vstop.splits)
  have body: "case v_body al ve s1 of Inl (VCrash e) \<Rightarrow> known_fault e | Inl (VFail _ s2) \<Rightarrow> owned ?base s2 | Inr (_, s2) \<Rightarrow> owned ?base s2"
    if "good ve ?base ?L 0 [] s1" for s1
    by (rule tripleD [OF body_triple [OF assms(1)] that])
  show ?thesis
  proof (cases "wasm_loader_ctx_init ext al s")
    case (Inl e)
    with init show ?thesis by (cases e) (simp_all add: wasm_loader_prepare_bytecode_def)
  next
    case (Inr x)
    then obtain ok s1 where i: "wasm_loader_ctx_init ext al s = Inr (ok, s1)" by (cases x) simp
    show ?thesis
    proof (cases ok)
      case True
      with init i have "good ve ?base ?L 0 [] s1" by simp
      from body [OF this] show ?thesis using leave True i
        by (cases "v_body al ve s1") (auto simp: wasm_loader_prepare_bytecode_def Let_def split: vstop.splits)
    qed (use init i in \<open>simp add: wasm_loader_prepare_bytecode_def released_def\<close>)
  qed
qed

end
