(* ===== verification/Validator_Properties.thy ===== *)
theory Validator_Properties
  imports Validator_Safety
begin

text \<open>
  What \<open>wasm_loader_prepare_bytecode\<close> promises: it ends, it writes only into its own buffers, it gives back what it
  allocates, and what it accepts fits the interpreter. And the two kinds of code on which it reads memory that is not its own.
\<close>

section \<open>A module with one function\<close>

text \<open>The function has type \<open>[] -> []\<close> and no locals; the module has nothing else. The allocator hands out one
  block after the other.\<close>

definition one_type :: "mem" where
  "one_type = (\<lambda>_. None)(0x100 := Some (O_WASMType \<lparr>ty_param_count = 0, ty_result_count = 0, ty_param_cell_num = 0, ty_ret_cell_num = 0, ty_types = []\<rparr>))"

definition one_function :: WASMFunction where
  "one_function = \<lparr>fn_func_type = 0x100, fn_local_count = 0, fn_local_types = 0, fn_param_cell_num = 0, fn_ret_cell_num = 0,
     fn_local_cell_num = 0, fn_local_offsets = 0, fn_max_stack_cell_num = 0, fn_max_block_num = 0, fn_has_op_memory_grow = False,
     fn_has_op_func_call = False, fn_code_size = 0, fn_code = 0x200, fn_tail = []\<rparr>"

definition one_module :: WASMModule where
  "one_module = \<lparr>md_module_type = 0, md_type_count = 0, md_import_count = 0, md_function_count = 0, md_table_count = 0, md_memory_count = 0,
     md_global_count = 0, md_export_count = 0, md_table_seg_count = 0, md_data_seg_count = 0, md_import_function_count = 0,
     md_import_table_count = 0, md_import_memory_count = 0, md_import_global_count = 0, md_import_functions = 0, md_import_tables = 0,
     md_import_memories = 0, md_import_globals = 0, md_types = 0, md_imports = 0, md_functions = 0, md_tables = 0, md_memories = 0,
     md_globals = 0, md_exports = 0, md_table_segments = 0, md_data_segments = 0, md_start_function = 0, md_aux_data_end_global_index = 0,
     md_aux_data_end = 0, md_aux_heap_base_global_index = 0, md_aux_heap_base = 0, md_aux_stack_top_global_index = 0, md_aux_stack_bottom = 0,
     md_aux_stack_size = 0, md_malloc_function = 0, md_free_function = 0, md_retain_function = 0, md_possible_memory_grow = False,
     md_const_str_list = 0, md_wasi_args = \<lparr>wa_dir_list = 0, wa_dir_count = 0, wa_map_dir_list = 0, wa_map_dir_count = 0,
     wa_env = 0, wa_env_count = 0, wa_argv = 0, wa_argc = 0, wa_stdio = []\<rparr>, md_is_wasi_module = False\<rparr>"

definition bump :: "addr \<Rightarrow> u32 \<Rightarrow> addr \<times> addr" where
  "bump h sz = (if 0x80000000 \<le> sz then (0, h) else (h, h + ucast sz))"

definition bump_allocs :: "addr allocs" where
  "bump_allocs = \<lparr>pool_create = (\<lambda>a _ h. (a, h)), pool_malloc = bump, pool_realloc = (\<lambda>h _ sz. bump h sz), pool_free = (\<lambda>h _. h),
     call_malloc = (\<lambda>_. bump), call_realloc = (\<lambda>_ h _ sz. bump h sz), call_free = (\<lambda>_ h _. h), heap_migrate = (\<lambda>_ _ _ h. (True, h))\<rparr>"

definition env_of :: "byte list \<Rightarrow> venv" where
  "env_of code = \<lparr>ve_mem = one_type, ve_module = one_module, ve_func = one_function\<lparr>fn_code_size := of_nat (length code)\<rparr>\<rparr>"

definition start_of :: "byte list \<Rightarrow> addr vstate" where
  "start_of code = \<lparr>vs_rg = \<lparr>root_info = [], root_frame = [], pool_allocator = 0x1000, rg_module = 0, rg_exec_env = 0\<rparr>,
     vs_heap = \<lparr>memory_mode = MEMORY_MODE_POOL, global_pool_size = 0x10000, malloc_func = 0, realloc_func = 0, free_func = 0, hp_state = 0x2000\<rparr>,
     vs_ctx = empty_ctx 0, vs_code = code, vs_p = 0, vs_has_op_func_call = False, vs_has_op_memory_grow = False, vs_possible_memory_grow = False\<rparr>"

definition no_ext :: "Data_Type \<Rightarrow> nat" where "no_ext _ = 0"

definition outcome :: "byte list \<Rightarrow> (string + u32 \<times> u32) res" where
  "outcome code = (case wasm_loader_prepare_bytecode no_ext bump_allocs (env_of code) (start_of code) of
      Inl e \<Rightarrow> Inl e | Inr (Inl msg, _) \<Rightarrow> Inr (Inl msg)
    | Inr (Inr f, _) \<Rightarrow> Inr (Inr (fn_max_stack_cell_num f, fn_max_block_num f)))"

lemma alloc_blocks_code [code]:
  "alloc_blocks ext rg a = (if a = 0 then Inl (Exit ''error'')
     else Inr (rg\<lparr>root_info := (mk_node (pool_allocator rg) a BranchBlockT 8 #
       map (elem_node (pool_allocator rg) a BranchBlockT 56) [1, 2, 3, 4, 5, 6, 7]) # root_info rg\<rparr>))"
proof -
  have "case_sizeof ext BranchBlockT = 56" by (simp add: case_sizeof_def data_size_def set_data_size_values)
  moreover have "[1..<unat (8 :: u64)] = [1, 2, 3, 4, 5, 6, 7]" by code_simp
  moreover have "BranchBlockT \<in> set case_infos" by (simp add: case_infos_def)
  ultimately show ?thesis by (simp only: alloc_blocks_def alloc_infos_def Let_def if_True)
qed

lemma bump_bounded: "bounded_alloc bump_allocs"
proof -
  have "(0x80000000 :: u32) \<le> sz \<longleftrightarrow> 2 ^ 31 \<le> unat sz" for sz by (simp add: word_le_nat_alt)
  then show ?thesis
    by (auto simp: bounded_alloc_def wasm_runtime_malloc_internal_def bump_allocs_def bump_def split: Memory_Mode.split)
qed

lemma one_module_ok: "module_ok (env_of code)"
  by (simp add: module_ok_def env_of_def one_module_def one_function_def one_type_def load_def as_WASMType_def types_ok_def)

lemma code_end_of: "length code < 2 ^ 32 \<Longrightarrow> code_end (env_of code) = length code"
  by (simp add: code_end_def env_of_def unat_of_nat take_bit_nat_eq_self)

lemma start_ok: "vs_p (start_of code) = 0" "vs_code (start_of code) = code" "raws (vs_rg (start_of code)) = {#}"
  by (simp_all add: start_of_def raws_def)

section \<open>Safety\<close>

text \<open>C5: the validator is safe. On a well-formed module, whatever the bytes of the function are,
  \<open>wasm_loader_prepare_bytecode\<close> comes to an end and gives back exactly the blocks it has registered, whether it accepts
  the code, rejects it or runs out of memory. It never writes or reads outside its two stacks or writes past the code;
  the only ways out of its own memory are three reads: past the code, past the block stack, and of a block that is not set.\<close>

theorem prepare_bytecode_safe:
  assumes "module_ok ve" "bounded_alloc al" "code_end ve \<le> length (vs_code s)" "vs_p s = 0"
  shows "case wasm_loader_prepare_bytecode ext al ve s of
      Inl e \<Rightarrow> e \<in> {UB ''read past the block stack'', UB ''null pointer'', UB ''read past the code''}
    | Inr (_, t) \<Rightarrow> raws (vs_rg t) = raws (vs_rg s)"
proof -
  have "setting al ve (length (vs_code s))" using assms by (simp add: setting_def)
  from prepare_bytecode_outcome [OF this assms(4), of ext] show ?thesis
    by (auto simp: known_fault_def split: sum.split prod.split)
qed

theorem prepare_bytecode_safe_witness:
  "case wasm_loader_prepare_bytecode no_ext bump_allocs (env_of [0x41, 7, 0x1a, 0x0b]) (start_of [0x41, 7, 0x1a, 0x0b]) of
      Inl e \<Rightarrow> e \<in> {UB ''read past the block stack'', UB ''null pointer'', UB ''read past the code''}
    | Inr (_, t) \<Rightarrow> raws (vs_rg t) = {#}"
  using prepare_bytecode_safe [OF one_module_ok bump_bounded, of "[0x41, 7, 0x1a, 0x0b]" "start_of [0x41, 7, 0x1a, 0x0b]" no_ext]
  unfolding start_ok by (simp add: code_end_of)

section \<open>Code that escapes the checks\<close>

lemma escapes:
  "map outcome [[0x0c, 0xff, 0xff, 0xff, 0xff, 0x0f, 0x0b], [0x02, 0x40, 0x0b, 0x0c, 0xff, 0xff, 0xff, 0xff, 0x0f, 0x0b], [0x02]] =
     [Inl (UB ''null pointer''), Inr (Inr (0, 2)), Inl (UB ''read past the code'')]"
  by code_simp



end
