(* ===== verification/Validator_Interp.thy ===== *)
theory Validator_Interp
  imports Interp_Properties Validator_Properties
begin

text \<open>
  The validator and the interpreter side by side: functions that \<open>wasm_loader_prepare_bytecode\<close> accepts and that make
  \<open>wasm_interp_call_func_bytecode\<close> leave the operand stack the validator has computed.
\<close>

section \<open>A module with two types, and its function in the interpreter\<close>

text \<open>Type 0 is \<open>[] -> []\<close>, the type of the function; type 1 is \<open>[i32] -> [i32]\<close>.\<close>

definition two_types :: mem where
  "two_types = one_type(0x180 := Some (O_WASMType \<lparr>ty_param_count = 1, ty_result_count = 1, ty_param_cell_num = 1, ty_ret_cell_num = 1,
     ty_types = [VALUE_TYPE_I32, VALUE_TYPE_I32]\<rparr>), 0x80 := Some (O_Ptrs [0x100, 0x180]))"

definition env2_of :: "byte list \<Rightarrow> venv" where
  "env2_of code = (env_of code)\<lparr>ve_mem := two_types, ve_module := one_module\<lparr>md_type_count := 2, md_types := 0x80\<rparr>\<rparr>"

definition accepted :: "byte list \<Rightarrow> (string + u32 \<times> u32 \<times> byte list) res" where
  "accepted code = (case wasm_loader_prepare_bytecode no_ext bump_allocs (env2_of code) (start_of code) of
      Inl e \<Rightarrow> Inl e | Inr (Inl msg, _) \<Rightarrow> Inr (Inl msg)
    | Inr (Inr f, s) \<Rightarrow> Inr (Inr (fn_max_stack_cell_num f, fn_max_block_num f, vs_code s)))"

text \<open>The interpreter at the first opcode of the function, in the frame that \<open>enter_func\<close> lays out for the two sizes.\<close>

definition frame_of :: "u32 \<Rightarrow> u32 \<Rightarrow> WASMInterpFrame" where
  "frame_of stack blocks = (fresh_frame 0xC000 0x5000 [] ((sample_fi 0x6000)\<lparr>fi_param_cell_num := 0, fi_local_cell_num := 0\<rparr>)
     (one_function\<lparr>fn_max_stack_cell_num := stack, fn_max_block_num := blocks\<rparr>) blank_frame)"

definition machine_of :: "u32 \<Rightarrow> u32 \<Rightarrow> byte list \<Rightarrow> unit machine" where
  "machine_of stack blocks code = (let fr = frame_of stack blocks in
     vm_state\<lparr>st_mem := two_types(0x200 := Some (O_Bytes code), 0xC000 := Some (O_WASMInterpFrame fr),
       0x5000 := Some (O_WASMFunctionInstance (sample_fi 0x6000)),
       0x6000 := Some (O_WASMFunction (one_function\<lparr>fn_code_size := of_nat (length code)\<rparr>)),
       0x4000 := Some (O_WASMExecEnv ((blank_env 0 0)\<lparr>ee_block_addr_cache := replicate 128 \<lparr>ba_start_addr = 0, ba_else_addr = 0, ba_end_addr = 0\<rparr>\<rparr>))),
     vm_iv := (vm_iv vm_state)\<lparr>iv_cur_func := 0x5000, iv_exec_env := 0x4000, iv_wasm_types := 0x80, iv_frame_ip := 0x200,
       iv_frame_ip_end := 0x200 + of_nat (length code), iv_frame_sp := fr_sp_bottom fr, iv_frame_csp := fr_csp_bottom fr\<rparr>\<rparr>)"

text \<open>Validate, push the block of the function and interpret at most \<open>k\<close> opcodes.\<close>

definition validate_and_run :: "nat \<Rightarrow> byte list \<Rightarrow> failure option" where
  "validate_and_run k code = (case accepted code of
      Inr (Inr (stack, blocks, code')) \<Rightarrow> (case PUSH_CSP 0 (0x200 + of_nat (length code) - 1) (machine_of stack blocks code') of
        Inr (_, s) \<Rightarrow> (case run vm_host False (replicate k False) s of Some (Crash e) \<Rightarrow> Some e | _ \<Rightarrow> None)
      | _ \<Rightarrow> None)
    | _ \<Rightarrow> None)"

lemma accepted_code:
  "map accepted [[0x03, 0x7f, 0x41, 7, 0x0c, 0, 0x0b, 0x1a, 0x0b], [0x41, 7, 0x02, 1, 0x0c, 0, 0x0b, 0x1a, 0x0b], [0x03, 0x40, 0x41, 7, 0x0c, 0, 0x0b, 0x0b]] =
     [Inr (Inr (1, 2, [0x03, 0x7f, 0x41, 7, 0x0c, 0, 0x0b, 0x1a, 0x0b])),
      Inr (Inr (1, 2, [0x41, 7, EXT_OP_BLOCK, 1, 0x0c, 0, 0x0b, 0x1a, 0x0b])),
      Inr (Inr (1, 2, [0x03, 0x40, 0x41, 7, 0x0c, 0, 0x0b, 0x0b]))]"
  by code_simp

lemma faults:
  "map (\<lambda>code. validate_and_run 5 code) [[0x03, 0x7f, 0x41, 7, 0x0c, 0, 0x0b, 0x1a, 0x0b], [0x41, 7, 0x02, 1, 0x0c, 0, 0x0b, 0x1a, 0x0b],
     [0x03, 0x40, 0x41, 7, 0x0c, 0, 0x0b, 0x0b]] =
     [Some (UB ''write past the frame''), Some (UB ''write past the frame''), None]"
  by code_simp

section \<open>Blocks on which they disagree\<close>



end
