(* ===== verification/Memory_Growth.thy ===== *)
theory Memory_Growth
  imports Runtime_Memory Resume_Properties
begin

text \<open>
  What \<open>wasm_enlarge_memory\<close> keeps and adds: the bytes of the linear memory, the fields of the memory instance and the
  entry of the block in the registry.
\<close>

section \<open>Growing a block\<close>

text \<open>The objects and the registered blocks of a state, \<open>p\<close> apart; and what the allocator promises in a state of the heap:
  the block it returns is none of them, unless it is NULL or \<open>p\<close> itself was reallocated in place.\<close>

definition live_besides :: "addr \<Rightarrow> 'h store \<Rightarrow> addr set" where
  "live_besides p st = {x. x \<noteq> p \<and> (st_mem st x \<noteq> None \<or> reg_view (st_rg st) x \<noteq> None)}"

definition returns_fresh :: "'h allocs \<Rightarrow> 'h store \<Rightarrow> addr \<Rightarrow> u32 \<Rightarrow> bool" where
  "returns_fresh al st p sz \<longleftrightarrow> (case wasm_runtime_realloc_internal al (st_heap st) p sz of (a, hp) \<Rightarrow>
     (a \<noteq> 0 \<longrightarrow> a \<notin> live_besides p st) \<and>
     (case wasm_runtime_malloc_internal al hp sz of (b, _) \<Rightarrow> b \<noteq> 0 \<longrightarrow> b \<notin> insert p (live_besides p st)))"

lemma load_bytes_iff: "load as_Bytes m a = Inr bs \<longleftrightarrow> m a = Some (O_Bytes bs)"
  by (auto simp: load_def as_Bytes_def split: option.splits obj.splits)

lemma load_memory_iff: "load as_WASMMemoryInstance m a = Inr mm \<longleftrightarrow> m a = Some (O_WASMMemoryInstance mm)"
  by (auto simp: load_def as_WASMMemoryInstance_def split: option.splits obj.splits)

lemma fresh_block_keeps:
  assumes "length old \<le> n"
  shows "\<exists>bs. fresh_block junk a n old = O_Bytes bs \<and> take (length old) bs = old \<and> length bs = n"
  using assms by (auto simp: fresh_block_def)

text \<open>The block has moved to \<open>a\<close>: it holds the old bytes, nothing else has changed, and \<open>p\<close> is not registered any more.\<close>

definition moved :: "addr \<Rightarrow> addr \<Rightarrow> byte list \<Rightarrow> u32 \<Rightarrow> 'h store \<Rightarrow> 'h store \<Rightarrow> bool" where
  "moved p a old sz st st' \<longleftrightarrow> a \<noteq> 0 \<and> a \<notin> live_besides p st \<and>
     (\<exists>bs. st_mem st' a = Some (O_Bytes bs) \<and> take (length old) bs = old \<and> length bs = unat sz) \<and>
     (\<forall>x. x \<noteq> a \<and> x \<noteq> p \<longrightarrow> st_mem st' x = st_mem st x) \<and>
     reg_ok (st_rg st') \<and> reg_view (st_rg st') = (reg_view (st_rg st))(p := None)"

lemma realloc_moves:
  assumes "returns_fresh al st p sz" "st_mem st p = Some (O_Bytes old)" "p \<noteq> 0" "length old \<le> unat sz" "reg_ok (st_rg st)" "reg_view (st_rg st) p \<noteq> None"
  obtains a st1 where "wasm_runtime_realloc al junk p sz st = Inr (a, st1)" "a \<noteq> 0" "moved p a old sz st st1"
  | hp where "wasm_runtime_realloc al junk p sz st = Inr (0, st\<lparr>st_heap := hp\<rparr>)" "wasm_runtime_realloc_internal al (st_heap st) p sz = (0, hp)"
proof -
  obtain a hp where a: "wasm_runtime_realloc_internal al (st_heap st) p sz = (a, hp)" by fastforce
  obtain rg where rg: "free_info (st_rg st) p = Inr rg" "reg_ok rg" "reg_view rg = (reg_view (st_rg st))(p := None)"
    using free_info_live [OF assms(5,6)] by blast
  obtain bs where bs: "fresh_block junk a (unat sz) old = O_Bytes bs" "take (length old) bs = old" "length bs = unat sz"
    using fresh_block_keeps [OF assms(4)] by blast
  show thesis
  proof (cases "a = 0")
    case True
    then show thesis using that(2) a by (simp add: wasm_runtime_realloc_def)
  next
    case False
    let ?st = "st\<lparr>st_rg := rg, st_heap := hp, st_mem := (st_mem st)(p := None, a := Some (O_Bytes bs))\<rparr>"
    have "wasm_runtime_realloc al junk p sz st = Inr (a, ?st)"
      using False a rg(1) assms(2,3) bs(1) by (simp add: wasm_runtime_realloc_def load_bytes_iff)
    moreover have "moved p a old sz st ?st" using False assms(1) a rg bs by (simp add: moved_def returns_fresh_def)
    ultimately show thesis using that(1) False by blast
  qed
qed

lemma malloc_moves:
  assumes "returns_fresh al st p sz" "wasm_runtime_realloc_internal al (st_heap st) p sz = (0, hp)"
    and "st_mem st p = Some (O_Bytes old)" "p \<noteq> 0" "length old \<le> unat sz" "0 < unat sz" "reg_ok (st_rg st)" "reg_view (st_rg st) p \<noteq> None"
    and "rt_malloc al junk sz (st\<lparr>st_heap := hp\<rparr>) = (b, st2)"
  shows "b = 0 \<Longrightarrow> st_mem st2 = st_mem st \<and> st_rg st2 = st_rg st"
    and "b \<noteq> 0 \<Longrightarrow> load as_Bytes (st_mem st2) p = Inr old \<and>
      (\<exists>st3. wasm_runtime_free al p (st2\<lparr>st_mem := (st_mem st2)(b := Some (fresh_block junk b (unat sz) old))\<rparr>) = Inr st3 \<and> moved p b old sz st st3)"
proof -
  obtain h where h: "wasm_runtime_malloc_internal al hp sz = (b, h)"
    and st2: "st2 = (if b = 0 then st\<lparr>st_heap := h\<rparr> else st\<lparr>st_heap := h, st_mem := (st_mem st)(b := Some (fresh_block junk b (unat sz) []))\<rparr>)"
    using assms(6,9) by (auto simp: rt_malloc_def wasm_runtime_malloc_def unat_gt_0 split: prod.splits if_splits)
  show "b = 0 \<Longrightarrow> st_mem st2 = st_mem st \<and> st_rg st2 = st_rg st" using st2 by simp
  assume b: "b \<noteq> 0"
  then have f: "b \<noteq> p" "b \<notin> live_besides p st" using assms(1,2) h by (simp_all add: returns_fresh_def)
  have mode: "memory_mode h \<noteq> MEMORY_MODE_UNKNOWN"
    using h b by (auto simp: wasm_runtime_malloc_internal_def split: Memory_Mode.splits prod.splits)
  obtain rg where rg: "free_info (st_rg st) p = Inr rg" "reg_ok rg" "reg_view rg = (reg_view (st_rg st))(p := None)"
    using free_info_live [OF assms(7,8)] by blast
  obtain bs where bs: "fresh_block junk b (unat sz) old = O_Bytes bs" "take (length old) bs = old" "length bs = unat sz"
    using fresh_block_keeps [OF assms(5)] by blast
  have l: "load as_Bytes (st_mem st2) p = Inr old" using st2 b f assms(3) by (simp add: load_bytes_iff)
  let ?s = "st2\<lparr>st_mem := (st_mem st2)(b := Some (O_Bytes bs))\<rparr>"
  let ?t = "?s\<lparr>st_rg := rg, st_heap := wasm_runtime_free_internal al h p, st_mem := (st_mem ?s)(p := None)\<rparr>"
  have "wasm_runtime_free al p ?s = Inr ?t" using st2 b rg(1) mode assms(4) by (simp add: wasm_runtime_free_def)
  moreover have "moved p b old sz st ?t" using st2 b f rg bs by (simp add: moved_def)
  ultimately show "load as_Bytes (st_mem st2) p = Inr old \<and>
      (\<exists>st3. wasm_runtime_free al p (st2\<lparr>st_mem := (st_mem st2)(b := Some (fresh_block junk b (unat sz) old))\<rparr>) = Inr st3 \<and> moved p b old sz st st3)"
    using l bs(1) by auto
qed

lemma grow_block_moves:
  assumes "returns_fresh al st p sz" "st_mem st p = Some (O_Bytes old)" "p \<noteq> 0" "length old = unat old_size" "unat old_size \<le> unat sz" "0 < unat sz"
    and "reg_ok (st_rg st)" "reg_view (st_rg st) p \<noteq> None"
  obtains st1 where "grow_block al junk p old_size sz st = Inr (None, st1)" "st_mem st1 = st_mem st" "st_rg st1 = st_rg st"
  | a st1 where "grow_block al junk p old_size sz st = Inr (Some a, st1)" "moved p a old sz st st1"
proof -
  have le: "length old \<le> unat sz" using assms(4,5) by simp
  show thesis
  proof (rule realloc_moves [OF assms(1-3) le assms(7,8), of junk])
    fix a st1 assume "wasm_runtime_realloc al junk p sz st = Inr (a, st1)" "a \<noteq> 0" "moved p a old sz st st1"
    then show thesis using that(2) by (simp add: grow_block_def)
  next
    fix hp assume r: "wasm_runtime_realloc al junk p sz st = Inr (0, st\<lparr>st_heap := hp\<rparr>)" "wasm_runtime_realloc_internal al (st_heap st) p sz = (0, hp)"
    obtain b st2 where b: "rt_malloc al junk sz (st\<lparr>st_heap := hp\<rparr>) = (b, st2)" by fastforce
    note m = malloc_moves [OF assms(1) r(2) assms(2,3) le assms(6,7,8) b]
    show thesis
    proof (cases "b = 0")
      case True
      then show thesis using that(1) [of st2] r(1) b m(1) by (simp add: grow_block_def)
    next
      case False
      then show thesis using that(2) r(1) b m(2) assms(3,4) by (auto simp: grow_block_def)
    qed
  qed
qed

section \<open>Growing the memory\<close>

lemma total_size_eq:
  assumes "pages = inc + cur" "\<not> pages < cur" "\<not> 0xFFFFFFFF \<le> (ucast npp * ucast pages :: u64)"
  shows "unat pages = unat cur + unat inc" "unat (ucast (ucast npp * ucast pages :: u64) :: u32) = unat npp * unat (pages :: u32)"
    "unat npp * unat pages < 2 ^ 32 - 1" "npp * pages = ucast (ucast npp * ucast pages :: u64)"
proof -
  have c: "unat (ucast (x :: u32) :: u64) = unat x" for x using unsigned_less [of x, where 'a = nat] by (simp add: unsigned_ucast_eq take_bit_nat_eq_self)
  show "unat pages = unat cur + unat inc" using assms(1,2) unat_plus_if' [of inc cur] unsigned_less [of inc, where 'a = nat]
    by (auto simp: word_less_nat_alt split: if_splits)
  have "unat npp * unat pages < 2 ^ 64"
    using mult_strict_mono [of "unat npp" "2 ^ 32" "unat pages" "2 ^ 32"] unsigned_less [of npp, where 'a = nat] unsigned_less [of pages, where 'a = nat] by simp
  then have u: "unat (ucast npp * ucast pages :: u64) = unat npp * unat pages" by (subst unat_mult_lem [THEN iffD1]) (simp_all add: c)
  show lt: "unat npp * unat pages < 2 ^ 32 - 1" using assms(3) u by (simp add: word_le_nat_alt)
  then show r: "unat (ucast (ucast npp * ucast pages :: u64) :: u32) = unat npp * unat pages"
    by (simp add: unsigned_ucast_eq take_bit_nat_eq_self u)
  have "unat (npp * pages) = unat npp * unat pages" using lt by (subst unat_mult_lem [THEN iffD1]) simp_all
  then show "npp * pages = ucast (ucast npp * ucast pages :: u64)" by (simp only: word_unat_eq_iff r)
qed

lemma total_small: "unat npp * unat pages < 2 ^ 32 - 1 \<Longrightarrow> \<not> 0xFFFFFFFF \<le> (ucast (npp :: u32) * ucast (pages :: u32) :: u64)"
proof -
  assume a: "unat npp * unat pages < 2 ^ 32 - 1"
  have c: "unat (ucast (x :: u32) :: u64) = unat x" for x using unsigned_less [of x, where 'a = nat] by (simp add: unsigned_ucast_eq take_bit_nat_eq_self)
  have "unat (ucast npp * ucast pages :: u64) = unat npp * unat pages" using a by (subst unat_mult_lem [THEN iffD1]) (simp_all add: c)
  then show ?thesis using a by (simp add: word_le_nat_alt)
qed

text \<open>The pieces of \<open>enlarge_to\<close>: the tail of the new block is cleared, and the block is registered.\<close>

lemma clear_tail_appends:
  assumes "m a = Some (O_Bytes bs)" "take (length old) bs = old" "length bs = unat sz" "length old = unat old_size" "unat old_size \<le> unat sz"
  shows "clear_tail a old_size sz m = Inr (m(a := Some (O_Bytes (old @ replicate (unat sz - length old) 0))))"
proof -
  have "unat (sz - old_size) = unat sz - unat old_size" using assms(5) by (simp add: unat_sub word_le_nat_alt)
  then show ?thesis using assms by (simp add: clear_tail_def load_bytes_iff)
qed

lemma moved_registers:
  assumes "moved p a old sz st st1"
  obtains rg where "alloc_info_buf (st_rg st1) a uint8T (ucast sz) = Inr rg" "reg_ok rg"
    "reg_view rg = (reg_view (st_rg st))(p := None, a := Some (uint8T, sz))"
proof -
  have v: "reg_view (st_rg st1) = (reg_view (st_rg st))(p := None)" "reg_ok (st_rg st1)" "a \<noteq> 0" "a \<notin> live_besides p st"
    using assms by (simp_all add: moved_def)
  then have "reg_view (st_rg st1) a = None" by (cases "reg_view (st_rg st) a") (auto simp: live_besides_def)
  from buf_registry.add_fresh [OF v(2,3) this, of uint8T "ucast sz"] obtain rg where
    r: "alloc_info_buf (st_rg st1) a uint8T (ucast sz) = Inr rg" "reg_ok rg" "reg_view rg = (reg_view (st_rg st1))(a := Some (uint8T, ucast (ucast sz :: u64)))"
    by blast
  have "ucast (ucast sz :: u64) = sz" by (simp add: unsigned_ucast_eq word_unat_eq_iff take_bit_word_eq_self)
  then show thesis using that r v(1) by simp
qed

text \<open>The state after a successful growth by \<open>inc\<close> pages.\<close>

definition grown :: "addr \<Rightarrow> WASMMemoryInstance \<Rightarrow> byte list \<Rightarrow> u32 \<Rightarrow> 'h store \<Rightarrow> 'h store \<Rightarrow> bool" where
  "grown ma mm old inc st st' \<longleftrightarrow> (\<exists>mm' new. st_mem st' ma = Some (O_WASMMemoryInstance mm') \<and>
     unat (mm_cur_page_count mm') = unat (mm_cur_page_count mm) + unat inc \<and> mm_cur_page_count mm' \<le> mm_max_page_count mm \<and>
     new = old @ replicate (unat (mm_num_bytes_per_page mm) * unat inc) 0 \<and>
     st_mem st' (mm_memory_data mm') = Some (O_Bytes new) \<and> mm_memory_data_end mm' = mm_memory_data mm' + of_nat (length new) \<and>
     mm_heap_data mm' - mm_memory_data mm' = mm_heap_data mm - mm_memory_data mm \<and>
     reg_ok (st_rg st') \<and>
     reg_view (st_rg st') = (reg_view (st_rg st))(mm_memory_data mm := None, mm_memory_data mm' := Some (uint8T, of_nat (length new))) \<and>
     (\<forall>x. x \<noteq> ma \<and> x \<noteq> mm_memory_data mm \<and> x \<noteq> mm_memory_data mm' \<longrightarrow> st_mem st' x = st_mem st x))"

text \<open>A memory instance as instantiation leaves it: its block has the size of its pages and is registered.\<close>

definition memory_ok :: "'h store \<Rightarrow> addr \<Rightarrow> WASMMemoryInstance \<Rightarrow> byte list \<Rightarrow> bool" where
  "memory_ok st ma mm old \<longleftrightarrow> ma \<noteq> 0 \<and> st_mem st ma = Some (O_WASMMemoryInstance mm) \<and>
     mm_memory_data mm \<noteq> 0 \<and> st_mem st (mm_memory_data mm) = Some (O_Bytes old) \<and>
     length old = unat (mm_num_bytes_per_page mm) * unat (mm_cur_page_count mm) \<and> length old < 2 ^ 32 \<and> mm_num_bytes_per_page mm \<noteq> 0 \<and>
     mm_memory_data_end mm = mm_memory_data mm + of_nat (length old) \<and>
     reg_ok (st_rg st) \<and> reg_view (st_rg st) (mm_memory_data mm) \<noteq> None"

lemma down_of_nat: "n < 2 ^ 32 \<Longrightarrow> unat (ucast (of_nat n :: u64) :: u32) = n"
  by (simp add: unat_of_nat unsigned_ucast_eq take_bit_nat_eq_self)

lemma grownI:
  assumes "unat pages = unat (mm_cur_page_count mm) + unat inc" "\<not> mm_max_page_count mm < pages"
    and "sz = mm_num_bytes_per_page mm * pages" "of_nat (length new) = sz" "reg_ok rg"
    and "reg_view rg = (reg_view (st_rg st))(mm_memory_data mm := None, a := Some (uint8T, sz))"
    and "\<forall>x. x \<noteq> a \<and> x \<noteq> mm_memory_data mm \<longrightarrow> st_mem st1 x = st_mem st x" "a \<noteq> ma" "ma \<noteq> mm_memory_data mm"
    and "new = old @ replicate (unat (mm_num_bytes_per_page mm) * unat inc) 0" "length new < 2 ^ 32"
    and "st_mem st' = ((st_mem st1)(a := Some (O_Bytes new)))(ma := Some (O_WASMMemoryInstance (moved_memory a pages mm)))" "st_rg st' = rg"
  shows "grown ma mm old inc st st'"
proof -
  have e: "mm_memory_data_end (moved_memory a pages mm) = a + of_nat (length new)"
    using assms(3,4,11) by (simp add: moved_memory_def Let_def word_unat_eq_iff unsigned_ucast_eq unat_of_nat take_bit_nat_eq_self)
  have f: "mm_memory_data (moved_memory a pages mm) = a" "mm_cur_page_count (moved_memory a pages mm) = pages"
    "mm_heap_data (moved_memory a pages mm) = mm_heap_data mm + (a - mm_memory_data mm)" by (simp_all add: moved_memory_def Let_def)
  show ?thesis unfolding grown_def
    by (intro exI [of _ "moved_memory a pages mm"] exI [of _ new] conjI assms(10)) (use assms(1,2,4-9,12,13) e f in \<open>simp_all add: not_less\<close>)
qed

lemma enlarge_to_grows:
  assumes "memory_ok st ma mm old" "pages = inc + mm_cur_page_count mm" "inc \<noteq> 0" "\<not> pages < mm_cur_page_count mm" "\<not> mm_max_page_count mm < pages"
    and "sz = ucast (ucast (mm_num_bytes_per_page mm) * ucast pages :: u64)" "\<not> 0xFFFFFFFF \<le> (ucast (mm_num_bytes_per_page mm) * ucast pages :: u64)"
    and "returns_fresh al st (mm_memory_data mm) sz"
    and "mm_heap_data_end mm = mm_heap_data mm \<or> (\<forall>a b n h. fst (heap_migrate al a b n h))"
  shows "\<exists>ok st'. enlarge_to al junk ma mm pages sz st = Inr (ok, st') \<and>
    (if ok then grown ma mm old inc st st' else st_mem st' = st_mem st \<and> st_rg st' = st_rg st)"
proof -
  let ?p = "mm_memory_data mm" and ?n = "mm_num_bytes_per_page mm" and ?c = "mm_cur_page_count mm"
  let ?o = "ucast (mm_memory_data_end mm - mm_memory_data mm) :: u32"
  note t = total_size_eq [OF assms(2,4,7)]
  have ok: "st_mem st ?p = Some (O_Bytes old)" "?p \<noteq> 0" "length old = unat ?n * unat ?c" "reg_ok (st_rg st)" "reg_view (st_rg st) ?p \<noteq> None"
    "st_mem st ma = Some (O_WASMMemoryInstance mm)" "0 < unat ?n"
    using assms(1) by (simp_all add: memory_ok_def unat_gt_0)
  have "mm_memory_data_end mm = ?p + of_nat (length old)" "length old < 2 ^ 32" using assms(1) unfolding memory_ok_def by blast+
  then have o: "length old = unat ?o" by (simp only: down_of_nat add_diff_cancel_left')
  have sz: "unat sz = unat ?n * unat pages" using t(2) assms(6) by simp
  have i: "0 < unat inc" using assms(3) by (simp add: unat_gt_0)
  have ls: "unat sz = length old + unat ?n * unat inc" using sz t(1) ok(3) by (simp add: distrib_left)
  then have le: "unat ?o \<le> unat sz" "0 < unat sz" using o i ok(7) by simp_all
  show ?thesis
  proof (rule grow_block_moves [OF assms(8) ok(1,2) o le ok(4,5), of junk])
    fix st1 assume "grow_block al junk ?p ?o sz st = Inr (None, st1)" "st_mem st1 = st_mem st" "st_rg st1 = st_rg st"
    then show ?thesis by (intro exI [of _ False] exI [of _ st1]) (simp add: enlarge_to_def Let_def)
  next
    fix a st1 assume g: "grow_block al junk ?p ?o sz st = Inr (Some a, st1)" and m: "moved ?p a old sz st st1"
    obtain bs where bs: "st_mem st1 a = Some (O_Bytes bs)" "take (length old) bs = old" "length bs = unat sz" using m by (auto simp: moved_def)
    obtain rg where rg: "alloc_info_buf (st_rg st1) a uint8T (ucast sz) = Inr rg" "reg_ok rg"
      "reg_view rg = (reg_view (st_rg st))(?p := None, a := Some (uint8T, sz))" by (rule moved_registers [OF m])
    note c = clear_tail_appends [of "st_mem st1" a bs old sz ?o, OF bs o le(1)]
    let ?new = "old @ replicate (unat ?n * unat inc) 0"
    have new: "old @ replicate (unat sz - length old) 0 = ?new" by (simp add: ls)
    have szn: "of_nat (length ?new) = sz" by (metis ls length_append length_replicate of_nat_unat ucast_id)
    have "ma \<in> live_besides ?p st" using ok(1,6) by (simp add: live_besides_def) auto
    then have am: "a \<noteq> ma" "ma \<noteq> ?p" using m by (auto simp: moved_def live_besides_def)
    have k: "\<forall>x. x \<noteq> a \<and> x \<noteq> ?p \<longrightarrow> st_mem st1 x = st_mem st x" using m unfolding moved_def by blast
    let ?mem = "(st_mem st1)(a := Some (O_Bytes ?new))"
    let ?r = "if 0 < (ucast (mm_heap_data_end mm - mm_heap_data mm) :: u32)
        then heap_migrate al (mm_heap_handle mm) (mm_heap_data mm + (a - ?p)) (ucast (mm_heap_data_end mm - mm_heap_data mm)) (hp_state (st_heap st1))
        else (True, hp_state (st_heap st1))"
    have "fst ?r" using assms(9) by auto
    then obtain h where h: "?r = (True, h)" by (cases ?r) (simp only: fst_conv simp_thms)
    let ?st = "st1\<lparr>st_rg := rg, st_mem := ?mem(ma := Some (O_WASMMemoryInstance (moved_memory a pages mm))), st_heap := (st_heap st1)\<lparr>hp_state := h\<rparr>\<rparr>"
    have "enlarge_to al junk ma mm pages sz st = Inr (True, ?st)"
      unfolding enlarge_to_def Let_def g rg(1) c new bind_res_simps prod.case option.case h by simp
    moreover have "grown ma mm old inc st ?st"
      by (rule grownI [OF t(1) assms(5) _ szn rg(2,3) k am]) (use sz t(3) ls in \<open>simp_all add: t(4) assms(6)\<close>)
    ultimately show ?thesis by (intro exI [of _ True] exI [of _ ?st]) (simp only: if_True simp_thms)
  qed
qed


text \<open>A memory with one page of two bytes, which may have four, and an allocator that moves it.\<close>

definition small_memory :: WASMMemoryInstance where
  "small_memory = \<lparr>mm_module_type = 0, mm_is_shared = False, mm_num_bytes_per_page = 2, mm_cur_page_count = 1, mm_max_page_count = 4,
     mm_heap_data = 0x2000, mm_heap_data_end = 0x2000, mm_heap_handle = 0, mm_memory_data_end = 0x2002, mm_memory_data = 0x2000\<rparr>"

definition small_inst :: WASMModuleInstance where "small_inst = blank_inst\<lparr>mi_default_memory := 0x5000\<rparr>"

definition small_store :: "WASMMemoryInstance \<Rightarrow> unit store" where
  "small_store mm = \<lparr>st_rg = (empty_registry 0x1000)\<lparr>root_info := [[mk_node 0x1000 0x2000 uint8T 2]]\<rparr>,
     st_mem = (\<lambda>_. None)(0x4000 := Some (O_WASMModuleInstance small_inst), 0x5000 := Some (O_WASMMemoryInstance mm), 0x2000 := Some (O_Bytes [7, 9])),
     st_heap = \<lparr>memory_mode = MEMORY_MODE_POOL, global_pool_size = 0x10000, malloc_func = 0, realloc_func = 0, free_func = 0, hp_state = ()\<rparr>\<rparr>"

definition moving_allocs :: "bool \<Rightarrow> unit allocs" where
  "moving_allocs ok = \<lparr>pool_create = (\<lambda>a _ h. (a, h)), pool_malloc = (\<lambda>h _. (0x9000, h)), pool_realloc = (\<lambda>h _ _. (0x9000, h)), pool_free = (\<lambda>h _. h),
     call_malloc = (\<lambda>_ h _. (0, h)), call_realloc = (\<lambda>_ h _ _. (0, h)), call_free = (\<lambda>_ h _. h), heap_migrate = (\<lambda>_ _ _ h. (ok, h))\<rparr>"

lemma small_view: "reg_view (st_rg (small_store mm)) = (\<lambda>_. None)(0x2000 := Some (uint8T, 2))"
  by (auto simp: small_store_def reg_view_def live_in_def chain_live_def fun_eq_iff empty_registry_def mk_node_def)

lemma small_ok: "st_mem (small_store mm) 0x4000 = Some (O_WASMModuleInstance small_inst)" "memory_ok (small_store small_memory) (mi_default_memory small_inst) small_memory [7, 9]"
  by (simp_all add: memory_ok_def small_view) (simp_all add: small_store_def small_memory_def small_inst_def reg_ok_def abs_ok_def empty_registry_def mk_node_def)

lemma small_fresh: "returns_fresh (moving_allocs ok) (small_store mm) 0x2000 sz"
  by (simp add: returns_fresh_def live_besides_def small_view) (simp add: moving_allocs_def small_store_def wasm_runtime_realloc_internal_def wasm_runtime_malloc_internal_def)


text \<open>C34: but when the heap inside the memory cannot be moved, the growth does fail half-way. The memory has been
  reallocated, \<open>mem_allocator_migrate\<close> reports an error, and \<open>wasm_enlarge_memory\<close> returns before it stores the new
  address: the instance keeps an address that is released, neither an object nor registered.\<close>

theorem migrate_failure_dangles:
  assumes "st_mem st inst = Some (O_WASMModuleInstance mi)" "memory_ok st (mi_default_memory mi) mm old"
    and "sz = mm_num_bytes_per_page mm * (inc + mm_cur_page_count mm)" "returns_fresh al st (mm_memory_data mm) sz"
    and "wasm_runtime_realloc_internal al (st_heap st) (mm_memory_data mm) sz = (a, hp)" "a \<noteq> 0" "a \<noteq> mm_memory_data mm"
    and "ucast (mm_heap_data_end mm - mm_heap_data mm) \<noteq> (0 :: u32)" "\<forall>a b n h. \<not> fst (heap_migrate al a b n h)"
    and "inc \<noteq> 0" "mm_cur_page_count mm \<le> inc + mm_cur_page_count mm" "inc + mm_cur_page_count mm \<le> mm_max_page_count mm"
    and "unat (mm_num_bytes_per_page mm) * (unat inc + unat (mm_cur_page_count mm)) < 2 ^ 32 - 1"
  shows "\<exists>st'. wasm_enlarge_memory al junk inst inc st = Inr (False, st') \<and> st_mem st' (mi_default_memory mi) = Some (O_WASMMemoryInstance mm) \<and>
    st_mem st' (mm_memory_data mm) = None \<and> reg_view (st_rg st') (mm_memory_data mm) = None"
proof -
  let ?p = "mm_memory_data mm" and ?n = "mm_num_bytes_per_page mm" and ?ma = "mi_default_memory mi" and ?pages = "inc + mm_cur_page_count mm"
  let ?o = "ucast (mm_memory_data_end mm - ?p) :: u32"
  have ok: "?ma \<noteq> 0" "load as_WASMMemoryInstance (st_mem st) ?ma = Inr mm" "load as_WASMModuleInstance (st_mem st) inst = Inr mi"
    "st_mem st ?p = Some (O_Bytes old)" "?p \<noteq> 0" "reg_ok (st_rg st)" "reg_view (st_rg st) ?p \<noteq> None" "?ma \<noteq> ?p"
    using assms(1,2) by (auto simp: memory_ok_def load_memory_iff load_def as_WASMModuleInstance_def)
  have "mm_memory_data_end mm = ?p + of_nat (length old)" "length old < 2 ^ 32" using assms(2) unfolding memory_ok_def by blast+
  then have o: "length old = unat ?o" by (simp only: down_of_nat add_diff_cancel_left')
  have pg: "unat ?pages = unat (mm_cur_page_count mm) + unat inc"
    using assms(11) unat_plus_if' [of inc "mm_cur_page_count mm"] unsigned_less [of inc, where 'a = nat] by (auto simp: word_le_nat_alt split: if_splits)
  have total: "\<not> 0xFFFFFFFF \<le> (ucast ?n * ucast ?pages :: u64)" using assms(13) pg by (intro total_small) (simp add: add.commute)
  have nl: "\<not> ?pages < mm_cur_page_count mm" "\<not> mm_max_page_count mm < ?pages" using assms(11,12) by simp_all
  note t = total_size_eq [OF refl nl(1) total]
  have sz: "sz = ucast (ucast ?n * ucast ?pages :: u64)" "unat sz = unat ?n * unat ?pages" using t(2,4) assms(3) by simp_all
  have le: "length old \<le> unat sz" using assms(2) sz(2) pg by (simp add: memory_ok_def)
  obtain rg where rg: "free_info (st_rg st) ?p = Inr rg" "reg_ok rg" "reg_view rg = (reg_view (st_rg st))(?p := None)"
    using free_info_live [OF ok(6,7)] by blast
  obtain bs where bs: "fresh_block junk a (unat sz) old = O_Bytes bs" "take (length old) bs = old" "length bs = unat sz"
    using fresh_block_keeps [OF le] by blast
  let ?st = "st\<lparr>st_rg := rg, st_heap := hp, st_mem := (st_mem st)(?p := None, a := Some (O_Bytes bs))\<rparr>"
  have g: "grow_block al junk ?p ?o sz st = Inr (Some a, ?st)"
    using assms(5,6) rg(1) ok(4,5) bs(1) by (simp add: grow_block_def wasm_runtime_realloc_def load_bytes_iff)
  have m: "moved ?p a old sz st ?st" using assms(4-6) rg bs by (simp add: moved_def returns_fresh_def)
  obtain rg' where rg': "alloc_info_buf (st_rg ?st) a uint8T (ucast sz) = Inr rg'"
    "reg_view rg' = (reg_view (st_rg st))(?p := None, a := Some (uint8T, sz))" by (rule moved_registers [OF m])
  have c: "clear_tail a ?o sz (st_mem ?st) = Inr ((st_mem ?st)(a := Some (O_Bytes (old @ replicate (unat sz - length old) 0))))"
    by (rule clear_tail_appends [OF _ bs(2,3) o]) (use le o in simp_all)
  have "?ma \<in> live_besides ?p st" using ok(2,8) by (simp add: live_besides_def load_memory_iff)
  then have am: "a \<noteq> ?ma" using m by (auto simp: moved_def)
  let ?r = "heap_migrate al (mm_heap_handle mm) (mm_heap_data mm + (a - ?p)) (ucast (mm_heap_data_end mm - mm_heap_data mm)) (hp_state (st_heap ?st))"
  have "\<not> fst ?r" using assms(9) by simp
  then obtain h where h: "?r = (False, h)" by (cases ?r) (simp only: fst_conv simp_thms)
  have pos: "(0 < (ucast (mm_heap_data_end mm - mm_heap_data mm) :: u32)) = True" using assms(8) by (simp add: word_gt_0)
  have "wasm_enlarge_memory al junk inst inc st = enlarge_to al junk ?ma mm ?pages sz st"
    unfolding sz(1) using nl total ok(1-3) assms(10) by (simp add: wasm_enlarge_memory_def Let_def)
  also have "\<exists>st'. enlarge_to al junk ?ma mm ?pages sz st = Inr (False, st') \<and>
      st_mem st' = (st_mem ?st)(a := Some (O_Bytes (old @ replicate (unat sz - length old) 0))) \<and> st_rg st' = rg'"
    unfolding enlarge_to_def Let_def g bind_res_simps prod.case option.case rg'(1) c pos if_True h by simp
  finally show ?thesis using rg'(2) am assms(7) ok(2,8) by (auto simp: load_memory_iff)
qed

text \<open>The same memory with a heap of one byte.\<close>

definition small_memory' :: WASMMemoryInstance where "small_memory' = small_memory\<lparr>mm_heap_data_end := 0x2001\<rparr>"

theorem migrate_failure_dangles_witness:
  "\<exists>st'. wasm_enlarge_memory (moving_allocs False) (\<lambda>_ _. []) 0x4000 2 (small_store small_memory') = Inr (False, st') \<and>
    st_mem st' 0x5000 = Some (O_WASMMemoryInstance small_memory') \<and> st_mem st' 0x2000 = None \<and> reg_view (st_rg st') 0x2000 = None"
proof -
  have e: "mi_default_memory small_inst = 0x5000" "mm_memory_data small_memory' = 0x2000" by (simp_all add: small_inst_def small_memory'_def small_memory_def)
  have k: "memory_ok (small_store small_memory') (mi_default_memory small_inst) small_memory' [7, 9]"
    by (simp add: memory_ok_def small_view)
      (simp add: small_store_def small_memory'_def small_memory_def small_inst_def reg_ok_def abs_ok_def empty_registry_def mk_node_def)
  have f: "returns_fresh (moving_allocs False) (small_store small_memory') (mm_memory_data small_memory') 6" using small_fresh by (simp add: e)
  have r: "wasm_runtime_realloc_internal (moving_allocs False) (st_heap (small_store small_memory')) (mm_memory_data small_memory') 6 = (0x9000, st_heap (small_store small_memory'))"
    by (simp add: wasm_runtime_realloc_internal_def moving_allocs_def small_store_def)
  show ?thesis unfolding e [symmetric]
    by (rule migrate_failure_dangles [OF small_ok(1) k _ f r]) (simp_all add: small_memory'_def small_memory_def moving_allocs_def)
qed

end
